(* ===== verification/Prelude.thy ===== *)
theory Prelude
  imports Main "HOL-Library.Char_ord" "HOL-Library.List_Lexorder" "HOL-Library.State_Monad"
begin

text \<open>
  Shared material of the development:
  \<^item> the string operations of the C and C++ library that the module uses
    (\<open>strchr\<close>, \<open>std::string::find\<close>, \<open>rfind\<close>, \<open>compare\<close> with a prefix, the \<open>%d\<close>
    conversion);
  \<^item> \<open>std::map\<close> as an association list in key order, with the map laws stated once as
    the locale \<open>finite_map\<close> and interpreted on it;
  \<^item> the state monad idioms of the method bodies (reading and updating the object, loops
    with early return) and \<open>keeps P m\<close>, the statement that a computation preserves a
    state predicate, with rules for every combinator.
\<close>

named_theorems keeps_rules \<comment> \<open>preservation rules: one per combinator and operation\<close>

section \<open>Strings\<close>

text \<open>
  A \<open>string\<close> is a list of bytes; a C string never contains the byte 0. \<open>str_find c s\<close> is
  \<open>std::string::find\<close> of one character (\<open>strchr\<close> on a C string): the index of its first
  occurrence, \<open>None\<close> for \<open>npos\<close> or the null pointer.
\<close>

primrec str_find :: "char \<Rightarrow> string \<Rightarrow> nat option" where
  "str_find c [] = None"
| "str_find c (x # xs) = (if x = c then Some 0 else map_option Suc (str_find c xs))"

text \<open>\<open>str_rfind c s\<close> is \<open>std::string::rfind\<close> of one character: its last occurrence.\<close>

primrec str_rfind :: "char \<Rightarrow> string \<Rightarrow> nat option" where
  "str_rfind c [] = None"
| "str_rfind c (x # xs) =
     (case str_rfind c xs of
        Some i \<Rightarrow> Some (Suc i)
      | None \<Rightarrow> if x = c then Some 0 else None)"

text \<open>\<open>starts_with p s\<close>: \<open>s.compare(0, p.size(), p) == 0\<close>, or \<open>strncmp(s, p, strlen(p)) == 0\<close>.\<close>

fun starts_with :: "string \<Rightarrow> string \<Rightarrow> bool" where
  "starts_with [] s = True"
| "starts_with (p # ps) [] = False"
| "starts_with (p # ps) (x # xs) = (p = x \<and> starts_with ps xs)"

text \<open>\<open>std::string::find\<close> of a string: the first position where the pattern starts.\<close>

fun str_find_sub :: "string \<Rightarrow> string \<Rightarrow> nat option" where
  "str_find_sub p [] = (if p = [] then Some 0 else None)"
| "str_find_sub p (x # xs) =
     (if starts_with p (x # xs) then Some 0 else map_option Suc (str_find_sub p xs))"

lemma str_find_None: "str_find c s = None \<longleftrightarrow> c \<notin> set s"
  by (induction s) auto

lemma str_find_absent [simp]: "c \<notin> set s \<Longrightarrow> str_find c s = None"
  by (simp add: str_find_None)

lemma str_find_Some:
  "str_find c s = Some i \<longleftrightarrow> i < length s \<and> s ! i = c \<and> c \<notin> set (take i s)"
proof (induction s arbitrary: i)
  case Nil
  then show ?case by simp
next
  case (Cons x xs)
  then show ?case by (cases i) auto
qed

lemma str_find_append [simp]:
  "c \<notin> set xs \<Longrightarrow> str_find c (xs @ c # ys) = Some (length xs)"
  by (induction xs) auto

lemma str_find_less: "str_find c s = Some i \<Longrightarrow> i < length s"
  by (simp add: str_find_Some)

lemma str_find_split:
  assumes "str_find c s = Some i"
  shows "s = take i s @ c # drop (Suc i) s" and "c \<notin> set (take i s)"
  using assms by (auto simp: str_find_Some id_take_nth_drop [symmetric])

lemma str_rfind_None: "str_rfind c s = None \<longleftrightarrow> c \<notin> set s"
  by (induction s) (auto split: option.splits)

lemma str_rfind_absent [simp]: "c \<notin> set s \<Longrightarrow> str_rfind c s = None"
  by (simp add: str_rfind_None)

lemma str_rfind_append [simp]:
  "c \<notin> set ys \<Longrightarrow> str_rfind c (xs @ c # ys) = Some (length xs)"
proof (induction xs)
  case Nil
  then show ?case by simp
next
  case (Cons x xs)
  then show ?case by simp
qed

lemma str_rfind_less: "str_rfind c s = Some i \<Longrightarrow> i < length s"
  by (induction s arbitrary: i) (auto split: option.splits if_splits)

lemma starts_with_iff: "starts_with p s \<longleftrightarrow> (\<exists>t. s = p @ t)"
  by (induction p s rule: starts_with.induct) auto

lemma starts_with_append [simp]: "starts_with p (p @ t)"
  by (induction p) auto

lemma starts_with_take: "starts_with p s \<longleftrightarrow> take (length p) s = p"
  by (induction p s rule: starts_with.induct) auto

lemma str_find_sub_None:
  "p \<noteq> [] \<Longrightarrow> hd p \<notin> set s \<Longrightarrow> str_find_sub p s = None"
proof (induction s)
  case Nil
  then show ?case by simp
next
  case (Cons x xs)
  then show ?case by (cases p) auto
qed

lemma str_find_sub_append:
  "p \<noteq> [] \<Longrightarrow> hd p \<notin> set xs \<Longrightarrow> str_find_sub p (xs @ p @ ys) = Some (length xs)"
proof (induction xs)
  case Nil
  then obtain q qs where "p = q # qs" by (cases p) auto
  then show ?case by simp
next
  case (Cons x xs)
  then show ?case by (cases p) auto
qed

text \<open>The \<open>%d\<close> and \<open>%zu\<close> conversions.\<close>

definition digit_char :: "nat \<Rightarrow> char" where
  "digit_char d = char_of (48 + d)"

fun show_nat :: "nat \<Rightarrow> string" where
  "show_nat n = (if n < 10 then [digit_char n] else show_nat (n div 10) @ [digit_char (n mod 10)])"

declare show_nat.simps [simp del]

definition show_int :: "int \<Rightarrow> string" where
  "show_int i = (if i < 0 then CHR ''-'' # show_nat (nat (- i)) else show_nat (nat i))"

section \<open>Ordered maps\<close>

text \<open>
  \<open>std::map<std::string, T>\<close> keeps its keys in \<open>operator<\<close> order, which for strings is
  lexicographic on unsigned bytes, as is the order on \<open>string\<close> that \<open>List_Lexorder\<close> and
  \<open>Char_ord\<close> provide; a range-based \<open>for\<close> visits the entries in this order. The map is the
  list of its entries in that order: \<open>omap_ok\<close> is the invariant, \<open>omap_put\<close> is
  \<open>m[k] = v\<close>, \<open>omap_erase\<close> is \<open>m.erase(m.find(k))\<close> and \<open>map_of\<close> is \<open>m.find\<close>.
\<close>

type_synonym 'v strmap = "(string \<times> 'v) list"

definition omap_ok :: "('k :: linorder \<times> 'v) list \<Rightarrow> bool" where
  "omap_ok m \<longleftrightarrow> sorted_wrt (<) (map fst m)"

fun omap_put :: "'k :: linorder \<Rightarrow> 'v \<Rightarrow> ('k \<times> 'v) list \<Rightarrow> ('k \<times> 'v) list" where
  "omap_put k v [] = [(k, v)]"
| "omap_put k v ((a, b) # m) =
     (if k < a then (k, v) # (a, b) # m
      else if k = a then (k, v) # m
      else (a, b) # omap_put k v m)"

fun omap_erase :: "'k :: linorder \<Rightarrow> ('k \<times> 'v) list \<Rightarrow> ('k \<times> 'v) list" where
  "omap_erase k [] = []"
| "omap_erase k ((a, b) # m) = (if k = a then m else (a, b) # omap_erase k m)"

definition omap_keys :: "('k :: linorder \<times> 'v) list \<Rightarrow> 'k list" where
  "omap_keys m = map fst m"

lemma omap_ok_Nil [simp]: "omap_ok []"
  by (simp add: omap_ok_def)

lemma omap_ok_Cons [simp]: "omap_ok ((a, b) # m) \<longleftrightarrow> (\<forall>x \<in> fst ` set m. a < x) \<and> omap_ok m"
  by (auto simp: omap_ok_def)

lemma map_of_omap_put [simp]: "map_of (omap_put k v m) = (map_of m)(k \<mapsto> v)"
  by (induction m rule: omap_put.induct) (auto simp: fun_eq_iff)

lemma keys_omap_put [simp]: "fst ` set (omap_put k v m) = insert k (fst ` set m)"
  by (induction m rule: omap_put.induct) auto

lemma omap_ok_put [simp]: "omap_ok m \<Longrightarrow> omap_ok (omap_put k v m)"
  by (induction k v m rule: omap_put.induct) (auto simp: not_less order.strict_iff_order)

lemma omap_ok_distinct: "omap_ok m \<Longrightarrow> distinct (map fst m)"
  by (induction m) fastforce+

lemma set_omap_erase: "set (omap_erase k m) \<subseteq> set m"
  by (induction k m rule: omap_erase.induct) auto

lemma omap_ok_erase [simp]: "omap_ok m \<Longrightarrow> omap_ok (omap_erase k m)"
  by (induction k m rule: omap_erase.induct) (use set_omap_erase in fastforce)+

lemma map_of_omap_erase [simp]: "omap_ok m \<Longrightarrow> map_of (omap_erase k m) = (map_of m)(k := None)"
proof (induction k m rule: omap_erase.induct)
  case (1 k)
  then show ?case by simp
next
  case (2 k a b m)
  show ?case
  proof (cases "k = a")
    case True
    with "2.prems" have "map_of m a = None" by (auto simp: map_of_eq_None_iff)
    with True show ?thesis by (auto simp: fun_eq_iff)
  next
    case False
    with "2.IH" "2.prems" show ?thesis by (auto simp: fun_eq_iff)
  qed
qed

lemma omap_erase_absent: "map_of m k = None \<Longrightarrow> omap_erase k m = m"
  by (induction k m rule: omap_erase.induct) (auto split: if_splits)

lemma omap_eqI:
  assumes "omap_ok m" and "omap_ok n" and "map_of m = map_of n"
  shows "m = n"
  using assms
proof (induction m arbitrary: n)
  case Nil
  then have "map_of n = Map.empty" by simp
  then show ?case by (cases n) (auto dest: fun_cong)
next
  case (Cons p m)
  obtain a b where p: "p = (a, b)" by (cases p)
  from Cons.prems(3) p have "map_of n a = Some b" by (auto dest: fun_cong [where x = a])
  then obtain q n' where n: "n = q # n'" by (cases n) auto
  obtain a' b' where q: "q = (a', b')" by (cases q)
  have "map_of n a' = Some b'" by (simp add: n q)
  with Cons.prems(3) have "map_of (p # m) a' = Some b'" by metis
  with Cons.prems(1) p have "a \<le> a'" by (auto split: if_splits dest!: map_of_SomeD)
  moreover from \<open>map_of n a = Some b\<close> Cons.prems(2) n q have "a' \<le> a"
    by (auto split: if_splits dest!: map_of_SomeD)
  ultimately have "a' = a" by simp
  with \<open>map_of n a = Some b\<close> have "b' = b" by (simp add: n q)
  have "map_of m a = None" using Cons.prems(1) p by (auto simp: map_of_eq_None_iff)
  moreover have "map_of n' a = None"
    using Cons.prems(2) n q \<open>a' = a\<close> by (auto simp: map_of_eq_None_iff)
  ultimately have "map_of m = map_of n'"
    using Cons.prems(3) p n q \<open>a' = a\<close> \<open>b' = b\<close> by (metis fun_upd_idem map_of.simps(2) fun_upd_upd fst_conv)
  with Cons.IH [of n'] Cons.prems p n q have "m = n'" by simp
  with p n q \<open>a' = a\<close> \<open>b' = b\<close> show ?case by simp
qed

lemma map_of_Some_in: "omap_ok m \<Longrightarrow> map_of m k = Some v \<longleftrightarrow> (k, v) \<in> set m"
  by (simp add: omap_ok_distinct)

text \<open>
  The interface a component sees of an ordered map. Its clients use the derived facts
  (\<open>find_put_other\<close>, \<open>put_find\<close>, \<dots>), never the list.
\<close>

locale finite_map =
  fixes empty :: "'m"
    and put :: "'k \<Rightarrow> 'v \<Rightarrow> 'm \<Rightarrow> 'm"
    and erase :: "'k \<Rightarrow> 'm \<Rightarrow> 'm"
    and find :: "'m \<Rightarrow> 'k \<Rightarrow> 'v option"
    and ok :: "'m \<Rightarrow> bool"
  assumes ok_empty: "ok empty"
    and ok_put: "ok m \<Longrightarrow> ok (put k v m)"
    and ok_erase: "ok m \<Longrightarrow> ok (erase k m)"
    and find_empty: "find empty k = None"
    and find_put: "ok m \<Longrightarrow> find (put k v m) = (find m)(k \<mapsto> v)"
    and find_erase: "ok m \<Longrightarrow> find (erase k m) = (find m)(k := None)"
    and ext: "ok m \<Longrightarrow> ok n \<Longrightarrow> find m = find n \<Longrightarrow> m = n"
begin

lemma find_put_same: "ok m \<Longrightarrow> find (put k v m) k = Some v"
  by (simp add: find_put)

lemma find_put_other: "ok m \<Longrightarrow> k' \<noteq> k \<Longrightarrow> find (put k v m) k' = find m k'"
  by (simp add: find_put)

lemma put_find: "ok m \<Longrightarrow> find m k = Some v \<Longrightarrow> put k v m = m"
  by (rule ext) (auto simp: ok_put find_put fun_eq_iff)

lemma put_put: "ok m \<Longrightarrow> put k v (put k w m) = put k v m"
  by (rule ext) (auto simp: ok_put find_put)

lemma put_commute: "ok m \<Longrightarrow> k \<noteq> l \<Longrightarrow> put k v (put l w m) = put l w (put k v m)"
  by (rule ext) (auto simp: ok_put find_put fun_upd_twist)

lemma erase_put: "ok m \<Longrightarrow> find m k = None \<Longrightarrow> erase k (put k v m) = m"
  by (rule ext) (auto simp: ok_put ok_erase find_put find_erase fun_eq_iff)

end

interpretation omap: finite_map "[]" omap_put omap_erase map_of
  "omap_ok :: ('k :: linorder \<times> 'v) list \<Rightarrow> bool"
  by unfold_locales (auto intro: omap_eqI)

section \<open>The state monad\<close>

abbreviation ret :: "'a \<Rightarrow> ('s, 'a) state" where
  "ret \<equiv> State_Monad.return"

definition gets :: "('s \<Rightarrow> 'a) \<Rightarrow> ('s, 'a) state" where
  "gets f = State (\<lambda>s. (f s, s))"

definition modify :: "('s \<Rightarrow> 's) \<Rightarrow> ('s, unit) state" where
  "modify f = State (\<lambda>s. ((), f s))"

lemma run_gets [simp]: "run_state (gets f) s = (f s, s)"
  by (simp add: gets_def)

lemma run_modify [simp]: "run_state (modify f) s = ((), f s)"
  by (simp add: modify_def)

text \<open>
  \<open>for_from f i xs\<close> is a \<open>for\<close> loop over the elements of \<open>xs\<close>, numbered from \<open>i\<close>: the body
  returns \<open>None\<close> to go on (a \<open>continue\<close> or the end of the body) and \<open>Some r\<close> to leave the
  function with the result \<open>r\<close> (an early \<open>return\<close>).
\<close>

primrec for_from :: "(nat \<Rightarrow> 'a \<Rightarrow> ('s, 'r option) state) \<Rightarrow> nat \<Rightarrow> 'a list \<Rightarrow> ('s, 'r option) state" where
  "for_from f i [] = ret None"
| "for_from f i (x # xs) = do {
     r \<leftarrow> f i x;
     (case r of Some v \<Rightarrow> ret (Some v) | None \<Rightarrow> for_from f (Suc i) xs)
   }"

text \<open>What a whole computation preserves: the final state satisfies \<open>P\<close> if the first does.\<close>

definition keeps :: "('s \<Rightarrow> bool) \<Rightarrow> ('s, 'a) state \<Rightarrow> bool" where
  "keeps P m \<longleftrightarrow> (\<forall>s. P s \<longrightarrow> P (snd (run_state m s)))"

lemma keepsI: "(\<And>s. P s \<Longrightarrow> P (snd (run_state m s))) \<Longrightarrow> keeps P m"
  by (simp add: keeps_def)

lemma keepsD: "keeps P m \<Longrightarrow> P s \<Longrightarrow> P (snd (run_state m s))"
  by (simp add: keeps_def)

lemma keepsE: "keeps P m \<Longrightarrow> run_state m s = (a, s') \<Longrightarrow> P s \<Longrightarrow> P s'"
  by (auto dest: keepsD [of P m s])

lemma keeps_return [keeps_rules]: "keeps P (ret x)"
  by (simp add: keeps_def)

lemma keeps_gets [keeps_rules]: "keeps P (gets f)"
  by (simp add: keeps_def)

lemma keeps_modify: "(\<And>s. P s \<Longrightarrow> P (f s)) \<Longrightarrow> keeps P (modify f)"
  by (simp add: keeps_def)

lemma keeps_bind [keeps_rules]:
  assumes "keeps P m" and "\<And>a. keeps P (f a)"
  shows "keeps P (State_Monad.bind m f)"
  using assms by (simp add: keeps_def split_beta)

lemma keeps_if [keeps_rules]:
  "(b \<Longrightarrow> keeps P m) \<Longrightarrow> (\<not> b \<Longrightarrow> keeps P n) \<Longrightarrow> keeps P (if b then m else n)"
  by simp

lemma keeps_case_option [keeps_rules]:
  "(x = None \<Longrightarrow> keeps P m) \<Longrightarrow> (\<And>a. x = Some a \<Longrightarrow> keeps P (f a)) \<Longrightarrow> keeps P (case_option m f x)"
  by (simp split: option.split)

lemma keeps_case_sum [keeps_rules]:
  "(\<And>e. x = Inl e \<Longrightarrow> keeps P (f e)) \<Longrightarrow> (\<And>a. x = Inr a \<Longrightarrow> keeps P (g a)) \<Longrightarrow> keeps P (case_sum f g x)"
  by (simp split: sum.split)

lemma keeps_case_prod [keeps_rules]:
  "(\<And>a b. p = (a, b) \<Longrightarrow> keeps P (f a b)) \<Longrightarrow> keeps P (case_prod f p)"
  by (simp split: prod.split)

lemma keeps_case_list [keeps_rules]:
  "(xs = [] \<Longrightarrow> keeps P m) \<Longrightarrow> (\<And>y ys. xs = y # ys \<Longrightarrow> keeps P (f y ys)) \<Longrightarrow> keeps P (case_list m f xs)"
  by (simp split: list.split)

lemma keeps_for_from [keeps_rules]: "(\<And>i x. keeps P (f i x)) \<Longrightarrow> keeps P (for_from f i xs)"
proof (induction xs arbitrary: i)
  case Nil
  then show ?case by (simp add: keeps_return)
next
  case (Cons x xs)
  then show ?case by (auto intro!: keeps_rules)
qed

text \<open>The same with a different predicate at the end.\<close>

definition leads :: "('s \<Rightarrow> bool) \<Rightarrow> ('s \<Rightarrow> bool) \<Rightarrow> ('s, 'a) state \<Rightarrow> bool" where
  "leads P Q m \<longleftrightarrow> (\<forall>s. P s \<longrightarrow> Q (snd (run_state m s)))"

lemma leads_keeps: "keeps P m \<Longrightarrow> (\<And>s. P s \<Longrightarrow> Q s) \<Longrightarrow> leads P Q m"
  by (simp add: keeps_def leads_def)

lemma keeps_leads: "leads P P m \<longleftrightarrow> keeps P m"
  by (simp add: keeps_def leads_def)

lemma leads_bind: "leads P R m \<Longrightarrow> (\<And>a. leads R Q (f a)) \<Longrightarrow> leads P Q (State_Monad.bind m f)"
  by (simp add: leads_def split_beta)

lemma leads_if: "(b \<Longrightarrow> leads P Q m) \<Longrightarrow> (\<not> b \<Longrightarrow> leads P Q n) \<Longrightarrow> leads P Q (if b then m else n)"
  by simp

lemma leads_case_sum:
  "(\<And>e. x = Inl e \<Longrightarrow> leads P Q (f e)) \<Longrightarrow> (\<And>a. x = Inr a \<Longrightarrow> leads P Q (g a)) \<Longrightarrow> leads P Q (case_sum f g x)"
  by (simp split: sum.split)

lemma leads_modify: "(\<And>s. P s \<Longrightarrow> Q (f s)) \<Longrightarrow> leads P Q (modify f)"
  by (simp add: leads_def)

end
