(* ===== verification/Git_Oid.thy ===== *)
theory Git_Oid
  imports Prelude "HOL-Library.Word"
begin

text \<open>
  Object ids. A \<open>git_oid\<close> is 20 raw bytes, here one \<open>160 word\<close>. The conversions to and from
  text, \<open>git_oid_tostr\<close> and \<open>git_oid_fromstr\<close>, are libgit2's: they are the fields of the
  record \<open>oid_api\<close>, the first of the parameters every definition of the development takes
  (see \<open>Environment\<close> for the others). What the module relies on is the locale \<open>oid_text\<close>:
  printing gives the 40 characters of \<open>GIT_OID_SHA1_HEXSIZE\<close> and parsing undoes it. The
  locale is interpreted on \<open>hex_of_oid\<close> and \<open>oid_of_hex\<close>, the lower-case hexadecimal
  form that libgit2 documents.
\<close>

type_synonym git_oid = "160 word"

type_synonym bytes = "8 word list"

definition GIT_OID_SHA1_HEXSIZE :: nat where
  "GIT_OID_SHA1_HEXSIZE = 40"

text \<open>The object types, and the return codes of libgit2 that the module names; 0 is success.\<close>

datatype git_object_t = GIT_OBJECT_COMMIT | GIT_OBJECT_TREE | GIT_OBJECT_BLOB | GIT_OBJECT_TAG

abbreviation "GIT_ENOTFOUND \<equiv> (- 3) :: int"
abbreviation "GIT_EEXISTS \<equiv> (- 4) :: int"
abbreviation "GIT_EAMBIGUOUS \<equiv> (- 5) :: int"
abbreviation "GIT_EUSER \<equiv> (- 7) :: int"
abbreviation "GIT_EUNBORNBRANCH \<equiv> (- 9) :: int"
abbreviation "GIT_ITEROVER \<equiv> (- 31) :: int"

text \<open>
  A failed libgit2 call: its (negative) return code and the message that \<open>git_error_last\<close> then
  gives, \<open>None\<close> when it is null.
\<close>

datatype git_err = GitErr (err_rc: int) (err_msg: "string option")

record oid_api =
  git_oid_tostr :: "git_oid \<Rightarrow> string"
  git_oid_fromstr :: "string \<Rightarrow> git_oid"

locale oid_text =
  fixes T :: "'z oid_api_scheme"
  assumes fromstr_tostr: "git_oid_fromstr T (git_oid_tostr T oid) = oid"
    and length_tostr: "length (git_oid_tostr T oid) = GIT_OID_SHA1_HEXSIZE"
begin

lemma tostr_inject: "git_oid_tostr T a = git_oid_tostr T b \<longleftrightarrow> a = b"
  by (metis fromstr_tostr)

lemma inj_tostr: "inj (git_oid_tostr T)"
  by (simp add: inj_def tostr_inject)

text \<open>An abbreviated id of 40 or more characters is the full one.\<close>

lemma take_tostr_full: "GIT_OID_SHA1_HEXSIZE \<le> n \<Longrightarrow> take n (git_oid_tostr T oid) = git_oid_tostr T oid"
  by (simp add: length_tostr)

lemma starts_with_tostr:
  "starts_with (git_oid_tostr T a) (git_oid_tostr T b) \<longleftrightarrow> a = b"
  by (auto simp: starts_with_take length_tostr tostr_inject)

end

section \<open>Hexadecimal text\<close>

definition hex_digit :: "nat \<Rightarrow> char" where
  "hex_digit d = (if d < 10 then char_of (48 + d) else char_of (87 + d))"

definition hex_value :: "char \<Rightarrow> nat" where
  "hex_value c = (let n = of_char c :: nat in if n < 58 then n - 48 else n - 87)"

text \<open>\<open>hex_digits k n\<close> is the \<open>k\<close> low hexadecimal digits of \<open>n\<close>, most significant first.\<close>

primrec hex_digits :: "nat \<Rightarrow> nat \<Rightarrow> nat list" where
  "hex_digits 0 n = []"
| "hex_digits (Suc k) n = hex_digits k (n div 16) @ [n mod 16]"

definition hex_of_oid :: "git_oid \<Rightarrow> string" where
  "hex_of_oid oid = map hex_digit (hex_digits 40 (unat oid))"

definition oid_of_hex :: "string \<Rightarrow> git_oid" where
  "oid_of_hex s = of_nat (foldl (\<lambda>n c. n * 16 + hex_value c) 0 s)"

definition hex_oid_api :: oid_api where
  "hex_oid_api = \<lparr>git_oid_tostr = hex_of_oid, git_oid_fromstr = oid_of_hex\<rparr>"

lemma hex_value_digit: "d < 16 \<Longrightarrow> hex_value (hex_digit d) = d"
  by (simp add: hex_value_def hex_digit_def Let_def of_char_of)

lemma hex_digits_bound: "\<forall>d \<in> set (hex_digits k n). d < 16"
  by (induction k arbitrary: n) auto

lemma length_hex_digits: "length (hex_digits k n) = k"
  by (induction k arbitrary: n) auto

lemma fold_hex_digits: "n < 16 ^ k \<Longrightarrow> foldl (\<lambda>a d. a * 16 + d) 0 (hex_digits k n) = n"
proof (induction k arbitrary: n)
  case 0
  then show ?case by simp
next
  case (Suc k)
  then have "n div 16 < 16 ^ k" by (simp add: less_mult_imp_div_less mult.commute)
  with Suc.IH show ?case by simp
qed

lemma fold_hex_chars:
  "\<forall>d \<in> set ds. d < 16 \<Longrightarrow>
   foldl (\<lambda>n c. n * 16 + hex_value c) a (map hex_digit ds) = foldl (\<lambda>n d. n * 16 + d) a ds"
  by (induction ds arbitrary: a) (auto simp: hex_value_digit)

lemma oid_of_hex_of_oid: "oid_of_hex (hex_of_oid oid) = oid"
proof -
  have "unat oid < 16 ^ 40"
    using unsigned_less [of oid, where 'a = nat] by simp
  then show ?thesis
    by (simp add: oid_of_hex_def hex_of_oid_def fold_hex_chars hex_digits_bound fold_hex_digits
        del: hex_digits.simps)
qed

lemma length_hex_of_oid: "length (hex_of_oid oid) = GIT_OID_SHA1_HEXSIZE"
  by (simp add: hex_of_oid_def length_hex_digits GIT_OID_SHA1_HEXSIZE_def)

interpretation hex: oid_text hex_oid_api
  by unfold_locales
    (simp_all add: hex_oid_api_def oid_of_hex_of_oid length_hex_of_oid)

end
