(* ===== verification/Memory_ODB.thy ===== *)
theory Memory_ODB
  imports Git_Oid
begin

text \<open>
  The in-memory object database backend, \<open>src/QoreGitMemoryODB.h\<close> and
  \<open>src/QoreGitMemoryODB.cpp\<close>. The backend is a \<open>std::map\<close> from the hexadecimal id to the
  object; libgit2 calls it through the function table that \<open>qore_git_memory_odb_new\<close> fills.
  A call that fails returns the code in \<open>Inl\<close>; the out-parameters of a successful call are
  the \<open>Inr\<close> value. \<open>git_odb_backend_data_alloc\<close> is libgit2's allocator, a parameter that says
  whether a buffer of that size is granted.

  \<open>odb_abs\<close> is the abstract contents, a map from ids to objects; the lemmas show that each
  operation implements the map operation it stands for, and the contract that libgit2 relies
  on is the locale \<open>odb_backend\<close>.
\<close>

record odb_api = oid_api +
  git_odb_backend_data_alloc :: "nat \<Rightarrow> bool"

record memory_odb_object =
  odb_data :: bytes
  odb_type :: git_object_t

record memory_odb =
  objects :: "memory_odb_object strmap"

definition qore_git_memory_odb_new :: memory_odb where
  "qore_git_memory_odb_new = \<lparr>objects = []\<rparr>"

definition oid_to_hex :: "'z odb_api_scheme \<Rightarrow> git_oid \<Rightarrow> string" where
  "oid_to_hex T oid = take GIT_OID_SHA1_HEXSIZE (git_oid_tostr T oid)"

definition mem_odb_read ::
  "'z odb_api_scheme \<Rightarrow> memory_odb \<Rightarrow> git_oid \<Rightarrow> int + (bytes \<times> nat \<times> git_object_t)" where
  "mem_odb_read T self oid =
     (case map_of (objects self) (oid_to_hex T oid) of
        None \<Rightarrow> Inl GIT_ENOTFOUND
      | Some obj \<Rightarrow>
          if \<not> git_odb_backend_data_alloc T (length (odb_data obj)) then Inl (- 1)
          else Inr (odb_data obj, length (odb_data obj), odb_type obj))"

text \<open>
  The scan both prefix operations share: it remembers the last match and gives up at the
  second one.
\<close>

fun prefix_scan ::
  "string \<Rightarrow> (string \<times> 'v) list \<Rightarrow> (string \<times> 'v) option \<Rightarrow> nat \<Rightarrow> int + ((string \<times> 'v) option \<times> nat)" where
  "prefix_scan prefix [] found matches = Inr (found, matches)"
| "prefix_scan prefix (kv # kvs) found matches =
     (if starts_with prefix (fst kv) then
        (if Suc matches > 1 then Inl GIT_EAMBIGUOUS
         else prefix_scan prefix kvs (Some kv) (Suc matches))
      else prefix_scan prefix kvs found matches)"

definition mem_odb_read_prefix ::
  "'z odb_api_scheme \<Rightarrow> memory_odb \<Rightarrow> git_oid \<Rightarrow> nat \<Rightarrow>
   int + (git_oid \<times> bytes \<times> nat \<times> git_object_t)" where
  "mem_odb_read_prefix T self short_oid len =
     (case prefix_scan (take len (oid_to_hex T short_oid)) (objects self) None 0 of
        Inl rc \<Rightarrow> Inl rc
      | Inr (None, _) \<Rightarrow> Inl GIT_ENOTFOUND
      | Inr (Some (found_key, found), _) \<Rightarrow>
          if \<not> git_odb_backend_data_alloc T (length (odb_data found)) then Inl (- 1)
          else Inr (git_oid_fromstr T found_key, odb_data found, length (odb_data found), odb_type found))"

definition mem_odb_read_header ::
  "'z odb_api_scheme \<Rightarrow> memory_odb \<Rightarrow> git_oid \<Rightarrow> int + (nat \<times> git_object_t)" where
  "mem_odb_read_header T self oid =
     (case map_of (objects self) (oid_to_hex T oid) of
        None \<Rightarrow> Inl GIT_ENOTFOUND
      | Some obj \<Rightarrow> Inr (length (odb_data obj), odb_type obj))"

definition mem_odb_write ::
  "'z odb_api_scheme \<Rightarrow> memory_odb \<Rightarrow> git_oid \<Rightarrow> bytes \<Rightarrow> nat \<Rightarrow> git_object_t \<Rightarrow> int \<times> memory_odb" where
  "mem_odb_write T self oid data len type =
     (let key = oid_to_hex T oid;
          obj = \<lparr>odb_data = take len data, odb_type = type\<rparr>
      in (0, self\<lparr>objects := omap_put key obj (objects self)\<rparr>))"

definition mem_odb_exists :: "'z odb_api_scheme \<Rightarrow> memory_odb \<Rightarrow> git_oid \<Rightarrow> int" where
  "mem_odb_exists T self oid =
     (if map_of (objects self) (oid_to_hex T oid) \<noteq> None then 1 else 0)"

definition mem_odb_exists_prefix ::
  "'z odb_api_scheme \<Rightarrow> memory_odb \<Rightarrow> git_oid \<Rightarrow> nat \<Rightarrow> int + git_oid" where
  "mem_odb_exists_prefix T self short_oid len =
     (case prefix_scan (take len (oid_to_hex T short_oid)) (objects self) None 0 of
        Inl rc \<Rightarrow> Inl rc
      | Inr (found, matches) \<Rightarrow>
          if matches = 0 then Inl GIT_ENOTFOUND
          else Inr (git_oid_fromstr T (case found of Some kv \<Rightarrow> fst kv | None \<Rightarrow> [])))"

text \<open>\<open>mem_odb_foreach\<close>: the callback works on a payload and stops the walk by a non-zero code.\<close>

fun odb_foreach_loop ::
  "'z odb_api_scheme \<Rightarrow> (git_oid \<Rightarrow> 'p \<Rightarrow> int \<times> 'p) \<Rightarrow> memory_odb_object strmap \<Rightarrow> 'p \<Rightarrow> int \<times> 'p" where
  "odb_foreach_loop T cb [] payload = (0, payload)"
| "odb_foreach_loop T cb (kv # kvs) payload =
     (case cb (git_oid_fromstr T (fst kv)) payload of
        (rc, payload') \<Rightarrow> if rc \<noteq> 0 then (rc, payload') else odb_foreach_loop T cb kvs payload')"

definition mem_odb_foreach ::
  "'z odb_api_scheme \<Rightarrow> memory_odb \<Rightarrow> (git_oid \<Rightarrow> 'p \<Rightarrow> int \<times> 'p) \<Rightarrow> 'p \<Rightarrow> int \<times> 'p" where
  "mem_odb_foreach T self cb payload = odb_foreach_loop T cb (objects self) payload"

definition mem_odb_freshen :: "'z odb_api_scheme \<Rightarrow> memory_odb \<Rightarrow> git_oid \<Rightarrow> int" where
  "mem_odb_freshen T self oid =
     (if map_of (objects self) (oid_to_hex T oid) \<noteq> None then 0 else GIT_ENOTFOUND)"

section \<open>Invariant and abstraction\<close>

definition odb_ok :: "'z odb_api_scheme \<Rightarrow> memory_odb \<Rightarrow> bool" where
  "odb_ok T self \<longleftrightarrow>
     omap_ok (objects self) \<and> (\<forall>k \<in> fst ` set (objects self). oid_to_hex T (git_oid_fromstr T k) = k)"

definition odb_abs :: "'z odb_api_scheme \<Rightarrow> memory_odb \<Rightarrow> git_oid \<Rightarrow> memory_odb_object option" where
  "odb_abs T self oid = map_of (objects self) (oid_to_hex T oid)"

definition odb_oids :: "'z odb_api_scheme \<Rightarrow> memory_odb \<Rightarrow> git_oid list" where
  "odb_oids T self = map (git_oid_fromstr T \<circ> fst) (objects self)"

lemma oid_to_hex_eq [simp]: "oid_text T \<Longrightarrow> oid_to_hex T oid = git_oid_tostr T oid"
  by (simp add: oid_to_hex_def oid_text.length_tostr)

lemma memory_odb_object_eta [simp]: "\<lparr>odb_data = odb_data obj, odb_type = odb_type obj\<rparr> = obj"
  by (cases obj) simp

lemma odb_ok_new [simp]: "odb_ok T qore_git_memory_odb_new"
  by (simp add: odb_ok_def qore_git_memory_odb_new_def)

lemma odb_abs_new [simp]: "odb_abs T qore_git_memory_odb_new oid = None"
  by (simp add: odb_abs_def qore_git_memory_odb_new_def)

lemma odb_ok_write [simp]:
  "oid_text T \<Longrightarrow> odb_ok T self \<Longrightarrow> odb_ok T (snd (mem_odb_write T self oid data len type))"
  by (simp add: odb_ok_def mem_odb_write_def Let_def oid_text.fromstr_tostr)

lemma odb_abs_write [simp]:
  "oid_text T \<Longrightarrow>
   odb_abs T (snd (mem_odb_write T self oid data len type)) =
     (odb_abs T self)(oid \<mapsto> \<lparr>odb_data = take len data, odb_type = type\<rparr>)"
  by (auto simp: odb_abs_def mem_odb_write_def Let_def fun_eq_iff oid_text.tostr_inject)

lemma odb_oids_abs:
  assumes "oid_text T" and "odb_ok T self"
  shows "set (odb_oids T self) = dom (odb_abs T self)"
proof -
  have "oid \<in> set (odb_oids T self) \<longleftrightarrow> git_oid_tostr T oid \<in> fst ` set (objects self)" for oid
    using assms by (auto simp: odb_oids_def odb_ok_def oid_text.fromstr_tostr image_image
        intro!: image_eqI [where x = oid] rev_image_eqI dest: bspec)
  moreover have "oid \<in> dom (odb_abs T self) \<longleftrightarrow> git_oid_tostr T oid \<in> fst ` set (objects self)" for oid
    using assms(1) dom_map_of_conv_image_fst [of "objects self"]
    by (auto simp: odb_abs_def dom_def)
  ultimately show ?thesis by blast
qed

lemma odb_oids_distinct:
  assumes "oid_text T" and "odb_ok T self"
  shows "distinct (odb_oids T self)"
proof -
  have "inj_on (git_oid_fromstr T) (fst ` set (objects self))"
    using assms by (auto simp: odb_ok_def inj_on_def) (metis fst_conv)
  moreover have "distinct (map fst (objects self))"
    using assms by (simp add: odb_ok_def omap_ok_distinct)
  ultimately have "distinct (map (git_oid_fromstr T) (map fst (objects self)))"
    by (subst distinct_map) simp
  then show ?thesis by (simp add: odb_oids_def)
qed

lemma prefix_scan_found:
  "prefix_scan p kvs (Some x) (Suc 0) =
     (if filter (\<lambda>kv. starts_with p (fst kv)) kvs = [] then Inr (Some x, 1) else Inl GIT_EAMBIGUOUS)"
  by (induction kvs) auto

lemma prefix_scan_filter:
  "prefix_scan p kvs None 0 =
     (case filter (\<lambda>kv. starts_with p (fst kv)) kvs of
        [] \<Rightarrow> Inr (None, 0)
      | [kv] \<Rightarrow> Inr (Some kv, 1)
      | _ \<Rightarrow> Inl GIT_EAMBIGUOUS)"
  by (induction kvs) (auto simp: prefix_scan_found split: list.splits)

lemma odb_foreach_loop_eq:
  "(\<And>oid p. fst (cb oid p) = 0) \<Longrightarrow>
   odb_foreach_loop T cb kvs p = (0, fold (\<lambda>oid p. snd (cb oid p)) (map (git_oid_fromstr T \<circ> fst) kvs) p)"
  by (induction kvs arbitrary: p) (auto split: prod.splits, metis fst_conv)

section \<open>The backend contract\<close>

text \<open>
  What a user of an object database backend relies on, stated over the abstract contents.
  The derived facts are what the migration to disk and the object store of
  \<open>Memory_Store\<close> uses: an object that was written is read back, other objects are
  untouched, and writing a list of objects gives exactly the union.
\<close>

locale odb_backend =
  fixes read_obj :: "'db \<Rightarrow> git_oid \<Rightarrow> int + (bytes \<times> nat \<times> git_object_t)"
    and read_header :: "'db \<Rightarrow> git_oid \<Rightarrow> int + (nat \<times> git_object_t)"
    and exists :: "'db \<Rightarrow> git_oid \<Rightarrow> int"
    and freshen :: "'db \<Rightarrow> git_oid \<Rightarrow> int"
    and write_obj :: "'db \<Rightarrow> git_oid \<Rightarrow> bytes \<Rightarrow> nat \<Rightarrow> git_object_t \<Rightarrow> int \<times> 'db"
    and contents :: "'db \<Rightarrow> git_oid \<Rightarrow> memory_odb_object option"
    and alloc :: "nat \<Rightarrow> bool"
    and ok :: "'db \<Rightarrow> bool"
  assumes ok_write: "ok db \<Longrightarrow> ok (snd (write_obj db oid data len type))"
    and write_rc: "fst (write_obj db oid data len type) = 0"
    and contents_write: "ok db \<Longrightarrow> contents (snd (write_obj db oid data len type)) =
      (contents db)(oid \<mapsto> \<lparr>odb_data = take len data, odb_type = type\<rparr>)"
    and read_contents: "read_obj db oid =
      (case contents db oid of
         None \<Rightarrow> Inl GIT_ENOTFOUND
       | Some obj \<Rightarrow>
           if \<not> alloc (length (odb_data obj)) then Inl (- 1)
           else Inr (odb_data obj, length (odb_data obj), odb_type obj))"
    and header_contents: "read_header db oid =
      (case contents db oid of
         None \<Rightarrow> Inl GIT_ENOTFOUND
       | Some obj \<Rightarrow> Inr (length (odb_data obj), odb_type obj))"
    and exists_contents: "exists db oid = (if contents db oid = None then 0 else 1)"
    and freshen_contents: "freshen db oid = (if contents db oid = None then GIT_ENOTFOUND else 0)"
begin

lemma read_written:
  "ok db \<Longrightarrow> alloc (length data) \<Longrightarrow>
   read_obj (snd (write_obj db oid data (length data) type)) oid = Inr (data, length data, type)"
  by (simp add: read_contents contents_write)

lemma read_other:
  "ok db \<Longrightarrow> oid' \<noteq> oid \<Longrightarrow> read_obj (snd (write_obj db oid data len type)) oid' = read_obj db oid'"
  by (simp add: read_contents contents_write)

lemma read_unallocated:
  "ok db \<Longrightarrow> \<not> alloc (length data) \<Longrightarrow>
   read_obj (snd (write_obj db oid data (length data) type)) oid = Inl (- 1)"
  by (simp add: read_contents contents_write)

lemma exists_iff_freshen: "exists db oid = 1 \<longleftrightarrow> freshen db oid = 0"
  by (simp add: exists_contents freshen_contents)

lemma exists_iff_header: "exists db oid = 1 \<longleftrightarrow> (\<exists>h. read_header db oid = Inr h)"
  by (simp add: exists_contents header_contents split: option.splits)

lemma header_of_read: "read_obj db oid = Inr (data, len, type) \<Longrightarrow> read_header db oid = Inr (len, type)"
  by (auto simp: read_contents header_contents split: option.splits if_splits)

lemma len_of_read: "read_obj db oid = Inr (data, len, type) \<Longrightarrow> len = length data"
  by (auto simp: read_contents split: option.splits if_splits)

text \<open>Re-writing an object that is already there changes nothing.\<close>

lemma rewrite_contents:
  "ok db \<Longrightarrow> contents db oid = Some obj \<Longrightarrow>
   contents (snd (write_obj db oid (odb_data obj) (length (odb_data obj)) (odb_type obj))) = contents db"
  by (simp add: contents_write fun_eq_iff)

definition write_all :: "(git_oid \<times> memory_odb_object) list \<Rightarrow> 'db \<Rightarrow> 'db" where
  "write_all kvs db = fold (\<lambda>(oid, obj) d.
     snd (write_obj d oid (odb_data obj) (length (odb_data obj)) (odb_type obj))) kvs db"

lemma ok_write_all: "ok db \<Longrightarrow> ok (write_all kvs db)"
  by (induction kvs arbitrary: db) (auto simp: write_all_def ok_write)

lemma contents_write_all:
  "ok db \<Longrightarrow> distinct (map fst kvs) \<Longrightarrow> contents (write_all kvs db) = contents db ++ map_of kvs"
proof (induction kvs arbitrary: db)
  case Nil
  then show ?case by (simp add: write_all_def)
next
  case (Cons kv kvs)
  obtain oid obj where kv: "kv = (oid, obj)" by (cases kv)
  let ?db = "snd (write_obj db oid (odb_data obj) (length (odb_data obj)) (odb_type obj))"
  have "contents (write_all (kv # kvs) db) = contents (write_all kvs ?db)"
    by (simp add: write_all_def kv)
  also have "\<dots> = (contents db)(oid \<mapsto> obj) ++ map_of kvs"
    using Cons by (simp add: ok_write contents_write)
  also have "\<dots> = contents db ++ map_of (kv # kvs)"
  proof -
    have "map_of kvs oid = None" using Cons.prems(2) kv by (simp add: map_of_eq_None_iff)
    then show ?thesis by (auto simp: kv fun_eq_iff map_add_def split: option.splits)
  qed
  finally show ?case .
qed

end

lemma odb_read_abs:
  "mem_odb_read T self oid =
     (case odb_abs T self oid of
        None \<Rightarrow> Inl GIT_ENOTFOUND
      | Some obj \<Rightarrow>
          if \<not> git_odb_backend_data_alloc T (length (odb_data obj)) then Inl (- 1)
          else Inr (odb_data obj, length (odb_data obj), odb_type obj))"
  by (simp add: mem_odb_read_def odb_abs_def)

text \<open>The memory backend meets the contract, for every printing of ids that \<open>oid_text\<close> allows.\<close>

lemma fst_mem_odb_write [simp]: "fst (mem_odb_write T self oid data len type) = 0"
  by (simp add: mem_odb_write_def Let_def)

lemma mem_odb_backend:
  assumes "oid_text T"
  shows "odb_backend (mem_odb_read T) (mem_odb_read_header T) (mem_odb_exists T) (mem_odb_freshen T)
    (mem_odb_write T) (odb_abs T) (git_odb_backend_data_alloc T) (odb_ok T)"
  using assms
  by unfold_locales
    (simp_all add: odb_read_abs mem_odb_read_header_def mem_odb_exists_def mem_odb_freshen_def
      odb_abs_def [symmetric] del: oid_to_hex_eq)

text \<open>The concrete printing, with any allocator.\<close>

definition hex_odb_api :: "(nat \<Rightarrow> bool) \<Rightarrow> odb_api" where
  "hex_odb_api alloc =
     \<lparr>git_oid_tostr = hex_of_oid, git_oid_fromstr = oid_of_hex, git_odb_backend_data_alloc = alloc\<rparr>"

lemma alloc_hex_odb_api [simp]: "git_odb_backend_data_alloc (hex_odb_api alloc) = alloc"
  by (simp add: hex_odb_api_def)

interpretation hex_odb: oid_text "hex_odb_api alloc" for alloc
  by unfold_locales (simp_all add: hex_odb_api_def oid_of_hex_of_oid length_hex_of_oid)

interpretation mem_odb: odb_backend
  "mem_odb_read (hex_odb_api alloc)" "mem_odb_read_header (hex_odb_api alloc)"
  "mem_odb_exists (hex_odb_api alloc)" "mem_odb_freshen (hex_odb_api alloc)"
  "mem_odb_write (hex_odb_api alloc)" "odb_abs (hex_odb_api alloc)"
  "git_odb_backend_data_alloc (hex_odb_api alloc)" "odb_ok (hex_odb_api alloc)"
  for alloc
  by (rule mem_odb_backend) (rule hex_odb.oid_text_axioms)

section \<open>Properties\<close>

text \<open>C27: a write to the in-memory object database succeeds and keeps it well formed; the id then reads
  back exactly the bytes, their length and the type that were written (or -1 when libgit2 grants
  no buffer), and every other id reads as before.\<close>

theorem mem_odb_read_after_write:
  assumes "oid_text T" and "odb_ok T db"
  shows "case mem_odb_write T db oid data (length data) type of (rc, db') \<Rightarrow>
    rc = 0 \<and> odb_ok T db' \<and>
    mem_odb_read T db' oid =
      (if git_odb_backend_data_alloc T (length data) then Inr (data, length data, type) else Inl (- 1)) \<and>
    (\<forall>oid'. oid' \<noteq> oid \<longrightarrow> mem_odb_read T db' oid' = mem_odb_read T db oid')"
proof -
  let ?w = "mem_odb_write T db oid data (length data) type"
  note b = mem_odb_backend [OF assms(1)]
  have "mem_odb_read T (snd ?w) oid =
      (if git_odb_backend_data_alloc T (length data) then Inr (data, length data, type) else Inl (- 1))"
    using odb_backend.read_written [OF b assms(2)] odb_backend.read_unallocated [OF b assms(2)] by simp
  moreover have "\<forall>oid'. oid' \<noteq> oid \<longrightarrow> mem_odb_read T (snd ?w) oid' = mem_odb_read T db oid'"
    using odb_backend.read_other [OF b assms(2)] by blast
  ultimately show ?thesis
    using assms by (simp add: split_beta)
qed

theorem mem_odb_read_after_write_witness:
  "case mem_odb_write (hex_odb_api (\<lambda>n. n < 10)) qore_git_memory_odb_new 7 [1, 2] 2 GIT_OBJECT_BLOB of
     (rc, db') \<Rightarrow> mem_odb_read (hex_odb_api (\<lambda>n. n < 10)) db' 7 = Inr ([1, 2], 2, GIT_OBJECT_BLOB)"
  using mem_odb_read_after_write
    [OF hex_odb.oid_text_axioms [of "\<lambda>n. n < 10"] odb_ok_new, of 7 "[1, 2]" GIT_OBJECT_BLOB]
  by (simp add: split_beta numeral_2_eq_2)

text \<open>The four ways to ask for an id agree: \<open>exists\<close> answers 1 exactly when \<open>freshen\<close> succeeds, when
  a header can be read, and (given memory) when the object can be read; a header has the type and
  the length of the object that \<open>read\<close> returns, and an absent id is GIT_ENOTFOUND everywhere.\<close>

lemma mem_odb_queries_agree:
  assumes "oid_text T"
  shows "(mem_odb_exists T db oid = 1) = (mem_odb_freshen T db oid = 0) \<and>
    (mem_odb_exists T db oid = 1) = (\<exists>h. mem_odb_read_header T db oid = Inr h) \<and>
    (mem_odb_read T db oid = Inr (data, len, type) \<longrightarrow>
       len = length data \<and> mem_odb_read_header T db oid = Inr (len, type)) \<and>
    (mem_odb_exists T db oid = 0 \<longrightarrow>
       mem_odb_read T db oid = Inl GIT_ENOTFOUND \<and> mem_odb_read_header T db oid = Inl GIT_ENOTFOUND \<and>
       mem_odb_freshen T db oid = GIT_ENOTFOUND)"
proof -
  note b = mem_odb_backend [OF assms]
  have "mem_odb_exists T db oid = 0 \<Longrightarrow> odb_abs T db oid = None"
    using odb_backend.exists_contents [OF b] by (metis zero_neq_one)
  then show ?thesis
    using odb_backend.exists_iff_freshen [OF b] odb_backend.exists_iff_header [OF b]
      odb_backend.header_of_read [OF b] odb_backend.len_of_read [OF b]
      odb_backend.read_contents [OF b] odb_backend.header_contents [OF b]
      odb_backend.freshen_contents [OF b]
    by auto
qed

text \<open>The ids a prefix of length \<open>len\<close> matches.\<close>

definition prefix_matches :: "'z odb_api_scheme \<Rightarrow> memory_odb \<Rightarrow> git_oid \<Rightarrow> nat \<Rightarrow> git_oid set" where
  "prefix_matches T db short_oid len =
     {oid \<in> dom (odb_abs T db).
        starts_with (take len (git_oid_tostr T short_oid)) (git_oid_tostr T oid)}"

lemma prefix_matches_filter:
  assumes "oid_text T" and "odb_ok T db"
  shows "prefix_matches T db short_oid len =
    git_oid_fromstr T ` fst ` set (filter (\<lambda>kv. starts_with (take len (git_oid_tostr T short_oid)) (fst kv)) (objects db))"
    (is "_ = git_oid_fromstr T ` fst ` set (filter ?P _)")
proof -
  have "git_oid_tostr T (git_oid_fromstr T (fst kv)) = fst kv" if "kv \<in> set (objects db)" for kv
    using assms that by (auto simp: odb_ok_def)
  then show ?thesis
    unfolding prefix_matches_def odb_oids_abs [OF assms, symmetric] odb_oids_def
    by (auto simp: image_iff) force+
qed

lemma filter_keys_inj:
  assumes "oid_text T" and "odb_ok T db"
  shows "distinct (map (git_oid_fromstr T \<circ> fst) (filter P (objects db)))"
  using odb_oids_distinct [OF assms] by (simp add: odb_oids_def distinct_map_filter)

text \<open>C29: a lookup by abbreviated id finds the object exactly when one stored id has that prefix; with no
  such id it is GIT_ENOTFOUND and with two or more GIT_EAMBIGUOUS, for \<open>read_prefix\<close> and
  \<open>exists_prefix\<close> alike.\<close>

theorem mem_odb_prefix_lookup:
  assumes "oid_text T" and "odb_ok T db"
  shows "(prefix_matches T db s len = {} \<longrightarrow>
      mem_odb_exists_prefix T db s len = Inl GIT_ENOTFOUND \<and>
      mem_odb_read_prefix T db s len = Inl GIT_ENOTFOUND) \<and>
    (prefix_matches T db s len = {oid} \<longrightarrow>
      mem_odb_exists_prefix T db s len = Inr oid \<and>
      mem_odb_read_prefix T db s len = map_sum id (\<lambda>r. (oid, r)) (mem_odb_read T db oid)) \<and>
    (1 < card (prefix_matches T db s len) \<longrightarrow>
      mem_odb_exists_prefix T db s len = Inl GIT_EAMBIGUOUS \<and>
      mem_odb_read_prefix T db s len = Inl GIT_EAMBIGUOUS)"
proof -
  let ?f = "filter (\<lambda>kv. starts_with (take len (git_oid_tostr T s)) (fst kv)) (objects db)"
  have m: "prefix_matches T db s len = set (map (git_oid_fromstr T \<circ> fst) ?f)"
    by (simp only: prefix_matches_filter [OF assms] set_map image_comp)
  have d: "distinct (map (git_oid_fromstr T \<circ> fst) ?f)"
    by (rule filter_keys_inj [OF assms])
  have in_db: "map_of (objects db) (git_oid_tostr T (git_oid_fromstr T k)) = Some v"
    if "(k, v) \<in> set (objects db)" for k v
    using assms that by (auto simp: odb_ok_def map_of_Some_in dest: bspec)
  consider "?f = []" | kv where "?f = [kv]" | kv kv' kvs where "?f = kv # kv' # kvs"
    by (cases ?f rule: remdups_adj.cases) auto
  then show ?thesis
  proof cases
    case 1
    then show ?thesis
      using assms(1) unfolding m
      by (simp add: mem_odb_exists_prefix_def mem_odb_read_prefix_def prefix_scan_filter)
  next
    case (2 kv)
    obtain k v where kv: "kv = (k, v)" by (cases kv)
    have "kv \<in> set ?f" by (simp add: 2)
    then have "(k, v) \<in> set (objects db)" by (simp add: kv)
    then show ?thesis
      using assms(1) in_db unfolding m 2
      by (auto simp: mem_odb_exists_prefix_def mem_odb_read_prefix_def mem_odb_read_def
          prefix_scan_filter 2 kv)
  next
    case (3 kv kv' kvs)
    then show ?thesis
      using assms(1) d unfolding m 3
      by (auto simp: mem_odb_exists_prefix_def mem_odb_read_prefix_def prefix_scan_filter 3)
  qed
qed

definition two_objects :: memory_odb where
  "two_objects =
     snd (mem_odb_write (hex_odb_api (\<lambda>n. True))
       (snd (mem_odb_write (hex_odb_api (\<lambda>n. True)) qore_git_memory_odb_new 1 [10] 1 GIT_OBJECT_BLOB))
       2 [20] 1 GIT_OBJECT_BLOB)"

lemma two_objects_ok: "odb_ok (hex_odb_api (\<lambda>n. True)) two_objects"
  by (simp add: two_objects_def hex_odb.oid_text_axioms)

lemma two_objects_abs:
  "odb_abs (hex_odb_api (\<lambda>n. True)) two_objects =
     [1 \<mapsto> \<lparr>odb_data = [10], odb_type = GIT_OBJECT_BLOB\<rparr>, 2 \<mapsto> \<lparr>odb_data = [20], odb_type = GIT_OBJECT_BLOB\<rparr>]"
  by (simp add: two_objects_def hex_odb.oid_text_axioms fun_eq_iff)

theorem mem_odb_prefix_lookup_witness:
  "mem_odb_exists_prefix (hex_odb_api (\<lambda>n. True)) two_objects 1 40 = Inr 1 \<and>
   mem_odb_exists_prefix (hex_odb_api (\<lambda>n. True)) two_objects 3 40 = Inl GIT_ENOTFOUND \<and>
   mem_odb_exists_prefix (hex_odb_api (\<lambda>n. True)) two_objects 3 0 = Inl GIT_EAMBIGUOUS"
proof -
  let ?T = "hex_odb_api (\<lambda>n. True)"
  note look = mem_odb_prefix_lookup [OF hex_odb.oid_text_axioms two_objects_ok]
  have full: "take 40 (git_oid_tostr ?T oid) = git_oid_tostr ?T oid" for oid
    by (rule hex_odb.take_tostr_full) (simp add: GIT_OID_SHA1_HEXSIZE_def)
  have "prefix_matches ?T two_objects 1 40 = {1}" "prefix_matches ?T two_objects 3 40 = {}"
    by (auto simp: prefix_matches_def full hex_odb.starts_with_tostr two_objects_abs)
  moreover have "prefix_matches ?T two_objects 3 0 = {1, 2}"
    by (auto simp: prefix_matches_def two_objects_abs split: if_splits)
  ultimately show ?thesis
    using look [of 1 40 1] look [of 3 40] look [of 3 0] by simp
qed

lemma odb_foreach_loop_stop:
  "rc \<noteq> 0 \<Longrightarrow>
   odb_foreach_loop T (\<lambda>oid seen. if stop oid then (rc, seen) else (0, seen @ [oid])) kvs seen =
     (if \<exists>oid \<in> set (map (git_oid_fromstr T \<circ> fst) kvs). stop oid then rc else 0,
      seen @ takeWhile (\<lambda>oid. \<not> stop oid) (map (git_oid_fromstr T \<circ> fst) kvs))"
  by (induction kvs arbitrary: seen) auto

text \<open>C30: the walk over the stored objects visits each stored id once, in ascending order of its
  hexadecimal text, and nothing else; it stops at the first non-zero code of the callback and
  returns that code.\<close>

theorem mem_odb_foreach_visits:
  assumes "oid_text T" and "odb_ok T db" and "rc \<noteq> 0"
  shows "mem_odb_foreach T db (\<lambda>oid seen. if stop oid then (rc, seen) else (0, seen @ [oid])) [] =
      (if \<exists>oid \<in> dom (odb_abs T db). stop oid then rc else 0,
       takeWhile (\<lambda>oid. \<not> stop oid) (odb_oids T db)) \<and>
    distinct (odb_oids T db) \<and> set (odb_oids T db) = dom (odb_abs T db) \<and>
    sorted_wrt (<) (map (git_oid_tostr T) (odb_oids T db))"
proof -
  have "map (git_oid_tostr T) (odb_oids T db) = map fst (objects db)"
    using assms by (auto simp: odb_oids_def odb_ok_def)
  then have "sorted_wrt (<) (map (git_oid_tostr T) (odb_oids T db))"
    using assms(2) by (simp add: odb_ok_def omap_ok_def)
  then show ?thesis
    using odb_oids_distinct [OF assms(1,2)] odb_oids_abs [OF assms(1,2)] assms(3)
    by (simp add: mem_odb_foreach_def odb_foreach_loop_stop odb_oids_def [symmetric])
qed

theorem mem_odb_foreach_visits_witness:
  "fst (mem_odb_foreach (hex_odb_api (\<lambda>n. True)) two_objects
     (\<lambda>oid seen. if oid = 2 then (- 1, seen) else (0, seen @ [oid])) []) = - 1"
  using mem_odb_foreach_visits
    [OF hex_odb.oid_text_axioms two_objects_ok, where rc = "- 1" and stop = "\<lambda>oid. oid = 2"]
  by (simp add: two_objects_abs)

end
