(* ===== verification/Memory_RefDB.thy ===== *)
theory Memory_RefDB
  imports Memory_ODB
begin

text \<open>
  The in-memory reference database backend, \<open>src/QoreGitMemoryRefDB.h\<close> and
  \<open>src/QoreGitMemoryRefDB.cpp\<close>: a \<open>std::map\<close> from the reference name to its entry, and
  iterators over a snapshot of it. \<open>git_reference__alloc\<close> and \<open>git_reference__alloc_symbolic\<close>
  are libgit2's constructors of a reference (they return null when memory runs out) and
  \<open>fnmatch\<close> is the POSIX matcher called with no flags: parameters, in \<open>refdb_api\<close>.
  \<open>refdb_abs\<close> is the abstract contents, a map from names to targets.
\<close>

datatype ref_target = Direct git_oid | Symbolic string

record git_reference =
  git_reference_name :: string
  reference_target :: ref_target

record refdb_api = odb_api +
  git_reference__alloc :: "string \<Rightarrow> git_oid \<Rightarrow> git_reference option"
  git_reference__alloc_symbolic :: "string \<Rightarrow> string \<Rightarrow> git_reference option"
  fnmatch :: "string \<Rightarrow> string \<Rightarrow> int"

record memory_ref_entry =
  entry_oid :: git_oid
  symbolic_target :: string
  is_symbolic :: bool

record memory_refdb =
  refs :: "memory_ref_entry strmap"

record memory_ref_iterator =
  entries :: "memory_ref_entry strmap"
  pos :: nat
  glob :: string

definition qore_git_memory_refdb_new :: memory_refdb where
  "qore_git_memory_refdb_new = \<lparr>refs = []\<rparr>"

definition mem_refdb_exists :: "memory_refdb \<Rightarrow> string \<Rightarrow> int" where
  "mem_refdb_exists self ref_name = (if map_of (refs self) ref_name \<noteq> None then 1 else 0)"

text \<open>The reference object for an entry, null when libgit2 cannot allocate it.\<close>

definition ref_of_entry :: "'z refdb_api_scheme \<Rightarrow> string \<Rightarrow> memory_ref_entry \<Rightarrow> git_reference option" where
  "ref_of_entry T name entry =
     (if is_symbolic entry then git_reference__alloc_symbolic T name (symbolic_target entry)
      else git_reference__alloc T name (entry_oid entry))"

definition mem_refdb_lookup :: "'z refdb_api_scheme \<Rightarrow> memory_refdb \<Rightarrow> string \<Rightarrow> git_err + git_reference" where
  "mem_refdb_lookup T self ref_name =
     (case map_of (refs self) ref_name of
        None \<Rightarrow> Inl (GitErr GIT_ENOTFOUND None)
      | Some entry \<Rightarrow>
          (case ref_of_entry T ref_name entry of
             None \<Rightarrow> Inl (GitErr (- 1) None)
           | Some out \<Rightarrow> Inr out))"

section \<open>Iterators\<close>

function mem_refdb_iter_next ::
  "'z refdb_api_scheme \<Rightarrow> memory_ref_iterator \<Rightarrow> (git_err + git_reference) \<times> memory_ref_iterator" where
  "mem_refdb_iter_next T self =
     (if pos self < length (entries self) then
        let entry = entries self ! pos self;
            self' = self\<lparr>pos := Suc (pos self)\<rparr>
        in if glob self \<noteq> [] \<and> fnmatch T (glob self) (fst entry) \<noteq> 0 then mem_refdb_iter_next T self'
           else (case ref_of_entry T (fst entry) (snd entry) of
                   None \<Rightarrow> (Inl (GitErr (- 1) None), self')
                 | Some r \<Rightarrow> (Inr r, self'))
      else (Inl (GitErr GIT_ITEROVER None), self))"
  by pat_completeness auto
termination
  by (relation "measure (\<lambda>(T, self). length (entries self) - pos self)") auto

function mem_refdb_iter_next_name ::
  "'z refdb_api_scheme \<Rightarrow> memory_ref_iterator \<Rightarrow> (git_err + string) \<times> memory_ref_iterator" where
  "mem_refdb_iter_next_name T self =
     (if pos self < length (entries self) then
        let entry = entries self ! pos self;
            self' = self\<lparr>pos := Suc (pos self)\<rparr>
        in if glob self \<noteq> [] \<and> fnmatch T (glob self) (fst entry) \<noteq> 0
           then mem_refdb_iter_next_name T self'
           else (Inr (fst entry), self')
      else (Inl (GitErr GIT_ITEROVER None), self))"
  by pat_completeness auto
termination
  by (relation "measure (\<lambda>(T, self). length (entries self) - pos self)") auto

declare mem_refdb_iter_next.simps [simp del] mem_refdb_iter_next_name.simps [simp del]

definition mem_refdb_iterator :: "memory_refdb \<Rightarrow> string option \<Rightarrow> memory_ref_iterator" where
  "mem_refdb_iterator self globp =
     \<lparr>entries = refs self, pos = 0, glob = (case globp of Some g \<Rightarrow> g | None \<Rightarrow> [])\<rparr>"

section \<open>Updates\<close>

text \<open>
  \<open>old_id\<close> and \<open>old_target\<close>, the values the caller expects to replace, are parameters of the
  callbacks that the code does not look at.
\<close>

definition mem_refdb_write ::
  "memory_refdb \<Rightarrow> git_reference \<Rightarrow> bool \<Rightarrow> git_oid option \<Rightarrow> string option \<Rightarrow>
   (git_err + unit) \<times> memory_refdb" where
  "mem_refdb_write self ref force old_id old_target =
     (let name = git_reference_name ref
      in if \<not> force \<and> map_of (refs self) name \<noteq> None
         then (Inl (GitErr GIT_EEXISTS (Some ''reference already exists'')), self)
         else
           let entry =
             (case reference_target ref of
                Symbolic t \<Rightarrow> \<lparr>entry_oid = 0, symbolic_target = t, is_symbolic = True\<rparr>
              | Direct oid \<Rightarrow> \<lparr>entry_oid = oid, symbolic_target = [], is_symbolic = False\<rparr>)
           in (Inr (), self\<lparr>refs := omap_put name entry (refs self)\<rparr>))"

definition mem_refdb_rename ::
  "'z refdb_api_scheme \<Rightarrow> memory_refdb \<Rightarrow> string \<Rightarrow> string \<Rightarrow> bool \<Rightarrow>
   (git_err + git_reference) \<times> memory_refdb" where
  "mem_refdb_rename T self old_name new_name force =
     (case map_of (refs self) old_name of
        None \<Rightarrow> (Inl (GitErr GIT_ENOTFOUND None), self)
      | Some entry \<Rightarrow>
          if \<not> force \<and> map_of (refs self) new_name \<noteq> None
          then (Inl (GitErr GIT_EEXISTS (Some ''reference already exists'')), self)
          else
            let self' = self\<lparr>refs := omap_put new_name entry (omap_erase old_name (refs self))\<rparr>
            in (case ref_of_entry T new_name entry of
                  None \<Rightarrow> (Inl (GitErr (- 1) None), self')
                | Some out \<Rightarrow> (Inr out, self')))"

definition mem_refdb_del ::
  "memory_refdb \<Rightarrow> string \<Rightarrow> git_oid option \<Rightarrow> string option \<Rightarrow> (git_err + unit) \<times> memory_refdb" where
  "mem_refdb_del self ref_name old_id old_target =
     (case map_of (refs self) ref_name of
        None \<Rightarrow> (Inl (GitErr GIT_ENOTFOUND None), self)
      | Some _ \<Rightarrow> (Inr (), self\<lparr>refs := omap_erase ref_name (refs self)\<rparr>))"

text \<open>The reflog callbacks: the memory backend keeps no reflog.\<close>

definition mem_refdb_has_log :: "memory_refdb \<Rightarrow> string \<Rightarrow> int" where
  "mem_refdb_has_log self refname = 0"

definition mem_refdb_ensure_log :: "memory_refdb \<Rightarrow> string \<Rightarrow> int \<times> memory_refdb" where
  "mem_refdb_ensure_log self refname = (0, self)"

definition mem_refdb_reflog_read :: "memory_refdb \<Rightarrow> string \<Rightarrow> int" where
  "mem_refdb_reflog_read self name = GIT_ENOTFOUND"

definition mem_refdb_reflog_write :: "memory_refdb \<Rightarrow> int \<times> memory_refdb" where
  "mem_refdb_reflog_write self = (0, self)"

definition mem_refdb_reflog_rename :: "memory_refdb \<Rightarrow> string \<Rightarrow> string \<Rightarrow> int \<times> memory_refdb" where
  "mem_refdb_reflog_rename self old_name new_name = (0, self)"

definition mem_refdb_reflog_delete :: "memory_refdb \<Rightarrow> string \<Rightarrow> int \<times> memory_refdb" where
  "mem_refdb_reflog_delete self name = (0, self)"

section \<open>Invariant and abstraction\<close>

text \<open>
  An entry is symbolic with a target name and a zero id, or direct with an empty name:
  \<open>entry_target\<close> and \<open>entry_ok\<close>.
\<close>

definition entry_target :: "memory_ref_entry \<Rightarrow> ref_target" where
  "entry_target e = (if is_symbolic e then Symbolic (symbolic_target e) else Direct (entry_oid e))"

definition entry_ok :: "memory_ref_entry \<Rightarrow> bool" where
  "entry_ok e \<longleftrightarrow> (if is_symbolic e then entry_oid e = 0 else symbolic_target e = [])"

definition refdb_ok :: "memory_refdb \<Rightarrow> bool" where
  "refdb_ok self \<longleftrightarrow> omap_ok (refs self) \<and> (\<forall>(n, e) \<in> set (refs self). entry_ok e)"

definition refdb_abs :: "memory_refdb \<Rightarrow> string \<Rightarrow> ref_target option" where
  "refdb_abs self name = map_option entry_target (map_of (refs self) name)"

locale ref_alloc =
  fixes T :: "'z refdb_api_scheme"
  assumes alloc_direct: "git_reference__alloc T name oid = Some r \<Longrightarrow>
      r = \<lparr>git_reference_name = name, reference_target = Direct oid\<rparr>"
    and alloc_symbolic: "git_reference__alloc_symbolic T name t = Some r \<Longrightarrow>
      r = \<lparr>git_reference_name = name, reference_target = Symbolic t\<rparr>"
begin

lemma ref_of_entry:
  "ref_of_entry T name e = Some r \<Longrightarrow>
   r = \<lparr>git_reference_name = name, reference_target = entry_target e\<rparr>"
  by (auto simp: ref_of_entry_def entry_target_def dest: alloc_direct alloc_symbolic split: if_splits)

end

definition ref_allocated :: "'z refdb_api_scheme \<Rightarrow> string \<Rightarrow> ref_target \<Rightarrow> bool" where
  "ref_allocated T name t =
     (case t of
        Direct oid \<Rightarrow> git_reference__alloc T name oid \<noteq> None
      | Symbolic s \<Rightarrow> git_reference__alloc_symbolic T name s \<noteq> None)"

lemma set_omap_put: "set (omap_put k v m) \<subseteq> insert (k, v) (set m)"
  by (induction k v m rule: omap_put.induct) auto

lemma refdb_ok_new [simp]: "refdb_ok qore_git_memory_refdb_new"
  by (simp add: refdb_ok_def qore_git_memory_refdb_new_def)

lemma refdb_abs_new [simp]: "refdb_abs qore_git_memory_refdb_new name = None"
  by (simp add: refdb_abs_def qore_git_memory_refdb_new_def)

lemma refdb_ok_put: "refdb_ok db \<Longrightarrow> entry_ok e \<Longrightarrow> refdb_ok (db\<lparr>refs := omap_put n e (refs db)\<rparr>)"
  using set_omap_put [of n e "refs db"] by (auto simp: refdb_ok_def)

lemma refdb_ok_erase: "refdb_ok db \<Longrightarrow> refdb_ok (db\<lparr>refs := omap_erase n (refs db)\<rparr>)"
  using set_omap_erase [of n "refs db"] by (auto simp: refdb_ok_def)

lemma refdb_ok_entry: "refdb_ok db \<Longrightarrow> map_of (refs db) n = Some e \<Longrightarrow> entry_ok e"
  by (auto simp: refdb_ok_def dest!: map_of_SomeD)

lemma refdb_ok_write [simp]: "refdb_ok db \<Longrightarrow> refdb_ok (snd (mem_refdb_write db ref force oi ot))"
  by (auto simp: mem_refdb_write_def Let_def entry_ok_def intro!: refdb_ok_put split: ref_target.splits)

lemma refdb_ok_rename [simp]: "refdb_ok db \<Longrightarrow> refdb_ok (snd (mem_refdb_rename T db old new force))"
  using refdb_ok_put [OF refdb_ok_erase [of db old]] refdb_ok_entry [of db old]
  by (auto simp: mem_refdb_rename_def Let_def split: option.splits)

lemma refdb_ok_del [simp]: "refdb_ok db \<Longrightarrow> refdb_ok (snd (mem_refdb_del db n oi ot))"
  by (auto simp: mem_refdb_del_def intro: refdb_ok_erase split: option.splits)

section \<open>The backend contract\<close>

text \<open>
  What libgit2's reference layer relies on: queries answer from the abstract contents, a
  creation without \<open>force\<close> never replaces a reference, a rename moves the target, a deletion
  removes exactly one name, and a failed update changes nothing.
\<close>

locale refdb_backend =
  fixes exists :: "'db \<Rightarrow> string \<Rightarrow> int"
    and lookup_ref :: "'db \<Rightarrow> string \<Rightarrow> git_err + git_reference"
    and write_ref :: "'db \<Rightarrow> git_reference \<Rightarrow> bool \<Rightarrow> git_oid option \<Rightarrow> string option \<Rightarrow> (git_err + unit) \<times> 'db"
    and rename :: "'db \<Rightarrow> string \<Rightarrow> string \<Rightarrow> bool \<Rightarrow> (git_err + git_reference) \<times> 'db"
    and del :: "'db \<Rightarrow> string \<Rightarrow> git_oid option \<Rightarrow> string option \<Rightarrow> (git_err + unit) \<times> 'db"
    and contents :: "'db \<Rightarrow> string \<Rightarrow> ref_target option"
    and allocated :: "string \<Rightarrow> ref_target \<Rightarrow> bool"
    and ok :: "'db \<Rightarrow> bool"
  assumes ok_write: "ok db \<Longrightarrow> ok (snd (write_ref db r force oi ot))"
    and ok_rename: "ok db \<Longrightarrow> ok (snd (rename db old new force))"
    and ok_del: "ok db \<Longrightarrow> ok (snd (del db n oi ot))"
    and exists_contents: "exists db n = (if contents db n = None then 0 else 1)"
    and lookup_contents: "lookup_ref db n =
      (case contents db n of
         None \<Rightarrow> Inl (GitErr GIT_ENOTFOUND None)
       | Some t \<Rightarrow>
           if allocated n t then Inr \<lparr>git_reference_name = n, reference_target = t\<rparr>
           else Inl (GitErr (- 1) None))"
    and write_exists: "\<not> force \<Longrightarrow> contents db (git_reference_name r) \<noteq> None \<Longrightarrow>
      write_ref db r force oi ot = (Inl (GitErr GIT_EEXISTS (Some ''reference already exists'')), db)"
    and write_done: "ok db \<Longrightarrow> force \<or> contents db (git_reference_name r) = None \<Longrightarrow>
      fst (write_ref db r force oi ot) = Inr () \<and>
      contents (snd (write_ref db r force oi ot)) =
        (contents db)(git_reference_name r \<mapsto> reference_target r)"
    and rename_missing: "contents db old = None \<Longrightarrow>
      rename db old new force = (Inl (GitErr GIT_ENOTFOUND None), db)"
    and rename_exists: "contents db old \<noteq> None \<Longrightarrow> \<not> force \<Longrightarrow> contents db new \<noteq> None \<Longrightarrow>
      rename db old new force = (Inl (GitErr GIT_EEXISTS (Some ''reference already exists'')), db)"
    and rename_done: "ok db \<Longrightarrow> contents db old = Some t \<Longrightarrow> force \<or> contents db new = None \<Longrightarrow>
      contents (snd (rename db old new force)) = (contents db)(old := None, new \<mapsto> t) \<and>
      fst (rename db old new force) =
        (if allocated new t then Inr \<lparr>git_reference_name = new, reference_target = t\<rparr>
         else Inl (GitErr (- 1) None))"
    and del_missing: "contents db n = None \<Longrightarrow> del db n oi ot = (Inl (GitErr GIT_ENOTFOUND None), db)"
    and del_done: "ok db \<Longrightarrow> contents db n \<noteq> None \<Longrightarrow>
      fst (del db n oi ot) = Inr () \<and> contents (snd (del db n oi ot)) = (contents db)(n := None)"
begin

lemma lookup_written:
  "ok db \<Longrightarrow> fst (write_ref db r force oi ot) = Inr () \<Longrightarrow>
   allocated (git_reference_name r) (reference_target r) \<Longrightarrow>
   lookup_ref (snd (write_ref db r force oi ot)) (git_reference_name r) = Inr r"
  using write_exists [of force db r oi ot] write_done [of db force r oi ot]
  by (cases "force \<or> contents db (git_reference_name r) = None") (auto simp: lookup_contents)

lemma lookup_write_other:
  "ok db \<Longrightarrow> n \<noteq> git_reference_name r \<Longrightarrow>
   lookup_ref (snd (write_ref db r force oi ot)) n = lookup_ref db n"
  using write_exists [of force db r oi ot] write_done [of db force r oi ot]
  by (cases "force \<or> contents db (git_reference_name r) = None") (auto simp: lookup_contents)

lemma write_error_unchanged:
  "ok db \<Longrightarrow> fst (write_ref db r force oi ot) = Inl e \<Longrightarrow>
   err_rc e = GIT_EEXISTS \<and> \<not> force \<and> snd (write_ref db r force oi ot) = db"
  using write_exists [of force db r oi ot] write_done [of db force r oi ot]
  by (cases "force \<or> contents db (git_reference_name r) = None") auto

lemma rename_back:
  assumes "ok db" and "contents db old = Some t" and "contents db new = None" and "old \<noteq> new"
  shows "contents (snd (rename (snd (rename db old new False)) new old False)) = contents db"
proof -
  let ?db = "snd (rename db old new False)"
  from assms rename_done [of db old t False new]
  have c: "contents ?db = (contents db)(old := None, new \<mapsto> t)" by simp
  with assms rename_done [of ?db new t False old] show ?thesis
    by (auto simp: ok_rename fun_eq_iff)
qed

end

lemma refdb_abs_None: "refdb_abs db n = None \<longleftrightarrow> map_of (refs db) n = None"
  by (simp add: refdb_abs_def)

lemma mem_refdb_backend:
  assumes "ref_alloc T"
  shows "refdb_backend mem_refdb_exists (mem_refdb_lookup T) mem_refdb_write (mem_refdb_rename T)
    mem_refdb_del refdb_abs (ref_allocated T) refdb_ok"
proof -
  have entry: "ref_of_entry T n e =
      (if ref_allocated T n (entry_target e)
       then Some \<lparr>git_reference_name = n, reference_target = entry_target e\<rparr> else None)" for n e
    using ref_alloc.ref_of_entry [OF assms, of n e]
    by (auto simp: ref_of_entry_def ref_allocated_def entry_target_def)
  show ?thesis
  proof (unfold_locales, goal_cases)
    case 1
    then show ?case by simp
  next
    case 2
    then show ?case by simp
  next
    case 3
    then show ?case by simp
  next
    case (7 db force r oi ot)
    then show ?case
      by (auto simp: mem_refdb_write_def refdb_abs_def refdb_ok_def Let_def entry_target_def fun_eq_iff
          split: ref_target.splits)
  next
    case (10 db old t force new)
    then show ?case
      by (auto simp: mem_refdb_rename_def refdb_abs_def refdb_ok_def Let_def entry fun_eq_iff
          split: option.splits if_splits)
  next
    case (12 db n oi ot)
    then show ?case
      by (auto simp: mem_refdb_del_def refdb_abs_def refdb_ok_def fun_eq_iff)
  qed (auto simp: mem_refdb_exists_def mem_refdb_lookup_def mem_refdb_write_def mem_refdb_rename_def
      mem_refdb_del_def refdb_abs_def Let_def entry split: option.splits)
qed

text \<open>The allocators as documented, with hexadecimal ids and any matcher.\<close>

definition hex_refdb_api :: "(string \<Rightarrow> string \<Rightarrow> int) \<Rightarrow> refdb_api" where
  "hex_refdb_api fnm =
     \<lparr>git_oid_tostr = hex_of_oid, git_oid_fromstr = oid_of_hex,
      git_odb_backend_data_alloc = (\<lambda>n. True),
      git_reference__alloc = (\<lambda>n oid. Some \<lparr>git_reference_name = n, reference_target = Direct oid\<rparr>),
      git_reference__alloc_symbolic =
        (\<lambda>n t. Some \<lparr>git_reference_name = n, reference_target = Symbolic t\<rparr>),
      fnmatch = fnm\<rparr>"

interpretation hex_refdb: ref_alloc "hex_refdb_api fnm" for fnm
  by unfold_locales (simp_all add: hex_refdb_api_def)

lemma allocated_hex_refdb [simp]: "ref_allocated (hex_refdb_api fnm) n t"
  by (simp add: ref_allocated_def hex_refdb_api_def split: ref_target.split)

lemma fnmatch_hex_refdb [simp]: "fnmatch (hex_refdb_api fnm) = fnm"
  by (simp add: hex_refdb_api_def)

interpretation mem_refdb: refdb_backend mem_refdb_exists "mem_refdb_lookup (hex_refdb_api fnm)"
  mem_refdb_write "mem_refdb_rename (hex_refdb_api fnm)" mem_refdb_del refdb_abs
  "ref_allocated (hex_refdb_api fnm)" refdb_ok for fnm
  by (rule mem_refdb_backend) (rule hex_refdb.ref_alloc_axioms)

section \<open>Properties\<close>

text \<open>C28: writing a reference to the in-memory reference database. Without \<open>force\<close> an existing name is
  refused with GIT_EEXISTS and nothing changes; otherwise the write succeeds, the name resolves to
  exactly the written target and every other name resolves as before, whatever old value the
  caller expected.\<close>

theorem mem_refdb_write_lookup:
  assumes "ref_alloc T" and "refdb_ok db"
    and "ref_allocated T (git_reference_name r) (reference_target r)"
  shows "case mem_refdb_write db r force oi ot of (res, db') \<Rightarrow>
    refdb_ok db' \<and>
    (if \<not> force \<and> mem_refdb_exists db (git_reference_name r) = 1
     then res = Inl (GitErr GIT_EEXISTS (Some ''reference already exists'')) \<and> db' = db
     else res = Inr () \<and> mem_refdb_lookup T db' (git_reference_name r) = Inr r \<and>
       (\<forall>n. n \<noteq> git_reference_name r \<longrightarrow> mem_refdb_lookup T db' n = mem_refdb_lookup T db n))"
proof -
  note b = mem_refdb_backend [OF assms(1)]
  let ?w = "mem_refdb_write db r force oi ot"
  have ex: "mem_refdb_exists db (git_reference_name r) = 1 \<longleftrightarrow> refdb_abs db (git_reference_name r) \<noteq> None"
    by (simp add: mem_refdb_exists_def refdb_abs_def)
  show ?thesis
  proof (cases "\<not> force \<and> refdb_abs db (git_reference_name r) \<noteq> None")
    case True
    then have "?w = (Inl (GitErr GIT_EEXISTS (Some ''reference already exists'')), db)"
      using refdb_backend.write_exists [OF b, of force db r oi ot] by simp
    then show ?thesis using True ex assms(2) by simp
  next
    case False
    then have "fst ?w = Inr ()"
      using refdb_backend.write_done [OF b assms(2), of force r oi ot] by blast
    with False ex assms(2) show ?thesis
      using refdb_backend.lookup_written [OF b assms(2), of r force oi ot]
        refdb_backend.lookup_write_other [OF b assms(2), of _ r force oi ot] assms(3)
        refdb_ok_write [OF assms(2), of r force oi ot]
      by (auto simp: split_beta)
  qed
qed

theorem mem_refdb_write_lookup_witness:
  "case mem_refdb_write qore_git_memory_refdb_new
      \<lparr>git_reference_name = ''refs/heads/main'', reference_target = Direct 5\<rparr> False None None of
     (res, db') \<Rightarrow> res = Inr () \<and>
       mem_refdb_lookup (hex_refdb_api (\<lambda>g n. 0)) db' ''refs/heads/main'' =
         Inr \<lparr>git_reference_name = ''refs/heads/main'', reference_target = Direct 5\<rparr>"
  using mem_refdb_write_lookup [OF hex_refdb.ref_alloc_axioms [of "\<lambda>g n. 0"] refdb_ok_new,
      where r = "\<lparr>git_reference_name = ''refs/heads/main'', reference_target = Direct 5\<rparr>"
        and force = False and oi = None and ot = None]
  by (simp add: split_beta mem_refdb_exists_def qore_git_memory_refdb_new_def)

text \<open>C31: renaming a reference. A missing old name is GIT_ENOTFOUND and an existing new name without
  \<open>force\<close> GIT_EEXISTS, both without any change; otherwise the old name is gone, the new name has
  its target, and no other name is affected. The callback then returns the renamed reference; when that
  cannot be allocated it returns an error although the database has been changed.\<close>

theorem mem_refdb_rename_moves:
  assumes "ref_alloc T" and "refdb_ok db"
  shows "case mem_refdb_rename T db old new force of (res, db') \<Rightarrow>
    refdb_ok db' \<and>
    (case refdb_abs db old of
       None \<Rightarrow> res = Inl (GitErr GIT_ENOTFOUND None) \<and> db' = db
     | Some t \<Rightarrow>
         if \<not> force \<and> refdb_abs db new \<noteq> None
         then res = Inl (GitErr GIT_EEXISTS (Some ''reference already exists'')) \<and> db' = db
         else refdb_abs db' = (refdb_abs db)(old := None, new \<mapsto> t) \<and>
           res = (if ref_allocated T new t then Inr \<lparr>git_reference_name = new, reference_target = t\<rparr>
             else Inl (GitErr (- 1) None)))"
proof -
  note b = mem_refdb_backend [OF assms(1)]
  have "refdb_ok (snd (mem_refdb_rename T db old new force))"
    using assms(2) by simp
  then show ?thesis
    using refdb_backend.rename_missing [OF b, of db old new force]
      refdb_backend.rename_exists [OF b, of db old force new]
      refdb_backend.rename_done [OF b assms(2), of old _ force new]
    by (auto simp: split_beta split: option.splits)
qed

theorem mem_refdb_rename_moves_witness:
  "case mem_refdb_rename (hex_refdb_api (\<lambda>g n. 0)) (snd (mem_refdb_write qore_git_memory_refdb_new
       \<lparr>git_reference_name = ''refs/heads/a'', reference_target = Direct 5\<rparr> False None None))
     ''refs/heads/a'' ''refs/heads/b'' False of (res, db') \<Rightarrow>
       res = Inr \<lparr>git_reference_name = ''refs/heads/b'', reference_target = Direct 5\<rparr> \<and>
       refdb_abs db' = [''refs/heads/b'' \<mapsto> Direct 5]"
proof -
  let ?db = "snd (mem_refdb_write qore_git_memory_refdb_new
       \<lparr>git_reference_name = ''refs/heads/a'', reference_target = Direct 5\<rparr> False None None)"
  have "refdb_ok ?db" using refdb_ok_new by simp
  moreover have "refdb_abs ?db = [''refs/heads/a'' \<mapsto> Direct 5]"
    by (simp add: mem_refdb_write_def refdb_abs_def qore_git_memory_refdb_new_def entry_target_def fun_eq_iff)
  ultimately show ?thesis
    using mem_refdb_rename_moves [OF hex_refdb.ref_alloc_axioms [of "\<lambda>g n. 0"], where db = ?db and old = "''refs/heads/a''"
        and new = "''refs/heads/b''" and force = False]
    by (simp add: split_beta fun_eq_iff)
qed

text \<open>
  Running an iterator to its end, as libgit2's listing functions do: the names, and the
  references, that successive calls return before the first error code.
\<close>

lemma iter_next_name_advances:
  "mem_refdb_iter_next_name T it = (Inr n, it') \<Longrightarrow>
   entries it' = entries it \<and> glob it' = glob it \<and> pos it < pos it' \<and> pos it' \<le> length (entries it)"
proof (induction T it rule: mem_refdb_iter_next_name.induct)
  case (1 T self)
  show ?case
    using "1.prems" "1.IH" unfolding mem_refdb_iter_next_name.simps [of T self]
    by (fastforce simp: Let_def split: if_splits)
qed

lemma iter_next_advances:
  "mem_refdb_iter_next T it = (Inr r, it') \<Longrightarrow>
   entries it' = entries it \<and> glob it' = glob it \<and> pos it < pos it' \<and> pos it' \<le> length (entries it)"
proof (induction T it rule: mem_refdb_iter_next.induct)
  case (1 T self)
  show ?case
    using "1.prems" "1.IH" unfolding mem_refdb_iter_next.simps [of T self]
    by (fastforce simp: Let_def split: if_splits option.splits)
qed

function drain_names :: "'z refdb_api_scheme \<Rightarrow> memory_ref_iterator \<Rightarrow> string list" where
  "drain_names T it =
     (case mem_refdb_iter_next_name T it of
        (Inl _, _) \<Rightarrow> []
      | (Inr n, it') \<Rightarrow> n # drain_names T it')"
  by pat_completeness auto
termination
  by (relation "measure (\<lambda>(T, it). length (entries it) - pos it)") (auto dest!: iter_next_name_advances [OF sym])

function drain_refs :: "'z refdb_api_scheme \<Rightarrow> memory_ref_iterator \<Rightarrow> git_reference list" where
  "drain_refs T it =
     (case mem_refdb_iter_next T it of
        (Inl _, _) \<Rightarrow> []
      | (Inr r, it') \<Rightarrow> r # drain_refs T it')"
  by pat_completeness auto
termination
  by (relation "measure (\<lambda>(T, it). length (entries it) - pos it)") (auto dest!: iter_next_advances [OF sym])

declare drain_names.simps [simp del] drain_refs.simps [simp del]

definition glob_selects :: "'z refdb_api_scheme \<Rightarrow> string \<Rightarrow> string \<Rightarrow> bool" where
  "glob_selects T g n \<longleftrightarrow> g = [] \<or> fnmatch T g n = 0"

lemma drop_pos_Cons:
  "pos it < length (entries it) \<Longrightarrow>
   drop (pos it) (entries it) = entries it ! pos it # drop (Suc (pos it)) (entries it)"
  by (simp add: Cons_nth_drop_Suc)

lemma drain_names_eq:
  "drain_names T it = filter (glob_selects T (glob it)) (map fst (drop (pos it) (entries it)))"
proof (induction "length (entries it) - pos it" arbitrary: it)
  case 0
  then show ?case
    by (subst drain_names.simps, subst mem_refdb_iter_next_name.simps) simp
next
  case (Suc n)
  let ?it = "it\<lparr>pos := Suc (pos it)\<rparr>"
  from Suc.hyps(2) have less: "pos it < length (entries it)" by arith
  have IH: "drain_names T ?it = filter (glob_selects T (glob it)) (map fst (drop (Suc (pos it)) (entries it)))"
    using Suc.hyps(1) [of ?it] Suc.hyps(2) by simp
  show ?case
  proof (cases "glob_selects T (glob it) (fst (entries it ! pos it))")
    case True
    then show ?thesis using less IH
      by (subst drain_names.simps, subst mem_refdb_iter_next_name.simps)
        (auto simp: glob_selects_def Let_def drop_pos_Cons)
  next
    case False
    then have "mem_refdb_iter_next_name T it = mem_refdb_iter_next_name T ?it"
      using less by (subst mem_refdb_iter_next_name.simps) (auto simp: glob_selects_def Let_def)
    then have "drain_names T it = drain_names T ?it"
      by (simp only: drain_names.simps [of T it] drain_names.simps [of T ?it])
    then show ?thesis using less IH False by (simp add: drop_pos_Cons)
  qed
qed

lemma drain_refs_eq:
  assumes "\<And>n e. (n, e) \<in> set (entries it) \<Longrightarrow> ref_of_entry T n e = Some (f n e)"
  shows "drain_refs T it =
    map (\<lambda>(n, e). f n e) (filter (\<lambda>(n, e). glob_selects T (glob it) n) (drop (pos it) (entries it)))"
  using assms
proof (induction "length (entries it) - pos it" arbitrary: it)
  case 0
  then show ?case
    by (subst drain_refs.simps, subst mem_refdb_iter_next.simps) simp
next
  case (Suc n)
  let ?it = "it\<lparr>pos := Suc (pos it)\<rparr>"
  from Suc.hyps(2) have less: "pos it < length (entries it)" by arith
  have IH: "drain_refs T ?it =
      map (\<lambda>(n, e). f n e) (filter (\<lambda>(n, e). glob_selects T (glob it) n) (drop (Suc (pos it)) (entries it)))"
    using Suc.hyps(1) [of ?it] Suc.hyps(2) Suc.prems by simp
  obtain k e where ke: "entries it ! pos it = (k, e)" by (cases "entries it ! pos it")
  with less have alloc: "ref_of_entry T k e = Some (f k e)"
    using Suc.prems by (metis nth_mem)
  show ?case
  proof (cases "glob_selects T (glob it) k")
    case True
    then show ?thesis using less IH alloc ke
      by (subst drain_refs.simps, subst mem_refdb_iter_next.simps)
        (auto simp: glob_selects_def Let_def drop_pos_Cons)
  next
    case False
    then have "mem_refdb_iter_next T it = mem_refdb_iter_next T ?it"
      using less ke by (subst mem_refdb_iter_next.simps) (auto simp: glob_selects_def Let_def)
    then have "drain_refs T it = drain_refs T ?it"
      by (simp only: drain_refs.simps [of T it] drain_refs.simps [of T ?it])
    then show ?thesis using less IH False ke by (simp add: drop_pos_Cons)
  qed
qed

lemma drain_refs_names:
  assumes "\<And>n e. (n, e) \<in> set (entries it) \<Longrightarrow>
      ref_of_entry T n e = Some \<lparr>git_reference_name = n, reference_target = entry_target e\<rparr>"
  shows "map git_reference_name (drain_refs T it) = drain_names T it"
proof -
  have "drain_refs T it =
      map (\<lambda>(n, e). \<lparr>git_reference_name = n, reference_target = entry_target e\<rparr>)
        (filter (\<lambda>(n, e). glob_selects T (glob it) n) (drop (pos it) (entries it)))"
    by (rule drain_refs_eq) (rule assms)
  then show ?thesis
    by (simp add: drain_names_eq filter_map comp_def case_prod_unfold)
qed

text \<open>C32: iterating over the in-memory references. The names an iterator returns, until it reports the
  end, are exactly the names stored when it was created that the glob selects (all of them when
  there is no glob or an empty one), in ascending order and without repetition; iterating over
  references gives the same names in the same order, each with the target that is stored for it.\<close>

theorem mem_refdb_iterator_complete:
  assumes "ref_alloc T" and "refdb_ok db" and "\<forall>n t. ref_allocated T n t"
  shows "drain_names T (mem_refdb_iterator db g) =
      filter (glob_selects T (case g of Some g' \<Rightarrow> g' | None \<Rightarrow> [])) (map fst (refs db)) \<and>
    set (map fst (refs db)) = dom (refdb_abs db) \<and> sorted_wrt (<) (map fst (refs db)) \<and>
    map git_reference_name (drain_refs T (mem_refdb_iterator db g)) = drain_names T (mem_refdb_iterator db g) \<and>
    (\<forall>r \<in> set (drain_refs T (mem_refdb_iterator db g)).
       refdb_abs db (git_reference_name r) = Some (reference_target r))"
proof -
  let ?it = "mem_refdb_iterator db g"
  have alloc: "ref_of_entry T n e = Some \<lparr>git_reference_name = n, reference_target = entry_target e\<rparr>" for n e
    using ref_alloc.ref_of_entry [OF assms(1), of n e] assms(3)
    by (cases "is_symbolic e") (auto simp: ref_of_entry_def ref_allocated_def entry_target_def
        dest!: spec [where x = n] spec [where x = "entry_target e"])
  have "set (map fst (refs db)) = dom (refdb_abs db)"
    using dom_map_of_conv_image_fst [of "refs db"] by (auto simp: refdb_abs_def dom_def)
  moreover have "\<forall>r \<in> set (drain_refs T ?it). refdb_abs db (git_reference_name r) = Some (reference_target r)"
    using assms(2) drain_refs_eq [of ?it T, OF alloc]
    by (auto simp: mem_refdb_iterator_def refdb_abs_def refdb_ok_def map_of_Some_in)
  ultimately show ?thesis
    using assms(2) drain_refs_names [of ?it T, OF alloc]
    by (simp add: drain_names_eq mem_refdb_iterator_def refdb_ok_def omap_ok_def)
qed

definition two_refs :: memory_refdb where
  "two_refs =
     snd (mem_refdb_write
       (snd (mem_refdb_write qore_git_memory_refdb_new
         \<lparr>git_reference_name = ''refs/tags/v1'', reference_target = Direct 1\<rparr> False None None))
       \<lparr>git_reference_name = ''refs/heads/main'', reference_target = Direct 2\<rparr> False None None)"

lemma two_refs_ok: "refdb_ok two_refs"
  by (simp add: two_refs_def)

lemma two_refs_keys: "map fst (refs two_refs) = [''refs/heads/main'', ''refs/tags/v1'']"
  by code_simp

theorem mem_refdb_iterator_complete_witness:
  "drain_names (hex_refdb_api (\<lambda>g n. if n = ''refs/tags/v1'' then 0 else 1))
     (mem_refdb_iterator two_refs (Some ''refs/tags/*'')) = [''refs/tags/v1'']"
  using mem_refdb_iterator_complete
    [OF hex_refdb.ref_alloc_axioms [of "\<lambda>g n. if n = ''refs/tags/v1'' then 0 else 1"] two_refs_ok,
      of "Some ''refs/tags/*''"]
  by (simp add: two_refs_keys glob_selects_def)

end
