(* ===== verification/Environment.thy ===== *)
theory Environment
  imports Memory_RefDB
begin

text \<open>
  The interface to the code that is not in the repository: libgit2, the Qore runtime
  (cancellation, sandbox policy) and the operating system. Every function of it that the
  module calls is a field of the records below, chained so that one argument \<open>G\<close> of a
  definition carries them all; nothing is assumed of a field unless a theorem says so.

  The outside world (the repositories and handles of libgit2, the file system, the network,
  the clock, pending cancellations) is one value of a type \<open>'w\<close>. A field that only reads takes
  the world and returns its answer; one that changes it also returns the new world. Pointers to
  libgit2's long-lived objects (repositories, indexes, configurations, remotes) are handles,
  here numbers; short-lived results (a commit, a tree, a reference, an object, a signature) are
  values. A failing libgit2 call returns a \<open>git_err\<close>: its code is negative, as libgit2
  documents, so the tests \<open>rc < 0\<close> and \<open>rc != 0\<close> of the module coincide with \<open>Inl\<close>. A pointer
  argument that the module passes without checking it for null is an \<open>option\<close>.
\<close>

text \<open>A Qore exception: its code and its description.\<close>

datatype exn = Exn (exn_err: string) (exn_desc: string)

section \<open>The operating system and the Qore runtime\<close>

type_synonym fd = nat
type_synonym stdio_file = nat
type_synonym sockaddr = nat

datatype qsec = QSEC_READ | QSEC_WRITE | QSEC_CREATE | QSEC_DELETE

text \<open>
  \<open>qore_check_cancel\<close> polls for a cancellation and raises an exception when there is one;
  \<open>fs_check_access\<close> and \<open>net_check_connect\<close> are the sandbox manager's checks, which raise an
  exception when they deny; \<open>sandbox_active\<close> says whether there is a manager. \<open>os_open\<close> is
  \<open>open\<close> with \<open>O_WRONLY | O_CREAT | O_TRUNC | O_NOFOLLOW\<close> and mode 0644; a failing call gives
  the text of \<open>errno\<close>. \<open>stack_depth\<close> is the number of nested calls that a recursive function of the
  module can make before the stack of its thread is exhausted. \<open>os_nftw_remove\<close> is \<open>nftw\<close> with a callback that removes every entry.
\<close>

record 'w os_api = refdb_api +
  qore_check_cancel :: "'w \<Rightarrow> string \<Rightarrow> exn option \<times> 'w"
  stack_depth :: nat
  sandbox_active :: "'w \<Rightarrow> bool"
  fs_check_access :: "'w \<Rightarrow> string \<Rightarrow> qsec list \<Rightarrow> exn option"
  net_check_connect :: "'w \<Rightarrow> sockaddr \<Rightarrow> exn option"
  os_getaddrinfo :: "'w \<Rightarrow> string \<Rightarrow> string \<Rightarrow> int \<times> sockaddr list"
  os_gai_strerror :: "int \<Rightarrow> string"
  os_getenv :: "'w \<Rightarrow> string \<Rightarrow> string option"
  os_mkdtemp :: "'w \<Rightarrow> string \<Rightarrow> (string + string) \<times> 'w"
  os_mkdir :: "'w \<Rightarrow> string \<Rightarrow> 'w"
  os_open :: "'w \<Rightarrow> string \<Rightarrow> (string + fd) \<times> 'w"
  os_fdopen :: "'w \<Rightarrow> fd \<Rightarrow> (string + stdio_file) \<times> 'w"
  os_close :: "'w \<Rightarrow> fd \<Rightarrow> 'w"
  os_fwrite :: "'w \<Rightarrow> stdio_file \<Rightarrow> bytes \<Rightarrow> nat \<times> 'w"
  os_fclose :: "'w \<Rightarrow> stdio_file \<Rightarrow> 'w"
  os_remove :: "'w \<Rightarrow> string \<Rightarrow> 'w"
  os_nftw_remove :: "'w \<Rightarrow> string \<Rightarrow> 'w"

section \<open>The objects of libgit2\<close>

type_synonym git_repository = nat
type_synonym git_odb = nat
type_synonym git_refdb = nat
type_synonym git_config = nat
type_synonym git_index = nat

datatype git_filemode = GIT_FILEMODE_BLOB | GIT_FILEMODE_TREE | GIT_FILEMODE_COMMIT

record git_tree_entry =
  git_tree_entry_name :: string
  git_tree_entry_id :: git_oid
  git_tree_entry_type :: git_object_t

record git_tree =
  git_tree_id :: git_oid
  tree_entries :: "git_tree_entry list"

text \<open>A tree under construction: its entries by name.\<close>

type_synonym git_treebuilder = "git_tree_entry list"

record git_signature =
  sig_name :: string
  sig_email :: string
  sig_when :: int

record git_commit =
  git_commit_id :: git_oid
  git_commit_tree_id :: git_oid
  git_commit_parent_ids :: "git_oid list"
  git_commit_message :: string
  git_commit_summary :: string
  git_commit_author :: "git_signature option"
  git_commit_committer :: "git_signature option"

record git_object =
  git_object_id :: git_oid
  git_object_type :: git_object_t

section \<open>Object database\<close>

record 'w object_api = "'w os_api" +
  git_blob_lookup :: "'w \<Rightarrow> git_repository \<Rightarrow> git_oid \<Rightarrow> git_err + bytes"
  git_blob_create_from_buffer :: "'w \<Rightarrow> git_repository \<Rightarrow> bytes \<Rightarrow> (git_err + git_oid) \<times> 'w"
  git_tree_lookup :: "'w \<Rightarrow> git_repository \<Rightarrow> git_oid \<Rightarrow> git_err + git_tree"
  git_tree_entry_bypath :: "'w \<Rightarrow> git_repository \<Rightarrow> git_tree \<Rightarrow> string \<Rightarrow> git_err + git_tree_entry"
  git_treebuilder_new :: "'w \<Rightarrow> git_repository \<Rightarrow> git_err + git_treebuilder"
  git_treebuilder_insert :: "'w \<Rightarrow> git_repository \<Rightarrow> git_treebuilder \<Rightarrow> string \<Rightarrow> git_oid \<Rightarrow>
    git_filemode \<Rightarrow> git_err + git_treebuilder"
  git_treebuilder_write :: "'w \<Rightarrow> git_repository \<Rightarrow> git_treebuilder \<Rightarrow> (git_err + git_oid) \<times> 'w"
  git_commit_lookup :: "'w \<Rightarrow> git_repository \<Rightarrow> git_oid option \<Rightarrow> git_err + git_commit"
  git_commit_tree :: "'w \<Rightarrow> git_repository \<Rightarrow> git_commit \<Rightarrow> git_err + git_tree"
  git_commit_create :: "'w \<Rightarrow> git_repository \<Rightarrow> string \<Rightarrow> git_signature \<Rightarrow> git_signature \<Rightarrow> string \<Rightarrow>
    git_tree \<Rightarrow> git_commit list \<Rightarrow> (git_err + git_oid) \<times> 'w"
  git_object_lookup :: "'w \<Rightarrow> git_repository \<Rightarrow> git_oid option \<Rightarrow> git_err + git_object"
  git_object_peel_commit :: "'w \<Rightarrow> git_repository \<Rightarrow> git_object \<Rightarrow> git_err + git_object"
  git_revparse_single :: "'w \<Rightarrow> git_repository \<Rightarrow> string \<Rightarrow> git_err + git_object"
  git_signature_now :: "'w \<Rightarrow> string \<Rightarrow> string \<Rightarrow> git_err + git_signature"
  git_signature_default :: "'w \<Rightarrow> git_repository \<Rightarrow> git_err + git_signature"

section \<open>References, branches and tags\<close>

record 'w ref_api = "'w object_api" +
  git_repository_head :: "'w \<Rightarrow> git_repository \<Rightarrow> git_err + git_reference"
  git_reference_lookup :: "'w \<Rightarrow> git_repository \<Rightarrow> string \<Rightarrow> git_err + git_reference"
  git_reference_symbolic_create :: "'w \<Rightarrow> git_repository \<Rightarrow> string \<Rightarrow> string \<Rightarrow> bool \<Rightarrow>
    string option \<Rightarrow> (git_err + git_reference) \<times> 'w"
  git_reference_create :: "'w \<Rightarrow> git_repository \<Rightarrow> string \<Rightarrow> git_oid \<Rightarrow> bool \<Rightarrow>
    string option \<Rightarrow> (git_err + git_reference) \<times> 'w"
  git_reference_set_target :: "'w \<Rightarrow> git_repository \<Rightarrow> git_reference \<Rightarrow> git_oid \<Rightarrow>
    string option \<Rightarrow> (git_err + git_reference) \<times> 'w"
  git_reference_list :: "'w \<Rightarrow> git_repository \<Rightarrow> git_err + string list"
  git_reference_is_branch :: "git_reference \<Rightarrow> bool"
  git_repository_set_head :: "'w \<Rightarrow> git_repository \<Rightarrow> string \<Rightarrow> (git_err + unit) \<times> 'w"
  git_repository_set_head_detached :: "'w \<Rightarrow> git_repository \<Rightarrow> git_oid \<Rightarrow> (git_err + unit) \<times> 'w"
  git_branch_create :: "'w \<Rightarrow> git_repository \<Rightarrow> string \<Rightarrow> git_commit \<Rightarrow> bool \<Rightarrow>
    (git_err + git_reference) \<times> 'w"
  git_branch_lookup_local :: "'w \<Rightarrow> git_repository \<Rightarrow> string \<Rightarrow> git_err + git_reference"
  git_branch_delete :: "'w \<Rightarrow> git_repository \<Rightarrow> git_reference \<Rightarrow> (git_err + unit) \<times> 'w"
  git_branch_iterator :: "'w \<Rightarrow> git_repository \<Rightarrow> bool \<Rightarrow> git_err + git_reference list"
  git_branch_name :: "git_reference \<Rightarrow> git_err + string option"
  git_tag_create :: "'w \<Rightarrow> git_repository \<Rightarrow> string \<Rightarrow> git_object \<Rightarrow> git_signature \<Rightarrow> string \<Rightarrow>
    bool \<Rightarrow> (git_err + git_oid) \<times> 'w"
  git_tag_create_lightweight :: "'w \<Rightarrow> git_repository \<Rightarrow> string \<Rightarrow> git_object \<Rightarrow> bool \<Rightarrow>
    (git_err + git_oid) \<times> 'w"
  git_tag_delete :: "'w \<Rightarrow> git_repository \<Rightarrow> string \<Rightarrow> (git_err + unit) \<times> 'w"
  git_tag_list :: "'w \<Rightarrow> git_repository \<Rightarrow> git_err + string list"

section \<open>Repositories, configuration, index and working directory\<close>

record 'w repo_api = "'w ref_api" +
  git_repository_open :: "'w \<Rightarrow> string \<Rightarrow> (git_err + git_repository) \<times> 'w"
  git_repository_init :: "'w \<Rightarrow> string \<Rightarrow> bool \<Rightarrow> (git_err + git_repository) \<times> 'w"
  git_repository_new :: "'w \<Rightarrow> (git_err + git_repository) \<times> 'w"
  git_repository_free :: "'w \<Rightarrow> git_repository \<Rightarrow> 'w"
  git_repository_path :: "'w \<Rightarrow> git_repository \<Rightarrow> string"
  git_repository_workdir :: "'w \<Rightarrow> git_repository \<Rightarrow> string option"
  git_repository_is_bare :: "'w \<Rightarrow> git_repository \<Rightarrow> bool"
  git_odb_new :: "'w \<Rightarrow> (git_err + git_odb) \<times> 'w"
  git_odb_add_backend :: "'w \<Rightarrow> git_odb \<Rightarrow> memory_odb \<Rightarrow> int \<Rightarrow> (git_err + unit) \<times> 'w"
  git_repository_set_odb :: "'w \<Rightarrow> git_repository \<Rightarrow> git_odb \<Rightarrow> 'w"
  git_refdb_new :: "'w \<Rightarrow> git_repository \<Rightarrow> (git_err + git_refdb) \<times> 'w"
  git_refdb_set_backend :: "'w \<Rightarrow> git_refdb \<Rightarrow> memory_refdb \<Rightarrow> (git_err + unit) \<times> 'w"
  git_repository_set_refdb :: "'w \<Rightarrow> git_repository \<Rightarrow> git_refdb \<Rightarrow> 'w"
  git_config_new :: "'w \<Rightarrow> (git_err + git_config) \<times> 'w"
  git_repository_set_config :: "'w \<Rightarrow> git_repository \<Rightarrow> git_config \<Rightarrow> 'w"
  git_repository_config :: "'w \<Rightarrow> git_repository \<Rightarrow> git_err + git_config"
  git_config_get_entry :: "'w \<Rightarrow> git_config \<Rightarrow> string \<Rightarrow> git_err + string"
  git_config_set_string :: "'w \<Rightarrow> git_config \<Rightarrow> string \<Rightarrow> string \<Rightarrow> (git_err + unit) \<times> 'w"
  git_index_new :: "'w \<Rightarrow> (git_err + git_index) \<times> 'w"
  git_repository_set_index :: "'w \<Rightarrow> git_repository \<Rightarrow> git_index option \<Rightarrow> 'w"
  git_repository_index :: "'w \<Rightarrow> git_repository \<Rightarrow> git_err + git_index"
  git_index_add_bypath :: "'w \<Rightarrow> git_index \<Rightarrow> string \<Rightarrow> (git_err + unit) \<times> 'w"
  git_index_remove_bypath :: "'w \<Rightarrow> git_index \<Rightarrow> string \<Rightarrow> (git_err + unit) \<times> 'w"
  git_index_write :: "'w \<Rightarrow> git_index \<Rightarrow> (git_err + unit) \<times> 'w"
  git_index_write_tree :: "'w \<Rightarrow> git_index \<Rightarrow> (git_err + git_oid) \<times> 'w"
  git_checkout_tree :: "'w \<Rightarrow> git_repository \<Rightarrow> git_commit \<Rightarrow> (git_err + unit) \<times> 'w"
  git_error_last :: "'w \<Rightarrow> string option"
  git_status_list :: "'w \<Rightarrow> git_repository \<Rightarrow> git_err + (string option \<times> int) list"

end
