(* ===== verification/Session.thy ===== *)
theory Session
  imports Environment
begin

text \<open>
  What every method body runs in: the outside world, the exception sink and the module's own
  global state. \<open>src/git-module.cpp\<close> is modelled here (the two forms of
  \<open>git_raise_exception\<close>, the registry of temporary directories), with the sandbox check
  \<open>checkFsAccess\<close> of \<open>src/QoreGitRepository.cpp\<close> and the cancellation poll that the loops share.

  A method is a computation of the state monad over (an extension of) \<open>session\<close>. A raised
  exception is appended to \<open>xsink\<close> and, as in the C++, does not itself end the method: the code
  goes on to its own \<open>return\<close>.

  The locale \<open>session_frame\<close> collects the predicates that do not look at the world and the sink;
  all of them are preserved by everything defined here.
\<close>

record 'w session =
  world :: 'w
  xsink :: "exn list"
  git_tempdirs :: "unit strmap"

section \<open>Primitive steps\<close>

definition query :: "('w \<Rightarrow> 'a) \<Rightarrow> (('w, 'z) session_scheme, 'a) state" where
  "query f = gets (\<lambda>s. f (world s))"

definition effect :: "('w \<Rightarrow> 'a \<times> 'w) \<Rightarrow> (('w, 'z) session_scheme, 'a) state" where
  "effect f = State (\<lambda>s. case f (world s) of (a, w) \<Rightarrow> (a, s\<lparr>world := w\<rparr>))"

definition effect_unit :: "('w \<Rightarrow> 'w) \<Rightarrow> (('w, 'z) session_scheme, unit) state" where
  "effect_unit f = modify (\<lambda>s. s\<lparr>world := f (world s)\<rparr>)"

definition raiseException :: "string \<Rightarrow> string \<Rightarrow> (('w, 'z) session_scheme, unit) state" where
  "raiseException err desc = modify (\<lambda>s. s\<lparr>xsink := xsink s @ [Exn err desc]\<rparr>)"

text \<open>The test \<open>*xsink\<close>.\<close>

definition exception_raised :: "(('w, 'z) session_scheme, bool) state" where
  "exception_raised = gets (\<lambda>s. xsink s \<noteq> [])"

text \<open>An external check that raises its own exception when it fails: true when it passes.\<close>

definition check_passes :: "exn option \<Rightarrow> (('w, 'z) session_scheme, bool) state" where
  "check_passes r =
     (case r of
        None \<Rightarrow> ret True
      | Some e \<Rightarrow> do { raiseException (exn_err e) (exn_desc e); ret False })"

definition check_cancel :: "('w, 'y) os_api_scheme \<Rightarrow> string \<Rightarrow> (('w, 'z) session_scheme, bool) state" where
  "check_cancel G what = do {
     r \<leftarrow> effect (\<lambda>w. qore_check_cancel G w what);
     ok \<leftarrow> check_passes r;
     ret (\<not> ok)
   }"

text \<open>\<open>cond && qore_check_cancel(xsink, what)\<close>: the poll happens only when \<open>cond\<close> holds.\<close>

definition cancelled_when :: "bool \<Rightarrow> ('w, 'y) os_api_scheme \<Rightarrow> string \<Rightarrow> (('w, 'z) session_scheme, bool) state" where
  "cancelled_when cond G what = (if cond then check_cancel G what else ret False)"

section \<open>git-module.cpp\<close>

definition git_raise_exception ::
  "string \<Rightarrow> git_err \<Rightarrow> string \<Rightarrow> (('w, 'z) session_scheme, int) state" where
  "git_raise_exception err e context = do {
     raiseException err
       (context @ '': '' @ (case err_msg e of Some m \<Rightarrow> m | None \<Rightarrow> ''unknown error''));
     ret (- 1)
   }"

definition git_raise_exception_rc ::
  "string \<Rightarrow> git_err \<Rightarrow> string \<Rightarrow> (('w, 'z) session_scheme, int) state" where
  "git_raise_exception_rc err e context = do {
     raiseException err
       (case err_msg e of
          Some m \<Rightarrow> context @ '': '' @ m @ '' (error code '' @ show_int (err_rc e) @ '')''
        | None \<Rightarrow> context @ '': error code '' @ show_int (err_rc e));
     ret (- 1)
   }"

definition qore_git_register_tempdir :: "string \<Rightarrow> (('w, 'z) session_scheme, unit) state" where
  "qore_git_register_tempdir path = modify (\<lambda>s. s\<lparr>git_tempdirs := omap_put path () (git_tempdirs s)\<rparr>)"

definition qore_git_unregister_tempdir :: "string \<Rightarrow> (('w, 'z) session_scheme, unit) state" where
  "qore_git_unregister_tempdir path = modify (\<lambda>s. s\<lparr>git_tempdirs := omap_erase path (git_tempdirs s)\<rparr>)"

definition qore_git_cleanup_all_tempdirs ::
  "('w, 'y) os_api_scheme \<Rightarrow> (('w, 'z) session_scheme, unit) state" where
  "qore_git_cleanup_all_tempdirs G = do {
     dirs \<leftarrow> gets git_tempdirs;
     for_from (\<lambda>i path. do { effect_unit (\<lambda>w. os_nftw_remove G w path); ret (None :: unit option) }) 0 (map fst dirs);
     modify (\<lambda>s. s\<lparr>git_tempdirs := []\<rparr>)
   }"

section \<open>The idiom of a checked libgit2 call\<close>

text \<open>
  \<open>on_ok err ctx r res k\<close>: the call returned \<open>res\<close>; on an error \<open>git_raise_exception(xsink, err, rc,
  ctx)\<close> and \<open>return r\<close>, otherwise go on with the result.
\<close>

definition on_ok ::
  "string \<Rightarrow> string \<Rightarrow> 'r \<Rightarrow> git_err + 'a \<Rightarrow> ('a \<Rightarrow> (('w, 'z) session_scheme, 'r) state) \<Rightarrow>
   (('w, 'z) session_scheme, 'r) state" where
  "on_ok err ctx r res k =
     (case res of
        Inl e \<Rightarrow> do { git_raise_exception_rc err e ctx; ret r }
      | Inr a \<Rightarrow> k a)"

section \<open>Sandbox access to files\<close>

definition checkFsAccess ::
  "('w, 'y) os_api_scheme \<Rightarrow> string \<Rightarrow> qsec list \<Rightarrow> (('w, 'z) session_scheme, bool) state" where
  "checkFsAccess G path mode = do {
     smh \<leftarrow> query (\<lambda>w. sandbox_active G w);
     if smh then do {
       r \<leftarrow> query (\<lambda>w. fs_check_access G w path mode);
       check_passes r
     } else ret True
   }"

section \<open>Symbolic execution\<close>

lemma run_query [simp]: "run_state (query f) s = (f (world s), s)"
  by (simp add: query_def)

lemma run_effect [simp]:
  "run_state (effect f) s = (fst (f (world s)), s\<lparr>world := snd (f (world s))\<rparr>)"
  by (simp add: effect_def split_beta)

lemma run_effect_unit [simp]: "run_state (effect_unit f) s = ((), s\<lparr>world := f (world s)\<rparr>)"
  by (simp add: effect_unit_def)

lemma run_raiseException [simp]:
  "run_state (raiseException err desc) s = ((), s\<lparr>xsink := xsink s @ [Exn err desc]\<rparr>)"
  by (simp add: raiseException_def)

lemma run_exception_raised [simp]: "run_state exception_raised s = (xsink s \<noteq> [], s)"
  by (simp add: exception_raised_def)

lemma run_git_raise_exception_rc:
  "run_state (git_raise_exception_rc err e ctx) s =
     (- 1, s\<lparr>xsink := xsink s @ [Exn err
        (case err_msg e of
           Some m \<Rightarrow> ctx @ '': '' @ m @ '' (error code '' @ show_int (err_rc e) @ '')''
         | None \<Rightarrow> ctx @ '': error code '' @ show_int (err_rc e))]\<rparr>)"
  by (simp add: git_raise_exception_rc_def)

lemma on_ok_Inr [simp]: "on_ok err ctx r (Inr a) k = k a"
  by (simp add: on_ok_def)

lemma on_ok_Inl: "on_ok err ctx r (Inl e) k = do { git_raise_exception_rc err e ctx; ret r }"
  by (simp add: on_ok_def)

lemma run_on_ok_Inl:
  "fst (run_state (on_ok err ctx r (Inl e) k) s) = r \<and>
   (\<exists>d. snd (run_state (on_ok err ctx r (Inl e) k) s) = s\<lparr>xsink := xsink s @ [Exn err d]\<rparr>)"
  by (simp add: on_ok_def run_git_raise_exception_rc) (rule exI, rule refl)

section \<open>Frames\<close>

locale session_frame =
  fixes P :: "('w, 'z) session_scheme \<Rightarrow> bool"
  assumes world_irrelevant: "P s \<Longrightarrow> P (s\<lparr>world := w\<rparr>)"
    and sink_irrelevant: "P s \<Longrightarrow> P (s\<lparr>xsink := x\<rparr>)"
begin

lemma keeps_query: "keeps P (query f)"
  by (simp add: keeps_def)

lemma keeps_effect: "keeps P (effect f)"
  by (simp add: keeps_def world_irrelevant)

lemma keeps_effect_unit: "keeps P (effect_unit f)"
  by (simp add: keeps_def world_irrelevant)

lemma keeps_raiseException: "keeps P (raiseException err desc)"
  by (simp add: keeps_def sink_irrelevant)

lemma keeps_exception_raised: "keeps P exception_raised"
  by (simp add: keeps_def)

lemmas keeps_primitive = keeps_query keeps_effect keeps_effect_unit keeps_raiseException keeps_exception_raised

lemma keeps_check_passes: "keeps P (check_passes r)"
  unfolding check_passes_def by (intro keeps_rules keeps_primitive)

lemma keeps_check_cancel: "keeps P (check_cancel G what)"
  unfolding check_cancel_def by (intro keeps_rules keeps_primitive keeps_check_passes)

lemma keeps_cancelled_when: "keeps P (cancelled_when c G what)"
  unfolding cancelled_when_def by (intro keeps_rules keeps_check_cancel)

lemma keeps_git_raise_exception: "keeps P (git_raise_exception err e ctx)"
  unfolding git_raise_exception_def by (intro keeps_rules keeps_primitive)

lemma keeps_git_raise_exception_rc: "keeps P (git_raise_exception_rc err e ctx)"
  unfolding git_raise_exception_rc_def by (intro keeps_rules keeps_primitive)

lemma keeps_on_ok: "(\<And>a. res = Inr a \<Longrightarrow> keeps P (k a)) \<Longrightarrow> keeps P (on_ok err ctx r res k)"
  unfolding on_ok_def by (intro keeps_rules keeps_git_raise_exception_rc) auto

lemma keeps_checkFsAccess: "keeps P (checkFsAccess G path mode)"
  unfolding checkFsAccess_def by (intro keeps_rules keeps_primitive keeps_check_passes)

lemmas keeps_session = keeps_primitive keeps_check_passes keeps_check_cancel keeps_cancelled_when
  keeps_git_raise_exception keeps_git_raise_exception_rc keeps_on_ok keeps_checkFsAccess

end

text \<open>The registry of temporary directories as a predicate: a frame of its own.\<close>

interpretation tempdirs: session_frame "\<lambda>s. omap_ok (git_tempdirs s) \<and> Q (git_tempdirs s)" for Q
  by unfold_locales simp_all

section \<open>Properties\<close>

lemma run_remove_loop:
  "run_state (for_from (\<lambda>i path. do { effect_unit (\<lambda>w. os_nftw_remove G w path); ret (None :: unit option) }) i dirs) s =
     (None, s\<lparr>world := fold (\<lambda>path w. os_nftw_remove G w path) dirs (world s)\<rparr>)"
  by (induction dirs arbitrary: i s) simp_all

text \<open>Module unload removes every registered temporary directory from disk, in the order of the
  registry, and leaves the registry empty; nothing else of the module's state changes.\<close>

lemma cleanup_removes_all_tempdirs:
  "run_state (qore_git_cleanup_all_tempdirs G) s =
     ((), s\<lparr>world := fold (\<lambda>path w. os_nftw_remove G w path) (map fst (git_tempdirs s)) (world s),
           git_tempdirs := []\<rparr>)"
  by (simp add: qore_git_cleanup_all_tempdirs_def run_remove_loop)

end
