(* ===== verification/Remote_URL.thy ===== *)
theory Remote_URL
  imports Session
begin

text \<open>
  Remote URLs: \<open>validateRemoteUrl\<close>, \<open>parseRemoteHostPort\<close> and the network pre-flight check
  \<open>checkNetAccess\<close> of \<open>src/QoreGitRepository.cpp\<close>. The parser works on the C++ string with
  \<open>find\<close>, \<open>rfind\<close> and \<open>substr\<close>; its result is \<open>None\<close> where the code returns false and
  \<open>Some (host, port)\<close> where it returns true. Ports are \<open>int\<close> values read by \<open>atoi\<close>, modelled
  with its 64-bit saturation and the conversion to a 32-bit \<open>int\<close>.
\<close>

definition validateRemoteUrl :: "string \<Rightarrow> (('w, 'z) session_scheme, bool) state" where
  "validateRemoteUrl url =
     (if url = [] then do {
        raiseException ''GIT-REMOTE-ERROR'' ''an empty remote URL is not allowed'';
        ret False
      } else if starts_with ''ext::'' url then do {
        raiseException ''GIT-REMOTE-ERROR'' (''remote URL scheme '' @ [CHR 0x22] @ ''ext::'' @ [CHR 0x22] @
          '' is not allowed: it would execute an arbitrary command; use a standard transport (https, ssh, git, or file)'');
        ret False
      } else ret True)"

section \<open>atoi\<close>

definition is_space :: "char \<Rightarrow> bool" where
  "is_space c \<longleftrightarrow> c = CHR '' '' \<or> (9 \<le> (of_char c :: nat) \<and> (of_char c :: nat) \<le> 13)"

definition is_digit :: "char \<Rightarrow> bool" where
  "is_digit c \<longleftrightarrow> 48 \<le> (of_char c :: nat) \<and> (of_char c :: nat) \<le> 57"

definition digits_value :: "string \<Rightarrow> int" where
  "digits_value s = foldl (\<lambda>n c. n * 10 + (int (of_char c) - 48)) 0 (takeWhile is_digit s)"

text \<open>\<open>strtol\<close> saturates at the limits of \<open>long\<close>; the result is then converted to \<open>int\<close>.\<close>

definition strtol10 :: "string \<Rightarrow> int" where
  "strtol10 s =
     (let t = dropWhile is_space s;
          v = (case t of
                 [] \<Rightarrow> 0
               | c # cs \<Rightarrow> if c = CHR ''-'' then - digits_value cs
                           else if c = CHR ''+'' then digits_value cs
                           else digits_value (c # cs))
      in max (- (2 ^ 63)) (min (2 ^ 63 - 1) v))"

definition atoi :: "string \<Rightarrow> int" where
  "atoi s = (strtol10 s + 2 ^ 31) mod 2 ^ 32 - 2 ^ 31"

section \<open>Host and port\<close>

definition default_port_of :: "string \<Rightarrow> int" where
  "default_port_of scheme =
     (if scheme = ''https'' then 443
      else if scheme = ''http'' then 80
      else if scheme = ''git'' then 9418
      else if scheme = ''ssh'' then 22
      else 0)"

text \<open>The three steps of the URL branch: drop \<open>user@\<close>, cut at the first slash, split off the port.\<close>

definition strip_userinfo :: "string \<Rightarrow> string" where
  "strip_userinfo rest =
     (let slash = str_find CHR ''/'' rest
      in case str_find CHR ''@'' rest of
           Some at \<Rightarrow>
             if (case slash of None \<Rightarrow> True | Some sl \<Rightarrow> at < sl) then drop (at + 1) rest else rest
         | None \<Rightarrow> rest)"

definition hostport_part :: "string \<Rightarrow> string" where
  "hostport_part rest = (case str_find CHR ''/'' rest of None \<Rightarrow> rest | Some end' \<Rightarrow> take end' rest)"

definition split_hostport :: "string \<Rightarrow> int \<Rightarrow> (string \<times> int) option" where
  "split_hostport hostport default_port =
     (if hostport \<noteq> [] \<and> hostport ! 0 = CHR ''['' then
        (case str_find CHR '']'' hostport of
           None \<Rightarrow> None
         | Some rb \<Rightarrow>
             let host = take (rb - 1) (drop 1 hostport);
                 port = (if rb + 1 < length hostport \<and> hostport ! (rb + 1) = CHR '':''
                         then atoi (drop (rb + 2) hostport) else default_port)
             in if host \<noteq> [] then Some (host, port) else None)
      else
        let (host, port) =
          (case str_rfind CHR '':'' hostport of
             Some colon \<Rightarrow>
               if str_find CHR '':'' hostport = Some colon then
                 (let port = atoi (drop (colon + 1) hostport)
                  in (take colon hostport, if port \<le> 0 then default_port else port))
               else (hostport, default_port)
           | None \<Rightarrow> (hostport, default_port))
        in if host \<noteq> [] then Some (host, port) else None)"

definition parseRemoteHostPort :: "string \<Rightarrow> (string \<times> int) option" where
  "parseRemoteHostPort u =
     (if u = [] then None
      else if u ! 0 = CHR ''/'' \<or> u ! 0 = CHR ''.'' \<or> starts_with ''file://'' u then None
      else
        case str_find_sub ''://'' u of
          None \<Rightarrow>
            (let default_port = 22;
                 rest = (case str_find CHR ''@'' u of Some at \<Rightarrow> drop (at + 1) u | None \<Rightarrow> u);
                 host = (case str_find CHR '':'' rest of None \<Rightarrow> rest | Some colon \<Rightarrow> take colon rest)
             in if host \<noteq> [] then Some (host, default_port) else None)
        | Some scheme_end \<Rightarrow>
            (let scheme = take scheme_end u;
                 rest = drop (scheme_end + 3) u;
                 default_port = default_port_of scheme;
                 rest = strip_userinfo rest;
                 hostport = hostport_part rest
             in split_hostport hostport default_port))"

section \<open>The network pre-flight check\<close>

definition checkNetAccess ::
  "('w, 'y) os_api_scheme \<Rightarrow> string \<Rightarrow> (('w, 'z) session_scheme, bool) state" where
  "checkNetAccess G url = do {
     smh \<leftarrow> query (\<lambda>w. sandbox_active G w);
     if \<not> smh then ret True
     else (case parseRemoteHostPort url of
       None \<Rightarrow> ret True
     | Some (host, port) \<Rightarrow> do {
         let portstr = show_int (if port > 0 then port else 443);
         (gai, res) \<leftarrow> query (\<lambda>w. os_getaddrinfo G w host portstr);
         if gai \<noteq> 0 \<or> res = [] then do {
           raiseException ''NETWORK-ACCESS-DENIED''
             (''cannot resolve remote host '' @ [CHR 0x27] @ host @ [CHR 0x27] @
              '' to verify network sandbox policy: '' @ os_gai_strerror G gai);
           ret False
         } else do {
           r \<leftarrow> for_from (\<lambda>i ai. do {
                  deny \<leftarrow> query (\<lambda>w. net_check_connect G w ai);
                  ok \<leftarrow> check_passes deny;
                  ret (if ok then None else Some False)
                }) 0 res;
           ret (case r of None \<Rightarrow> True | Some allowed \<Rightarrow> allowed)
         }
       })
   }"

context session_frame
begin

lemma keeps_validateRemoteUrl: "keeps P (validateRemoteUrl url)"
  unfolding validateRemoteUrl_def by (intro keeps_rules keeps_session)

lemma keeps_checkNetAccess: "keeps P (checkNetAccess G url)"
  unfolding checkNetAccess_def Let_def by (intro keeps_rules keeps_session)

end

section \<open>Reading back a printed number\<close>

lemma digit_char_value:
  "d < 10 \<Longrightarrow> is_digit (digit_char d) \<and> int (of_char (digit_char d)) - 48 = int d"
  by (simp add: is_digit_def digit_char_def of_char_of)

lemma show_nat_digits: "\<forall>c \<in> set (show_nat n). is_digit c"
  by (induction n rule: show_nat.induct) (subst show_nat.simps, auto simp: digit_char_value)

lemma show_nat_nonempty [simp]: "show_nat n \<noteq> []"
  by (subst show_nat.simps) simp

lemma digits_value_append:
  "\<forall>c \<in> set a. is_digit c \<Longrightarrow> is_digit c \<Longrightarrow>
   digits_value (a @ [c]) = digits_value a * 10 + (int (of_char c) - 48)"
  by (simp add: digits_value_def takeWhile_append2 takeWhile_eq_all_conv [THEN iffD2])

lemma digits_value_show_nat: "digits_value (show_nat n) = int n"
proof (induction n rule: show_nat.induct)
  case (1 n)
  show ?case
  proof (cases "n < 10")
    case True
    then show ?thesis
      by (subst show_nat.simps) (simp add: digits_value_def digit_char_value)
  next
    case False
    have "int (n div 10) * 10 + int (n mod 10) = int n" by presburger
    with False 1 show ?thesis
      by (subst show_nat.simps) (simp add: digits_value_append show_nat_digits digit_char_value)
  qed
qed

lemma atoi_show_nat: "n < 2 ^ 31 \<Longrightarrow> atoi (show_nat n) = int n"
proof -
  assume n: "n < 2 ^ 31"
  obtain c cs where s: "show_nat n = c # cs" by (cases "show_nat n") auto
  have c: "is_digit c" using show_nat_digits [of n] s by simp
  then have "\<not> is_space c" "c \<noteq> CHR ''-''" "c \<noteq> CHR ''+''"
    by (auto simp: is_digit_def is_space_def)
  then have "strtol10 (show_nat n) = max (- (2 ^ 63)) (min (2 ^ 63 - 1) (digits_value (show_nat n)))"
    by (simp add: strtol10_def s)
  also have "\<dots> = int n" using n by (simp add: digits_value_show_nat)
  finally show ?thesis using n by (simp add: atoi_def)
qed

section \<open>Properties\<close>

text \<open>A network URL as it is written: \<open>scheme://[user@]host[:port]path\<close>.\<close>

definition render_url :: "string \<Rightarrow> string option \<Rightarrow> string \<Rightarrow> nat option \<Rightarrow> string \<Rightarrow> string" where
  "render_url scheme user host port path =
     scheme @ ''://'' @ (case user of Some v \<Rightarrow> v @ ''@'' | None \<Rightarrow> []) @ host @
     (case port of Some p \<Rightarrow> '':'' @ show_nat p | None \<Rightarrow> []) @ path"

definition scheme_ok :: "string \<Rightarrow> bool" where
  "scheme_ok scheme \<longleftrightarrow> scheme \<noteq> [] \<and> hd scheme \<notin> {CHR ''/'', CHR ''.''} \<and>
     CHR '':'' \<notin> set scheme \<and> scheme \<noteq> ''file''"

definition host_ok :: "string \<Rightarrow> bool" where
  "host_ok host \<longleftrightarrow> host \<noteq> [] \<and> hd host \<noteq> CHR ''['' \<and> set host \<inter> set ''/@:'' = {}"

definition path_part_ok :: "string \<Rightarrow> bool" where
  "path_part_ok path \<longleftrightarrow> path = [] \<or> hd path = CHR ''/''"

lemma starts_with_file:
  "CHR '':'' \<notin> set scheme \<Longrightarrow> starts_with ''file://'' (scheme @ ''://'' @ r) \<longleftrightarrow> scheme = ''file''"
  by (auto simp: starts_with_iff append_eq_append_conv2 append_eq_Cons_conv Cons_eq_append_conv)

lemma strip_userinfo_Some:
  assumes "set v \<inter> set ''/@'' = {}"
  shows "strip_userinfo (v @ CHR ''@'' # r) = r"
proof -
  have "length v < sl" if "str_find CHR ''/'' (v @ CHR ''@'' # r) = Some sl" for sl
  proof -
    from that have "(v @ CHR ''@'' # r) ! sl = CHR ''/''" by (simp add: str_find_Some)
    moreover have "(v @ CHR ''@'' # r) ! i \<noteq> CHR ''/''" if "i < length v" for i
    proof -
      have "v ! i \<in> set v" using that by (rule nth_mem)
      moreover have "CHR ''/'' \<notin> set v" using assms by simp
      ultimately have "v ! i \<noteq> CHR ''/''" by metis
      with that show ?thesis by (simp add: nth_append)
    qed
    moreover have "(v @ CHR ''@'' # r) ! length v \<noteq> CHR ''/''" by simp
    ultimately show ?thesis by (metis nat_neq_iff)
  qed
  then show ?thesis using assms by (auto simp: strip_userinfo_def split: option.split)
qed

lemma strip_userinfo_None:
  assumes "set hp \<inter> set ''/@'' = {}" and "path_part_ok path"
  shows "strip_userinfo (hp @ path) = hp @ path"
proof (cases path)
  case Nil
  then show ?thesis using assms by (simp add: strip_userinfo_def)
next
  case (Cons c cs)
  with assms have p: "path = CHR ''/'' # cs" by (simp add: path_part_ok_def)
  have "\<not> at < length hp" if "str_find CHR ''@'' (hp @ path) = Some at" for at
  proof
    assume "at < length hp"
    then have "(hp @ path) ! at = hp ! at" "hp ! at \<in> set hp" by (simp_all add: nth_append)
    with that assms(1) show False by (auto simp: str_find_Some)
  qed
  then show ?thesis
    using assms(1) p by (auto simp: strip_userinfo_def split: option.split)
qed

lemma hostport_part_append:
  "CHR ''/'' \<notin> set hp \<Longrightarrow> path_part_ok path \<Longrightarrow> hostport_part (hp @ path) = hp"
  by (cases path) (auto simp: path_part_ok_def hostport_part_def)

lemma digits_no_sep: "set (show_nat p) \<inter> set ''/@:'' = {}"
  using show_nat_digits [of p] by (auto simp: is_digit_def)

lemma split_hostport_port:
  assumes "host_ok host" and "0 < p" and "p < 2 ^ 31"
  shows "split_hostport (host @ CHR '':'' # show_nat p) d = Some (host, int p)"
  using assms digits_no_sep [of p] atoi_show_nat [of p]
  by (cases host) (auto simp: split_hostport_def host_ok_def Let_def)

lemma split_hostport_plain: "host_ok host \<Longrightarrow> split_hostport host d = Some (host, d)"
  by (cases host) (auto simp: split_hostport_def host_ok_def)

text \<open>A URL with a scheme: user information and path are cut off before host and port are split.\<close>

lemma parse_url:
  assumes scheme: "scheme_ok scheme" and hp: "set hp \<inter> set ''/@'' = {}" and path: "path_part_ok path"
    and user: "case user of None \<Rightarrow> True | Some v \<Rightarrow> set v \<inter> set ''/@'' = {}"
  shows "parseRemoteHostPort (scheme @ ''://'' @ (case user of Some v \<Rightarrow> v @ ''@'' | None \<Rightarrow> []) @ hp @ path) =
    split_hostport hp (default_port_of scheme)"
proof -
  define rest where "rest = (case user of Some v \<Rightarrow> v @ ''@'' | None \<Rightarrow> []) @ hp @ path"
  have "scheme \<noteq> []" "scheme ! 0 \<noteq> CHR ''/''" "scheme ! 0 \<noteq> CHR ''.''" "scheme \<noteq> ''file''" "CHR '':'' \<notin> set scheme"
    using scheme by (cases scheme; simp add: scheme_ok_def)+
  moreover from this have "str_find_sub ''://'' (scheme @ ''://'' @ rest) = Some (length scheme)"
    by (intro str_find_sub_append) auto
  ultimately have "parseRemoteHostPort (scheme @ ''://'' @ rest) =
      split_hostport (hostport_part (strip_userinfo rest)) (default_port_of scheme)"
    using starts_with_file [of scheme rest] by (simp add: parseRemoteHostPort_def nth_append)
  also have "strip_userinfo rest = hp @ path"
    using hp path user by (cases user) (simp_all add: rest_def strip_userinfo_Some strip_userinfo_None)
  also have "hostport_part (hp @ path) = hp"
    using hp path by (intro hostport_part_append) auto
  finally show ?thesis by (simp add: rest_def)
qed

text \<open>C40: the parser reads back every standard network URL. For a URL
  \<open>scheme://[user@]host[:port]path\<close> with a scheme other than file, a host name without separators,
  user information without a slash or at sign, a port between 1 and the largest int, and a path
  that is empty or begins with a slash (and may itself contain colons and at signs),
  \<open>parseRemoteHostPort\<close> returns the host and the port, the scheme's default when none is given.\<close>

theorem parseRemoteHostPort_render:
  assumes scheme: "scheme_ok scheme" and host: "host_ok host" and path: "path_part_ok path"
    and user: "\<forall>v. user = Some v \<longrightarrow> set v \<inter> set ''/@'' = {}"
    and port: "\<forall>p. port = Some p \<longrightarrow> 0 < p \<and> p < 2 ^ 31"
  shows "parseRemoteHostPort (render_url scheme user host port path) =
    Some (host, case port of Some p \<Rightarrow> int p | None \<Rightarrow> default_port_of scheme)"
proof -
  define hp where "hp = host @ (case port of Some p \<Rightarrow> CHR '':'' # show_nat p | None \<Rightarrow> [])"
  have u: "render_url scheme user host port path =
      scheme @ ''://'' @ (case user of Some v \<Rightarrow> v @ ''@'' | None \<Rightarrow> []) @ hp @ path"
    by (cases port) (simp_all add: render_url_def hp_def)
  have hp: "set hp \<inter> set ''/@'' = {}"
    using host digits_no_sep by (fastforce simp: host_ok_def hp_def split: option.split)
  have "parseRemoteHostPort (render_url scheme user host port path) = split_hostport hp (default_port_of scheme)"
    unfolding u by (rule parse_url [OF scheme hp path]) (use user in \<open>simp split: option.split\<close>)
  also have "\<dots> = Some (host, case port of Some p \<Rightarrow> int p | None \<Rightarrow> default_port_of scheme)"
    using host port
    by (cases port) (simp_all add: hp_def split_hostport_plain split_hostport_port)
  finally show ?thesis .
qed

theorem parseRemoteHostPort_render_witness:
  "parseRemoteHostPort ''https://bob:pw@git.example.com:8443/a:b@c.git'' = Some (''git.example.com'', 8443)"
proof -
  have "render_url ''https'' (Some ''bob:pw'') ''git.example.com'' (Some 8443) ''/a:b@c.git'' =
      ''https://bob:pw@git.example.com:8443/a:b@c.git''"
    by (simp add: render_url_def show_nat.simps digit_char_def, code_simp)
  then show ?thesis
    using parseRemoteHostPort_render [of "''https''" "''git.example.com''" "''/a:b@c.git''" "Some ''bob:pw''" "Some 8443"]
    by (simp add: scheme_ok_def host_ok_def path_part_ok_def)
qed

text \<open>The scp-like form \<open>[user@]host:path\<close> (no URL scheme). With user information the host is the
  text between the first at sign and the next colon, on port 22, whatever the path contains.
  Without it, an at sign inside the path is taken for the separator: for \<open>host:path@decoy\<close> the
  parser returns the text after the at sign and not the host that the transport connects to.\<close>

lemma parseRemoteHostPort_scp:
  assumes "CHR ''@'' \<notin> set a" and "set host \<inter> set ''/@:'' = {}" and "host \<noteq> []"
    and "a \<noteq> []" and "hd a \<notin> {CHR ''/'', CHR ''.''}"
    and "str_find_sub ''://'' (a @ ''@'' @ host @ '':'' @ path) = None"
  shows "parseRemoteHostPort (a @ ''@'' @ host @ '':'' @ path) = Some (host, 22)"
proof -
  let ?u = "a @ ''@'' @ host @ '':'' @ path"
  have sub: "str_find_sub ''://'' (x @ y) = None \<Longrightarrow> \<not> starts_with ''file://'' (x @ y)" for x y :: string
    by (auto simp: starts_with_iff)
  have "?u ! 0 \<noteq> CHR ''/''" "?u ! 0 \<noteq> CHR ''.''" "?u \<noteq> []"
    using assms(4,5) by (cases a; simp)+
  moreover have "str_find CHR ''@'' ?u = Some (length a)" using assms(1) by simp
  moreover have "str_find CHR '':'' (host @ '':'' @ path) = Some (length host)" using assms(2) by simp
  ultimately show ?thesis
    using assms(3,6) sub [OF assms(6)] by (simp add: parseRemoteHostPort_def Let_def)
qed

lemma run_net_loop:
  "\<exists>xs. run_state (for_from (\<lambda>i ai. do {
       deny \<leftarrow> query (\<lambda>w. net_check_connect G w ai);
       ok \<leftarrow> check_passes deny;
       ret (if ok then None else Some False) }) i res) s =
     (if \<forall>ai \<in> set res. net_check_connect G (world s) ai = None then None else Some False,
      s\<lparr>xsink := xsink s @ xs\<rparr>) \<and>
     (xs = [] \<longleftrightarrow> (\<forall>ai \<in> set res. net_check_connect G (world s) ai = None))"
proof (induction res arbitrary: i)
  case Nil
  then show ?case by (auto intro: exI [of _ "[]"])
next
  case (Cons a res)
  show ?case
  proof (cases "net_check_connect G (world s) a")
    case None
    then show ?thesis using Cons.IH [of "Suc i"] by (auto simp: check_passes_def)
  next
    case (Some e)
    then show ?thesis by (auto simp: check_passes_def)
  qed
qed

lemma run_checkNetAccess:
  "\<exists>xs. run_state (checkNetAccess G url) s =
     (if sandbox_active G (world s) then
        (case parseRemoteHostPort url of
           None \<Rightarrow> True
         | Some (host, port) \<Rightarrow>
             (case os_getaddrinfo G (world s) host (show_int (if port > 0 then port else 443)) of
                (gai, res) \<Rightarrow> gai = 0 \<and> res \<noteq> [] \<and>
                  list_all (\<lambda>ai. net_check_connect G (world s) ai = None) res))
      else True,
      s\<lparr>xsink := xsink s @ xs\<rparr>) \<and>
     (xs = [] \<longleftrightarrow> fst (run_state (checkNetAccess G url) s))"
proof (cases "sandbox_active G (world s)")
  case False
  then show ?thesis by (auto simp: checkNetAccess_def intro: exI [of _ "[]"])
next
  case active: True
  show ?thesis
  proof (cases "parseRemoteHostPort url")
    case None
    with active show ?thesis by (auto simp: checkNetAccess_def intro: exI [of _ "[]"])
  next
    case (Some hp)
    obtain host port where hp: "hp = (host, port)" by (cases hp)
    obtain gai res where g: "os_getaddrinfo G (world s) host (show_int (if port > 0 then port else 443)) = (gai, res)"
      by (metis surj_pair)
    show ?thesis
    proof (cases "gai \<noteq> 0 \<or> res = []")
      case True
      with active Some hp g show ?thesis by (auto simp: checkNetAccess_def)
    next
      case False
      obtain xs where "run_state (for_from (\<lambda>i ai. do {
           deny \<leftarrow> query (\<lambda>w. net_check_connect G w ai);
           ok \<leftarrow> check_passes deny;
           ret (if ok then None else Some False) }) 0 res) s =
         (if \<forall>ai \<in> set res. net_check_connect G (world s) ai = None then None else Some False,
          s\<lparr>xsink := xsink s @ xs\<rparr>)"
        "xs = [] \<longleftrightarrow> (\<forall>ai \<in> set res. net_check_connect G (world s) ai = None)"
        using run_net_loop [of G 0 res s] by blast
      with active Some hp g False show ?thesis
        by (cases "\<forall>ai \<in> set res. net_check_connect G (world s) ai = None")
          (auto simp: checkNetAccess_def list_all_iff intro: exI [of _ xs])
    qed
  qed
qed

text \<open>C24: the network check fails closed. It lets a URL through exactly when no sandbox manager is
  active, or the URL has no network host, or the host resolves to a non-empty list of addresses of
  which the sandbox policy denies none; a refusal raises an exception, a permission raises none, and
  nothing else of the state changes.\<close>

theorem checkNetAccess_fails_closed:
  "\<exists>xs. run_state (checkNetAccess G url) s =
     (if sandbox_active G (world s) then
        (case parseRemoteHostPort url of
           None \<Rightarrow> True
         | Some (host, port) \<Rightarrow>
             (case os_getaddrinfo G (world s) host (show_int (if port > 0 then port else 443)) of
                (gai, res) \<Rightarrow> gai = 0 \<and> res \<noteq> [] \<and>
                  list_all (\<lambda>ai. net_check_connect G (world s) ai = None) res))
      else True,
      s\<lparr>xsink := xsink s @ xs\<rparr>) \<and>
     (xs = [] \<longleftrightarrow> fst (run_state (checkNetAccess G url) s))"
  by (rule run_checkNetAccess)

end
