(* ===== verification/Repo_Path.thy ===== *)
theory Repo_Path
  imports Session
begin

text \<open>
  \<open>validateRepoPath\<close> of \<open>src/QoreGitRepository.cpp\<close>: the check that every operation with a file
  path makes first. The scan over the C string is \<open>dotdot_scan\<close>; the specification is in terms of
  the components between slashes, and the safety theorem says that an accepted path, appended
  to a working directory and resolved component by component, does not leave that directory.
  A path is never null here: every caller passes \<open>c_str()\<close> of a Qore string.
\<close>

text \<open>The loop \<open>while (*p)\<close>: true when it meets a component that is exactly two dots.\<close>

function dotdot_scan :: "string \<Rightarrow> bool" where
  "dotdot_scan p =
     (if p = [] then False
      else
        let slash = str_find CHR ''/'' p;
            len = (case slash of Some i \<Rightarrow> i | None \<Rightarrow> length p)
        in if len = 2 \<and> p ! 0 = CHR ''.'' \<and> p ! 1 = CHR ''.'' then True
           else (case slash of None \<Rightarrow> False | Some i \<Rightarrow> dotdot_scan (drop (Suc i) p)))"
  by pat_completeness auto
termination
  by (relation "measure length") auto

declare dotdot_scan.simps [simp del]

definition validateRepoPath :: "string \<Rightarrow> (('w, 'z) session_scheme, bool) state" where
  "validateRepoPath path =
     (if path = [] then do {
        raiseException ''GIT-PATH-ERROR'' ''an empty file path is not allowed'';
        ret False
      } else if path ! 0 = CHR ''/'' then do {
        raiseException ''GIT-PATH-ERROR'' (''absolute path '' @ [CHR 0x27] @ path @ [CHR 0x27] @
          '' is not allowed; repository paths must be relative to the working tree'');
        ret False
      } else if dotdot_scan path then do {
        raiseException ''GIT-PATH-ERROR'' (''path traversal ('' @ [CHR 0x22] @ ''..'' @ [CHR 0x22] @
          '') is not allowed in path '' @ [CHR 0x27] @ path @ [CHR 0x27]);
        ret False
      } else ret True)"

section \<open>Specification\<close>

text \<open>The components of a path: the parts between slashes.\<close>

fun path_components :: "string \<Rightarrow> string list" where
  "path_components [] = [[]]"
| "path_components (c # cs) =
     (if c = CHR ''/'' then [] # path_components cs
      else (case path_components cs of d # ds \<Rightarrow> (c # d) # ds | [] \<Rightarrow> [[c]]))"

definition path_ok :: "string \<Rightarrow> bool" where
  "path_ok p \<longleftrightarrow> p \<noteq> [] \<and> hd p \<noteq> CHR ''/'' \<and> ''..'' \<notin> set (path_components p)"

text \<open>
  Lexical resolution of a path: empty and \<open>.\<close> components are skipped and \<open>..\<close> goes up one level
  (not above the root); the result is the list of directories from the root.
\<close>

definition resolve_step :: "string list \<Rightarrow> string \<Rightarrow> string list" where
  "resolve_step stack c =
     (if c = [] \<or> c = ''.'' then stack else if c = ''..'' then butlast stack else stack @ [c])"

definition resolve :: "string list \<Rightarrow> string list \<Rightarrow> string list" where
  "resolve stack cs = foldl resolve_step stack cs"

lemma path_components_nonempty [simp]: "path_components p \<noteq> []"
  by (cases p) (auto split: list.splits)

lemma path_components_no_slash: "CHR ''/'' \<notin> set p \<Longrightarrow> path_components p = [p]"
  by (induction p) auto

lemma path_components_append:
  "CHR ''/'' \<notin> set a \<Longrightarrow> path_components (a @ CHR ''/'' # b) = a # path_components b"
  by (induction a) auto

lemma path_components_append_gen:
  "path_components (a @ CHR ''/'' # b) = path_components a @ path_components b"
proof (induction a)
  case Nil
  then show ?case by simp
next
  case (Cons c a)
  then show ?case by (cases "path_components a") auto
qed

lemma component_no_slash: "d \<in> set (path_components p) \<Longrightarrow> CHR ''/'' \<notin> set d"
  by (induction p arbitrary: d) (auto split: if_splits list.splits)

lemma two_dots: "length p = 2 \<and> p ! 0 = a \<and> p ! 1 = b \<longleftrightarrow> p = [a, b]"
  by (auto simp: numeral_2_eq_2 length_Suc_conv)

lemma dotdot_scan_components: "dotdot_scan p \<longleftrightarrow> ''..'' \<in> set (path_components p)"
proof (induction p rule: dotdot_scan.induct)
  case (1 p)
  show ?case
  proof (cases "str_find CHR ''/'' p")
    case None
    then have "path_components p = [p]" by (simp add: str_find_None path_components_no_slash)
    then show ?thesis
      using None two_dots [of p "CHR ''.''" "CHR ''.''"]
      by (subst dotdot_scan.simps) (auto simp: Let_def)
  next
    case (Some i)
    let ?a = "take i p" and ?b = "drop (Suc i) p"
    from Some have split: "p = ?a @ CHR ''/'' # ?b" and ns: "CHR ''/'' \<notin> set ?a"
      by (rule str_find_split)+
    have len: "length ?a = i" using str_find_less [OF Some] by simp
    have "i = 2 \<Longrightarrow> p ! 0 = ?a ! 0 \<and> p ! 1 = ?a ! 1" by simp
    then have nth: "i = 2 \<and> p ! 0 = CHR ''.'' \<and> p ! 1 = CHR ''.'' \<longleftrightarrow> ?a = ''..''"
      using two_dots [of ?a "CHR ''.''" "CHR ''.''"] len by metis
    have "p \<noteq> []" using split by auto
    then have unfold: "dotdot_scan p \<longleftrightarrow> ?a = ''..'' \<or> dotdot_scan ?b"
      using Some nth by (subst dotdot_scan.simps) (simp add: Let_def)
    have comps: "path_components p = ?a # path_components ?b"
      using path_components_append [OF ns, of ?b] split by metis
    show ?thesis
    proof (cases "?a = ''..''")
      case True
      then show ?thesis using unfold comps by simp
    next
      case False
      then have "dotdot_scan ?b \<longleftrightarrow> ''..'' \<in> set (path_components ?b)"
        using "1.IH" [OF \<open>p \<noteq> []\<close> refl refl _ Some] nth Some by simp
      then show ?thesis using False unfold comps by auto
    qed
  qed
qed

lemma run_validateRepoPath_ok:
  "path_ok path \<Longrightarrow> run_state (validateRepoPath path) s = (True, s)"
  by (cases path) (auto simp: validateRepoPath_def path_ok_def dotdot_scan_components)

lemma run_validateRepoPath_bad:
  assumes "\<not> path_ok path"
  obtains d where "run_state (validateRepoPath path) s = (False, s\<lparr>xsink := xsink s @ [Exn ''GIT-PATH-ERROR'' d]\<rparr>)"
  using assms that
  by (cases path) (auto simp: validateRepoPath_def path_ok_def dotdot_scan_components split: if_splits)

context session_frame
begin

lemma keeps_validateRepoPath: "keeps P (validateRepoPath path)"
  unfolding validateRepoPath_def by (intro keeps_rules keeps_session)

end

lemma resolve_append: "resolve st (xs @ ys) = resolve (resolve st xs) ys"
  by (simp add: resolve_def)

lemma resolve_no_dotdot:
  "''..'' \<notin> set cs \<Longrightarrow> resolve st cs = st @ filter (\<lambda>c. c \<noteq> [] \<and> c \<noteq> ''.'') cs"
  by (induction cs arbitrary: st) (auto simp: resolve_def resolve_step_def)

section \<open>Properties\<close>

text \<open>\<open>validateRepoPath\<close> accepts a path exactly when it is not empty, does not begin with a slash and
  has no component equal to two dots; an accepted path leaves the state as it was, a rejected one
  raises exactly one GIT-PATH-ERROR and changes nothing else.\<close>

lemma validateRepoPath_accepts:
  "if path \<noteq> [] \<and> hd path \<noteq> CHR ''/'' \<and> ''..'' \<notin> set (path_components path)
   then run_state (validateRepoPath path) s = (True, s)
   else \<exists>d. run_state (validateRepoPath path) s =
     (False, s\<lparr>xsink := xsink s @ [Exn ''GIT-PATH-ERROR'' d]\<rparr>)"
  using run_validateRepoPath_ok [of path s] run_validateRepoPath_bad [of path s]
  by (metis path_ok_def)

text \<open>C22: path confinement. When \<open>validateRepoPath\<close> accepts a path, the file name that is formed by
  appending it to a working directory (which ends with a slash) resolves lexically to the resolved
  working directory followed by the components of the path that are not empty or a single dot; and
  so does every initial part of it. No step leaves the working directory (the path \<open>.\<close> names the
  directory itself). Symbolic links on the disk are not looked at; neither does the code.\<close>

theorem validateRepoPath_confines:
  assumes "fst (run_state (validateRepoPath path) s)"
  shows "resolve [] (path_components (dir @ ''/'' @ path)) =
      resolve [] (path_components (dir @ ''/'')) @ filter (\<lambda>c. c \<noteq> [] \<and> c \<noteq> ''.'') (path_components path) \<and>
    (\<forall>n. resolve (resolve [] (path_components (dir @ ''/''))) (take n (path_components path)) =
      resolve [] (path_components (dir @ ''/'')) @ filter (\<lambda>c. c \<noteq> [] \<and> c \<noteq> ''.'') (take n (path_components path)))"
proof -
  have "path_ok path"
    using assms run_validateRepoPath_bad [of path s] by (metis fst_conv)
  then have no: "''..'' \<notin> set (path_components path)"
    by (simp add: path_ok_def)
  then have part: "''..'' \<notin> set (take n (path_components path))" for n
    using set_take_subset by fastforce
  have "resolve [] (path_components (dir @ ''/'' @ path)) =
      resolve (resolve [] (path_components dir)) (path_components path)"
    by (simp add: path_components_append_gen resolve_append)
  moreover have "resolve [] (path_components (dir @ ''/'')) = resolve [] (path_components dir)"
    using path_components_append_gen [of dir "[]"] by (simp add: resolve_append) (simp add: resolve_def resolve_step_def)
  ultimately show ?thesis
    by (simp add: resolve_no_dotdot [OF no] resolve_no_dotdot [OF part])
qed

theorem validateRepoPath_confines_witness:
  "resolve [] (path_components (''/srv/repo/'' @ ''conf/./..x/a'')) = [''srv'', ''repo'', ''conf'', ''..x'', ''a'']"
proof -
  have "fst (run_state (validateRepoPath ''conf/./..x/a'') \<lparr>world = (), xsink = [], git_tempdirs = []\<rparr>)"
    by (subst run_validateRepoPath_ok) (simp_all add: path_ok_def)
  from validateRepoPath_confines [OF this, of "''/srv/repo''"] show ?thesis
    by (simp add: resolve_def resolve_step_def)
qed

end
