(* ===== verification/Repository.thy ===== *)
theory Repository
  imports Remote_URL Repo_Path
begin

text \<open>
  The class \<open>QoreGitRepository\<close> of \<open>src/QoreGitRepository.h\<close>: its members, the lock, the
  constructors and the destructor, the methods that only inspect the object, and the configuration.

  \<open>qgit\<close> extends \<open>session\<close> with the members of the object. Two further flags record outcomes that
  the C++ cannot report: \<open>deadlocked\<close>, set when a method asks for the lock that the object already
  holds (\<open>QoreThreadLock\<close> is not recursive, so the thread would wait for itself), and
  \<open>stack_overflow\<close>, set when a recursion over trees goes deeper than the stack allows. After
  either flag is set the values of the model have no counterpart in the program.
\<close>

record 'w qgit = "'w session" +
  m_repo :: "git_repository option"
  m_index :: "git_index option"
  m_path :: string
  m_virtual :: bool
  m_in_memory :: bool
  m_tempdir_created :: bool
  m_virtual_tree :: "git_oid strmap"
  m_mem_config :: "string strmap"
  m_lock :: bool
  deadlocked :: bool
  stack_overflow :: bool

type_synonym ('w, 'a) qmethod = "('w qgit, 'a) state"

definition git_reference_target :: "git_reference \<Rightarrow> git_oid option" where
  "git_reference_target r = (case reference_target r of Direct oid \<Rightarrow> Some oid | Symbolic _ \<Rightarrow> None)"

section \<open>Lock and open check\<close>

definition checkRepo :: "('w, git_repository option) qmethod" where
  "checkRepo = do {
     r \<leftarrow> gets m_repo;
     (case r of
        None \<Rightarrow> do { raiseException ''GIT-REPOSITORY-ERROR'' ''repository has been closed''; ret None }
      | Some h \<Rightarrow> ret (Some h))
   }"

text \<open>\<open>AutoLocker al(m_lock)\<close> around a body; the lock is released on every return.\<close>

definition auto_lock :: "'r \<Rightarrow> ('w, 'r) qmethod \<Rightarrow> ('w, 'r) qmethod" where
  "auto_lock r body = do {
     held \<leftarrow> gets m_lock;
     if held then do { modify (\<lambda>s. s\<lparr>deadlocked := True\<rparr>); ret r }
     else do {
       modify (\<lambda>s. s\<lparr>m_lock := True\<rparr>);
       v \<leftarrow> body;
       modify (\<lambda>s. s\<lparr>m_lock := False\<rparr>);
       ret v
     }
   }"

text \<open>The first lines of almost every method: lock, and return \<open>r\<close> when the repository is closed.\<close>

definition guarded :: "'r \<Rightarrow> (git_repository \<Rightarrow> ('w, 'r) qmethod) \<Rightarrow> ('w, 'r) qmethod" where
  "guarded r body = auto_lock r (do {
     h \<leftarrow> checkRepo;
     (case h of None \<Rightarrow> ret r | Some repo \<Rightarrow> body repo)
   })"

section \<open>Constructors and destructor\<close>

definition init_members :: "string \<Rightarrow> bool \<Rightarrow> bool \<Rightarrow> ('w, unit) qmethod" where
  "init_members path virt in_memory = modify (\<lambda>s. s\<lparr>m_repo := None, m_index := None, m_path := path,
     m_virtual := virt, m_in_memory := in_memory, m_tempdir_created := False, m_virtual_tree := [],
     m_mem_config := [], m_lock := False\<rparr>)"

definition set_repo :: "git_repository \<Rightarrow> ('w, unit) qmethod" where
  "set_repo h = modify (\<lambda>s. s\<lparr>m_repo := Some h\<rparr>)"

definition QoreGitRepository_open :: "('w, 'y) repo_api_scheme \<Rightarrow> string \<Rightarrow> ('w, unit) qmethod" where
  "QoreGitRepository_open G path = do {
     init_members path False False;
     ok \<leftarrow> checkFsAccess G path [QSEC_READ];
     if \<not> ok then ret () else do {
       rc \<leftarrow> effect (\<lambda>w. git_repository_open G w path);
       on_ok ''GIT-REPOSITORY-OPEN-ERROR'' ''failed to open git repository'' () rc set_repo
     }
   }"

definition QoreGitRepository_init :: "('w, 'y) repo_api_scheme \<Rightarrow> string \<Rightarrow> bool \<Rightarrow> ('w, unit) qmethod" where
  "QoreGitRepository_init G path bare = do {
     init_members path False False;
     ok \<leftarrow> checkFsAccess G path [QSEC_CREATE, QSEC_WRITE];
     if \<not> ok then ret () else do {
       rc \<leftarrow> effect (\<lambda>w. git_repository_init G w path bare);
       on_ok ''GIT-REPOSITORY-INIT-ERROR'' ''failed to initialize git repository'' () rc set_repo
     }
   }"

text \<open>Everything after the handle is there: object database, references, configuration and index.\<close>

definition attach_backends :: "('w, 'y) repo_api_scheme \<Rightarrow> git_repository \<Rightarrow> ('w, unit) qmethod" where
  "attach_backends G repo = do {
     rc \<leftarrow> effect (\<lambda>w. git_odb_new G w);
     on_ok ''GIT-VIRTUAL-ERROR'' ''failed to create in-memory ODB'' () rc (\<lambda>odb. do {
     rc \<leftarrow> effect (\<lambda>w. git_odb_add_backend G w odb qore_git_memory_odb_new 1);
     (case rc of
        Inl e \<Rightarrow> raiseException ''GIT-VIRTUAL-ERROR'' ''failed to attach in-memory ODB backend''
      | Inr _ \<Rightarrow> do {
     effect_unit (\<lambda>w. git_repository_set_odb G w repo odb);
     rc \<leftarrow> effect (\<lambda>w. git_refdb_new G w repo);
     on_ok ''GIT-VIRTUAL-ERROR'' ''failed to create in-memory refdb'' () rc (\<lambda>refdb. do {
     rc \<leftarrow> effect (\<lambda>w. git_refdb_set_backend G w refdb qore_git_memory_refdb_new);
     (case rc of
        Inl e \<Rightarrow> raiseException ''GIT-VIRTUAL-ERROR'' ''failed to attach in-memory refdb backend''
      | Inr _ \<Rightarrow> do {
     effect_unit (\<lambda>w. git_repository_set_refdb G w repo refdb);
     rc \<leftarrow> effect (\<lambda>w. git_config_new G w);
     on_ok ''GIT-VIRTUAL-ERROR'' ''failed to create in-memory config'' () rc (\<lambda>cfg. do {
     effect_unit (\<lambda>w. git_repository_set_config G w repo cfg);
     rc \<leftarrow> effect (\<lambda>w. git_index_new G w);
     on_ok ''GIT-VIRTUAL-ERROR'' ''failed to create in-memory index'' () rc (\<lambda>index. do {
     modify (\<lambda>s. s\<lparr>m_index := Some index\<rparr>);
     effect_unit (\<lambda>w. git_repository_set_index G w repo (Some index))
     }) }) }) }) }) })
   }"

definition QoreGitRepository_virtual :: "('w, 'y) repo_api_scheme \<Rightarrow> ('w, unit) qmethod" where
  "QoreGitRepository_virtual G = do {
     init_members [] True True;
     rc \<leftarrow> effect (\<lambda>w. git_repository_new G w);
     on_ok ''GIT-VIRTUAL-ERROR'' ''failed to create virtual repository'' () rc (\<lambda>repo. do {
     set_repo repo;
     attach_backends G repo })
   }"

definition QoreGitRepository_destroy :: "('w, 'y) repo_api_scheme \<Rightarrow> ('w, unit) qmethod" where
  "QoreGitRepository_destroy G = do {
     modify (\<lambda>s. s\<lparr>m_index := None\<rparr>);
     r \<leftarrow> gets m_repo;
     (case r of
        None \<Rightarrow> ret ()
      | Some h \<Rightarrow> do { effect_unit (\<lambda>w. git_repository_free G w h); modify (\<lambda>s. s\<lparr>m_repo := None\<rparr>) });
     created \<leftarrow> gets m_tempdir_created;
     path \<leftarrow> gets m_path;
     if created \<and> path \<noteq> [] then do {
       effect_unit (\<lambda>w. os_nftw_remove G w path);
       qore_git_unregister_tempdir path
     } else ret ()
   }"

section \<open>Information\<close>

definition getPath :: "('w, 'y) repo_api_scheme \<Rightarrow> ('w, string option) qmethod" where
  "getPath G = guarded None (\<lambda>repo. do {
     virt \<leftarrow> gets m_virtual;
     if virt then ret (Some ''<virtual>'')
     else do { path \<leftarrow> query (\<lambda>w. git_repository_path G w repo); ret (Some path) }
   })"

definition getWorkdir :: "('w, 'y) repo_api_scheme \<Rightarrow> ('w, string option) qmethod" where
  "getWorkdir G = guarded None (\<lambda>repo. do {
     virt \<leftarrow> gets m_virtual;
     if virt then ret None else query (\<lambda>w. git_repository_workdir G w repo)
   })"

definition isBare :: "('w, 'y) repo_api_scheme \<Rightarrow> ('w, bool) qmethod" where
  "isBare G = guarded False (\<lambda>repo. do {
     virt \<leftarrow> gets m_virtual;
     if virt then ret True else query (\<lambda>w. git_repository_is_bare G w repo)
   })"

definition isEmpty :: "('w, 'y) repo_api_scheme \<Rightarrow> ('w, bool) qmethod" where
  "isEmpty G = guarded False (\<lambda>repo. do {
     rc \<leftarrow> query (\<lambda>w. git_repository_head G w repo);
     ret (case rc of
            Inl e \<Rightarrow> err_rc e = GIT_EUNBORNBRANCH \<or> err_rc e = GIT_ENOTFOUND
          | Inr _ \<Rightarrow> False)
   })"

definition isVirtual :: "('w, bool) qmethod" where
  "isVirtual = gets m_virtual"

section \<open>Configuration\<close>

definition configSet :: "('w, 'y) repo_api_scheme \<Rightarrow> string \<Rightarrow> string \<Rightarrow> ('w, int) qmethod" where
  "configSet G key val = guarded (- 1) (\<lambda>repo. do {
     mem \<leftarrow> gets m_in_memory;
     if mem then do {
       modify (\<lambda>s. s\<lparr>m_mem_config := omap_put key val (m_mem_config s)\<rparr>);
       ret 0
     } else do {
       rc \<leftarrow> query (\<lambda>w. git_repository_config G w repo);
       on_ok ''GIT-CONFIG-ERROR'' ''failed to get repository config'' (- 1) rc (\<lambda>config. do {
         rc \<leftarrow> effect (\<lambda>w. git_config_set_string G w config key val);
         on_ok ''GIT-CONFIG-ERROR'' ''failed to set config value'' (- 1) rc (\<lambda>_. ret 0)
       })
     }
   })"

definition configGet :: "('w, 'y) repo_api_scheme \<Rightarrow> string \<Rightarrow> ('w, string option) qmethod" where
  "configGet G key = guarded None (\<lambda>repo. do {
     mem \<leftarrow> gets m_in_memory;
     if mem then gets (\<lambda>s. map_of (m_mem_config s) key)
     else do {
       rc \<leftarrow> query (\<lambda>w. git_repository_config G w repo);
       on_ok ''GIT-CONFIG-ERROR'' ''failed to get repository config'' None rc (\<lambda>config. do {
         rc \<leftarrow> query (\<lambda>w. git_config_get_entry G w config key);
         (case rc of
            Inl e \<Rightarrow>
              if err_rc e = GIT_ENOTFOUND then ret None
              else on_ok ''GIT-CONFIG-ERROR'' ''failed to get config entry'' None rc (\<lambda>v. ret (Some v))
          | Inr v \<Rightarrow> ret (Some v))
       })
     }
   })"

section \<open>The index of a disk repository\<close>

definition addToIndex :: "('w, 'y) repo_api_scheme \<Rightarrow> string \<Rightarrow> ('w, int) qmethod" where
  "addToIndex G path = guarded (- 1) (\<lambda>repo. do {
     virt \<leftarrow> gets m_virtual;
     if virt then do {
       raiseException ''GIT-MODE-ERROR'' ''add() requires a disk-backed repository; use writeFile() for virtual repos'';
       ret (- 1)
     } else do {
       ok \<leftarrow> validateRepoPath path;
       if \<not> ok then ret (- 1) else do {
         rc \<leftarrow> query (\<lambda>w. git_repository_index G w repo);
         on_ok ''GIT-INDEX-ERROR'' ''failed to get repository index'' (- 1) rc (\<lambda>index. do {
         rc \<leftarrow> effect (\<lambda>w. git_index_add_bypath G w index path);
         on_ok ''GIT-INDEX-ERROR'' ''failed to add file to index'' (- 1) rc (\<lambda>_. do {
         rc \<leftarrow> effect (\<lambda>w. git_index_write G w index);
         on_ok ''GIT-INDEX-ERROR'' ''failed to write index'' (- 1) rc (\<lambda>_. ret 0) }) })
       }
     }
   })"

definition removeFromIndex :: "('w, 'y) repo_api_scheme \<Rightarrow> string \<Rightarrow> ('w, int) qmethod" where
  "removeFromIndex G path = guarded (- 1) (\<lambda>repo. do {
     virt \<leftarrow> gets m_virtual;
     if virt then do {
       raiseException ''GIT-MODE-ERROR'' ''remove() requires a disk-backed repository; use deleteFile() for virtual repos'';
       ret (- 1)
     } else do {
       ok \<leftarrow> validateRepoPath path;
       if \<not> ok then ret (- 1) else do {
         rc \<leftarrow> query (\<lambda>w. git_repository_index G w repo);
         on_ok ''GIT-INDEX-ERROR'' ''failed to get repository index'' (- 1) rc (\<lambda>index. do {
         rc \<leftarrow> effect (\<lambda>w. git_index_remove_bypath G w index path);
         on_ok ''GIT-INDEX-ERROR'' ''failed to remove file from index'' (- 1) rc (\<lambda>_. do {
         rc \<leftarrow> effect (\<lambda>w. git_index_write G w index);
         on_ok ''GIT-INDEX-ERROR'' ''failed to write index'' (- 1) rc (\<lambda>_. ret 0) }) })
       }
     }
   })"

section \<open>Frames\<close>

text \<open>
  What a method body may do to the object, as closure conditions on a predicate \<open>L\<close> that holds while
  the lock is held. A predicate with these closure conditions is kept by every body of the
  development.
\<close>

locale qgit_frame = session_frame P
  for P :: "'w qgit \<Rightarrow> bool"

locale body_frame = qgit_frame L
  for L :: "'w qgit \<Rightarrow> bool" +
  assumes tree_put: "L s \<Longrightarrow> L (s\<lparr>m_virtual_tree := omap_put k v (m_virtual_tree s)\<rparr>)"
    and tree_erase: "L s \<Longrightarrow> L (s\<lparr>m_virtual_tree := omap_erase k (m_virtual_tree s)\<rparr>)"
    and tree_clear: "L s \<Longrightarrow> L (s\<lparr>m_virtual_tree := []\<rparr>)"
    and config_put: "L s \<Longrightarrow> L (s\<lparr>m_mem_config := omap_put key val (m_mem_config s)\<rparr>)"
    and overflow: "L s \<Longrightarrow> L (s\<lparr>stack_overflow := True\<rparr>)"
    and migrated: "L s \<Longrightarrow> m_in_memory s \<Longrightarrow> L (s\<lparr>m_repo := Some h, m_path := path, m_in_memory := False,
      m_tempdir_created := True, git_tempdirs := omap_put path () (git_tempdirs s)\<rparr>)"
begin

lemma keeps_tree_put: "keeps L (modify (\<lambda>s. s\<lparr>m_virtual_tree := omap_put k v (m_virtual_tree s)\<rparr>))"
  by (rule keeps_modify) (rule tree_put)

lemma keeps_tree_erase: "keeps L (modify (\<lambda>s. s\<lparr>m_virtual_tree := omap_erase k (m_virtual_tree s)\<rparr>))"
  by (rule keeps_modify) (rule tree_erase)

lemma keeps_tree_clear: "keeps L (modify (\<lambda>s. s\<lparr>m_virtual_tree := []\<rparr>))"
  by (rule keeps_modify) (rule tree_clear)

lemma keeps_config_put: "keeps L (modify (\<lambda>s. s\<lparr>m_mem_config := omap_put key val (m_mem_config s)\<rparr>))"
  by (rule keeps_modify) (rule config_put)

lemma keeps_overflow: "keeps L (modify (\<lambda>s. s\<lparr>stack_overflow := True\<rparr>))"
  by (rule keeps_modify) (rule overflow)

lemma keeps_checkRepo: "keeps L checkRepo"
  unfolding checkRepo_def by (intro keeps_rules keeps_session)

lemmas keeps_body = keeps_session keeps_tree_put keeps_tree_erase keeps_tree_clear keeps_config_put
  keeps_overflow keeps_validateRepoPath keeps_validateRemoteUrl keeps_checkNetAccess

end

text \<open>
  \<open>P\<close> holds between the method calls and \<open>L\<close> while one holds the lock. The two instances are an
  invariant of the members (\<open>P = L\<close>) and the lock discipline.
\<close>

locale repo_frame = body_frame L
  for L :: "'w qgit \<Rightarrow> bool" +
  fixes P :: "'w qgit \<Rightarrow> bool"
  assumes outer_world: "P s \<Longrightarrow> P (s\<lparr>world := w\<rparr>)"
    and outer_sink: "P s \<Longrightarrow> P (s\<lparr>xsink := x\<rparr>)"
    and acquire: "P s \<Longrightarrow> \<not> m_lock s \<Longrightarrow> L (s\<lparr>m_lock := True\<rparr>)"
    and release: "L s \<Longrightarrow> P (s\<lparr>m_lock := False\<rparr>)"
    and self_wait: "P s \<Longrightarrow> m_lock s \<Longrightarrow> P (s\<lparr>deadlocked := True\<rparr>)"
begin

lemma keeps_auto_lock: "keeps L body \<Longrightarrow> keeps P (auto_lock r body)"
  by (auto simp: keeps_def auto_lock_def split_beta acquire release self_wait)

lemma keeps_guarded: "(\<And>h. keeps L (body h)) \<Longrightarrow> keeps P (guarded r body)"
  unfolding guarded_def by (intro keeps_auto_lock keeps_rules keeps_checkRepo)

lemma keeps_getPath: "keeps P (getPath G)"
  unfolding getPath_def by (intro keeps_guarded keeps_rules keeps_body)

lemma keeps_getWorkdir: "keeps P (getWorkdir G)"
  unfolding getWorkdir_def by (intro keeps_guarded keeps_rules keeps_body)

lemma keeps_isBare: "keeps P (isBare G)"
  unfolding isBare_def by (intro keeps_guarded keeps_rules keeps_body)

lemma keeps_isEmpty: "keeps P (isEmpty G)"
  unfolding isEmpty_def by (intro keeps_guarded keeps_rules keeps_body)

lemma keeps_isVirtual: "keeps P isVirtual"
  unfolding isVirtual_def by (intro keeps_rules)

lemma keeps_configSet: "keeps P (configSet G key val)"
  unfolding configSet_def by (intro keeps_guarded keeps_rules keeps_body)

lemma keeps_configGet: "keeps P (configGet G key)"
  unfolding configGet_def by (intro keeps_guarded keeps_rules keeps_body)

lemma keeps_addToIndex: "keeps P (addToIndex G path)"
  unfolding addToIndex_def by (intro keeps_guarded keeps_rules keeps_body)

lemma keeps_removeFromIndex: "keeps P (removeFromIndex G path)"
  unfolding removeFromIndex_def by (intro keeps_guarded keeps_rules keeps_body)

lemmas keeps_repository = keeps_getPath keeps_getWorkdir keeps_isBare keeps_isEmpty keeps_isVirtual
  keeps_configSet keeps_configGet keeps_addToIndex keeps_removeFromIndex

end

text \<open>
  The invariant of the members: the two maps are ordered; an object store in memory comes with the
  virtual mode; a temporary directory belongs to a migrated virtual repository, whose path is in
  the module's registry.
\<close>

definition object_ok :: "'w qgit \<Rightarrow> bool" where
  "object_ok s \<longleftrightarrow> omap_ok (git_tempdirs s) \<and> omap_ok (m_virtual_tree s) \<and> omap_ok (m_mem_config s) \<and>
     (m_in_memory s \<longrightarrow> m_virtual s) \<and>
     (m_tempdir_created s \<longrightarrow>
        m_virtual s \<and> \<not> m_in_memory s \<and> map_of (git_tempdirs s) (m_path s) \<noteq> None)"

interpretation members: repo_frame "object_ok :: 'w qgit \<Rightarrow> bool" "object_ok :: 'w qgit \<Rightarrow> bool"
  by unfold_locales (simp_all add: object_ok_def)

text \<open>The lock discipline: no method waits for its own lock, and each one releases it.\<close>

definition lock_free :: "'w qgit \<Rightarrow> bool" where
  "lock_free s \<longleftrightarrow> \<not> m_lock s \<and> \<not> deadlocked s"

definition lock_held :: "'w qgit \<Rightarrow> bool" where
  "lock_held s \<longleftrightarrow> m_lock s \<and> \<not> deadlocked s"

interpretation locking: repo_frame "lock_held :: 'w qgit \<Rightarrow> bool" "lock_free :: 'w qgit \<Rightarrow> bool"
  by unfold_locales (simp_all add: lock_held_def lock_free_def)

section \<open>Running guarded methods\<close>

lemma run_checkRepo_open [simp]: "m_repo s = Some h \<Longrightarrow> run_state checkRepo s = (Some h, s)"
  by (simp add: checkRepo_def)

lemma run_guarded:
  assumes "\<not> m_lock s" and "m_repo s = Some h"
  shows "run_state (guarded r body) s =
    (case run_state (body h) (s\<lparr>m_lock := True\<rparr>) of (v, t) \<Rightarrow> (v, t\<lparr>m_lock := False\<rparr>))"
  using assms by (simp add: guarded_def auto_lock_def split_beta)

lemma run_guarded_closed:
  assumes "\<not> m_lock s" and "m_repo s = None"
  shows "run_state (guarded r body) s =
    (r, s\<lparr>xsink := xsink s @ [Exn ''GIT-REPOSITORY-ERROR'' ''repository has been closed'']\<rparr>)"
  using assms by (simp add: guarded_def auto_lock_def checkRepo_def)

section \<open>Properties\<close>

lemma run_init_members [simp]:
  "run_state (init_members path virt mem) s = ((), s\<lparr>m_repo := None, m_index := None, m_path := path,
     m_virtual := virt, m_in_memory := mem, m_tempdir_created := False, m_virtual_tree := [],
     m_mem_config := [], m_lock := False\<rparr>)"
  by (simp add: init_members_def)

lemma run_set_repo [simp]: "run_state (set_repo h) s = ((), s\<lparr>m_repo := Some h\<rparr>)"
  by (simp add: set_repo_def)

text \<open>The constructors. A virtual repository starts in memory with an empty working tree, empty
  configuration and no temporary directory; when no exception is raised all of libgit2's objects were
  created and attached (the handle and the index are set), and when one is raised the index is
  missing. The two disk constructors start in disk mode with the given path, and the handle is set
  exactly when no exception is raised.\<close>

lemma constructors_establish:
  "(let t = snd (run_state (QoreGitRepository_virtual G) s) in
      m_virtual t \<and> m_in_memory t \<and> \<not> m_tempdir_created t \<and> m_virtual_tree t = [] \<and>
      m_mem_config t = [] \<and> \<not> m_lock t \<and>
      (if xsink t = xsink s then m_repo t \<noteq> None \<and> m_index t \<noteq> None else m_index t = None)) \<and>
   (let t = snd (run_state (QoreGitRepository_open G path) s) in
      \<not> m_virtual t \<and> \<not> m_in_memory t \<and> m_path t = path \<and> m_virtual_tree t = [] \<and> \<not> m_lock t \<and>
      (if xsink t = xsink s then m_repo t \<noteq> None else m_repo t = None)) \<and>
   (let t = snd (run_state (QoreGitRepository_init G path bare) s) in
      \<not> m_virtual t \<and> \<not> m_in_memory t \<and> m_path t = path \<and> m_virtual_tree t = [] \<and> \<not> m_lock t \<and>
      (if xsink t = xsink s then m_repo t \<noteq> None else m_repo t = None))"
proof (intro conjI)
  show "let t = snd (run_state (QoreGitRepository_virtual G) s) in
      m_virtual t \<and> m_in_memory t \<and> \<not> m_tempdir_created t \<and> m_virtual_tree t = [] \<and>
      m_mem_config t = [] \<and> \<not> m_lock t \<and>
      (if xsink t = xsink s then m_repo t \<noteq> None \<and> m_index t \<noteq> None else m_index t = None)"
    by (simp add: QoreGitRepository_virtual_def attach_backends_def Let_def on_ok_def run_git_raise_exception_rc split: sum.split)
next
  show "let t = snd (run_state (QoreGitRepository_open G path) s) in
      \<not> m_virtual t \<and> \<not> m_in_memory t \<and> m_path t = path \<and> m_virtual_tree t = [] \<and> \<not> m_lock t \<and>
      (if xsink t = xsink s then m_repo t \<noteq> None else m_repo t = None)"
    by (simp add: QoreGitRepository_open_def checkFsAccess_def check_passes_def Let_def on_ok_def
        run_git_raise_exception_rc split: sum.split option.split)
next
  show "let t = snd (run_state (QoreGitRepository_init G path bare) s) in
      \<not> m_virtual t \<and> \<not> m_in_memory t \<and> m_path t = path \<and> m_virtual_tree t = [] \<and> \<not> m_lock t \<and>
      (if xsink t = xsink s then m_repo t \<noteq> None else m_repo t = None)"
    by (simp add: QoreGitRepository_init_def checkFsAccess_def check_passes_def Let_def on_ok_def
        run_git_raise_exception_rc split: sum.split option.split)
qed

text \<open>The destructor removes a directory from disk only when the object itself created it by
  migration; the directory is then also taken off the module's registry. A path that the user gave
  to a constructor is never removed.\<close>

lemma destroy_removes_only_own_tempdir:
  "let t = snd (run_state (QoreGitRepository_destroy G) s);
       w = (case m_repo s of None \<Rightarrow> world s | Some h \<Rightarrow> git_repository_free G (world s) h)
   in m_repo t = None \<and> m_index t = None \<and>
      (if m_tempdir_created s \<and> m_path s \<noteq> []
       then world t = os_nftw_remove G w (m_path s) \<and> git_tempdirs t = omap_erase (m_path s) (git_tempdirs s)
       else world t = w \<and> git_tempdirs t = git_tempdirs s)"
  by (cases "m_repo s"; cases "m_tempdir_created s \<and> m_path s \<noteq> []")
    (auto simp: QoreGitRepository_destroy_def qore_git_unregister_tempdir_def Let_def)

text \<open>Configuration of an in-memory repository. After \<open>configSet\<close> of a key, \<open>configGet\<close> returns the
  new value for that key and what it returned before for every other key; neither call touches
  anything outside the object or raises an exception.\<close>

lemma config_set_get:
  assumes "m_in_memory s" and "m_repo s = Some h" and "\<not> m_lock s"
  shows "case run_state (configSet G key val) s of (rc, t) \<Rightarrow>
    rc = 0 \<and> world t = world s \<and> xsink t = xsink s \<and>
    run_state (configGet G k) t = (if k = key then Some val else fst (run_state (configGet G k) s), t)"
proof -
  have "run_state (configSet G key val) s = (0, s\<lparr>m_mem_config := omap_put key val (m_mem_config s), m_lock := False\<rparr>)"
    using assms by (simp add: configSet_def run_guarded)
  moreover have "run_state (configGet G k) u = (map_of (m_mem_config u) k, u)"
    if "m_in_memory u" "m_repo u = Some h" "\<not> m_lock u" for u
    using that by (simp add: configGet_def run_guarded)
  ultimately show ?thesis using assms by simp
qed

definition blank :: "'w \<Rightarrow> 'w qgit" where
  "blank w = \<lparr>world = w, xsink = [], git_tempdirs = [], m_repo = None, m_index = None, m_path = [],
     m_virtual = False, m_in_memory = False, m_tempdir_created = False, m_virtual_tree = [],
     m_mem_config = [], m_lock = False, deadlocked = False, stack_overflow = False\<rparr>"

end
