(* ===== verification/Virtual_FS.thy ===== *)
theory Virtual_FS
  imports Repository
begin

text \<open>
  The file operations of \<open>src/QoreGitRepository.cpp\<close>: \<open>readFile\<close>, \<open>writeFile\<close>, \<open>deleteFile\<close>,
  \<open>fileExists\<close> and \<open>listFiles\<close>. They work on the virtual tree, a map from paths to blob ids that
  shadows the tree of the HEAD commit; in disk mode writing and deleting also go to the working
  directory and the index. The walk of \<open>listFiles\<close> over nested trees carries its depth, bounded by
  \<open>stack_depth\<close>.
\<close>

section \<open>Reading\<close>

definition readFile :: "('w, 'y) repo_api_scheme \<Rightarrow> string \<Rightarrow> ('w, bytes option) qmethod" where
  "readFile G path = guarded None (\<lambda>repo. do {
     ok \<leftarrow> validateRepoPath path;
     if \<not> ok then ret None else do {
     it \<leftarrow> gets (\<lambda>s. map_of (m_virtual_tree s) path);
     (case it of
        Some oid \<Rightarrow> do {
          rc \<leftarrow> query (\<lambda>w. git_blob_lookup G w repo oid);
          on_ok ''GIT-READ-ERROR'' ''failed to read blob'' None rc (\<lambda>content. ret (Some content))
        }
      | None \<Rightarrow> do {
          rc \<leftarrow> query (\<lambda>w. git_repository_head G w repo);
          if (case rc of Inl e \<Rightarrow> err_rc e = GIT_EUNBORNBRANCH \<or> err_rc e = GIT_ENOTFOUND | Inr _ \<Rightarrow> False)
          then ret None
          else on_ok ''GIT-READ-ERROR'' ''failed to get HEAD'' None rc (\<lambda>head_ref. do {
          rc \<leftarrow> query (\<lambda>w. git_commit_lookup G w repo (git_reference_target head_ref));
          on_ok ''GIT-READ-ERROR'' ''failed to lookup HEAD commit'' None rc (\<lambda>commit. do {
          rc \<leftarrow> query (\<lambda>w. git_commit_tree G w repo commit);
          on_ok ''GIT-READ-ERROR'' ''failed to get commit tree'' None rc (\<lambda>tree. do {
          rc \<leftarrow> query (\<lambda>w. git_tree_entry_bypath G w repo tree path);
          if (case rc of Inl e \<Rightarrow> err_rc e = GIT_ENOTFOUND | Inr _ \<Rightarrow> False) then ret None
          else on_ok ''GIT-READ-ERROR'' ''failed to find file in tree'' None rc (\<lambda>entry. do {
          rc \<leftarrow> query (\<lambda>w. git_blob_lookup G w repo (git_tree_entry_id entry));
          on_ok ''GIT-READ-ERROR'' ''failed to read blob'' None rc (\<lambda>content. ret (Some content))
          }) }) }) })
        }) }
   })"

text \<open>
  The string form: the bytes with an encoding, UTF-8 unless the caller names one. It returns null
  also when an exception was pending before the call.
\<close>

definition readFileString ::
  "('w, 'y) repo_api_scheme \<Rightarrow> string \<Rightarrow> string option \<Rightarrow> ('w, (bytes \<times> string) option) qmethod" where
  "readFileString G path encoding = do {
     bin \<leftarrow> readFile G path;
     raised \<leftarrow> exception_raised;
     (case bin of
        None \<Rightarrow> ret None
      | Some b \<Rightarrow>
          if raised then ret None
          else ret (Some (b, case encoding of Some e \<Rightarrow> e | None \<Rightarrow> ''UTF-8'')))
   }"

section \<open>Writing and deleting\<close>

text \<open>The directories that the loop over \<open>dir\<close> creates, shortest first.\<close>

definition mkdir_prefixes :: "string \<Rightarrow> string list" where
  "mkdir_prefixes dir =
     map (\<lambda>i. take (Suc i) dir)
       (filter (\<lambda>i. dir ! i = CHR ''/'' \<or> i = length dir - 1) [0..<length dir])"

definition make_directories :: "('w, 'y) os_api_scheme \<Rightarrow> string \<Rightarrow> ('w, unit) qmethod" where
  "make_directories G dir = do {
     for_from (\<lambda>i accum. do { effect_unit (\<lambda>w. os_mkdir G w accum); ret (None :: unit option) }) 0
       (mkdir_prefixes dir);
     ret ()
   }"

text \<open>Creating the file on disk: the part of \<open>writeFile\<close> from \<open>open\<close> to the size check.\<close>

definition write_to_disk :: "('w, 'y) os_api_scheme \<Rightarrow> string \<Rightarrow> bytes \<Rightarrow> ('w, bool) qmethod" where
  "write_to_disk G full_path data = do {
     fd \<leftarrow> effect (\<lambda>w. os_open G w full_path);
     (case fd of
        Inl errno \<Rightarrow> do {
          raiseException ''GIT-WRITE-ERROR''
            (''failed to open file '' @ [CHR 0x27] @ full_path @ [CHR 0x27] @ '' for writing: '' @ errno);
          ret False
        }
      | Inr fd \<Rightarrow> do {
          f \<leftarrow> effect (\<lambda>w. os_fdopen G w fd);
          (case f of
             Inl errno \<Rightarrow> do {
               effect_unit (\<lambda>w. os_close G w fd);
               raiseException ''GIT-WRITE-ERROR''
                 (''failed to open file '' @ [CHR 0x27] @ full_path @ [CHR 0x27] @ '' for writing: '' @ errno);
               ret False
             }
           | Inr f \<Rightarrow> do {
               written \<leftarrow> effect (\<lambda>w. os_fwrite G w f data);
               effect_unit (\<lambda>w. os_fclose G w f);
               if written \<noteq> length data then do {
                 raiseException ''GIT-WRITE-ERROR''
                   (''failed to write '' @ show_nat (length data) @ '' bytes to '' @ [CHR 0x27] @ full_path @
                    [CHR 0x27] @ '': only '' @ show_nat written @ '' written'');
                 ret False
               } else ret True
             })
        })
   }"

definition writeFile :: "('w, 'y) repo_api_scheme \<Rightarrow> string \<Rightarrow> bytes \<Rightarrow> ('w, int) qmethod" where
  "writeFile G path data = guarded (- 1) (\<lambda>repo. do {
     ok \<leftarrow> validateRepoPath path;
     if \<not> ok then ret (- 1) else do {
     rc \<leftarrow> effect (\<lambda>w. git_blob_create_from_buffer G w repo data);
     on_ok ''GIT-WRITE-ERROR'' ''failed to create blob from buffer'' (- 1) rc (\<lambda>blob_oid. do {
     modify (\<lambda>s. s\<lparr>m_virtual_tree := omap_put path blob_oid (m_virtual_tree s)\<rparr>);
     virt \<leftarrow> gets m_virtual;
     if virt then ret 0 else do {
     workdir \<leftarrow> query (\<lambda>w. git_repository_workdir G w repo);
     (case workdir of
        None \<Rightarrow> ret 0
      | Some workdir \<Rightarrow> do {
          let full_path = workdir @ path;
          ok \<leftarrow> checkFsAccess G full_path [QSEC_WRITE, QSEC_CREATE];
          if \<not> ok then ret (- 1) else do {
          let dir = (case str_rfind CHR ''/'' full_path of Some i \<Rightarrow> take i full_path | None \<Rightarrow> full_path);
          make_directories G dir;
          ok \<leftarrow> write_to_disk G full_path data;
          if \<not> ok then ret (- 1) else do {
          rc \<leftarrow> query (\<lambda>w. git_repository_index G w repo);
          (case rc of
             Inl _ \<Rightarrow> ret 0
           | Inr index \<Rightarrow> do {
               effect (\<lambda>w. git_index_add_bypath G w index path);
               effect (\<lambda>w. git_index_write G w index);
               ret 0
             }) } }
        }) } }) }
   })"

definition writeFileString :: "('w, 'y) repo_api_scheme \<Rightarrow> string \<Rightarrow> bytes \<Rightarrow> ('w, int) qmethod" where
  "writeFileString G path content = writeFile G path content"

definition deleteFile :: "('w, 'y) repo_api_scheme \<Rightarrow> string \<Rightarrow> ('w, int) qmethod" where
  "deleteFile G path = guarded (- 1) (\<lambda>repo. do {
     ok \<leftarrow> validateRepoPath path;
     if \<not> ok then ret (- 1) else do {
     modify (\<lambda>s. s\<lparr>m_virtual_tree := omap_erase path (m_virtual_tree s)\<rparr>);
     virt \<leftarrow> gets m_virtual;
     if virt then ret 0 else do {
     workdir \<leftarrow> query (\<lambda>w. git_repository_workdir G w repo);
     denied \<leftarrow> (case workdir of
        None \<Rightarrow> ret False
      | Some workdir \<Rightarrow> do {
          let full_path = workdir @ path;
          ok \<leftarrow> checkFsAccess G full_path [QSEC_DELETE];
          if \<not> ok then ret True else do {
            effect_unit (\<lambda>w. os_remove G w full_path);
            ret False
          }
        });
     if denied then ret (- 1) else do {
     rc \<leftarrow> query (\<lambda>w. git_repository_index G w repo);
     (case rc of
        Inl _ \<Rightarrow> ret 0
      | Inr index \<Rightarrow> do {
          effect (\<lambda>w. git_index_remove_bypath G w index path);
          effect (\<lambda>w. git_index_write G w index);
          ret 0
        }) } } }
   })"

section \<open>Queries\<close>

text \<open>The tree of the HEAD commit, when every step of the way to it succeeds.\<close>

definition head_tree :: "('w, 'y) repo_api_scheme \<Rightarrow> 'w \<Rightarrow> git_repository \<Rightarrow> git_tree option" where
  "head_tree G w repo =
     (case git_repository_head G w repo of
        Inl _ \<Rightarrow> None
      | Inr head_ref \<Rightarrow>
          (case git_commit_lookup G w repo (git_reference_target head_ref) of
             Inl _ \<Rightarrow> None
           | Inr commit \<Rightarrow>
               (case git_commit_tree G w repo commit of Inl _ \<Rightarrow> None | Inr tree \<Rightarrow> Some tree)))"

definition fileExists :: "('w, 'y) repo_api_scheme \<Rightarrow> string \<Rightarrow> ('w, bool) qmethod" where
  "fileExists G path = guarded False (\<lambda>repo. do {
     ok \<leftarrow> validateRepoPath path;
     if \<not> ok then ret False else do {
     it \<leftarrow> gets (\<lambda>s. map_of (m_virtual_tree s) path);
     if it \<noteq> None then ret True else do {
     tree \<leftarrow> query (\<lambda>w. head_tree G w repo);
     (case tree of
        None \<Rightarrow> ret False
      | Some tree \<Rightarrow> do {
          rc \<leftarrow> query (\<lambda>w. git_tree_entry_bypath G w repo tree path);
          ret (case rc of Inl _ \<Rightarrow> False | Inr _ \<Rightarrow> True)
        }) } }
   })"

definition entry_path :: "string \<Rightarrow> string \<Rightarrow> string" where
  "entry_path prefix name = (if prefix = [] then name else prefix @ ''/'' @ name)"

text \<open>
  \<open>walkTree\<close>, the local function of \<open>listFiles\<close>: \<open>n\<close> more nested calls fit on the stack, \<open>walk_count\<close>
  counts the entries visited and \<open>result\<close> is the list being built. The first component of the
  result is what the function returns.
\<close>

function walk_tree ::
  "('w, 'y) repo_api_scheme \<Rightarrow> git_repository \<Rightarrow> nat \<Rightarrow> git_tree_entry list \<Rightarrow> string \<Rightarrow> nat \<Rightarrow>
   string list \<Rightarrow> ('w, int \<times> nat \<times> string list) qmethod" where
  "walk_tree G repo n [] prefix walk_count result = ret (0, walk_count, result)"
| "walk_tree G repo n (entry # es) prefix walk_count result = do {
     cancel \<leftarrow> cancelled_when (Suc walk_count mod 100 = 0) G ''git list files'';
     if cancel then ret (- 1, Suc walk_count, result) else
     let full_path = entry_path prefix (git_tree_entry_name entry) in
     if git_tree_entry_type entry = GIT_OBJECT_TREE then do {
       rc \<leftarrow> query (\<lambda>w. git_tree_lookup G w repo (git_tree_entry_id entry));
       (case rc of
          Inl _ \<Rightarrow> walk_tree G repo n es prefix (Suc walk_count) result
        | Inr subtree \<Rightarrow>
            if n = 0 then do {
              modify (\<lambda>s. s\<lparr>stack_overflow := True\<rparr>);
              ret (- 1, Suc walk_count, result)
            } else do {
              (rv, walk_count', result') \<leftarrow>
                walk_tree G repo (n - 1) (tree_entries subtree) full_path (Suc walk_count) result;
              if rv < 0 then ret (- 1, walk_count', result')
              else walk_tree G repo n es prefix walk_count' result'
            })
     } else if git_tree_entry_type entry = GIT_OBJECT_BLOB then do {
       it \<leftarrow> gets (\<lambda>s. map_of (m_virtual_tree s) full_path);
       walk_tree G repo n es prefix (Suc walk_count) (if it = None then result @ [full_path] else result)
     } else walk_tree G repo n es prefix (Suc walk_count) result
   }"
  by pat_completeness auto
termination
  by (relation "measures [\<lambda>(G, repo, n, es, _). n, \<lambda>(G, repo, n, es, _). length es]") auto

declare walk_tree.simps [simp del]

text \<open>The arguments \<open>glob\<close> (here \<open>pattern\<close>) and \<open>recursive\<close> are not used by the code.\<close>

definition listFiles ::
  "('w, 'y) repo_api_scheme \<Rightarrow> string option \<Rightarrow> bool \<Rightarrow> ('w, string list option) qmethod" where
  "listFiles G pattern recursive = guarded None (\<lambda>repo. do {
     staged \<leftarrow> gets (\<lambda>s. map fst (m_virtual_tree s));
     r \<leftarrow> for_from (\<lambda>i kv. do {
       cancel \<leftarrow> check_cancel G ''git list files'';
       ret (if cancel then Some () else None)
     }) 0 staged;
     if r \<noteq> None then ret None else do {
     tree \<leftarrow> query (\<lambda>w. head_tree G w repo);
     (case tree of
        None \<Rightarrow> ret (Some staged)
      | Some tree \<Rightarrow> do {
          (rv, walk_count, result) \<leftarrow> walk_tree G repo (stack_depth G) (tree_entries tree) [] 0 staged;
          ret (Some result)
        }) }
   })"

context body_frame
begin

lemma keeps_walk_tree: "keeps L (walk_tree G repo n es prefix walk_count result)"
proof (induction n arbitrary: es prefix walk_count result)
  case 0
  show ?case
  proof (induction es arbitrary: prefix walk_count result)
    case (Cons e es)
    then show ?case
      unfolding walk_tree.simps Let_def by (intro keeps_rules keeps_body) simp_all
  qed (simp add: walk_tree.simps keeps_return)
next
  case (Suc n)
  note deeper = Suc
  show ?case
  proof (induction es arbitrary: prefix walk_count result)
    case (Cons e es)
    then show ?case
      unfolding walk_tree.simps Let_def by (intro keeps_rules keeps_body) (simp_all add: deeper)
  qed (simp add: walk_tree.simps keeps_return)
qed

end

context repo_frame
begin

lemma keeps_readFile: "keeps P (readFile G path)"
  unfolding readFile_def by (intro keeps_guarded keeps_rules keeps_body)

lemma keeps_outer_raised: "keeps P exception_raised"
  by (simp add: keeps_def)

lemma keeps_readFileString: "keeps P (readFileString G path encoding)"
  unfolding readFileString_def by (intro keeps_rules keeps_readFile keeps_outer_raised)

lemma keeps_writeFile: "keeps P (writeFile G path data)"
  unfolding writeFile_def make_directories_def write_to_disk_def Let_def
  by (intro keeps_guarded keeps_rules keeps_body)

lemma keeps_deleteFile: "keeps P (deleteFile G path)"
  unfolding deleteFile_def Let_def by (intro keeps_guarded keeps_rules keeps_body)

lemma keeps_fileExists: "keeps P (fileExists G path)"
  unfolding fileExists_def by (intro keeps_guarded keeps_rules keeps_body)

lemma keeps_listFiles: "keeps P (listFiles G g r)"
  unfolding listFiles_def by (intro keeps_guarded keeps_rules keeps_body keeps_walk_tree)

lemmas keeps_files = keeps_readFile keeps_readFileString keeps_writeFile keeps_deleteFile
  keeps_fileExists keeps_listFiles

end

end
