(* ===== verification/Tree_Build.thy ===== *)
theory Tree_Build
  imports Virtual_FS
begin

text \<open>
  The two conversions between the virtual tree and libgit2's tree objects:
  \<open>buildTreeFromVirtualTree\<close>, which groups the paths by directory (\<open>dir_insert\<close>, the body of its
  loop) and writes one tree object per directory bottom-up (\<open>buildTree\<close>), and
  \<open>populateVirtualTreeFromGitTree\<close>, which walks a tree object and its subtrees. Both recursions are
  bounded by \<open>stack_depth\<close>.
\<close>

datatype dir_entry = DirEntry (blobs: "git_oid strmap") (subdirs: "(string \<times> dir_entry) list")

section \<open>Grouping paths by directory\<close>

function dir_insert :: "string \<Rightarrow> git_oid \<Rightarrow> dir_entry \<Rightarrow> dir_entry" where
  "dir_insert path oid current =
     (case str_find CHR ''/'' path of
        None \<Rightarrow> DirEntry (omap_put path oid (blobs current)) (subdirs current)
      | Some slash \<Rightarrow>
          let dir = take slash path;
              next = (case map_of (subdirs current) dir of Some e \<Rightarrow> e | None \<Rightarrow> DirEntry [] [])
          in DirEntry (blobs current)
               (omap_put dir (dir_insert (drop (Suc slash) path) oid next) (subdirs current)))"
  by pat_completeness auto
termination
  by (relation "measure (\<lambda>(path, _). length path)") (auto dest: str_find_less)

declare dir_insert.simps [simp del]

primrec group_paths ::
  "('w, 'y) os_api_scheme \<Rightarrow> nat \<Rightarrow> (string \<times> git_oid) list \<Rightarrow> dir_entry \<Rightarrow> ('w, dir_entry option) qmethod" where
  "group_paths G build_count [] root = ret (Some root)"
| "group_paths G build_count (kv # kvs) root = do {
     cancel \<leftarrow> cancelled_when (Suc build_count mod 100 = 0) G ''git commit'';
     if cancel then ret None
     else group_paths G (Suc build_count) kvs (dir_insert (fst kv) (snd kv) root)
   }"

section \<open>Writing the tree objects\<close>

primrec insert_blobs ::
  "('w, 'y) repo_api_scheme \<Rightarrow> git_repository \<Rightarrow> (string \<times> git_oid) list \<Rightarrow> git_treebuilder \<Rightarrow>
   ('w, git_treebuilder option) qmethod" where
  "insert_blobs G repo [] builder = ret (Some builder)"
| "insert_blobs G repo (blob # bs) builder = do {
     rc \<leftarrow> query (\<lambda>w. git_treebuilder_insert G w repo builder (fst blob) (snd blob) GIT_FILEMODE_BLOB);
     on_ok ''GIT-COMMIT-ERROR'' ''failed to insert blob into tree'' None rc (insert_blobs G repo bs)
   }"

text \<open>
  \<open>buildTree\<close> and the loop over the subdirectories inside it. The result is the id of the tree
  written, \<open>None\<close> for the return value \<open>-1\<close>.
\<close>

function (sequential) buildTree ::
    "('w, 'y) repo_api_scheme \<Rightarrow> git_repository \<Rightarrow> nat \<Rightarrow> dir_entry \<Rightarrow> ('w, git_oid option) qmethod"
  and build_subdirs ::
    "('w, 'y) repo_api_scheme \<Rightarrow> git_repository \<Rightarrow> nat \<Rightarrow> (string \<times> dir_entry) list \<Rightarrow> git_treebuilder \<Rightarrow>
     ('w, git_treebuilder option) qmethod" where
  "buildTree G repo n (DirEntry bs ds) = do {
     rc \<leftarrow> query (\<lambda>w. git_treebuilder_new G w repo);
     on_ok ''GIT-COMMIT-ERROR'' ''failed to create tree builder'' None rc (\<lambda>builder. do {
     b \<leftarrow> insert_blobs G repo bs builder;
     (case b of
        None \<Rightarrow> ret None
      | Some builder \<Rightarrow> do {
     b \<leftarrow> build_subdirs G repo n ds builder;
     (case b of
        None \<Rightarrow> ret None
      | Some builder \<Rightarrow> do {
     rc \<leftarrow> effect (\<lambda>w. git_treebuilder_write G w repo builder);
     on_ok ''GIT-COMMIT-ERROR'' ''failed to write tree'' None rc (\<lambda>oid. ret (Some oid)) }) }) })
   }"
| "build_subdirs G repo n [] builder = ret (Some builder)"
| "build_subdirs G repo n ((name, dir) # ds) builder =
     (if n = 0 then do {
        modify (\<lambda>s. s\<lparr>stack_overflow := True\<rparr>);
        ret None
      } else do {
        subtree_oid \<leftarrow> buildTree G repo (n - 1) dir;
        (case subtree_oid of
           None \<Rightarrow> ret None
         | Some subtree_oid \<Rightarrow> do {
             rc \<leftarrow> query (\<lambda>w. git_treebuilder_insert G w repo builder name subtree_oid GIT_FILEMODE_TREE);
             on_ok ''GIT-COMMIT-ERROR'' ''failed to insert subtree'' None rc (build_subdirs G repo n ds)
           })
      })"
  by pat_completeness auto
termination
  by (relation "measures
      [\<lambda>x. case x of Inl (G, repo, n, d) \<Rightarrow> n | Inr (G, repo, n, ds, b) \<Rightarrow> n,
       \<lambda>x. case x of Inl (G, repo, n, d) \<Rightarrow> 1 + length (subdirs d) | Inr (G, repo, n, ds, b) \<Rightarrow> length ds]")
    auto

declare buildTree.simps [simp del] build_subdirs.simps [simp del]

definition buildTreeFromVirtualTree ::
  "('w, 'y) repo_api_scheme \<Rightarrow> git_repository \<Rightarrow> ('w, git_oid option) qmethod" where
  "buildTreeFromVirtualTree G repo = do {
     kvs \<leftarrow> gets m_virtual_tree;
     root \<leftarrow> group_paths G 0 kvs (DirEntry [] []);
     (case root of
        None \<Rightarrow> ret None
      | Some root \<Rightarrow> buildTree G repo (stack_depth G) root)
   }"

section \<open>Reading a tree object\<close>

text \<open>\<open>i\<close> is the index of the first remaining entry. The result is the return value, 0 or \<open>-1\<close>.\<close>

function populateVirtualTreeFromGitTree ::
  "('w, 'y) repo_api_scheme \<Rightarrow> git_repository \<Rightarrow> nat \<Rightarrow> nat \<Rightarrow> git_tree_entry list \<Rightarrow> string \<Rightarrow>
   ('w, int) qmethod" where
  "populateVirtualTreeFromGitTree G repo n i [] prefix = ret 0"
| "populateVirtualTreeFromGitTree G repo n i (entry # es) prefix = do {
     cancel \<leftarrow> cancelled_when (i mod 100 = 0) G ''git checkout'';
     if cancel then ret (- 1) else
     let full_path = entry_path prefix (git_tree_entry_name entry) in
     if git_tree_entry_type entry = GIT_OBJECT_TREE then do {
       rc \<leftarrow> query (\<lambda>w. git_tree_lookup G w repo (git_tree_entry_id entry));
       on_ok ''GIT-CHECKOUT-ERROR'' ''failed to look up subtree'' (- 1) rc (\<lambda>subtree.
         if n = 0 then do {
           modify (\<lambda>s. s\<lparr>stack_overflow := True\<rparr>);
           ret (- 1)
         } else do {
           rc \<leftarrow> populateVirtualTreeFromGitTree G repo (n - 1) 0 (tree_entries subtree) full_path;
           if rc < 0 then ret (- 1)
           else populateVirtualTreeFromGitTree G repo n (Suc i) es prefix
         })
     } else if git_tree_entry_type entry = GIT_OBJECT_BLOB then do {
       modify (\<lambda>s. s\<lparr>m_virtual_tree := omap_put full_path (git_tree_entry_id entry) (m_virtual_tree s)\<rparr>);
       populateVirtualTreeFromGitTree G repo n (Suc i) es prefix
     } else populateVirtualTreeFromGitTree G repo n (Suc i) es prefix
   }"
  by pat_completeness auto
termination
  by (relation "measures [\<lambda>(G, repo, n, i, es, _). n, \<lambda>(G, repo, n, i, es, _). length es]") auto

declare populateVirtualTreeFromGitTree.simps [simp del]

section \<open>Frames\<close>

context body_frame
begin

lemma keeps_group_paths: "keeps L (group_paths G c kvs root)"
  by (induction kvs arbitrary: c root) (auto intro!: keeps_rules keeps_body)

lemma keeps_insert_blobs: "keeps L (insert_blobs G repo bs builder)"
  by (induction bs arbitrary: builder) (auto intro!: keeps_rules keeps_body)

lemma keeps_build_subdirs_step:
  assumes "\<And>d. n \<noteq> 0 \<Longrightarrow> keeps L (buildTree G repo (n - 1) d)"
  shows "keeps L (build_subdirs G repo n ds builder)"
proof (induction ds arbitrary: builder)
  case Nil
  then show ?case by (simp add: build_subdirs.simps keeps_return)
next
  case (Cons d ds)
  obtain name dir where d: "d = (name, dir)" by (cases d)
  show ?case
    unfolding d build_subdirs.simps by (intro keeps_rules keeps_body assms Cons)
qed

lemma keeps_buildTree_step:
  assumes "\<And>ds builder. keeps L (build_subdirs G repo n ds builder)"
  shows "keeps L (buildTree G repo n d)"
proof (cases d)
  case (DirEntry bs ds)
  show ?thesis
    unfolding DirEntry buildTree.simps by (intro keeps_rules keeps_body keeps_insert_blobs assms)
qed

lemma keeps_buildTree: "keeps L (buildTree G repo n d)"
proof (induction n arbitrary: d)
  case 0
  show ?case by (rule keeps_buildTree_step, rule keeps_build_subdirs_step) simp
next
  case (Suc n)
  show ?case by (rule keeps_buildTree_step, rule keeps_build_subdirs_step) (simp add: Suc)
qed

lemma keeps_buildTreeFromVirtualTree: "keeps L (buildTreeFromVirtualTree G repo)"
  unfolding buildTreeFromVirtualTree_def
  by (intro keeps_rules keeps_body keeps_group_paths keeps_buildTree)

lemma keeps_populate: "keeps L (populateVirtualTreeFromGitTree G repo n i es prefix)"
proof (induction n arbitrary: i es prefix)
  case 0
  show ?case
  proof (induction es arbitrary: i prefix)
    case (Cons e es)
    then show ?case
      unfolding populateVirtualTreeFromGitTree.simps Let_def by (intro keeps_rules keeps_body) simp_all
  qed (simp add: populateVirtualTreeFromGitTree.simps keeps_return)
next
  case (Suc n)
  note deeper = Suc
  show ?case
  proof (induction es arbitrary: i prefix)
    case (Cons e es)
    then show ?case
      unfolding populateVirtualTreeFromGitTree.simps Let_def
      by (intro keeps_rules keeps_body) (simp_all add: deeper)
  qed (simp add: populateVirtualTreeFromGitTree.simps keeps_return)
qed

end

end
