(* ===== verification/Commit.thy ===== *)
theory Commit
  imports Tree_Build
begin

text \<open>
  Commits and status of \<open>src/QoreGitRepository.cpp\<close>: \<open>overrideSignatureFromConfig\<close>, the two
  branches of \<open>commit\<close>, \<open>headCommitId\<close> and \<open>getStatus\<close>.
\<close>

definition GIT_STATUS_INDEX_NEW :: int where
  "GIT_STATUS_INDEX_NEW = 1"

section \<open>Signatures\<close>

definition overrideSignatureFromConfig ::
  "('w, 'y) repo_api_scheme \<Rightarrow> git_repository \<Rightarrow> git_signature \<Rightarrow> ('w, git_signature) qmethod" where
  "overrideSignatureFromConfig G repo sig = do {
     mem \<leftarrow> gets m_in_memory;
     name_email \<leftarrow> (if mem then do {
         n \<leftarrow> gets (\<lambda>s. map_of (m_mem_config s) ''user.name'');
         e \<leftarrow> gets (\<lambda>s. map_of (m_mem_config s) ''user.email'');
         ret (case (n, e) of (Some name, Some email) \<Rightarrow> Some (name, email) | _ \<Rightarrow> None)
       } else do {
         rc \<leftarrow> query (\<lambda>w. git_repository_config G w repo);
         (case rc of
            Inl _ \<Rightarrow> ret None
          | Inr config \<Rightarrow> do {
              n \<leftarrow> query (\<lambda>w. git_config_get_entry G w config ''user.name'');
              e \<leftarrow> query (\<lambda>w. git_config_get_entry G w config ''user.email'');
              ret (case (n, e) of
                     (Inr name, Inr email) \<Rightarrow> if name = [] \<or> email = [] then None else Some (name, email)
                   | _ \<Rightarrow> None)
            })
       });
     (case name_email of
        None \<Rightarrow> ret sig
      | Some (name, email) \<Rightarrow> do {
          rc \<leftarrow> query (\<lambda>w. git_signature_now G w name email);
          ret (case rc of Inr new_sig \<Rightarrow> new_sig | Inl _ \<Rightarrow> sig)
        })
   }"

section \<open>Commit\<close>

text \<open>The commit that HEAD points to, \<open>None\<close> when there is none: the parent of the next commit.\<close>

definition find_parent :: "('w, 'y) repo_api_scheme \<Rightarrow> 'w \<Rightarrow> git_repository \<Rightarrow> git_commit option" where
  "find_parent G w repo =
     (case git_repository_head G w repo of
        Inl _ \<Rightarrow> None
      | Inr head_ref \<Rightarrow>
          (case git_reference_target head_ref of
             None \<Rightarrow> None
           | Some head_oid \<Rightarrow>
               (case git_commit_lookup G w repo (Some head_oid) of Inl _ \<Rightarrow> None | Inr parent \<Rightarrow> Some parent)))"

text \<open>The reference that a commit in virtual mode updates.\<close>

definition ref_to_update :: "('w, 'y) repo_api_scheme \<Rightarrow> 'w \<Rightarrow> git_repository \<Rightarrow> bool \<Rightarrow> string" where
  "ref_to_update G w repo has_parent =
     (if has_parent then
        (case git_reference_lookup G w repo ''HEAD'' of
           Inr head_test \<Rightarrow>
             (case reference_target head_test of Symbolic t \<Rightarrow> t | Direct _ \<Rightarrow> ''HEAD'')
         | Inl _ \<Rightarrow> ''HEAD'')
      else ''refs/heads/main'')"

definition commit_virtual ::
  "('w, 'y) repo_api_scheme \<Rightarrow> git_repository \<Rightarrow> string \<Rightarrow> ('w, string option) qmethod" where
  "commit_virtual G repo message = do {
     vt \<leftarrow> gets m_virtual_tree;
     if vt = [] then do {
       raiseException ''GIT-COMMIT-ERROR'' ''no files staged for commit'';
       ret None
     } else do {
     tree_oid \<leftarrow> buildTreeFromVirtualTree G repo;
     (case tree_oid of
        None \<Rightarrow> ret None
      | Some tree_oid \<Rightarrow> do {
     rc \<leftarrow> query (\<lambda>w. git_tree_lookup G w repo tree_oid);
     on_ok ''GIT-COMMIT-ERROR'' ''failed to look up tree'' None rc (\<lambda>tree. do {
     rc \<leftarrow> query (\<lambda>w. git_signature_now G w ''Virtual User'' ''virtual@example.com'');
     on_ok ''GIT-COMMIT-ERROR'' ''failed to create signature'' None rc (\<lambda>sig. do {
     sig \<leftarrow> overrideSignatureFromConfig G repo sig;
     parent \<leftarrow> query (\<lambda>w. find_parent G w repo);
     let has_parent = (parent \<noteq> None);
     update_ref \<leftarrow> query (\<lambda>w. ref_to_update G w repo has_parent);
     rc \<leftarrow> effect (\<lambda>w. git_commit_create G w repo update_ref sig sig message tree
             (case parent of Some p \<Rightarrow> [p] | None \<Rightarrow> []));
     on_ok ''GIT-COMMIT-ERROR'' ''failed to create commit'' None rc (\<lambda>commit_oid. do {
     (if has_parent then ret ()
      else do {
        effect (\<lambda>w. git_reference_symbolic_create G w repo ''HEAD'' ''refs/heads/main'' True
          (Some ''initial commit''));
        ret ()
      });
     ret (Some (git_oid_tostr G commit_oid)) }) }) }) }) }
   }"

definition commit_disk ::
  "('w, 'y) repo_api_scheme \<Rightarrow> git_repository \<Rightarrow> string \<Rightarrow> ('w, string option) qmethod" where
  "commit_disk G repo message = do {
     rc \<leftarrow> query (\<lambda>w. git_repository_index G w repo);
     on_ok ''GIT-COMMIT-ERROR'' ''failed to get repository index'' None rc (\<lambda>index. do {
     rc \<leftarrow> effect (\<lambda>w. git_index_write_tree G w index);
     on_ok ''GIT-COMMIT-ERROR'' ''failed to write tree from index'' None rc (\<lambda>tree_oid. do {
     rc \<leftarrow> query (\<lambda>w. git_tree_lookup G w repo tree_oid);
     on_ok ''GIT-COMMIT-ERROR'' ''failed to look up tree'' None rc (\<lambda>tree. do {
     rc \<leftarrow> query (\<lambda>w. git_signature_default G w repo);
     on_ok ''GIT-COMMIT-ERROR'' ''failed to get default signature; configure user.name and user.email'' None rc (\<lambda>sig. do {
     parent \<leftarrow> query (\<lambda>w. find_parent G w repo);
     rc \<leftarrow> effect (\<lambda>w. git_commit_create G w repo ''HEAD'' sig sig message tree
             (case parent of Some p \<Rightarrow> [p] | None \<Rightarrow> []));
     on_ok ''GIT-COMMIT-ERROR'' ''failed to create commit'' None rc (\<lambda>commit_oid.
       ret (Some (git_oid_tostr G commit_oid))) }) }) }) })
   }"

definition commit :: "('w, 'y) repo_api_scheme \<Rightarrow> string \<Rightarrow> ('w, string option) qmethod" where
  "commit G message = guarded None (\<lambda>repo. do {
     virt \<leftarrow> gets m_virtual;
     if virt then commit_virtual G repo message else commit_disk G repo message
   })"

text \<open>
  \<open>headCommitId\<close> prints the target of HEAD without a test for null; \<open>git_oid_tostr\<close> of a null id
  gives the empty string.
\<close>

definition headCommitId :: "('w, 'y) repo_api_scheme \<Rightarrow> ('w, string option) qmethod" where
  "headCommitId G = guarded None (\<lambda>repo. do {
     rc \<leftarrow> query (\<lambda>w. git_repository_head G w repo);
     if (case rc of Inl e \<Rightarrow> err_rc e = GIT_EUNBORNBRANCH \<or> err_rc e = GIT_ENOTFOUND | Inr _ \<Rightarrow> False)
     then ret None
     else on_ok ''GIT-REPOSITORY-ERROR'' ''failed to get HEAD reference'' None rc (\<lambda>head_ref.
       ret (Some (case git_reference_target head_ref of Some oid \<Rightarrow> git_oid_tostr G oid | None \<Rightarrow> [])))
   })"

section \<open>Status\<close>

text \<open>
  The status hash is an association list in insertion order; \<open>setKeyValue\<close> replaces the value of a
  key that is present. In disk mode an entry carries the path of its working-directory or head
  delta, \<open>None\<close> when it has neither.
\<close>

fun set_key_value :: "'k \<Rightarrow> 'v \<Rightarrow> ('k \<times> 'v) list \<Rightarrow> ('k \<times> 'v) list" where
  "set_key_value k v [] = [(k, v)]"
| "set_key_value k v ((a, b) # h) = (if a = k then (k, v) # h else (a, b) # set_key_value k v h)"

primrec status_virtual ::
  "('w, 'y) os_api_scheme \<Rightarrow> nat \<Rightarrow> (string \<times> git_oid) list \<Rightarrow> (string \<times> int) list \<Rightarrow>
   ('w, (string \<times> int) list option) qmethod" where
  "status_virtual G count [] result = ret (Some result)"
| "status_virtual G count (kv # kvs) result = do {
     cancel \<leftarrow> cancelled_when (Suc count mod 100 = 0) G ''git status'';
     if cancel then ret None
     else status_virtual G (Suc count) kvs (set_key_value (fst kv) GIT_STATUS_INDEX_NEW result)
   }"

primrec status_disk ::
  "('w, 'y) os_api_scheme \<Rightarrow> nat \<Rightarrow> (string option \<times> int) list \<Rightarrow> (string \<times> int) list \<Rightarrow>
   ('w, (string \<times> int) list option) qmethod" where
  "status_disk G i [] result = ret (Some result)"
| "status_disk G i (entry # es) result = do {
     cancel \<leftarrow> cancelled_when (i mod 100 = 0) G ''git status'';
     if cancel then ret None
     else status_disk G (Suc i) es
       (case fst entry of Some path \<Rightarrow> set_key_value path (snd entry) result | None \<Rightarrow> result)
   }"

definition getStatus :: "('w, 'y) repo_api_scheme \<Rightarrow> ('w, (string \<times> int) list option) qmethod" where
  "getStatus G = guarded None (\<lambda>repo. do {
     virt \<leftarrow> gets m_virtual;
     if virt then do {
       kvs \<leftarrow> gets m_virtual_tree;
       status_virtual G 0 kvs []
     } else do {
       rc \<leftarrow> query (\<lambda>w. git_status_list G w repo);
       on_ok ''GIT-STATUS-ERROR'' ''failed to get status'' None rc (\<lambda>es. status_disk G 0 es [])
     }
   })"

context body_frame
begin

lemma keeps_overrideSignature: "keeps L (overrideSignatureFromConfig G repo sig)"
  unfolding overrideSignatureFromConfig_def by (intro keeps_rules keeps_body)

lemma keeps_commit_virtual: "keeps L (commit_virtual G repo message)"
  unfolding commit_virtual_def Let_def
  by (intro keeps_rules keeps_body keeps_buildTreeFromVirtualTree keeps_overrideSignature)

lemma keeps_commit_disk: "keeps L (commit_disk G repo message)"
  unfolding commit_disk_def by (intro keeps_rules keeps_body)

lemma keeps_status_virtual: "keeps L (status_virtual G c kvs result)"
  by (induction kvs arbitrary: c result) (auto intro!: keeps_rules keeps_body)

lemma keeps_status_disk: "keeps L (status_disk G i es result)"
  by (induction es arbitrary: i result) (auto intro!: keeps_rules keeps_body)

end

context repo_frame
begin

lemma keeps_commit: "keeps P (commit G message)"
  unfolding commit_def by (intro keeps_guarded keeps_rules keeps_commit_virtual keeps_commit_disk)

lemma keeps_headCommitId: "keeps P (headCommitId G)"
  unfolding headCommitId_def by (intro keeps_guarded keeps_rules keeps_body)

lemma keeps_getStatus: "keeps P (getStatus G)"
  unfolding getStatus_def
  by (intro keeps_guarded keeps_rules keeps_body keeps_status_virtual keeps_status_disk)

lemmas keeps_commits = keeps_commit keeps_headCommitId keeps_getStatus

end

end
