(* ===== verification/Branches.thy ===== *)
theory Branches
  imports Commit
begin

text \<open>
  Branches and tags of \<open>src/QoreGitRepository.cpp\<close>: \<open>createBranch\<close>, \<open>deleteBranch\<close>, \<open>checkout\<close> in
  both modes, \<open>listBranches\<close>, \<open>currentBranch\<close>, \<open>createTag\<close>, \<open>deleteTag\<close> and \<open>listTags\<close>.
  An optional argument that may be null or empty is an \<open>option\<close> here.
\<close>

definition given :: "string option \<Rightarrow> string option" where
  "given arg = (case arg of Some r \<Rightarrow> if r = [] then None else Some r | None \<Rightarrow> None)"

section \<open>Branches\<close>

definition createBranch :: "('w, 'y) repo_api_scheme \<Rightarrow> string \<Rightarrow> string option \<Rightarrow> ('w, int) qmethod" where
  "createBranch G name from_ref = guarded (- 1) (\<lambda>repo. do {
     target \<leftarrow> (case given from_ref of
        Some r \<Rightarrow> do {
          rc \<leftarrow> query (\<lambda>w. git_revparse_single G w repo r);
          on_ok ''GIT-BRANCH-ERROR'' ''failed to resolve reference for branch target'' None rc (\<lambda>obj. do {
          rc \<leftarrow> query (\<lambda>w. git_commit_lookup G w repo (Some (git_object_id obj)));
          on_ok ''GIT-BRANCH-ERROR'' ''failed to look up target commit'' None rc (\<lambda>c. ret (Some c)) })
        }
      | None \<Rightarrow> do {
          rc \<leftarrow> query (\<lambda>w. git_repository_head G w repo);
          on_ok ''GIT-BRANCH-ERROR'' ''failed to get HEAD; repository may be empty'' None rc (\<lambda>head_ref. do {
          rc \<leftarrow> query (\<lambda>w. git_commit_lookup G w repo (git_reference_target head_ref));
          on_ok ''GIT-BRANCH-ERROR'' ''failed to look up HEAD commit'' None rc (\<lambda>c. ret (Some c)) })
        });
     (case target of
        None \<Rightarrow> ret (- 1)
      | Some target \<Rightarrow> do {
          rc \<leftarrow> effect (\<lambda>w. git_branch_create G w repo name target False);
          on_ok ''GIT-BRANCH-ERROR'' ''failed to create branch'' (- 1) rc (\<lambda>_. ret 0)
        })
   })"

definition deleteBranch :: "('w, 'y) repo_api_scheme \<Rightarrow> string \<Rightarrow> ('w, int) qmethod" where
  "deleteBranch G name = guarded (- 1) (\<lambda>repo. do {
     rc \<leftarrow> query (\<lambda>w. git_branch_lookup_local G w repo name);
     on_ok ''GIT-BRANCH-ERROR'' ''failed to find branch'' (- 1) rc (\<lambda>branch_ref. do {
     rc \<leftarrow> effect (\<lambda>w. git_branch_delete G w repo branch_ref);
     on_ok ''GIT-BRANCH-ERROR'' ''failed to delete branch'' (- 1) rc (\<lambda>_. ret 0) })
   })"

text \<open>
  The last step of \<open>checkout\<close>: HEAD becomes symbolic when the argument names a local branch and is
  detached otherwise. In virtual mode the branch case uses \<open>git_reference_symbolic_create\<close>, in disk
  mode \<open>git_repository_set_head\<close>; neither result is looked at.
\<close>

definition detach_head :: "('w, 'y) repo_api_scheme \<Rightarrow> git_repository \<Rightarrow> string \<Rightarrow> ('w, unit) qmethod" where
  "detach_head G repo ref = do {
     rc \<leftarrow> query (\<lambda>w. git_revparse_single G w repo ref);
     (case rc of
        Inl _ \<Rightarrow> ret ()
      | Inr obj \<Rightarrow> do {
          effect (\<lambda>w. git_repository_set_head_detached G w repo (git_object_id obj));
          ret ()
        })
   }"

definition checkout_virtual ::
  "('w, 'y) repo_api_scheme \<Rightarrow> git_repository \<Rightarrow> string \<Rightarrow> git_commit \<Rightarrow> ('w, int) qmethod" where
  "checkout_virtual G repo ref c = do {
     rc \<leftarrow> query (\<lambda>w. git_commit_tree G w repo c);
     on_ok ''GIT-CHECKOUT-ERROR'' ''failed to get commit tree'' (- 1) rc (\<lambda>tree. do {
     modify (\<lambda>s. s\<lparr>m_virtual_tree := []\<rparr>);
     rc \<leftarrow> populateVirtualTreeFromGitTree G repo (stack_depth G) 0 (tree_entries tree) [];
     if rc < 0 then ret (- 1) else do {
     let full_ref = ''refs/heads/'' @ ref;
     existing \<leftarrow> query (\<lambda>w. git_reference_lookup G w repo full_ref);
     (case existing of
        Inr _ \<Rightarrow> do {
          effect (\<lambda>w. git_reference_symbolic_create G w repo ''HEAD'' full_ref True (Some ''checkout''));
          ret ()
        }
      | Inl _ \<Rightarrow> detach_head G repo ref);
     ret 0 } })
   }"

definition checkout_disk ::
  "('w, 'y) repo_api_scheme \<Rightarrow> git_repository \<Rightarrow> string \<Rightarrow> git_commit \<Rightarrow> ('w, int) qmethod" where
  "checkout_disk G repo ref c = do {
     rc \<leftarrow> effect (\<lambda>w. git_checkout_tree G w repo c);
     on_ok ''GIT-CHECKOUT-ERROR'' ''failed to checkout tree'' (- 1) rc (\<lambda>_. do {
     let full_ref = ''refs/heads/'' @ ref;
     existing \<leftarrow> query (\<lambda>w. git_reference_lookup G w repo full_ref);
     (case existing of
        Inr _ \<Rightarrow> do { effect (\<lambda>w. git_repository_set_head G w repo full_ref); ret () }
      | Inl _ \<Rightarrow> detach_head G repo ref);
     ret 0 })
   }"

definition checkout :: "('w, 'y) repo_api_scheme \<Rightarrow> string \<Rightarrow> ('w, int) qmethod" where
  "checkout G ref = guarded (- 1) (\<lambda>repo. do {
     rc \<leftarrow> query (\<lambda>w. git_revparse_single G w repo ref);
     on_ok ''GIT-CHECKOUT-ERROR'' ''failed to resolve reference'' (- 1) rc (\<lambda>target. do {
     rc \<leftarrow> query (\<lambda>w. git_object_peel_commit G w repo target);
     on_ok ''GIT-CHECKOUT-ERROR'' ''failed to peel reference to commit'' (- 1) rc (\<lambda>peeled. do {
     rc \<leftarrow> query (\<lambda>w. git_commit_lookup G w repo (Some (git_object_id peeled)));
     on_ok ''GIT-CHECKOUT-ERROR'' ''failed to look up commit'' (- 1) rc (\<lambda>c. do {
     virt \<leftarrow> gets m_virtual;
     if virt then checkout_virtual G repo ref c else checkout_disk G repo ref c }) }) })
   })"

text \<open>\<open>git_branch_iterator\<close> is the list of the branches that \<open>git_branch_next\<close> returns.\<close>

primrec collect_branches ::
  "('w, 'y) repo_api_scheme \<Rightarrow> nat \<Rightarrow> git_reference list \<Rightarrow> string list \<Rightarrow> ('w, string list option) qmethod" where
  "collect_branches G count [] result = ret (Some result)"
| "collect_branches G count (r # rs) result = do {
     cancel \<leftarrow> cancelled_when (Suc count mod 100 = 0) G ''git list branches'';
     if cancel then ret None
     else collect_branches G (Suc count) rs
       (case git_branch_name G r of Inr (Some name) \<Rightarrow> result @ [name] | _ \<Rightarrow> result)
   }"

definition listBranches :: "('w, 'y) repo_api_scheme \<Rightarrow> bool \<Rightarrow> ('w, string list option) qmethod" where
  "listBranches G remote = guarded None (\<lambda>repo. do {
     rc \<leftarrow> query (\<lambda>w. git_branch_iterator G w repo remote);
     on_ok ''GIT-BRANCH-ERROR'' ''failed to create branch iterator'' None rc (\<lambda>rs. collect_branches G 0 rs [])
   })"

definition currentBranch :: "('w, 'y) repo_api_scheme \<Rightarrow> ('w, string option) qmethod" where
  "currentBranch G = guarded None (\<lambda>repo. do {
     rc \<leftarrow> query (\<lambda>w. git_repository_head G w repo);
     if (case rc of Inl e \<Rightarrow> err_rc e = GIT_EUNBORNBRANCH \<or> err_rc e = GIT_ENOTFOUND | Inr _ \<Rightarrow> False)
     then ret None
     else on_ok ''GIT-BRANCH-ERROR'' ''failed to get HEAD'' None rc (\<lambda>head.
       if \<not> git_reference_is_branch G head then ret None
       else on_ok ''GIT-BRANCH-ERROR'' ''failed to get the branch name of HEAD'' None (git_branch_name G head) ret)
   })"

section \<open>Tags\<close>

definition createTag ::
  "('w, 'y) repo_api_scheme \<Rightarrow> string \<Rightarrow> string option \<Rightarrow> string option \<Rightarrow> ('w, int) qmethod" where
  "createTag G name message target_ref = guarded (- 1) (\<lambda>repo. do {
     target \<leftarrow> (case given target_ref of
        Some r \<Rightarrow> do {
          rc \<leftarrow> query (\<lambda>w. git_revparse_single G w repo r);
          on_ok ''GIT-TAG-ERROR'' ''failed to resolve tag target'' None rc (\<lambda>obj. ret (Some obj))
        }
      | None \<Rightarrow> do {
          rc \<leftarrow> query (\<lambda>w. git_repository_head G w repo);
          on_ok ''GIT-TAG-ERROR'' ''failed to get HEAD for tag target'' None rc (\<lambda>head_ref. do {
          rc \<leftarrow> query (\<lambda>w. git_object_lookup G w repo (git_reference_target head_ref));
          on_ok ''GIT-TAG-ERROR'' ''failed to look up HEAD object'' None rc (\<lambda>obj. ret (Some obj)) })
        });
     (case target of
        None \<Rightarrow> ret (- 1)
      | Some target \<Rightarrow>
          (case given message of
             Some msg \<Rightarrow> do {
               rc \<leftarrow> query (\<lambda>w. case git_signature_default G w repo of
                        Inl _ \<Rightarrow> git_signature_now G w ''Tagger'' ''tagger@example.com''
                      | Inr tagger \<Rightarrow> Inr tagger);
               on_ok ''GIT-TAG-ERROR'' ''failed to create tagger signature'' (- 1) rc (\<lambda>tagger. do {
               rc \<leftarrow> effect (\<lambda>w. git_tag_create G w repo name target tagger msg False);
               on_ok ''GIT-TAG-ERROR'' ''failed to create tag'' (- 1) rc (\<lambda>_. ret 0) })
             }
           | None \<Rightarrow> do {
               rc \<leftarrow> effect (\<lambda>w. git_tag_create_lightweight G w repo name target False);
               on_ok ''GIT-TAG-ERROR'' ''failed to create tag'' (- 1) rc (\<lambda>_. ret 0)
             }))
   })"

definition deleteTag :: "('w, 'y) repo_api_scheme \<Rightarrow> string \<Rightarrow> ('w, int) qmethod" where
  "deleteTag G name = guarded (- 1) (\<lambda>repo. do {
     rc \<leftarrow> effect (\<lambda>w. git_tag_delete G w repo name);
     on_ok ''GIT-TAG-ERROR'' ''failed to delete tag'' (- 1) rc (\<lambda>_. ret 0)
   })"

definition listTags :: "('w, 'y) repo_api_scheme \<Rightarrow> ('w, string list option) qmethod" where
  "listTags G = guarded None (\<lambda>repo. do {
     rc \<leftarrow> query (\<lambda>w. git_tag_list G w repo);
     on_ok ''GIT-TAG-ERROR'' ''failed to list tags'' None rc (\<lambda>tag_names. do {
     r \<leftarrow> for_from (\<lambda>i name. do {
       cancel \<leftarrow> cancelled_when (i mod 100 = 0) G ''git list tags'';
       ret (if cancel then Some () else None)
     }) 0 tag_names;
     ret (if r = None then Some tag_names else None) })
   })"

context body_frame
begin

lemma keeps_detach_head: "keeps L (detach_head G repo ref)"
  unfolding detach_head_def by (intro keeps_rules keeps_body)

lemma keeps_checkout_virtual: "keeps L (checkout_virtual G repo ref c)"
  unfolding checkout_virtual_def Let_def
  by (intro keeps_rules keeps_body keeps_populate keeps_detach_head)

lemma keeps_checkout_disk: "keeps L (checkout_disk G repo ref c)"
  unfolding checkout_disk_def Let_def by (intro keeps_rules keeps_body keeps_detach_head)

lemma keeps_collect_branches: "keeps L (collect_branches G c rs result)"
  by (induction rs arbitrary: c result) (auto intro!: keeps_rules keeps_body)

end

context repo_frame
begin

lemma keeps_createBranch: "keeps P (createBranch G name from_ref)"
  unfolding createBranch_def by (intro keeps_guarded keeps_rules keeps_body)

lemma keeps_deleteBranch: "keeps P (deleteBranch G name)"
  unfolding deleteBranch_def by (intro keeps_guarded keeps_rules keeps_body)

lemma keeps_checkout: "keeps P (checkout G ref)"
  unfolding checkout_def
  by (intro keeps_guarded keeps_rules keeps_body keeps_checkout_virtual keeps_checkout_disk)

lemma keeps_listBranches: "keeps P (listBranches G remote)"
  unfolding listBranches_def by (intro keeps_guarded keeps_rules keeps_body keeps_collect_branches)

lemma keeps_currentBranch: "keeps P (currentBranch G)"
  unfolding currentBranch_def by (intro keeps_guarded keeps_rules keeps_body)

lemma keeps_createTag: "keeps P (createTag G name message target_ref)"
  unfolding createTag_def by (intro keeps_guarded keeps_rules keeps_body)

lemma keeps_deleteTag: "keeps P (deleteTag G name)"
  unfolding deleteTag_def by (intro keeps_guarded keeps_rules keeps_body)

lemma keeps_listTags: "keeps P (listTags G)"
  unfolding listTags_def by (intro keeps_guarded keeps_rules keeps_body)

lemmas keeps_branches = keeps_createBranch keeps_deleteBranch keeps_checkout keeps_listBranches
  keeps_currentBranch keeps_createTag keeps_deleteTag keeps_listTags

end

end
