(* ===== verification/History.thy ===== *)
theory History
  imports Branches
begin

text \<open>
  The read-only queries of \<open>src/QoreGitRepository.cpp\<close>: \<open>diff\<close>, \<open>diffPatch\<close>, \<open>diffStats\<close>, \<open>log\<close>,
  \<open>lookupCommit\<close>, \<open>getState\<close> and \<open>blame\<close>. Their results are Qore values; a hash is the list of its
  entries in insertion order. \<open>git_revwalk\<close> is the list of the ids that successive calls of
  \<open>git_revwalk_next\<close> return.
\<close>

section \<open>Qore values\<close>

datatype qvalue =
    QNothing
  | QBool bool
  | QInt int
  | QString string
  | QBinary bytes
  | QDate int
  | QList "qvalue list"
  | QHash "(string \<times> qvalue) list"

type_synonym qhash = "(string \<times> qvalue) list"

text \<open>\<open>opts->getKeyValue(key)\<close>; null options give nothing.\<close>

definition getKeyValue :: "qhash option \<Rightarrow> string \<Rightarrow> qvalue" where
  "getKeyValue opts key =
     (case opts of
        None \<Rightarrow> QNothing
      | Some h \<Rightarrow> (case map_of h key of Some v \<Rightarrow> v | None \<Rightarrow> QNothing))"

section \<open>The interface\<close>

datatype git_delta_t =
    GIT_DELTA_UNMODIFIED | GIT_DELTA_ADDED | GIT_DELTA_DELETED | GIT_DELTA_MODIFIED | GIT_DELTA_RENAMED
  | GIT_DELTA_COPIED | GIT_DELTA_IGNORED | GIT_DELTA_UNTRACKED | GIT_DELTA_TYPECHANGE
  | GIT_DELTA_UNREADABLE | GIT_DELTA_CONFLICTED

datatype git_repository_state_t =
    GIT_REPOSITORY_STATE_NONE | GIT_REPOSITORY_STATE_MERGE | GIT_REPOSITORY_STATE_REVERT
  | GIT_REPOSITORY_STATE_REVERT_SEQUENCE | GIT_REPOSITORY_STATE_CHERRYPICK
  | GIT_REPOSITORY_STATE_CHERRYPICK_SEQUENCE | GIT_REPOSITORY_STATE_BISECT
  | GIT_REPOSITORY_STATE_REBASE | GIT_REPOSITORY_STATE_REBASE_INTERACTIVE
  | GIT_REPOSITORY_STATE_REBASE_MERGE | GIT_REPOSITORY_STATE_APPLY_MAILBOX
  | GIT_REPOSITORY_STATE_APPLY_MAILBOX_OR_REBASE | GIT_REPOSITORY_STATE_OTHER int

record git_diff_delta =
  delta_status :: git_delta_t
  new_file_path :: string
  old_file_path :: "string option"

record git_diff =
  diff_handle :: nat
  diff_deltas :: "git_diff_delta list"

record git_blame_signature =
  bs_name :: "string option"
  bs_email :: "string option"
  bs_when :: int

record git_blame_hunk =
  final_commit_id :: git_oid
  final_signature :: "git_blame_signature option"
  orig_start_line_number :: nat
  lines_in_hunk :: nat
  final_start_line_number :: nat

record 'w history_api = "'w repo_api" +
  git_diff_tree_to_tree :: "'w \<Rightarrow> git_repository \<Rightarrow> git_tree option \<Rightarrow> git_tree option \<Rightarrow>
    string option \<Rightarrow> git_err + git_diff"
  git_diff_to_buf_patch :: "'w \<Rightarrow> git_diff \<Rightarrow> git_err + string"
  git_diff_get_stats :: "'w \<Rightarrow> git_diff \<Rightarrow> git_err + (nat \<times> nat \<times> nat)"
  git_revwalk_new :: "'w \<Rightarrow> git_repository \<Rightarrow> git_err + nat"
  git_revwalk_push_head :: "'w \<Rightarrow> nat \<Rightarrow> git_err + unit"
  git_revwalk :: "'w \<Rightarrow> nat \<Rightarrow> git_oid list"
  git_commit_parent :: "'w \<Rightarrow> git_repository \<Rightarrow> git_commit \<Rightarrow> nat \<Rightarrow> git_err + git_commit"
  git_repository_state :: "'w \<Rightarrow> git_repository \<Rightarrow> git_repository_state_t"
  git_blame_file :: "'w \<Rightarrow> git_repository \<Rightarrow> string \<Rightarrow> git_oid option \<Rightarrow> git_oid option \<Rightarrow>
    git_err + git_blame_hunk option list"

section \<open>Differences\<close>

definition resolve_ref_to_tree ::
  "('w, 'y) repo_api_scheme \<Rightarrow> 'w \<Rightarrow> git_repository \<Rightarrow> string \<Rightarrow> git_err + git_tree" where
  "resolve_ref_to_tree G w repo ref =
     (case git_revparse_single G w repo ref of
        Inl e \<Rightarrow> Inl e
      | Inr obj \<Rightarrow>
          (case git_commit_lookup G w repo (Some (git_object_id obj)) of
             Inl e \<Rightarrow> Inl e
           | Inr c \<Rightarrow> git_commit_tree G w repo c))"

definition delta_status_str :: "git_delta_t \<Rightarrow> string" where
  "delta_status_str status =
     (case status of
        GIT_DELTA_ADDED \<Rightarrow> ''added''
      | GIT_DELTA_DELETED \<Rightarrow> ''deleted''
      | GIT_DELTA_MODIFIED \<Rightarrow> ''modified''
      | GIT_DELTA_RENAMED \<Rightarrow> ''renamed''
      | GIT_DELTA_COPIED \<Rightarrow> ''copied''
      | GIT_DELTA_TYPECHANGE \<Rightarrow> ''typechange''
      | _ \<Rightarrow> ''unknown'')"

text \<open>
  The first half of \<open>diff\<close> and \<open>diffPatch\<close>: the tree of \<open>from_ref\<close> (none when it is not given), the
  tree of \<open>to_ref\<close> (that of HEAD when it is not given, none when HEAD has none), and their difference.
\<close>

definition compute_diff ::
  "('w, 'y) history_api_scheme \<Rightarrow> git_repository \<Rightarrow> string option \<Rightarrow> string option \<Rightarrow>
   (git_diff \<Rightarrow> ('w, 'r option) qmethod) \<Rightarrow> ('w, 'r option) qmethod" where
  "compute_diff G repo from_ref to_ref k = do {
     from_rc \<leftarrow> query (\<lambda>w. case given from_ref of
         Some r \<Rightarrow> map_sum id Some (resolve_ref_to_tree G w repo r)
       | None \<Rightarrow> Inr None);
     on_ok ''GIT-DIFF-ERROR'' ''failed to resolve from_ref'' None from_rc (\<lambda>from_tree. do {
     to_rc \<leftarrow> query (\<lambda>w. case given to_ref of
         Some r \<Rightarrow> map_sum id Some (resolve_ref_to_tree G w repo r)
       | None \<Rightarrow> Inr (head_tree G w repo));
     on_ok ''GIT-DIFF-ERROR'' ''failed to resolve to_ref'' None to_rc (\<lambda>to_tree. do {
     rc \<leftarrow> query (\<lambda>w. git_diff_tree_to_tree G w repo from_tree to_tree None);
     on_ok ''GIT-DIFF-ERROR'' ''failed to compute diff'' None rc k }) })
   }"

definition diff_entry :: "git_diff_delta \<Rightarrow> qvalue" where
  "diff_entry delta = QHash
     ([(''status'', QString (delta_status_str (delta_status delta))), (''path'', QString (new_file_path delta))] @
      (case old_file_path delta of
         Some old \<Rightarrow> if old \<noteq> new_file_path delta then [(''old_path'', QString old)] else []
       | None \<Rightarrow> []))"

text \<open>A loop that polls for cancellation at every hundredth index and builds a list.\<close>

definition polled_list ::
  "('w, 'y) os_api_scheme \<Rightarrow> string \<Rightarrow> ('b \<Rightarrow> qvalue option) \<Rightarrow> 'b list \<Rightarrow> ('w, qvalue list option) qmethod" where
  "polled_list G what f xs = do {
     r \<leftarrow> for_from (\<lambda>i x. do {
       cancel \<leftarrow> cancelled_when (i mod 100 = 0) G what;
       ret (if cancel then Some () else None)
     }) 0 xs;
     ret (if r = None then Some (List.map_filter f xs) else None)
   }"

definition diff ::
  "('w, 'y) history_api_scheme \<Rightarrow> string option \<Rightarrow> string option \<Rightarrow> ('w, qvalue list option) qmethod" where
  "diff G from_ref to_ref = guarded None (\<lambda>repo.
     compute_diff G repo from_ref to_ref (\<lambda>d.
       polled_list G ''git diff'' (\<lambda>delta. Some (diff_entry delta)) (diff_deltas d)))"

definition diffPatch ::
  "('w, 'y) history_api_scheme \<Rightarrow> string option \<Rightarrow> string option \<Rightarrow> ('w, string option) qmethod" where
  "diffPatch G from_ref to_ref = guarded None (\<lambda>repo.
     compute_diff G repo from_ref to_ref (\<lambda>d. do {
       rc \<leftarrow> query (\<lambda>w. git_diff_to_buf_patch G w d);
       on_ok ''GIT-DIFF-ERROR'' ''failed to format diff as patch'' None rc (\<lambda>buf. ret (Some buf))
     }))"

text \<open>\<open>diffStats\<close> peels a reference to a commit before it takes its tree; \<open>side\<close> is from or to.\<close>

definition stats_tree ::
  "('w, 'y) repo_api_scheme \<Rightarrow> git_repository \<Rightarrow> string \<Rightarrow> string \<Rightarrow> ('w, git_tree option) qmethod" where
  "stats_tree G repo side ref = do {
     rc \<leftarrow> query (\<lambda>w. git_revparse_single G w repo ref);
     on_ok ''GIT-DIFF-ERROR'' (''failed to resolve '' @ side @ ''_ref'') None rc (\<lambda>obj. do {
     rc \<leftarrow> query (\<lambda>w. git_object_peel_commit G w repo obj);
     on_ok ''GIT-DIFF-ERROR'' (''failed to peel '' @ side @ ''_ref to commit'') None rc (\<lambda>peeled. do {
     rc \<leftarrow> query (\<lambda>w. git_commit_lookup G w repo (Some (git_object_id peeled)));
     on_ok ''GIT-DIFF-ERROR'' (''failed to look up '' @ side @ '' commit'') None rc (\<lambda>c. do {
     rc \<leftarrow> query (\<lambda>w. git_commit_tree G w repo c);
     on_ok ''GIT-DIFF-ERROR'' (''failed to get '' @ side @ '' tree'') None rc (\<lambda>t. ret (Some t)) }) }) })
   }"

definition diffStats ::
  "('w, 'y) history_api_scheme \<Rightarrow> string option \<Rightarrow> string option \<Rightarrow> ('w, qhash option) qmethod" where
  "diffStats G from_ref to_ref = guarded None (\<lambda>repo. do {
     from_tree \<leftarrow> (case given from_ref of
        None \<Rightarrow> ret (Some None)
      | Some r \<Rightarrow> do { t \<leftarrow> stats_tree G repo ''from'' r; ret (map_option Some t) });
     (case from_tree of
        None \<Rightarrow> ret None
      | Some from_tree \<Rightarrow> do {
     to_tree \<leftarrow> stats_tree G repo ''to'' (case given to_ref of Some r \<Rightarrow> r | None \<Rightarrow> ''HEAD'');
     (case to_tree of
        None \<Rightarrow> ret None
      | Some to_tree \<Rightarrow> do {
     rc \<leftarrow> query (\<lambda>w. git_diff_tree_to_tree G w repo from_tree (Some to_tree) None);
     on_ok ''GIT-DIFF-ERROR'' ''failed to compute diff'' None rc (\<lambda>d. do {
     rc \<leftarrow> query (\<lambda>w. git_diff_get_stats G w d);
     on_ok ''GIT-DIFF-ERROR'' ''failed to get diff stats'' None rc (\<lambda>(files_changed, insertions, deletions).
       ret (Some [(''files_changed'', QInt (int files_changed)), (''insertions'', QInt (int insertions)),
                  (''deletions'', QInt (int deletions))])) }) }) })
   })"

section \<open>Commits\<close>

definition signature_hash :: "git_signature \<Rightarrow> qvalue" where
  "signature_hash sig = QHash [(''name'', QString (sig_name sig)), (''email'', QString (sig_email sig)),
     (''when'', QDate (sig_when sig))]"

text \<open>The hash of a commit that \<open>log\<close> and \<open>lookupCommit\<close> build.\<close>

definition commit_entry :: "'z oid_api_scheme \<Rightarrow> git_oid \<Rightarrow> git_commit \<Rightarrow> qhash" where
  "commit_entry T oid c =
     (let oid_hex = git_oid_tostr T oid; pcount = length (git_commit_parent_ids c) in
     [(''id'', QString oid_hex), (''short_id'', QString (take 7 oid_hex)),
      (''message'', QString (git_commit_message c)), (''summary'', QString (git_commit_summary c))] @
     (case git_commit_author c of Some a \<Rightarrow> [(''author'', signature_hash a)] | None \<Rightarrow> []) @
     (case git_commit_committer c of Some a \<Rightarrow> [(''committer'', signature_hash a)] | None \<Rightarrow> []) @
     [(''parent_count'', QInt (int pcount))] @
     (if pcount > 0
      then [(''parent_ids'', QList (map (\<lambda>p. QString (git_oid_tostr T p)) (git_commit_parent_ids c)))]
      else []))"

text \<open>The path filter of \<open>log\<close>: does the commit differ from its first parent at the path?\<close>

definition touches_path ::
  "('w, 'y) history_api_scheme \<Rightarrow> 'w \<Rightarrow> git_repository \<Rightarrow> git_commit \<Rightarrow> string \<Rightarrow> bool" where
  "touches_path G w repo c path =
     (if git_commit_parent_ids c = [] then True
      else (case git_commit_parent G w repo c 0 of
        Inl _ \<Rightarrow> False
      | Inr parent \<Rightarrow>
          (case (git_commit_tree G w repo c, git_commit_tree G w repo parent) of
             (Inr commit_tree, Inr parent_tree) \<Rightarrow>
               (case git_diff_tree_to_tree G w repo (Some parent_tree) (Some commit_tree) (Some path) of
                  Inl _ \<Rightarrow> False
                | Inr d \<Rightarrow> length (diff_deltas d) > 0)
           | _ \<Rightarrow> False)))"

primrec log_loop ::
  "('w, 'y) history_api_scheme \<Rightarrow> git_repository \<Rightarrow> int \<Rightarrow> string option \<Rightarrow> git_oid list \<Rightarrow> int \<Rightarrow>
   qvalue list \<Rightarrow> ('w, qvalue list option) qmethod" where
  "log_loop G repo max_count path [] count result = ret (Some result)"
| "log_loop G repo max_count path (oid # oids) count result = do {
     cancel \<leftarrow> cancelled_when ((count + 1) mod 100 = 0) G ''git log'';
     if cancel then ret None
     else if max_count > 0 \<and> count + 1 > max_count then ret (Some result)
     else do {
       rc \<leftarrow> query (\<lambda>w. git_commit_lookup G w repo (Some oid));
       (case rc of
          Inl _ \<Rightarrow> log_loop G repo max_count path oids (count + 1) result
        | Inr c \<Rightarrow> do {
            touches \<leftarrow> query (\<lambda>w. case given path of Some p \<Rightarrow> touches_path G w repo c p | None \<Rightarrow> True);
            if \<not> touches then log_loop G repo max_count path oids count result
            else log_loop G repo max_count path oids (count + 1) (result @ [QHash (commit_entry G oid c)])
          })
     }
   }"

definition log ::
  "('w, 'y) history_api_scheme \<Rightarrow> int \<Rightarrow> string option \<Rightarrow> ('w, qvalue list option) qmethod" where
  "log G max_count path = guarded None (\<lambda>repo. do {
     rc \<leftarrow> query (\<lambda>w. git_revwalk_new G w repo);
     on_ok ''GIT-LOG-ERROR'' ''failed to create revision walker'' None rc (\<lambda>walker. do {
     rc \<leftarrow> query (\<lambda>w. git_revwalk_push_head G w walker);
     on_ok ''GIT-LOG-ERROR'' ''failed to push HEAD to walker'' None rc (\<lambda>_. do {
     oids \<leftarrow> query (\<lambda>w. git_revwalk G w walker);
     log_loop G repo max_count path oids 0 [] }) })
   })"

definition lookupCommit :: "('w, 'y) repo_api_scheme \<Rightarrow> string \<Rightarrow> ('w, qhash option) qmethod" where
  "lookupCommit G ref = guarded None (\<lambda>repo. do {
     rc \<leftarrow> query (\<lambda>w. git_revparse_single G w repo ref);
     on_ok ''GIT-COMMIT-ERROR'' ''failed to resolve reference'' None rc (\<lambda>target. do {
     rc \<leftarrow> query (\<lambda>w. git_object_peel_commit G w repo target);
     on_ok ''GIT-COMMIT-ERROR'' ''failed to peel reference to commit'' None rc (\<lambda>peeled. do {
     rc \<leftarrow> query (\<lambda>w. git_commit_lookup G w repo (Some (git_object_id peeled)));
     on_ok ''GIT-COMMIT-ERROR'' ''failed to look up commit'' None rc (\<lambda>c.
       ret (Some (commit_entry G (git_commit_id c) c))) }) })
   })"

section \<open>State and blame\<close>

definition state_name :: "git_repository_state_t \<Rightarrow> string" where
  "state_name st =
     (case st of
        GIT_REPOSITORY_STATE_NONE \<Rightarrow> ''none''
      | GIT_REPOSITORY_STATE_MERGE \<Rightarrow> ''merge''
      | GIT_REPOSITORY_STATE_REVERT \<Rightarrow> ''revert''
      | GIT_REPOSITORY_STATE_REVERT_SEQUENCE \<Rightarrow> ''revert_sequence''
      | GIT_REPOSITORY_STATE_CHERRYPICK \<Rightarrow> ''cherrypick''
      | GIT_REPOSITORY_STATE_CHERRYPICK_SEQUENCE \<Rightarrow> ''cherrypick_sequence''
      | GIT_REPOSITORY_STATE_BISECT \<Rightarrow> ''bisect''
      | GIT_REPOSITORY_STATE_REBASE \<Rightarrow> ''rebase''
      | GIT_REPOSITORY_STATE_REBASE_INTERACTIVE \<Rightarrow> ''rebase_interactive''
      | GIT_REPOSITORY_STATE_REBASE_MERGE \<Rightarrow> ''rebase_merge''
      | GIT_REPOSITORY_STATE_APPLY_MAILBOX \<Rightarrow> ''apply_mailbox''
      | GIT_REPOSITORY_STATE_APPLY_MAILBOX_OR_REBASE \<Rightarrow> ''apply_mailbox_or_rebase''
      | GIT_REPOSITORY_STATE_OTHER _ \<Rightarrow> ''unknown'')"

definition getState :: "('w, 'y) history_api_scheme \<Rightarrow> ('w, string option) qmethod" where
  "getState G = guarded None (\<lambda>repo. do {
     mem \<leftarrow> gets m_in_memory;
     if mem then ret (Some ''none'')
     else do {
       st \<leftarrow> query (\<lambda>w. git_repository_state G w repo);
       ret (Some (state_name st))
     }
   })"

definition blame_hunk_entry :: "'z oid_api_scheme \<Rightarrow> git_blame_hunk \<Rightarrow> qvalue" where
  "blame_hunk_entry T hunk = QHash
     ([(''commit_id'', QString (git_oid_tostr T (final_commit_id hunk)))] @
      (case final_signature hunk of
         Some sig \<Rightarrow> [(''author'', QHash
           [(''name'', QString (case bs_name sig of Some n \<Rightarrow> n | None \<Rightarrow> [])),
            (''email'', QString (case bs_email sig of Some n \<Rightarrow> n | None \<Rightarrow> [])),
            (''when'', QDate (bs_when sig))])]
       | None \<Rightarrow> []) @
      [(''start_line'', QInt (int (orig_start_line_number hunk))),
       (''lines'', QInt (int (lines_in_hunk hunk))),
       (''final_start_line'', QInt (int (final_start_line_number hunk)))])"

text \<open>A commit option of \<open>blame\<close>: absent or not a string gives none; the outer \<open>None\<close> is an error.\<close>

definition blame_commit_option ::
  "('w, 'y) repo_api_scheme \<Rightarrow> git_repository \<Rightarrow> qhash option \<Rightarrow> string \<Rightarrow>
   ('w, git_oid option option) qmethod" where
  "blame_commit_option G repo opts key =
     (case getKeyValue opts key of
        QString str \<Rightarrow> do {
          rc \<leftarrow> query (\<lambda>w. git_revparse_single G w repo str);
          on_ok ''GIT-BLAME-ERROR'' (''failed to resolve '' @ key) None rc (\<lambda>obj.
            ret (Some (Some (git_object_id obj))))
        }
      | _ \<Rightarrow> ret (Some None))"

definition blame ::
  "('w, 'y) history_api_scheme \<Rightarrow> string \<Rightarrow> qhash option \<Rightarrow> ('w, qvalue list option) qmethod" where
  "blame G path opts = guarded None (\<lambda>repo. do {
     newest \<leftarrow> blame_commit_option G repo opts ''newest_commit'';
     (case newest of
        None \<Rightarrow> ret None
      | Some newest \<Rightarrow> do {
     oldest \<leftarrow> blame_commit_option G repo opts ''oldest_commit'';
     (case oldest of
        None \<Rightarrow> ret None
      | Some oldest \<Rightarrow> do {
     rc \<leftarrow> query (\<lambda>w. git_blame_file G w repo path newest oldest);
     on_ok ''GIT-BLAME-ERROR'' ''failed to blame file'' None rc
       (polled_list G ''git blame'' (map_option (blame_hunk_entry G))) }) })
   })"

context body_frame
begin

lemma keeps_compute_diff: "(\<And>d. keeps L (k d)) \<Longrightarrow> keeps L (compute_diff G repo from_ref to_ref k)"
  unfolding compute_diff_def by (intro keeps_rules keeps_body)

lemma keeps_polled_list: "keeps L (polled_list G what f xs)"
  unfolding polled_list_def by (intro keeps_rules keeps_body)

lemma keeps_stats_tree: "keeps L (stats_tree G repo side ref)"
  unfolding stats_tree_def by (intro keeps_rules keeps_body)

lemma keeps_log_loop: "keeps L (log_loop G repo max_count path oids count result)"
proof (induction oids arbitrary: count result)
  case Nil
  show ?case unfolding log_loop.simps by (rule keeps_return)
next
  case (Cons oid oids)
  show ?case unfolding log_loop.simps by (intro keeps_rules keeps_body Cons)
qed

lemma keeps_blame_commit_option: "keeps L (blame_commit_option G repo opts key)"
  unfolding blame_commit_option_def
  by (cases "getKeyValue opts key") (simp_all, (intro keeps_rules keeps_body)+)

end

context repo_frame
begin

lemma keeps_diff: "keeps P (diff G from_ref to_ref)"
  unfolding diff_def by (intro keeps_guarded keeps_compute_diff keeps_polled_list)

lemma keeps_diffPatch: "keeps P (diffPatch G from_ref to_ref)"
  unfolding diffPatch_def by (intro keeps_guarded keeps_compute_diff keeps_rules keeps_body)

lemma keeps_diffStats: "keeps P (diffStats G from_ref to_ref)"
  unfolding diffStats_def by (intro keeps_guarded keeps_rules keeps_body keeps_stats_tree)

lemma keeps_log: "keeps P (log G max_count path)"
  unfolding log_def by (intro keeps_guarded keeps_rules keeps_body keeps_log_loop)

lemma keeps_lookupCommit: "keeps P (lookupCommit G ref)"
  unfolding lookupCommit_def by (intro keeps_guarded keeps_rules keeps_body)

lemma keeps_getState: "keeps P (getState G)"
  unfolding getState_def by (intro keeps_guarded keeps_rules keeps_body)

lemma keeps_blame: "keeps P (blame G path opts)"
  unfolding blame_def
  by (intro keeps_guarded keeps_rules keeps_body keeps_blame_commit_option keeps_polled_list)

lemmas keeps_history = keeps_diff keeps_diffPatch keeps_diffStats keeps_log keeps_lookupCommit
  keeps_getState keeps_blame

end

end
