(* ===== verification/Stash.thy ===== *)
theory Stash
  imports History
begin

text \<open>
  The stash of a disk repository: \<open>stash\<close>, \<open>stashPop\<close> and \<open>stashList\<close> of
  \<open>src/QoreGitRepository.cpp\<close>. \<open>git_stash_foreach\<close> is the list of the entries that libgit2 passes to
  the callback, with the error that it returns after the last one, if any.
\<close>

record 'w stash_api = "'w history_api" +
  git_diff_index_to_workdir_update :: "'w \<Rightarrow> git_repository \<Rightarrow> git_index \<Rightarrow> (git_err + unit) \<times> 'w"
  git_stash_save :: "'w \<Rightarrow> git_repository \<Rightarrow> git_signature \<Rightarrow> string option \<Rightarrow> (git_err + git_oid) \<times> 'w"
  git_stash_pop :: "'w \<Rightarrow> git_repository \<Rightarrow> nat \<Rightarrow> (git_err + unit) \<times> 'w"
  git_stash_foreach :: "'w \<Rightarrow> git_repository \<Rightarrow> (nat \<times> string option \<times> git_oid) list \<times> git_err option"

definition stash :: "('w, 'y) stash_api_scheme \<Rightarrow> string option \<Rightarrow> ('w, string option) qmethod" where
  "stash G message = guarded None (\<lambda>repo. do {
     virt \<leftarrow> gets m_virtual;
     if virt then do {
       raiseException ''GIT-MODE-ERROR'' ''stash is not supported in virtual mode'';
       ret None
     } else do {
     rc \<leftarrow> query (\<lambda>w. git_signature_default G w repo);
     on_ok ''GIT-STASH-ERROR'' ''failed to get default signature; configure user.name and user.email'' None rc (\<lambda>sig. do {
     rc \<leftarrow> query (\<lambda>w. git_repository_index G w repo);
     (case rc of
        Inl _ \<Rightarrow> ret ()
      | Inr index \<Rightarrow> do {
          effect (\<lambda>w. git_diff_index_to_workdir_update G w repo index);
          effect (\<lambda>w. git_index_write G w index);
          ret ()
        });
     rc \<leftarrow> effect (\<lambda>w. git_stash_save G w repo sig message);
     on_ok ''GIT-STASH-ERROR'' ''failed to save stash'' None rc (\<lambda>stash_oid.
       ret (Some (git_oid_tostr G stash_oid))) }) }
   })"

definition stashPop :: "('w, 'y) stash_api_scheme \<Rightarrow> ('w, int) qmethod" where
  "stashPop G = guarded (- 1) (\<lambda>repo. do {
     virt \<leftarrow> gets m_virtual;
     if virt then do {
       raiseException ''GIT-MODE-ERROR'' ''stash is not supported in virtual mode'';
       ret (- 1)
     } else do {
       rc \<leftarrow> effect (\<lambda>w. git_stash_pop G w repo 0);
       on_ok ''GIT-STASH-ERROR'' ''failed to pop stash'' (- 1) rc (\<lambda>_. ret 0)
     }
   })"

text \<open>The callback of \<open>git_stash_foreach\<close>: polls before every entry.\<close>

definition stash_entry :: "nat \<times> string option \<times> git_oid \<Rightarrow> qvalue" where
  "stash_entry e = (case e of (index, message, stash_id) \<Rightarrow>
     QHash [(''index'', QInt (int index)), (''message'', QString (case message of Some m \<Rightarrow> m | None \<Rightarrow> []))])"

primrec stash_foreach ::
  "('w, 'y) os_api_scheme \<Rightarrow> (nat \<times> string option \<times> git_oid) list \<Rightarrow> git_err option \<Rightarrow> qvalue list \<Rightarrow>
   ('w, git_err option \<times> qvalue list) qmethod" where
  "stash_foreach G [] final list = ret (final, list)"
| "stash_foreach G (e # es) final list = do {
     cancel \<leftarrow> check_cancel G ''git stash list'';
     if cancel then ret (Some (GitErr GIT_EUSER None), list)
     else stash_foreach G es final (list @ [stash_entry e])
   }"

definition stashList :: "('w, 'y) stash_api_scheme \<Rightarrow> ('w, qvalue list option) qmethod" where
  "stashList G = guarded None (\<lambda>repo. do {
     virt \<leftarrow> gets m_virtual;
     if virt then do {
       raiseException ''GIT-MODE-ERROR'' ''stash is not supported in virtual mode'';
       ret None
     } else do {
       (es, final) \<leftarrow> query (\<lambda>w. git_stash_foreach G w repo);
       (rc, result) \<leftarrow> stash_foreach G es final [];
       raised \<leftarrow> exception_raised;
       (case rc of
          Some e \<Rightarrow>
            if \<not> raised then do {
              git_raise_exception_rc ''GIT-STASH-ERROR'' e ''failed to list stashes'';
              ret None
            } else ret (Some result)
        | None \<Rightarrow> ret (Some result))
     }
   })"

context body_frame
begin

lemma keeps_stash_foreach: "keeps L (stash_foreach G es final list)"
  by (induction es arbitrary: list) (auto intro!: keeps_rules keeps_body)

end

context repo_frame
begin

lemma keeps_stash: "keeps P (stash G message)"
  unfolding stash_def by (intro keeps_guarded keeps_rules keeps_body)

lemma keeps_stashPop: "keeps P (stashPop G)"
  unfolding stashPop_def by (intro keeps_guarded keeps_rules keeps_body)

lemma keeps_stashList: "keeps P (stashList G)"
  unfolding stashList_def by (intro keeps_guarded keeps_rules keeps_body keeps_stash_foreach)

lemmas keeps_stashes = keeps_stash keeps_stashPop keeps_stashList

end

end
