(* ===== verification/Remotes.thy ===== *)
theory Remotes
  imports Stash
begin

text \<open>
  Remotes of \<open>src/QoreGitRepository.cpp\<close>: the migration of an in-memory repository to a temporary
  bare repository on disk (\<open>migrateToDisk\<close>), \<open>addRemote\<close>, \<open>removeRemote\<close>, \<open>fetch\<close> and \<open>push\<close>. A network
  transfer calls back into the module (\<open>qore_git_transfer_progress_cb\<close>); libgit2's transfer functions
  take the callback as an argument and pass it the exception sink as payload.
\<close>

type_synonym git_remote = nat
type_synonym 'w payload = "'w \<times> exn list"

record 'w remote_api = "'w stash_api" +
  git_repository_odb :: "'w \<Rightarrow> git_repository \<Rightarrow> git_err + git_odb"
  git_odb_foreach :: "'w \<Rightarrow> git_odb \<Rightarrow> git_oid list \<times> git_err option"
  git_odb_read :: "'w \<Rightarrow> git_odb \<Rightarrow> git_oid \<Rightarrow> git_err + (bytes \<times> git_object_t)"
  git_odb_write :: "'w \<Rightarrow> git_odb \<Rightarrow> bytes \<Rightarrow> git_object_t \<Rightarrow> (git_err + git_oid) \<times> 'w"
  git_remote_create :: "'w \<Rightarrow> git_repository \<Rightarrow> string \<Rightarrow> string \<Rightarrow> (git_err + git_remote) \<times> 'w"
  git_remote_delete :: "'w \<Rightarrow> git_repository \<Rightarrow> string \<Rightarrow> (git_err + unit) \<times> 'w"
  git_remote_lookup :: "'w \<Rightarrow> git_repository \<Rightarrow> string \<Rightarrow> git_err + git_remote"
  git_remote_url :: "'w \<Rightarrow> git_remote \<Rightarrow> string"
  git_remote_fetch :: "('w payload \<Rightarrow> int \<times> 'w payload) \<Rightarrow> git_remote \<Rightarrow> 'w payload \<Rightarrow>
    (git_err + unit) \<times> 'w payload"
  git_remote_push :: "('w payload \<Rightarrow> int \<times> 'w payload) \<Rightarrow> git_remote \<Rightarrow> string \<Rightarrow> 'w payload \<Rightarrow>
    (git_err + unit) \<times> 'w payload"

section \<open>Migration to disk\<close>

definition temp_template :: "string option \<Rightarrow> string" where
  "temp_template tmpdir =
     (let tmp_base = (case given tmpdir of Some d \<Rightarrow> d | None \<Rightarrow> ''/tmp'');
          tmpl = (if tmp_base \<noteq> [] \<and> last tmp_base = CHR ''/'' then butlast tmp_base else tmp_base)
      in tmpl @ ''/qore-git-virt-XXXXXX'')"

text \<open>The destructor of \<open>MigrateGuard\<close> on a failure after the disk repository was created.\<close>

definition migrate_abort ::
  "('w, 'y) repo_api_scheme \<Rightarrow> git_repository \<Rightarrow> string \<Rightarrow> ('w, unit) qmethod" where
  "migrate_abort G disk_repo dir = do {
     effect_unit (\<lambda>w. git_repository_free G w disk_repo);
     if dir \<noteq> [] then effect_unit (\<lambda>w. os_nftw_remove G w dir) else ret ()
   }"

text \<open>\<open>odb_copy_cb\<close> on the object number \<open>i\<close>: nothing when it was copied, otherwise the loop ends.\<close>

definition copy_object ::
  "('w, 'y) remote_api_scheme \<Rightarrow> git_odb \<Rightarrow> git_odb \<Rightarrow> nat \<Rightarrow> git_oid \<Rightarrow> ('w, unit option) qmethod" where
  "copy_object G src dst i oid = do {
     cancel \<leftarrow> cancelled_when (Suc i mod 100 = 0) G ''git migrate'';
     if cancel then ret (Some ()) else do {
       obj \<leftarrow> query (\<lambda>w. git_odb_read G w src oid);
       (case obj of
          Inl _ \<Rightarrow> ret (Some ())
        | Inr (data, type) \<Rightarrow> do {
            wr \<leftarrow> effect (\<lambda>w. git_odb_write G w dst data type);
            ret (case wr of Inl _ \<Rightarrow> Some () | Inr _ \<Rightarrow> None)
          })
     }
   }"

text \<open>All objects: true when every one was copied.\<close>

definition copy_objects ::
  "('w, 'y) remote_api_scheme \<Rightarrow> git_odb \<Rightarrow> git_odb \<Rightarrow> git_oid list \<Rightarrow> ('w, bool) qmethod" where
  "copy_objects G src dst oids = do {
     r \<leftarrow> for_from (copy_object G src dst) 0 oids;
     ret (r = None)
   }"

definition copy_reference ::
  "('w, 'y) repo_api_scheme \<Rightarrow> git_repository \<Rightarrow> git_repository \<Rightarrow> string \<Rightarrow> ('w, unit) qmethod" where
  "copy_reference G repo disk_repo name = do {
     r \<leftarrow> query (\<lambda>w. git_reference_lookup G w repo name);
     (case r of
        Inl _ \<Rightarrow> ret ()
      | Inr r \<Rightarrow>
          (case reference_target r of
             Symbolic t \<Rightarrow> do {
               effect (\<lambda>w. git_reference_symbolic_create G w disk_repo name t True None);
               ret ()
             }
           | Direct oid \<Rightarrow> do {
               effect (\<lambda>w. git_reference_create G w disk_repo name oid True None);
               ret ()
             }))
   }"

text \<open>All references; true unless the loop was cancelled.\<close>

definition copy_references ::
  "('w, 'y) repo_api_scheme \<Rightarrow> git_repository \<Rightarrow> git_repository \<Rightarrow> ('w, bool) qmethod" where
  "copy_references G repo disk_repo = do {
     ref_names \<leftarrow> query (\<lambda>w. git_reference_list G w repo);
     (case ref_names of
        Inl _ \<Rightarrow> ret True
      | Inr names \<Rightarrow> do {
          r \<leftarrow> for_from (\<lambda>i name. do {
            cancel \<leftarrow> cancelled_when (i mod 100 = 0) G ''git migrate'';
            if cancel then ret (Some ())
            else do { copy_reference G repo disk_repo name; ret None }
          }) 0 names;
          ret (r = None)
        })
   }"

definition copy_config ::
  "('w, 'y) repo_api_scheme \<Rightarrow> git_repository \<Rightarrow> ('w, unit) qmethod" where
  "copy_config G disk_repo = do {
     config \<leftarrow> gets m_mem_config;
     if config = [] then ret () else do {
       dcfg \<leftarrow> query (\<lambda>w. git_repository_config G w disk_repo);
       (case dcfg of
          Inl _ \<Rightarrow> ret ()
        | Inr dcfg \<Rightarrow> do {
            for_from (\<lambda>i kv. do {
              effect (\<lambda>w. git_config_set_string G w dcfg (fst kv) (snd kv));
              ret (None :: unit option)
            }) 0 config;
            ret ()
          })
     }
   }"

text \<open>The steps that can fail, up to the final swap: true when the disk repository is complete.\<close>

definition migrate_contents ::
  "('w, 'y) remote_api_scheme \<Rightarrow> git_repository \<Rightarrow> git_repository \<Rightarrow> ('w, bool) qmethod" where
  "migrate_contents G repo disk_repo = do {
     src_odb \<leftarrow> query (\<lambda>w. git_repository_odb G w repo);
     dst_odb \<leftarrow> query (\<lambda>w. git_repository_odb G w disk_repo);
     (case (src_odb, dst_odb) of
        (Inr src_odb, Inr dst_odb) \<Rightarrow> do {
          (oids, final) \<leftarrow> query (\<lambda>w. git_odb_foreach G w src_odb);
          copied \<leftarrow> copy_objects G src_odb dst_odb oids;
          raised \<leftarrow> exception_raised;
          if raised then ret False
          else if \<not> copied \<or> final \<noteq> None then do {
            msg \<leftarrow> query (git_error_last G);
            git_raise_exception ''GIT-VIRTUAL-ERROR'' (GitErr (- 1) msg)
              ''failed to copy git objects during migration to disk'';
            ret False
          } else do {
          ok \<leftarrow> copy_references G repo disk_repo;
          if \<not> ok then ret False else do {
          copy_reference G repo disk_repo ''HEAD'';
          copy_config G disk_repo;
          index \<leftarrow> gets m_index;
          effect_unit (\<lambda>w. git_repository_set_index G w disk_repo index);
          ret True } }
        }
      | _ \<Rightarrow> do {
          msg \<leftarrow> query (git_error_last G);
          git_raise_exception ''GIT-VIRTUAL-ERROR'' (GitErr (- 1) msg)
            ''failed to access object databases for migration'';
          ret False
        })
   }"

definition migrate_swap :: "git_repository \<Rightarrow> string \<Rightarrow> ('w, unit) qmethod" where
  "migrate_swap disk_repo tmpdir = do {
     modify (\<lambda>s. s\<lparr>m_repo := Some disk_repo, m_path := tmpdir, m_in_memory := False,
       m_tempdir_created := True, git_tempdirs := omap_put tmpdir () (git_tempdirs s)\<rparr>)
   }"

definition migrateToDisk :: "('w, 'y) remote_api_scheme \<Rightarrow> git_repository \<Rightarrow> ('w, int) qmethod" where
  "migrateToDisk G repo = do {
     mem \<leftarrow> gets m_in_memory;
     if \<not> mem then ret 0 else do {
     tmp_base \<leftarrow> query (\<lambda>w. os_getenv G w ''TMPDIR'');
     dir \<leftarrow> effect (\<lambda>w. os_mkdtemp G w (temp_template tmp_base));
     (case dir of
        Inl errno \<Rightarrow> do {
          raiseException ''GIT-VIRTUAL-ERROR''
            (''failed to create temp directory for remote-backed virtual repo: '' @ errno);
          ret (- 1)
        }
      | Inr tmpdir \<Rightarrow> do {
     rc \<leftarrow> effect (\<lambda>w. git_repository_init G w tmpdir True);
     (case rc of
        Inl e \<Rightarrow> do {
          effect_unit (\<lambda>w. os_nftw_remove G w tmpdir);
          git_raise_exception_rc ''GIT-VIRTUAL-ERROR'' e
            ''failed to initialize disk-backed repository for migration'';
          ret (- 1)
        }
      | Inr disk_repo \<Rightarrow> do {
     ok \<leftarrow> migrate_contents G repo disk_repo;
     if \<not> ok then do { migrate_abort G disk_repo tmpdir; ret (- 1) }
     else do {
     effect_unit (\<lambda>w. git_repository_free G w repo);
     migrate_swap disk_repo tmpdir;
     ret 0 } }) }) }
   }"

section \<open>Remotes\<close>

text \<open>After the migration the handle is read again; \<open>git_remote_create\<close> refuses a null handle, which the
  guard and the migration never leave.\<close>

definition addRemote :: "('w, 'y) remote_api_scheme \<Rightarrow> string \<Rightarrow> string \<Rightarrow> ('w, int) qmethod" where
  "addRemote G name url = guarded (- 1) (\<lambda>repo. do {
     ok \<leftarrow> validateRemoteUrl url;
     if \<not> ok then ret (- 1) else do {
     rc \<leftarrow> migrateToDisk G repo;
     if rc < 0 then ret (- 1) else do {
     r \<leftarrow> gets m_repo;
     (case r of
        None \<Rightarrow> git_raise_exception_rc ''GIT-REMOTE-ERROR'' (GitErr (- 1) None) ''failed to add remote''
      | Some repo \<Rightarrow> do {
          rc \<leftarrow> effect (\<lambda>w. git_remote_create G w repo name url);
          on_ok ''GIT-REMOTE-ERROR'' ''failed to add remote'' (- 1) rc (\<lambda>_. ret 0)
        }) } }
   })"

definition removeRemote :: "('w, 'y) remote_api_scheme \<Rightarrow> string \<Rightarrow> ('w, int) qmethod" where
  "removeRemote G name = guarded (- 1) (\<lambda>repo. do {
     rc \<leftarrow> effect (\<lambda>w. git_remote_delete G w repo name);
     on_ok ''GIT-REMOTE-ERROR'' ''failed to remove remote'' (- 1) rc (\<lambda>_. ret 0)
   })"

section \<open>Network operations\<close>

definition qore_git_transfer_progress_cb ::
  "('w, 'y) os_api_scheme \<Rightarrow> 'w payload \<Rightarrow> int \<times> 'w payload" where
  "qore_git_transfer_progress_cb G p =
     (case p of (w, xs) \<Rightarrow>
        (case qore_check_cancel G w ''git transfer'' of
           (Some e, w') \<Rightarrow> (GIT_EUSER, (w', xs @ [e]))
         | (None, w') \<Rightarrow> (0, (w', xs))))"

text \<open>A libgit2 call that gets the sink as callback payload.\<close>

definition with_payload :: "('w payload \<Rightarrow> 'a \<times> 'w payload) \<Rightarrow> ('w, 'a) qmethod" where
  "with_payload f = State (\<lambda>s. case f (world s, xsink s) of (a, (w, xs)) \<Rightarrow> (a, s\<lparr>world := w, xsink := xs\<rparr>))"

definition remote_or_origin :: "string option \<Rightarrow> string" where
  "remote_or_origin remote_name = (case given remote_name of Some r \<Rightarrow> r | None \<Rightarrow> ''origin'')"

text \<open>The end of both transfers: a failure raises unless the sink already holds the cancellation.\<close>

definition transfer_result :: "string \<Rightarrow> string \<Rightarrow> git_err + unit \<Rightarrow> ('w, int) qmethod" where
  "transfer_result err ctx rc =
     (case rc of
        Inr _ \<Rightarrow> ret 0
      | Inl e \<Rightarrow> do {
          raised \<leftarrow> exception_raised;
          if raised then ret (- 1) else git_raise_exception_rc err e ctx
        })"

definition fetch :: "('w, 'y) remote_api_scheme \<Rightarrow> string option \<Rightarrow> ('w, int) qmethod" where
  "fetch G remote_name = guarded (- 1) (\<lambda>repo. do {
     rc \<leftarrow> query (\<lambda>w. git_remote_lookup G w repo (remote_or_origin remote_name));
     on_ok ''GIT-FETCH-ERROR'' ''failed to look up remote'' (- 1) rc (\<lambda>remote. do {
     url \<leftarrow> query (\<lambda>w. git_remote_url G w remote);
     ok \<leftarrow> checkNetAccess G url;
     if \<not> ok then ret (- 1) else do {
     cancel \<leftarrow> check_cancel G ''git fetch'';
     if cancel then ret (- 1) else do {
     rc \<leftarrow> with_payload (git_remote_fetch G (qore_git_transfer_progress_cb G) remote);
     transfer_result ''GIT-FETCH-ERROR'' ''failed to fetch from remote'' rc } } })
   })"

definition push_refspec ::
  "('w, 'y) repo_api_scheme \<Rightarrow> 'w \<Rightarrow> git_repository \<Rightarrow> string option \<Rightarrow> string" where
  "push_refspec G w repo refspec =
     (case given refspec of
        Some r \<Rightarrow> r
      | None \<Rightarrow>
          (case git_repository_head G w repo of
             Inr head_ref \<Rightarrow> git_reference_name head_ref @ '':'' @ git_reference_name head_ref
           | Inl _ \<Rightarrow> ''refs/heads/main:refs/heads/main''))"

definition push :: "('w, 'y) remote_api_scheme \<Rightarrow> string option \<Rightarrow> string option \<Rightarrow> ('w, int) qmethod" where
  "push G remote_name refspec = guarded (- 1) (\<lambda>repo. do {
     rc \<leftarrow> query (\<lambda>w. git_remote_lookup G w repo (remote_or_origin remote_name));
     on_ok ''GIT-PUSH-ERROR'' ''failed to look up remote'' (- 1) rc (\<lambda>remote. do {
     url \<leftarrow> query (\<lambda>w. git_remote_url G w remote);
     ok \<leftarrow> checkNetAccess G url;
     if \<not> ok then ret (- 1) else do {
     rs \<leftarrow> query (\<lambda>w. push_refspec G w repo refspec);
     cancel \<leftarrow> check_cancel G ''git push'';
     if cancel then ret (- 1) else do {
     rc \<leftarrow> with_payload (git_remote_push G (qore_git_transfer_progress_cb G) remote rs);
     transfer_result ''GIT-PUSH-ERROR'' ''failed to push to remote'' rc } } })
   })"

section \<open>Frames\<close>

sublocale body_frame \<subseteq> in_mem: qgit_frame "\<lambda>s. L s \<and> m_in_memory s"
  by unfold_locales (simp_all add: world_irrelevant sink_irrelevant)

context qgit_frame
begin

lemma keeps_migrate_abort: "keeps P (migrate_abort G disk_repo dir)"
  unfolding migrate_abort_def by (intro keeps_rules keeps_session)

lemma keeps_copy_objects: "keeps P (copy_objects G src dst oids)"
  unfolding copy_objects_def copy_object_def by (intro keeps_rules keeps_session)

lemma keeps_copy_reference: "keeps P (copy_reference G repo disk_repo name)"
  unfolding copy_reference_def
  by (intro keeps_rules keeps_session) (auto intro!: keeps_rules keeps_session split: ref_target.split)

lemma keeps_copy_references: "keeps P (copy_references G repo disk_repo)"
  unfolding copy_references_def by (intro keeps_rules keeps_session keeps_copy_reference)

lemma keeps_copy_config: "keeps P (copy_config G disk_repo)"
  unfolding copy_config_def by (intro keeps_rules keeps_session)

lemma keeps_migrate_contents: "keeps P (migrate_contents G repo disk_repo)"
  unfolding migrate_contents_def
  by (intro keeps_rules keeps_session keeps_copy_objects keeps_copy_references keeps_copy_reference
      keeps_copy_config)

lemma keeps_with_payload: "keeps P (with_payload f)"
  using world_irrelevant sink_irrelevant
  by (auto simp: keeps_def with_payload_def split: prod.split)

lemma keeps_transfer_result: "keeps P (transfer_result err ctx rc)"
  unfolding transfer_result_def by (intro keeps_rules keeps_session)

end

context body_frame
begin

lemma leads_migrate_swap: "leads (\<lambda>s. L s \<and> m_in_memory s) L (migrate_swap h p)"
  unfolding migrate_swap_def by (rule leads_modify) (simp add: migrated)

lemma leads_step: "keeps (\<lambda>s. L s \<and> m_in_memory s) m \<Longrightarrow> leads (\<lambda>s. L s \<and> m_in_memory s) (\<lambda>s. L s \<and> m_in_memory s) m"
  by (simp add: keeps_leads)

lemma leads_drop: "keeps L m \<Longrightarrow> leads (\<lambda>s. L s \<and> m_in_memory s) L m"
  by (simp add: leads_def keeps_def)

lemma keeps_migrateToDisk: "keeps L (migrateToDisk G repo)"
proof (rule keepsI)
  fix s
  assume s: "L s"
  show "L (snd (run_state (migrateToDisk G repo) s))"
  proof (cases "m_in_memory s")
    case False
    with s show ?thesis by (simp add: migrateToDisk_def)
  next
    case True
    have "leads (\<lambda>s. L s \<and> m_in_memory s) L (do {
       tmp_base \<leftarrow> query (\<lambda>w. os_getenv G w ''TMPDIR'');
       dir \<leftarrow> effect (\<lambda>w. os_mkdtemp G w (temp_template tmp_base));
       (case dir of
          Inl errno \<Rightarrow> do {
            raiseException ''GIT-VIRTUAL-ERROR''
              (''failed to create temp directory for remote-backed virtual repo: '' @ errno);
            ret (- 1)
          }
        | Inr tmpdir \<Rightarrow> do {
       rc \<leftarrow> effect (\<lambda>w. git_repository_init G w tmpdir True);
       (case rc of
          Inl e \<Rightarrow> do {
            effect_unit (\<lambda>w. os_nftw_remove G w tmpdir);
            git_raise_exception_rc ''GIT-VIRTUAL-ERROR'' e
              ''failed to initialize disk-backed repository for migration'';
            ret (- 1)
          }
        | Inr disk_repo \<Rightarrow> do {
       ok \<leftarrow> migrate_contents G repo disk_repo;
       if \<not> ok then do { migrate_abort G disk_repo tmpdir; ret (- 1) }
       else do {
       effect_unit (\<lambda>w. git_repository_free G w repo);
       migrate_swap disk_repo tmpdir;
       ret (0 :: int) } }) }) })"
      by (intro leads_bind [OF leads_step [OF in_mem.keeps_query]] leads_bind [OF leads_step [OF in_mem.keeps_effect]]
          leads_bind [OF leads_step [OF in_mem.keeps_effect_unit]]
          leads_bind [OF leads_step [OF in_mem.keeps_migrate_contents]] leads_bind [OF leads_migrate_swap]
          leads_case_sum leads_if)
        (simp_all add: keeps_leads keeps_return, (intro leads_drop keeps_rules keeps_body keeps_migrate_abort)+)
    with s True show ?thesis by (simp add: leads_def migrateToDisk_def)
  qed
qed

end

context repo_frame
begin

lemma keeps_addRemote: "keeps P (addRemote G name url)"
  unfolding addRemote_def by (intro keeps_guarded keeps_rules keeps_body keeps_migrateToDisk)

lemma keeps_removeRemote: "keeps P (removeRemote G name)"
  unfolding removeRemote_def by (intro keeps_guarded keeps_rules keeps_body)

lemma keeps_fetch: "keeps P (fetch G remote_name)"
  unfolding fetch_def by (intro keeps_guarded keeps_rules keeps_body keeps_with_payload keeps_transfer_result)

lemma keeps_push: "keeps P (push G remote_name refspec)"
  unfolding push_def by (intro keeps_guarded keeps_rules keeps_body keeps_with_payload keeps_transfer_result)

lemmas keeps_remotes = keeps_addRemote keeps_removeRemote keeps_fetch keeps_push

end

end
