(* ===== verification/Merge.thy ===== *)
theory Merge
  imports Remotes
begin

text \<open>
  \<open>merge\<close> and \<open>pull\<close> of \<open>src/QoreGitRepository.cpp\<close> with their helpers. The three phases of \<open>merge\<close>
  are \<open>merge_analyse\<close> (with the lock: analysis, fast-forward, clean merge, collection of conflicts
  and the strategies that need no callback), \<open>run_callbacks\<close> (without the lock: the resolver of the
  user runs and may call any method of the object) and \<open>merge_apply\<close> (with the lock again). A
  resolver is a computation on the same state.
\<close>

record git_index_entry =
  ie_path :: string
  ie_id :: git_oid
  ie_mode :: git_filemode
  ie_stage :: nat

datatype git_merge_file_favor_t =
    GIT_MERGE_FILE_FAVOR_NORMAL | GIT_MERGE_FILE_FAVOR_OURS | GIT_MERGE_FILE_FAVOR_THEIRS

text \<open>The two flags of \<open>git_merge_analysis_t\<close> that the module looks at.\<close>

record git_merge_analysis_t =
  analysis_up_to_date :: bool
  analysis_fastforward :: bool

record 'w merge_api = "'w remote_api" +
  malloc_ok :: "nat \<Rightarrow> bool"
  git_annotated_commit_lookup :: "'w \<Rightarrow> git_repository \<Rightarrow> git_oid \<Rightarrow> git_err + nat"
  git_merge_analysis :: "'w \<Rightarrow> git_repository \<Rightarrow> nat \<Rightarrow> git_err + git_merge_analysis_t"
  git_merge_commits :: "'w \<Rightarrow> git_repository \<Rightarrow> git_commit \<Rightarrow> git_commit \<Rightarrow> git_merge_file_favor_t \<Rightarrow>
    (git_err + git_index) \<times> 'w"
  git_index_has_conflicts :: "'w \<Rightarrow> git_index \<Rightarrow> bool"
  git_index_conflicts :: "'w \<Rightarrow> git_index \<Rightarrow>
    git_err + (git_index_entry option \<times> git_index_entry option \<times> git_index_entry option) list"
  git_index_conflict_remove :: "'w \<Rightarrow> git_index \<Rightarrow> string \<Rightarrow> (git_err + unit) \<times> 'w"
  git_index_add :: "'w \<Rightarrow> git_index \<Rightarrow> git_index_entry \<Rightarrow> (git_err + unit) \<times> 'w"
  git_index_entries :: "'w \<Rightarrow> git_index \<Rightarrow> git_index_entry option list"
  git_index_write_tree_to :: "'w \<Rightarrow> git_index \<Rightarrow> git_repository \<Rightarrow> (git_err + git_oid) \<times> 'w"

section \<open>Conflicts\<close>

record MergeConflictInfo =
  ci_path :: string
  ancestor_oid :: "git_oid option"
  ours_oid :: "git_oid option"
  theirs_oid :: "git_oid option"

text \<open>An id with its \<open>has_\<close> flag is one \<open>option\<close>.\<close>

definition conflict_info ::
  "git_index_entry option \<times> git_index_entry option \<times> git_index_entry option \<Rightarrow> MergeConflictInfo" where
  "conflict_info c =
     (case c of (ancestor, ours, theirs) \<Rightarrow>
        \<lparr>ci_path = (case ancestor of Some e \<Rightarrow> ie_path e
                  | None \<Rightarrow> (case ours of Some e \<Rightarrow> ie_path e
                  | None \<Rightarrow> (case theirs of Some e \<Rightarrow> ie_path e | None \<Rightarrow> []))),
         ancestor_oid = map_option ie_id ancestor,
         ours_oid = map_option ie_id ours,
         theirs_oid = map_option ie_id theirs\<rparr>)"

definition lookupBlobContent ::
  "('w, 'y) merge_api_scheme \<Rightarrow> git_repository \<Rightarrow> git_oid option \<Rightarrow> ('w, bytes option) qmethod" where
  "lookupBlobContent G repo oid =
     (case oid of
        None \<Rightarrow> ret None
      | Some oid \<Rightarrow> do {
          rc \<leftarrow> query (\<lambda>w. git_blob_lookup G w repo oid);
          on_ok ''GIT-MERGE-ERROR'' ''failed to look up blob for conflict'' None rc (\<lambda>content.
            if content \<noteq> [] \<and> \<not> malloc_ok G (length content) then do {
              raiseException ''GIT-MERGE-ERROR''
                (''failed to allocate '' @ show_nat (length content) @ '' bytes for blob content'');
              ret None
            } else ret (Some content))
        })"

definition buildCommitInfoHash :: "'z oid_api_scheme \<Rightarrow> git_commit \<Rightarrow> qhash" where
  "buildCommitInfoHash T c =
     [(''id'', QString (git_oid_tostr T (git_commit_id c))),
      (''message'', QString (git_commit_message c)),
      (''summary'', QString (git_commit_summary c))] @
     (case git_commit_author c of
        Some a \<Rightarrow> [(''author_name'', QString (sig_name a)), (''author_email'', QString (sig_email a)),
                  (''author_when'', QDate (sig_when a))]
      | None \<Rightarrow> [])"

definition string_of_bytes :: "bytes \<Rightarrow> string" where
  "string_of_bytes bs = map (\<lambda>b. char_of (unat b)) bs"

definition bytes_of_string :: "string \<Rightarrow> bytes" where
  "bytes_of_string s = map (\<lambda>c. of_nat (of_char c)) s"

definition content_entries :: "string \<Rightarrow> bytes option \<Rightarrow> qhash" where
  "content_entries side content =
     (case content of
        None \<Rightarrow> []
      | Some b \<Rightarrow> [(side @ ''_content_string'', QString (string_of_bytes b)), (side @ ''_content'', QBinary b)])"

definition buildConflictHash ::
  "('w, 'y) merge_api_scheme \<Rightarrow> git_repository \<Rightarrow> MergeConflictInfo \<Rightarrow> git_commit \<Rightarrow> git_commit \<Rightarrow>
   ('w, qhash option) qmethod" where
  "buildConflictHash G repo info our_commit their_commit = do {
     ancestor_bin \<leftarrow> lookupBlobContent G repo (ancestor_oid info);
     raised \<leftarrow> exception_raised;
     if raised then ret None else do {
     ours_bin \<leftarrow> lookupBlobContent G repo (ours_oid info);
     raised \<leftarrow> exception_raised;
     if raised then ret None else do {
     theirs_bin \<leftarrow> lookupBlobContent G repo (theirs_oid info);
     raised \<leftarrow> exception_raised;
     if raised then ret None else
     ret (Some ([(''path'', QString (ci_path info))] @
       content_entries ''ancestor'' ancestor_bin @ content_entries ''ours'' ours_bin @
       content_entries ''theirs'' theirs_bin @
       [(''ours_commit'', QHash (buildCommitInfoHash G our_commit)),
        (''theirs_commit'', QHash (buildCommitInfoHash G their_commit))])) } }
   }"

definition applyResolvedContent ::
  "('w, 'y) merge_api_scheme \<Rightarrow> git_repository \<Rightarrow> string \<Rightarrow> bytes \<Rightarrow> git_index \<Rightarrow> ('w, int) qmethod" where
  "applyResolvedContent G repo path data merge_index = do {
     rc \<leftarrow> effect (\<lambda>w. git_blob_create_from_buffer G w repo data);
     on_ok ''GIT-MERGE-ERROR'' ''failed to create blob from resolved content'' (- 1) rc (\<lambda>blob_oid. do {
     effect (\<lambda>w. git_index_conflict_remove G w merge_index path);
     rc \<leftarrow> effect (\<lambda>w. git_index_add G w merge_index
       \<lparr>ie_path = path, ie_id = blob_oid, ie_mode = GIT_FILEMODE_BLOB, ie_stage = 0\<rparr>);
     on_ok ''GIT-MERGE-ERROR'' ''failed to add resolved entry to merge index'' (- 1) rc (\<lambda>_. ret 0) })
   }"

section \<open>The merge commit\<close>

primrec index_loop ::
  "('w, 'y) os_api_scheme \<Rightarrow> nat \<Rightarrow> git_index_entry option list \<Rightarrow> ('w, int) qmethod" where
  "index_loop G i [] = ret 0"
| "index_loop G i (entry # es) = do {
     cancel \<leftarrow> cancelled_when (i mod 100 = 0) G ''git merge'';
     if cancel then ret (- 1) else do {
       (case entry of
          None \<Rightarrow> ret ()
        | Some e \<Rightarrow>
            if ie_stage e \<noteq> 0 then ret ()
            else modify (\<lambda>s. s\<lparr>m_virtual_tree := omap_put (ie_path e) (ie_id e) (m_virtual_tree s)\<rparr>));
       index_loop G (Suc i) es
     }
   }"

definition populateVirtualTreeFromIndex ::
  "('w, 'y) merge_api_scheme \<Rightarrow> git_index \<Rightarrow> ('w, int) qmethod" where
  "populateVirtualTreeFromIndex G index = do {
     modify (\<lambda>s. s\<lparr>m_virtual_tree := []\<rparr>);
     es \<leftarrow> query (\<lambda>w. git_index_entries G w index);
     index_loop G 0 es
   }"

definition createMergeCommit ::
  "('w, 'y) merge_api_scheme \<Rightarrow> git_repository \<Rightarrow> string \<Rightarrow> git_commit \<Rightarrow> git_commit \<Rightarrow> git_index \<Rightarrow>
   ('w, string option) qmethod" where
  "createMergeCommit G repo message our_commit their_commit merge_index = do {
     rc \<leftarrow> effect (\<lambda>w. git_index_write_tree_to G w merge_index repo);
     on_ok ''GIT-MERGE-ERROR'' ''failed to write merge tree'' None rc (\<lambda>tree_oid. do {
     rc \<leftarrow> query (\<lambda>w. git_tree_lookup G w repo tree_oid);
     on_ok ''GIT-MERGE-ERROR'' ''failed to look up merge tree'' None rc (\<lambda>tree. do {
     rc \<leftarrow> query (\<lambda>w. git_signature_now G w ''Virtual User'' ''virtual@example.com'');
     on_ok ''GIT-MERGE-ERROR'' ''failed to create signature'' None rc (\<lambda>sig. do {
     sig \<leftarrow> overrideSignatureFromConfig G repo sig;
     update_ref \<leftarrow> query (\<lambda>w. ref_to_update G w repo True);
     rc \<leftarrow> effect (\<lambda>w. git_commit_create G w repo update_ref sig sig message tree [our_commit, their_commit]);
     on_ok ''GIT-MERGE-ERROR'' ''failed to create merge commit'' None rc (\<lambda>commit_oid. do {
     virt \<leftarrow> gets m_virtual;
     rc \<leftarrow> (if virt then populateVirtualTreeFromIndex G merge_index else ret 0);
     if rc < 0 then ret None else ret (Some (git_oid_tostr G commit_oid)) }) }) }) })
   }"

section \<open>Options and results\<close>

text \<open>
  The options hash: three values and the resolver, present when the hash holds code under that key.
  Null options are absent values.
\<close>

type_synonym 'w resolver = "qvalue \<Rightarrow> ('w, qvalue) qmethod"

record 'w merge_hash =
  opt_strategy :: qvalue
  opt_resolver :: "'w resolver option"
  opt_message :: qvalue
  opt_no_commit :: qvalue

definition merge_strategy :: "'w merge_hash \<Rightarrow> string" where
  "merge_strategy opts = (case opt_strategy opts of QString str \<Rightarrow> str | _ \<Rightarrow> ''detect'')"

definition merge_message :: "'w merge_hash \<Rightarrow> string \<Rightarrow> string" where
  "merge_message opts ref =
     (let m = (case opt_message opts of QString str \<Rightarrow> str | _ \<Rightarrow> [])
      in if m = [] then ''Merge '' @ ref else m)"

definition merge_no_commit :: "'w merge_hash \<Rightarrow> bool" where
  "merge_no_commit opts = (case opt_no_commit opts of QBool b \<Rightarrow> b | _ \<Rightarrow> False)"

definition merge_result ::
  "bool \<Rightarrow> bool \<Rightarrow> bool \<Rightarrow> qvalue option \<Rightarrow> qvalue list \<Rightarrow> string list \<Rightarrow> qhash" where
  "merge_result up_to_date fast_forward conflicts commit_id conflict_list resolved_paths =
     [(''up_to_date'', QBool up_to_date), (''fast_forward'', QBool fast_forward),
      (''conflicts'', QBool conflicts)] @
     (case commit_id of Some v \<Rightarrow> [(''commit_id'', v)] | None \<Rightarrow> []) @
     [(''conflict_list'', QList conflict_list), (''resolved_paths'', QList (map QString resolved_paths))]"

definition qstring_option :: "string option \<Rightarrow> qvalue" where
  "qstring_option v = (case v of Some x \<Rightarrow> QString x | None \<Rightarrow> QNothing)"

text \<open>
  What the first phase hands to the second: the merge was finished (with the value that the function
  returns), or callbacks are needed.
\<close>

record merge_pending =
  mp_infos :: "MergeConflictInfo list"
  mp_hashes :: "qhash list"
  mp_index :: git_index
  mp_ours :: git_commit
  mp_theirs :: git_commit

datatype merge_phase1 = Finished "qhash option" | NeedsCallback merge_pending

section \<open>Phase 1\<close>

definition merge_fast_forward ::
  "('w, 'y) merge_api_scheme \<Rightarrow> git_repository \<Rightarrow> git_commit \<Rightarrow> ('w, qhash option) qmethod" where
  "merge_fast_forward G repo their_commit = do {
     virt \<leftarrow> gets m_virtual;
     ok \<leftarrow> (if virt then do {
         rc \<leftarrow> query (\<lambda>w. git_commit_tree G w repo their_commit);
         on_ok ''GIT-MERGE-ERROR'' ''failed to get commit tree for fast-forward'' False rc (\<lambda>tree. do {
           modify (\<lambda>s. s\<lparr>m_virtual_tree := []\<rparr>);
           rc \<leftarrow> populateVirtualTreeFromGitTree G repo (stack_depth G) 0 (tree_entries tree) [];
           ret (\<not> rc < 0)
         })
       } else do {
         rc \<leftarrow> effect (\<lambda>w. git_checkout_tree G w repo their_commit);
         on_ok ''GIT-MERGE-ERROR'' ''failed to checkout tree for fast-forward'' False rc (\<lambda>_. ret True)
       });
     if \<not> ok then ret None else do {
     head \<leftarrow> query (\<lambda>w. git_repository_head G w repo);
     ok \<leftarrow> (case head of
         Inr head_ref2 \<Rightarrow> do {
           rc \<leftarrow> effect (\<lambda>w. git_reference_set_target G w repo head_ref2 (git_commit_id their_commit)
                   (Some ''fast-forward merge''));
           on_ok ''GIT-MERGE-ERROR'' ''failed to update HEAD for fast-forward'' False rc (\<lambda>_. ret True)
         }
       | Inl _ \<Rightarrow> do {
           effect (\<lambda>w. git_repository_set_head_detached G w repo (git_commit_id their_commit));
           ret True
         });
     if \<not> ok then ret None
     else ret (Some (merge_result False True False
       (Some (QString (git_oid_tostr G (git_commit_id their_commit)))) [] [])) }
   }"

text \<open>The end of a merge whose index is complete: commit unless \<open>no_commit\<close>, and report.\<close>

definition merge_finish ::
  "('w, 'y) merge_api_scheme \<Rightarrow> git_repository \<Rightarrow> bool \<Rightarrow> string \<Rightarrow> git_commit \<Rightarrow> git_commit \<Rightarrow> git_index \<Rightarrow>
   bool \<Rightarrow> string list \<Rightarrow> ('w, qhash option) qmethod" where
  "merge_finish G repo no_commit message ours theirs merge_index conflicts resolved =
     (if no_commit then ret (Some (merge_result False False conflicts None [] resolved))
      else do {
        commit_id \<leftarrow> createMergeCommit G repo message ours theirs merge_index;
        raised \<leftarrow> exception_raised;
        if raised then ret None
        else ret (Some (merge_result False False conflicts (Some (qstring_option commit_id)) [] resolved))
      })"

text \<open>The loop of the strategies ours and theirs: true when it was not left early.\<close>

definition resolve_conflicts ::
  "('w, 'y) merge_api_scheme \<Rightarrow> git_repository \<Rightarrow> bool \<Rightarrow> git_index \<Rightarrow> MergeConflictInfo list \<Rightarrow>
   ('w, bool) qmethod" where
  "resolve_conflicts G repo use_ours merge_index infos = do {
     r \<leftarrow> for_from (\<lambda>i ci. do {
       cancel \<leftarrow> cancelled_when (Suc i mod 10 = 0) G ''git merge resolve'';
       if cancel then ret (Some ()) else
       (case (if use_ours then ours_oid ci else theirs_oid ci) of
          Some content_oid \<Rightarrow> do {
            blob \<leftarrow> lookupBlobContent G repo (Some content_oid);
            raised \<leftarrow> exception_raised;
            if raised then ret (Some ()) else
            (case blob of
               None \<Rightarrow> ret None
             | Some b \<Rightarrow> do {
                 rc \<leftarrow> applyResolvedContent G repo (ci_path ci) b merge_index;
                 ret (if rc < 0 then Some () else None)
               })
          }
        | None \<Rightarrow> do {
            effect (\<lambda>w. git_index_conflict_remove G w merge_index (ci_path ci));
            ret None
          })
     }) 0 infos;
     ret (r = None)
   }"

primrec build_hashes ::
  "('w, 'y) merge_api_scheme \<Rightarrow> git_repository \<Rightarrow> string \<Rightarrow> git_commit \<Rightarrow> git_commit \<Rightarrow> nat \<Rightarrow>
   MergeConflictInfo list \<Rightarrow> qhash list \<Rightarrow> ('w, qhash list option) qmethod" where
  "build_hashes G repo what ours theirs i [] hashes = ret (Some hashes)"
| "build_hashes G repo what ours theirs i (ci # cis) hashes = do {
     cancel \<leftarrow> cancelled_when (Suc i mod 10 = 0) G what;
     if cancel then ret None else do {
       ch \<leftarrow> buildConflictHash G repo ci ours theirs;
       raised \<leftarrow> exception_raised;
       if raised then ret None
       else build_hashes G repo what ours theirs (Suc i) cis
         (case ch of Some h \<Rightarrow> hashes @ [h] | None \<Rightarrow> hashes)
     }
   }"

definition merge_favor :: "string \<Rightarrow> git_merge_file_favor_t" where
  "merge_favor strategy =
     (if strategy = ''ours'' then GIT_MERGE_FILE_FAVOR_OURS
      else if strategy = ''theirs'' then GIT_MERGE_FILE_FAVOR_THEIRS
      else GIT_MERGE_FILE_FAVOR_NORMAL)"

definition merge_normal ::
  "('w, 'y) merge_api_scheme \<Rightarrow> git_repository \<Rightarrow> string \<Rightarrow> bool \<Rightarrow> string \<Rightarrow> git_commit \<Rightarrow> git_commit \<Rightarrow>
   ('w, merge_phase1) qmethod" where
  "merge_normal G repo strategy no_commit message ours theirs = do {
     rc \<leftarrow> effect (\<lambda>w. git_merge_commits G w repo ours theirs (merge_favor strategy));
     on_ok ''GIT-MERGE-ERROR'' ''merge failed'' (Finished None) rc (\<lambda>merge_index. do {
     has_conflicts \<leftarrow> query (\<lambda>w. git_index_has_conflicts G w merge_index);
     if \<not> has_conflicts then do {
       r \<leftarrow> merge_finish G repo no_commit message ours theirs merge_index False [];
       ret (Finished r)
     } else do {
     rc \<leftarrow> query (\<lambda>w. git_index_conflicts G w merge_index);
     on_ok ''GIT-MERGE-ERROR'' ''failed to create conflict iterator'' (Finished None) rc (\<lambda>conflicts. do {
     stopped \<leftarrow> for_from (\<lambda>i c. do {
       cancel \<leftarrow> cancelled_when (Suc i mod 100 = 0) G ''git merge'';
       ret (if cancel then Some () else None)
     }) 0 conflicts;
     if stopped \<noteq> None then ret (Finished None) else do {
     let infos = map conflict_info conflicts;
     if strategy = ''ours'' \<or> strategy = ''theirs'' then do {
       ok \<leftarrow> resolve_conflicts G repo (strategy = ''ours'') merge_index infos;
       if \<not> ok then ret (Finished None) else do {
         r \<leftarrow> merge_finish G repo no_commit message ours theirs merge_index True (map ci_path infos);
         ret (Finished r)
       }
     } else if strategy = ''detect'' then do {
       hashes \<leftarrow> build_hashes G repo ''git merge detect'' ours theirs 0 infos [];
       ret (Finished (case hashes of
              None \<Rightarrow> None
            | Some hs \<Rightarrow> Some (merge_result False False True None (map QHash hs) [])))
     } else do {
       hashes \<leftarrow> build_hashes G repo ''git merge callback build'' ours theirs 0 infos [];
       ret (case hashes of
              None \<Rightarrow> Finished None
            | Some hs \<Rightarrow> NeedsCallback \<lparr>mp_infos = infos, mp_hashes = hs, mp_index = merge_index,
                mp_ours = ours, mp_theirs = theirs\<rparr>)
     } } }) } })
   }"

definition merge_analyse ::
  "('w, 'y) merge_api_scheme \<Rightarrow> string \<Rightarrow> string \<Rightarrow> bool \<Rightarrow> string \<Rightarrow> git_repository \<Rightarrow>
   ('w, merge_phase1) qmethod" where
  "merge_analyse G ref strategy no_commit message repo = do {
     rc \<leftarrow> query (\<lambda>w. git_revparse_single G w repo ref);
     on_ok ''GIT-MERGE-ERROR'' ''failed to resolve merge reference'' (Finished None) rc (\<lambda>target. do {
     rc \<leftarrow> query (\<lambda>w. git_commit_lookup G w repo (Some (git_object_id target)));
     on_ok ''GIT-MERGE-ERROR'' ''failed to look up their commit'' (Finished None) rc (\<lambda>theirs. do {
     rc \<leftarrow> query (\<lambda>w. git_repository_head G w repo);
     on_ok ''GIT-MERGE-ERROR'' ''failed to get HEAD; repository may be empty'' (Finished None) rc (\<lambda>head_ref. do {
     rc \<leftarrow> query (\<lambda>w. git_commit_lookup G w repo (git_reference_target head_ref));
     on_ok ''GIT-MERGE-ERROR'' ''failed to look up our HEAD commit'' (Finished None) rc (\<lambda>ours. do {
     rc \<leftarrow> query (\<lambda>w. git_annotated_commit_lookup G w repo (git_commit_id theirs));
     on_ok ''GIT-MERGE-ERROR'' ''failed to create annotated commit'' (Finished None) rc (\<lambda>their_ann. do {
     rc \<leftarrow> query (\<lambda>w. git_merge_analysis G w repo their_ann);
     on_ok ''GIT-MERGE-ERROR'' ''merge analysis failed'' (Finished None) rc (\<lambda>analysis.
     if analysis_up_to_date analysis then ret (Finished (Some (merge_result True False False None [] [])))
     else if analysis_fastforward analysis then do {
       r \<leftarrow> merge_fast_forward G repo theirs;
       ret (Finished r)
     } else merge_normal G repo strategy no_commit message ours theirs) }) }) }) }) })
   }"

section \<open>Phases 2 and 3\<close>

text \<open>\<open>resolutions.emplace\<close> keeps the first value of a path.\<close>

definition emplace :: "string \<Rightarrow> bytes \<Rightarrow> bytes strmap \<Rightarrow> bytes strmap" where
  "emplace path b m = (if map_of m path = None then omap_put path b m else m)"

primrec run_callbacks ::
  "('w, 'y) merge_api_scheme \<Rightarrow> 'w resolver \<Rightarrow> (MergeConflictInfo \<times> qhash) list \<Rightarrow> bytes strmap \<Rightarrow>
   qvalue list \<Rightarrow> ('w, (bytes strmap \<times> qvalue list) option) qmethod" where
  "run_callbacks G resolver [] resolutions unresolved = ret (Some (resolutions, unresolved))"
| "run_callbacks G resolver (c # cs) resolutions unresolved = do {
     cancel \<leftarrow> check_cancel G ''git merge callback'';
     if cancel then ret None else do {
     rv \<leftarrow> resolver (QHash (snd c));
     raised \<leftarrow> exception_raised;
     if raised then ret None else
     (case rv of
        QString str \<Rightarrow>
          if str \<noteq> [] \<and> \<not> malloc_ok G (length str) then do {
            raiseException ''GIT-MERGE-ERROR''
              (''failed to allocate '' @ show_nat (length str) @ '' bytes for resolved content'');
            ret None
          } else run_callbacks G resolver cs (emplace (ci_path (fst c)) (bytes_of_string str) resolutions) unresolved
      | QBinary b \<Rightarrow> run_callbacks G resolver cs (emplace (ci_path (fst c)) b resolutions) unresolved
      | _ \<Rightarrow> run_callbacks G resolver cs resolutions (unresolved @ [QHash (snd c)])) }
   }"

definition merge_apply ::
  "('w, 'y) merge_api_scheme \<Rightarrow> bool \<Rightarrow> string \<Rightarrow> merge_pending \<Rightarrow> bytes strmap \<Rightarrow> qvalue list \<Rightarrow>
   git_repository \<Rightarrow> ('w, qhash option) qmethod" where
  "merge_apply G no_commit message mp resolutions unresolved repo = do {
     failed \<leftarrow> for_from (\<lambda>i kv. do {
       rc \<leftarrow> applyResolvedContent G repo (fst kv) (snd kv) (mp_index mp);
       ret (if rc < 0 then Some () else None)
     }) 0 resolutions;
     if failed \<noteq> None then ret None else
     if unresolved = [] \<and> \<not> no_commit then do {
       commit_id \<leftarrow> createMergeCommit G repo message (mp_ours mp) (mp_theirs mp) (mp_index mp);
       raised \<leftarrow> exception_raised;
       if raised then ret None
       else ret (Some (merge_result False False True (Some (qstring_option commit_id)) unresolved (map fst resolutions)))
     } else ret (Some (merge_result False False True (Some QNothing) unresolved (map fst resolutions)))
   }"

section \<open>merge and pull\<close>

definition merge ::
  "('w, 'y) merge_api_scheme \<Rightarrow> string \<Rightarrow> 'w merge_hash \<Rightarrow> ('w, qhash option) qmethod" where
  "merge G ref opts =
     (let strategy = merge_strategy opts;
          message = merge_message opts ref;
          no_commit = merge_no_commit opts
      in if strategy \<notin> {''detect'', ''ours'', ''theirs'', ''callback''} then do {
           raiseException ''GIT-MERGE-OPTION-ERROR''
             (''invalid merge strategy '' @ strategy @ ''; use '' @ [CHR 0x22] @ ''detect'' @ [CHR 0x22] @ '', '' @
              [CHR 0x22] @ ''ours'' @ [CHR 0x22] @ '', '' @ [CHR 0x22] @ ''theirs'' @ [CHR 0x22] @ '', or '' @
              [CHR 0x22] @ ''callback'' @ [CHR 0x22]);
           ret None
         } else if strategy = ''callback'' \<and> opt_resolver opts = None then do {
           raiseException ''GIT-MERGE-OPTION-ERROR''
             ([CHR 0x22] @ ''callback'' @ [CHR 0x22] @ '' strategy requires a '' @ [CHR 0x22] @ ''resolver'' @
              [CHR 0x22] @ '' code callback'');
           ret None
         } else do {
           p1 \<leftarrow> guarded (Finished None) (merge_analyse G ref strategy no_commit message);
           (case p1 of
              Finished r \<Rightarrow> ret r
            | NeedsCallback mp \<Rightarrow>
                (case opt_resolver opts of
                   None \<Rightarrow> ret None
                 | Some resolver \<Rightarrow> do {
                     p2 \<leftarrow> run_callbacks G resolver (zip (mp_infos mp) (mp_hashes mp)) [] [];
                     (case p2 of
                        None \<Rightarrow> ret None
                      | Some (resolutions, unresolved) \<Rightarrow>
                          guarded None (merge_apply G no_commit message mp resolutions unresolved))
                   }))
         })"

text \<open>The tracking reference that \<open>pull\<close> merges.\<close>

definition pull_tracking_ref ::
  "('w, 'y) merge_api_scheme \<Rightarrow> string option \<Rightarrow> git_repository \<Rightarrow> ('w, string option) qmethod" where
  "pull_tracking_ref G remote_name repo = do {
     rc \<leftarrow> query (\<lambda>w. git_repository_head G w repo);
     (case rc of
        Inl _ \<Rightarrow> do {
          raiseException ''GIT-PULL-ERROR'' ''cannot pull: HEAD is unborn or detached'';
          ret None
        }
      | Inr head_ref \<Rightarrow>
          let head_name = git_reference_name head_ref;
              branch = (if starts_with ''refs/heads/'' head_name then drop 11 head_name else [])
          in if branch = [] then do {
               raiseException ''GIT-PULL-ERROR'' ''cannot pull with detached HEAD'';
               ret None
             } else do {
               let tracking_ref = ''refs/remotes/'' @ remote_or_origin remote_name @ ''/'' @ branch;
               found \<leftarrow> query (\<lambda>w. git_reference_lookup G w repo tracking_ref);
               ret (Some (case found of Inl _ \<Rightarrow> ''FETCH_HEAD'' | Inr _ \<Rightarrow> tracking_ref))
             })
   }"

definition pull ::
  "('w, 'y) merge_api_scheme \<Rightarrow> string option \<Rightarrow> 'w merge_hash \<Rightarrow> ('w, qhash option) qmethod" where
  "pull G remote_name opts = do {
     rc \<leftarrow> fetch G remote_name;
     if rc < 0 then ret None else do {
     tracking \<leftarrow> guarded None (pull_tracking_ref G remote_name);
     (case tracking of None \<Rightarrow> ret None | Some ref \<Rightarrow> merge G ref opts) }
   }"

section \<open>Frames\<close>

lemma keeps_case_qvalue:
  assumes "\<And>s. keeps P (f s)" and "\<And>b. keeps P (g b)" and "keeps P h"
  shows "keeps P (case v of QString s \<Rightarrow> f s | QBinary b \<Rightarrow> g b | _ \<Rightarrow> h)"
  using assms by (cases v) simp_all

context body_frame
begin

lemma keeps_lookupBlobContent: "keeps L (lookupBlobContent G repo oid)"
  unfolding lookupBlobContent_def by (intro keeps_rules keeps_body)

lemma keeps_buildConflictHash: "keeps L (buildConflictHash G repo info ours theirs)"
  unfolding buildConflictHash_def by (intro keeps_rules keeps_body keeps_lookupBlobContent)

lemma keeps_applyResolvedContent: "keeps L (applyResolvedContent G repo path data ix)"
  unfolding applyResolvedContent_def by (intro keeps_rules keeps_body)

lemma keeps_index_loop: "keeps L (index_loop G i es)"
proof (induction es arbitrary: i)
  case Nil
  show ?case unfolding index_loop.simps by (rule keeps_return)
next
  case (Cons e es)
  show ?case unfolding index_loop.simps by (intro keeps_rules keeps_body Cons)
qed

lemma keeps_populateFromIndex: "keeps L (populateVirtualTreeFromIndex G index)"
  unfolding populateVirtualTreeFromIndex_def by (intro keeps_rules keeps_body keeps_index_loop)

lemma keeps_createMergeCommit: "keeps L (createMergeCommit G repo message ours theirs ix)"
  unfolding createMergeCommit_def
  by (intro keeps_rules keeps_body keeps_overrideSignature keeps_populateFromIndex)

lemma keeps_merge_fast_forward: "keeps L (merge_fast_forward G repo theirs)"
  unfolding merge_fast_forward_def by (intro keeps_rules keeps_body keeps_populate)

lemma keeps_merge_finish: "keeps L (merge_finish G repo no_commit message ours theirs ix conflicts resolved)"
  unfolding merge_finish_def by (intro keeps_rules keeps_body keeps_createMergeCommit)

lemma keeps_resolve_conflicts: "keeps L (resolve_conflicts G repo use_ours ix infos)"
  unfolding resolve_conflicts_def
  by (intro keeps_rules keeps_body keeps_lookupBlobContent keeps_applyResolvedContent)

lemma keeps_build_hashes: "keeps L (build_hashes G repo what ours theirs i cis hashes)"
proof (induction cis arbitrary: i hashes)
  case Nil
  show ?case unfolding build_hashes.simps by (rule keeps_return)
next
  case (Cons ci cis)
  show ?case unfolding build_hashes.simps by (intro keeps_rules keeps_body keeps_buildConflictHash Cons)
qed

lemma keeps_merge_normal: "keeps L (merge_normal G repo strategy no_commit message ours theirs)"
  unfolding merge_normal_def Let_def
  by (intro keeps_rules keeps_body keeps_merge_finish keeps_resolve_conflicts keeps_build_hashes)

lemma keeps_merge_analyse: "keeps L (merge_analyse G ref strategy no_commit message repo)"
  unfolding merge_analyse_def by (intro keeps_rules keeps_body keeps_merge_fast_forward keeps_merge_normal)

lemma keeps_merge_apply: "keeps L (merge_apply G no_commit message mp resolutions unresolved repo)"
  unfolding merge_apply_def by (intro keeps_rules keeps_body keeps_applyResolvedContent keeps_createMergeCommit)

lemma keeps_pull_tracking_ref: "keeps L (pull_tracking_ref G remote_name repo)"
  unfolding pull_tracking_ref_def Let_def by (intro keeps_rules keeps_body)

end

text \<open>The predicate between the calls is itself a frame: the part of a merge without the lock keeps it,
  provided the resolver does.\<close>

sublocale repo_frame \<subseteq> outer: qgit_frame P
  by unfold_locales (simp_all add: outer_world outer_sink)

context repo_frame
begin

lemma keeps_run_callbacks:
  assumes "\<And>c. keeps P (resolver c)"
  shows "keeps P (run_callbacks G resolver cs resolutions unresolved)"
proof (induction cs arbitrary: resolutions unresolved)
  case Nil
  show ?case unfolding run_callbacks.simps by (rule keeps_return)
next
  case (Cons c cs)
  show ?case
    unfolding run_callbacks.simps
    by (intro keeps_rules outer.keeps_session assms keeps_case_qvalue Cons)
qed

lemma keeps_merge:
  assumes "\<And>resolver c. opt_resolver opts = Some resolver \<Longrightarrow> keeps P (resolver c)"
  shows "keeps P (merge G ref opts)"
proof -
  have "keeps P (case p1 of Finished r \<Rightarrow> ret r | NeedsCallback mp \<Rightarrow>
      (case opt_resolver opts of
         None \<Rightarrow> ret None
       | Some resolver \<Rightarrow> do {
           p2 \<leftarrow> run_callbacks G resolver (zip (mp_infos mp) (mp_hashes mp)) [] [];
           (case p2 of
              None \<Rightarrow> ret None
            | Some (resolutions, unresolved) \<Rightarrow>
                guarded None (merge_apply G no_commit message mp resolutions unresolved))
         }))" for p1 no_commit message
    by (cases p1; simp) (intro keeps_rules keeps_run_callbacks keeps_guarded keeps_merge_apply assms, assumption?)+
  then show ?thesis
    unfolding merge_def Let_def
    by (intro keeps_rules outer.keeps_session keeps_guarded keeps_merge_analyse)
qed

lemma keeps_pull:
  assumes "\<And>resolver c. opt_resolver opts = Some resolver \<Longrightarrow> keeps P (resolver c)"
  shows "keeps P (pull G remote_name opts)"
  unfolding pull_def
  by (intro keeps_rules keeps_fetch keeps_guarded keeps_pull_tracking_ref keeps_merge assms)

end

end
