(* ===== verification/Client.thy ===== *)
theory Client
  imports Merge
begin

text \<open>
  The object as its users see it. \<open>operation\<close> lists the methods of \<open>QoreGitRepository\<close> and \<open>perform\<close>
  calls one, with its result as a Qore value. User code (a merge resolver is user code that
  runs in the middle of a call) is the mutually inductive \<open>client\<close> and \<open>allowed\<close>: any sequence of
  calls of the object's own methods, actions on the outside world and exception handling. \<open>step\<close> is
  what may happen to an object between two moments when no call is active, and \<open>reachable\<close> the
  states that follow from a successful constructor.
\<close>

section \<open>Calls\<close>

datatype 'w operation =
    OpGetPath | OpGetWorkdir | OpIsBare | OpIsEmpty | OpIsVirtual
  | OpConfigSet string string | OpConfigGet string
  | OpAddToIndex string | OpRemoveFromIndex string
  | OpReadFile string | OpReadFileString string "string option"
  | OpWriteFile string bytes | OpWriteFileString string bytes
  | OpDeleteFile string | OpFileExists string | OpListFiles "string option" bool
  | OpCommit string | OpHeadCommitId | OpGetStatus
  | OpCreateBranch string "string option" | OpDeleteBranch string | OpCheckout string
  | OpListBranches bool | OpCurrentBranch
  | OpCreateTag string "string option" "string option" | OpDeleteTag string | OpListTags
  | OpDiff "string option" "string option" | OpDiffPatch "string option" "string option"
  | OpDiffStats "string option" "string option"
  | OpLog int "string option" | OpLookupCommit string | OpGetState | OpBlame string "qhash option"
  | OpStash "string option" | OpStashPop | OpStashList
  | OpAddRemote string string | OpRemoveRemote string
  | OpFetch "string option" | OpPush "string option" "string option"
  | OpMerge string "'w merge_hash" | OpPull "string option" "'w merge_hash"

definition as_value :: "('a \<Rightarrow> qvalue) \<Rightarrow> ('w, 'a) qmethod \<Rightarrow> ('w, qvalue) qmethod" where
  "as_value f m = do { r \<leftarrow> m; ret (f r) }"

definition qoption :: "('a \<Rightarrow> qvalue) \<Rightarrow> 'a option \<Rightarrow> qvalue" where
  "qoption f r = (case r of Some x \<Rightarrow> f x | None \<Rightarrow> QNothing)"

fun perform :: "('w, 'y) merge_api_scheme \<Rightarrow> 'w operation \<Rightarrow> ('w, qvalue) qmethod" where
  "perform G OpGetPath = as_value (qoption QString) (getPath G)"
| "perform G OpGetWorkdir = as_value (qoption QString) (getWorkdir G)"
| "perform G OpIsBare = as_value QBool (isBare G)"
| "perform G OpIsEmpty = as_value QBool (isEmpty G)"
| "perform G OpIsVirtual = as_value QBool isVirtual"
| "perform G (OpConfigSet key val) = as_value QInt (configSet G key val)"
| "perform G (OpConfigGet key) = as_value (qoption QString) (configGet G key)"
| "perform G (OpAddToIndex path) = as_value QInt (addToIndex G path)"
| "perform G (OpRemoveFromIndex path) = as_value QInt (removeFromIndex G path)"
| "perform G (OpReadFile path) = as_value (qoption QBinary) (readFile G path)"
| "perform G (OpReadFileString path encoding) =
     as_value (qoption (\<lambda>(b, e). QString (string_of_bytes b))) (readFileString G path encoding)"
| "perform G (OpWriteFile path data) = as_value QInt (writeFile G path data)"
| "perform G (OpWriteFileString path content) = as_value QInt (writeFileString G path content)"
| "perform G (OpDeleteFile path) = as_value QInt (deleteFile G path)"
| "perform G (OpFileExists path) = as_value QBool (fileExists G path)"
| "perform G (OpListFiles pattern recursive) =
     as_value (qoption (\<lambda>fs. QList (map QString fs))) (listFiles G pattern recursive)"
| "perform G (OpCommit message) = as_value (qoption QString) (commit G message)"
| "perform G OpHeadCommitId = as_value (qoption QString) (headCommitId G)"
| "perform G OpGetStatus = as_value (qoption (\<lambda>h. QHash (map (apsnd QInt) h))) (getStatus G)"
| "perform G (OpCreateBranch name from_ref) = as_value QInt (createBranch G name from_ref)"
| "perform G (OpDeleteBranch name) = as_value QInt (deleteBranch G name)"
| "perform G (OpCheckout ref) = as_value QInt (checkout G ref)"
| "perform G (OpListBranches remote) = as_value (qoption (\<lambda>bs. QList (map QString bs))) (listBranches G remote)"
| "perform G OpCurrentBranch = as_value (qoption QString) (currentBranch G)"
| "perform G (OpCreateTag name message target) = as_value QInt (createTag G name message target)"
| "perform G (OpDeleteTag name) = as_value QInt (deleteTag G name)"
| "perform G OpListTags = as_value (qoption (\<lambda>ts. QList (map QString ts))) (listTags G)"
| "perform G (OpDiff from_ref to_ref) = as_value (qoption QList) (diff G from_ref to_ref)"
| "perform G (OpDiffPatch from_ref to_ref) = as_value (qoption QString) (diffPatch G from_ref to_ref)"
| "perform G (OpDiffStats from_ref to_ref) = as_value (qoption QHash) (diffStats G from_ref to_ref)"
| "perform G (OpLog max_count path) = as_value (qoption QList) (log G max_count path)"
| "perform G (OpLookupCommit ref) = as_value (qoption QHash) (lookupCommit G ref)"
| "perform G OpGetState = as_value (qoption QString) (getState G)"
| "perform G (OpBlame path opts) = as_value (qoption QList) (blame G path opts)"
| "perform G (OpStash message) = as_value (qoption QString) (stash G message)"
| "perform G OpStashPop = as_value QInt (stashPop G)"
| "perform G OpStashList = as_value (qoption QList) (stashList G)"
| "perform G (OpAddRemote name url) = as_value QInt (addRemote G name url)"
| "perform G (OpRemoveRemote name) = as_value QInt (removeRemote G name)"
| "perform G (OpFetch remote) = as_value QInt (fetch G remote)"
| "perform G (OpPush remote refspec) = as_value QInt (push G remote refspec)"
| "perform G (OpMerge ref opts) = as_value (qoption QHash) (merge G ref opts)"
| "perform G (OpPull remote opts) = as_value (qoption QHash) (pull G remote opts)"

section \<open>User code\<close>

definition resolver_of :: "'w operation \<Rightarrow> 'w resolver option" where
  "resolver_of op = (case op of
     OpMerge ref opts \<Rightarrow> opt_resolver opts | OpPull remote opts \<Rightarrow> opt_resolver opts | _ \<Rightarrow> None)"

inductive client :: "('w, 'y) merge_api_scheme \<Rightarrow> ('w, qvalue) qmethod \<Rightarrow> bool"
  and allowed :: "('w, 'y) merge_api_scheme \<Rightarrow> 'w operation \<Rightarrow> bool"
  for G :: "('w, 'y) merge_api_scheme" where
  client_return: "client G (ret v)"
| client_world: "(\<And>v :: qvalue. client G (k v)) \<Longrightarrow> client G (State_Monad.bind (effect f) k)"
| client_sink: "client G m \<Longrightarrow> client G (State_Monad.bind (modify (\<lambda>s. s\<lparr>xsink := f (xsink s)\<rparr>)) (\<lambda>_. m))"
| client_call: "allowed G op \<Longrightarrow> (\<And>v. client G (k v)) \<Longrightarrow> client G (State_Monad.bind (perform G op) k)"
| allowed_call: "(\<And>resolver c. resolver_of op = Some resolver \<Longrightarrow> client G (resolver c)) \<Longrightarrow> allowed G op"

inductive_cases allowedE: "allowed G op"

lemma allowed_plain: "resolver_of op = None \<Longrightarrow> allowed G op"
  by (rule allowed_call) simp

section \<open>States of an object\<close>

inductive step :: "('w, 'y) merge_api_scheme \<Rightarrow> 'w qgit \<Rightarrow> 'w qgit \<Rightarrow> bool"
  for G :: "('w, 'y) merge_api_scheme" where
  step_call: "allowed G op \<Longrightarrow> run_state (perform G op) s = (v, t) \<Longrightarrow> step G s t"
| step_world: "step G s (s\<lparr>world := w\<rparr>)"
| step_sink: "step G s (s\<lparr>xsink := x\<rparr>)"
| step_registry: "omap_ok dirs \<Longrightarrow> map_of dirs (m_path s) = map_of (git_tempdirs s) (m_path s) \<Longrightarrow>
    step G s (s\<lparr>git_tempdirs := dirs\<rparr>)"

text \<open>Before construction: the registry of the module is in order and no exception is pending.\<close>

definition fresh :: "'w qgit \<Rightarrow> bool" where
  "fresh s \<longleftrightarrow> omap_ok (git_tempdirs s) \<and> xsink s = [] \<and> \<not> deadlocked s"

inductive constructed :: "('w, 'y) merge_api_scheme \<Rightarrow> 'w qgit \<Rightarrow> bool"
  for G :: "('w, 'y) merge_api_scheme" where
  constructed_open: "fresh s \<Longrightarrow> run_state (QoreGitRepository_open G path) s = ((), t) \<Longrightarrow> xsink t = [] \<Longrightarrow> constructed G t"
| constructed_init: "fresh s \<Longrightarrow> run_state (QoreGitRepository_init G path bare) s = ((), t) \<Longrightarrow> xsink t = [] \<Longrightarrow>
    constructed G t"
| constructed_virtual: "fresh s \<Longrightarrow> run_state (QoreGitRepository_virtual G) s = ((), t) \<Longrightarrow> xsink t = [] \<Longrightarrow>
    constructed G t"

inductive_cases constructedE: "constructed G s"

inductive_cases stepE: "step G s t"

inductive reachable :: "('w, 'y) merge_api_scheme \<Rightarrow> 'w qgit \<Rightarrow> bool"
  for G :: "('w, 'y) merge_api_scheme" where
  reachable_new: "constructed G s \<Longrightarrow> reachable G s"
| reachable_step: "reachable G s \<Longrightarrow> step G s t \<Longrightarrow> reachable G t"

section \<open>Preservation\<close>

context repo_frame
begin

lemma keeps_as_value: "keeps P m \<Longrightarrow> keeps P (as_value f m)"
  unfolding as_value_def by (intro keeps_rules)

lemma keeps_perform:
  assumes "\<And>resolver c. resolver_of op = Some resolver \<Longrightarrow> keeps P (resolver c)"
  shows "keeps P (perform G op)"
  using assms
  by (cases op) (auto simp: resolver_of_def writeFileString_def intro!: keeps_as_value keeps_repository keeps_files
    keeps_commits keeps_branches keeps_history keeps_stashes keeps_remotes keeps_merge keeps_pull)

text \<open>User code keeps whatever the methods keep, however deeply resolvers are nested.\<close>

lemma client_keeps:
  shows "client G m \<Longrightarrow> keeps P m" and "allowed G op \<Longrightarrow> keeps P (perform G op)"
proof (induction rule: client_allowed.inducts)
  case (client_return v)
  show ?case by (rule keeps_return)
next
  case (client_world k f)
  then show ?case by (intro keeps_bind outer.keeps_effect)
next
  case (client_sink m f)
  then show ?case by (intro keeps_bind keeps_modify outer_sink)
next
  case (client_call op k)
  then show ?case by (intro keeps_bind)
next
  case (allowed_call op)
  then show ?case by (intro keeps_perform)
qed

end

end
