(* ===== verification/Tree_Store.thy ===== *)
theory Tree_Store
  imports Branches
begin

text \<open>
  What the module relies on of libgit2's tree objects, as the locale \<open>tree_store\<close>, and the
  correctness of the two conversions of \<open>Tree_Build\<close> against it. \<open>tree_file\<close> is the abstract
  contents of a tree object: the blob at a path. \<open>dir_file\<close> is the same for the directory
  structure that \<open>buildTreeFromVirtualTree\<close> groups the virtual tree into.
\<close>

section \<open>Contents of a tree object\<close>

definition entry_named :: "git_tree_entry list \<Rightarrow> string \<Rightarrow> git_tree_entry option" where
  "entry_named es = map_of (map (\<lambda>e. (git_tree_entry_name e, e)) es)"

text \<open>The names in a tree are distinct, not empty and have no slash.\<close>

definition wf_entries :: "git_tree_entry list \<Rightarrow> bool" where
  "wf_entries es \<longleftrightarrow> distinct (map git_tree_entry_name es) \<and>
     list_all (\<lambda>e. git_tree_entry_name e \<noteq> [] \<and> CHR ''/'' \<notin> set (git_tree_entry_name e)) es"

definition type_of_mode :: "git_filemode \<Rightarrow> git_object_t" where
  "type_of_mode m =
     (case m of GIT_FILEMODE_BLOB \<Rightarrow> GIT_OBJECT_BLOB | GIT_FILEMODE_TREE \<Rightarrow> GIT_OBJECT_TREE
      | GIT_FILEMODE_COMMIT \<Rightarrow> GIT_OBJECT_COMMIT)"

text \<open>
  \<open>tree_file look es path\<close>: the id of the blob at \<open>path\<close> below a tree with the entries \<open>es\<close>;
  \<open>look\<close> finds the entries of a subtree.
\<close>

function tree_file ::
  "(git_oid \<Rightarrow> git_tree_entry list option) \<Rightarrow> git_tree_entry list \<Rightarrow> string \<Rightarrow> git_oid option" where
  "tree_file look es path =
     (case str_find CHR ''/'' path of
        None \<Rightarrow>
          (case entry_named es path of
             Some e \<Rightarrow> if git_tree_entry_type e = GIT_OBJECT_BLOB then Some (git_tree_entry_id e) else None
           | None \<Rightarrow> None)
      | Some i \<Rightarrow>
          (case entry_named es (take i path) of
             Some e \<Rightarrow>
               if git_tree_entry_type e = GIT_OBJECT_TREE then
                 (case look (git_tree_entry_id e) of
                    Some sub \<Rightarrow> tree_file look sub (drop (Suc i) path)
                  | None \<Rightarrow> None)
               else None
           | None \<Rightarrow> None))"
  by pat_completeness auto
termination
  by (relation "measure (\<lambda>(look, es, path). length path)") (auto dest: str_find_less)

declare tree_file.simps [simp del]

definition subtree_entries ::
  "('w, 'y) repo_api_scheme \<Rightarrow> 'w \<Rightarrow> git_repository \<Rightarrow> git_oid \<Rightarrow> git_tree_entry list option" where
  "subtree_entries G w repo oid =
     (case git_tree_lookup G w repo oid of Inl _ \<Rightarrow> None | Inr t \<Rightarrow> Some (tree_entries t))"

text \<open>All subtrees are there, at most \<open>n\<close> levels deep.\<close>

primrec complete_tree :: "(git_oid \<Rightarrow> git_tree_entry list option) \<Rightarrow> nat \<Rightarrow> git_tree_entry list \<Rightarrow> bool" where
  "complete_tree look 0 es = list_all (\<lambda>e. git_tree_entry_type e \<noteq> GIT_OBJECT_TREE) es"
| "complete_tree look (Suc n) es = list_all (\<lambda>e. git_tree_entry_type e = GIT_OBJECT_TREE \<longrightarrow>
     (case look (git_tree_entry_id e) of Some sub \<Rightarrow> complete_tree look n sub | None \<Rightarrow> False)) es"

text \<open>No cancellation is requested.\<close>

definition never_cancelled :: "('w, 'y) os_api_scheme \<Rightarrow> bool" where
  "never_cancelled G \<longleftrightarrow> (\<forall>w what. qore_check_cancel G w what = (None, w))"

lemma run_check_cancel_never: "never_cancelled G \<Longrightarrow> run_state (check_cancel G what) s = (False, s)"
  by (simp add: check_cancel_def never_cancelled_def check_passes_def)

lemma run_cancelled_never [simp]: "never_cancelled G \<Longrightarrow> run_state (cancelled_when c G what) s = (False, s)"
  by (simp add: cancelled_when_def run_check_cancel_never)

section \<open>Paths below a prefix\<close>

definition below :: "string \<Rightarrow> string \<Rightarrow> string option" where
  "below prefix p =
     (if prefix = [] then Some p
      else if starts_with (prefix @ ''/'') p then Some (drop (Suc (length prefix)) p) else None)"

lemma below_Some: "below prefix p = Some q \<longleftrightarrow> p = entry_path prefix q"
proof (cases "prefix = []")
  case True
  then show ?thesis by (auto simp: below_def entry_path_def)
next
  case False
  then show ?thesis by (auto simp: below_def entry_path_def starts_with_iff)
qed

lemma entry_path_inject [simp]: "entry_path prefix a = entry_path prefix b \<longleftrightarrow> a = b"
  by (simp add: entry_path_def)

lemma below_entry_path [simp]: "below prefix (entry_path prefix q) = Some q"
  by (simp add: below_Some)

lemma entry_path_nested:
  "name \<noteq> [] \<Longrightarrow> entry_path (entry_path prefix name) q = entry_path prefix (name @ CHR ''/'' # q)"
  by (simp add: entry_path_def)

text \<open>The contents of a tree, extended to full paths: what the tree says below the prefix, else \<open>m\<close>.\<close>

definition overlay :: "(string \<Rightarrow> git_oid option) \<Rightarrow> string \<Rightarrow> (string \<Rightarrow> git_oid option) \<Rightarrow> string \<Rightarrow> git_oid option" where
  "overlay f prefix m p =
     (case below prefix p of
        None \<Rightarrow> m p
      | Some q \<Rightarrow> (case f q of Some oid \<Rightarrow> Some oid | None \<Rightarrow> m p))"

lemma overlay_empty [simp]: "overlay (\<lambda>q. None) prefix m = m"
  by (simp add: overlay_def fun_eq_iff split: option.split)

lemma overlay_top [simp]: "overlay f [] Map.empty = f"
  by (simp add: overlay_def below_def fun_eq_iff split: option.split)

lemma entry_named_Nil [simp]: "entry_named [] n = None"
  by (simp add: entry_named_def)

lemma entry_named_Cons:
  "entry_named (e # es) n = (if git_tree_entry_name e = n then Some e else entry_named es n)"
  by (simp add: entry_named_def)

lemma tree_file_Nil [simp]: "tree_file look [] = (\<lambda>p. None)"
  by (rule ext, subst tree_file.simps) (simp split: option.split)

lemma wf_entries_Cons:
  "wf_entries (e # es) \<longleftrightarrow> wf_entries es \<and> git_tree_entry_name e \<noteq> [] \<and>
     CHR ''/'' \<notin> set (git_tree_entry_name e) \<and> entry_named es (git_tree_entry_name e) = None"
  by (auto simp: wf_entries_def entry_named_def map_of_eq_None_iff image_image)

text \<open>What one entry contributes.\<close>

definition entry_file ::
  "(git_oid \<Rightarrow> git_tree_entry list option) \<Rightarrow> git_tree_entry \<Rightarrow> string \<Rightarrow> git_oid option" where
  "entry_file look e path = tree_file look [e] path"

lemma tree_file_Cons:
  assumes "entry_named es (git_tree_entry_name e) = None"
  shows "tree_file look (e # es) path =
    (case entry_file look e path of Some oid \<Rightarrow> Some oid | None \<Rightarrow> tree_file look es path)"
proof (cases "str_find CHR ''/'' path")
  case None
  with assms show ?thesis
    unfolding entry_file_def
    by (subst (1 2 3) tree_file.simps) (auto simp: entry_named_Cons split: option.split)
next
  case (Some i)
  with assms show ?thesis
    unfolding entry_file_def
    by (subst (1 2 3) tree_file.simps) (auto simp: entry_named_Cons split: option.split)
qed

lemma entry_file_blob:
  assumes "git_tree_entry_type e = GIT_OBJECT_BLOB" and "CHR ''/'' \<notin> set (git_tree_entry_name e)"
  shows "entry_file look e path = (if path = git_tree_entry_name e then Some (git_tree_entry_id e) else None)"
  unfolding entry_file_def using assms
  by (subst tree_file.simps) (auto simp: entry_named_Cons split: option.split)

lemma entry_file_other:
  assumes "git_tree_entry_type e \<noteq> GIT_OBJECT_BLOB" and "git_tree_entry_type e \<noteq> GIT_OBJECT_TREE"
  shows "entry_file look e = (\<lambda>path. None)"
  unfolding entry_file_def using assms
  by (intro ext, subst tree_file.simps) (auto simp: entry_named_Cons split: option.split)

lemma entry_file_tree:
  assumes "git_tree_entry_type e = GIT_OBJECT_TREE" and "CHR ''/'' \<notin> set (git_tree_entry_name e)"
    and "look (git_tree_entry_id e) = Some sub"
  shows "entry_file look e path =
    (case below (git_tree_entry_name e) path of
       Some q \<Rightarrow> if git_tree_entry_name e = [] then entry_file look e path else tree_file look sub q
     | None \<Rightarrow> None)"
proof (cases "git_tree_entry_name e = []")
  case True
  then show ?thesis by (simp add: below_def)
next
  case ne: False
  show ?thesis
  proof (cases "str_find CHR ''/'' path")
    case None
    then have "CHR ''/'' \<notin> set path" by (simp add: str_find_None)
    then have "below (git_tree_entry_name e) path = None"
      using ne by (auto simp: below_def starts_with_iff)
    with None assms show ?thesis
      unfolding entry_file_def by (subst tree_file.simps) (simp add: entry_named_Cons)
  next
    case (Some i)
    then have path: "path = take i path @ CHR ''/'' # drop (Suc i) path" and no: "CHR ''/'' \<notin> set (take i path)"
      by (rule str_find_split)+
    have "below (git_tree_entry_name e) path =
        (if git_tree_entry_name e = take i path then Some (drop (Suc i) path) else None)"
    proof (cases "git_tree_entry_name e = take i path")
      case True
      with ne path show ?thesis
        using below_Some [of "git_tree_entry_name e" path "drop (Suc i) path"] by (simp add: entry_path_def)
    next
      case False
      have "below (git_tree_entry_name e) path \<noteq> Some q" for q
      proof
        assume "below (git_tree_entry_name e) path = Some q"
        then have "path = git_tree_entry_name e @ CHR ''/'' # q"
          using ne by (simp add: below_Some entry_path_def)
        moreover from this have "str_find CHR ''/'' path = Some (length (git_tree_entry_name e))"
          using assms(2) by simp
        ultimately show False using Some False by simp
      qed
      with False show ?thesis by (cases "below (git_tree_entry_name e) path") auto
    qed
    with Some assms ne show ?thesis
      unfolding entry_file_def by (subst tree_file.simps) (simp add: entry_named_Cons)
  qed
qed

lemma tree_file_disjoint:
  assumes "entry_named es (git_tree_entry_name e) = None" and "entry_file look e path = Some oid"
  shows "tree_file look es path = None"
proof (cases "str_find CHR ''/'' path")
  case None
  with assms show ?thesis
    unfolding entry_file_def
    by (subst (asm) tree_file.simps, subst tree_file.simps)
      (auto simp: entry_named_Cons split: if_splits option.splits)
next
  case (Some i)
  with assms show ?thesis
    unfolding entry_file_def
    by (subst (asm) tree_file.simps, subst tree_file.simps)
      (auto simp: entry_named_Cons split: if_splits option.splits)
qed

lemma overlay_Cons:
  assumes "entry_named es (git_tree_entry_name e) = None"
  shows "overlay (tree_file look (e # es)) prefix m =
    overlay (tree_file look es) prefix (overlay (entry_file look e) prefix m)"
  using tree_file_disjoint [OF assms]
  by (auto simp: overlay_def fun_eq_iff tree_file_Cons [OF assms] split: option.split)

lemma overlay_blob:
  assumes "git_tree_entry_type e = GIT_OBJECT_BLOB" and "CHR ''/'' \<notin> set (git_tree_entry_name e)"
  shows "overlay (entry_file look e) prefix m =
    m(entry_path prefix (git_tree_entry_name e) \<mapsto> git_tree_entry_id e)"
  by (auto simp: overlay_def fun_eq_iff entry_file_blob [OF assms] below_Some split: option.split)

lemma below_nested:
  assumes "name \<noteq> []"
  shows "below (entry_path prefix name) p =
    (case below prefix p of None \<Rightarrow> None | Some q \<Rightarrow> below name q)"
proof -
  have iff: "(case below prefix p of None \<Rightarrow> None | Some q \<Rightarrow> below name q) = Some r \<longleftrightarrow>
      below (entry_path prefix name) p = Some r" for r
  proof -
    have "(case below prefix p of None \<Rightarrow> None | Some q \<Rightarrow> below name q) = Some r \<longleftrightarrow>
        (\<exists>q. below prefix p = Some q \<and> below name q = Some r)"
      by (simp split: option.split)
    also have "\<dots> \<longleftrightarrow> p = entry_path (entry_path prefix name) r"
      using assms by (auto simp: below_Some entry_path_nested entry_path_def)
    finally show ?thesis by (simp add: below_Some)
  qed
  show ?thesis
    using iff by (metis (no_types, lifting) not_None_eq)
qed

lemma overlay_tree:
  assumes "git_tree_entry_type e = GIT_OBJECT_TREE" and "CHR ''/'' \<notin> set (git_tree_entry_name e)"
    and "git_tree_entry_name e \<noteq> []" and "look (git_tree_entry_id e) = Some sub"
  shows "overlay (entry_file look e) prefix m =
    overlay (tree_file look sub) (entry_path prefix (git_tree_entry_name e)) m"
  using assms(3)
  by (auto simp: overlay_def fun_eq_iff entry_file_tree [of e look sub, OF assms(1,2,4)] below_nested
      split: option.split)

section \<open>Reading a tree object\<close>

text \<open>The effect of an entry that is not a tree.\<close>

definition leaf_put :: "string \<Rightarrow> git_tree_entry \<Rightarrow> 'w qgit \<Rightarrow> 'w qgit" where
  "leaf_put prefix e s =
     (if git_tree_entry_type e = GIT_OBJECT_BLOB
      then s\<lparr>m_virtual_tree := omap_put (entry_path prefix (git_tree_entry_name e)) (git_tree_entry_id e) (m_virtual_tree s)\<rparr>
      else s)"

lemma leaf_put_simps [simp]:
  "world (leaf_put prefix e s) = world s"
  "omap_ok (m_virtual_tree s) \<Longrightarrow> omap_ok (m_virtual_tree (leaf_put prefix e s))"
  "(leaf_put prefix e s)\<lparr>m_virtual_tree := vt\<rparr> = s\<lparr>m_virtual_tree := vt\<rparr>"
  by (simp_all add: leaf_put_def)

lemma leaf_put_overlay:
  assumes "git_tree_entry_type e \<noteq> GIT_OBJECT_TREE" and "CHR ''/'' \<notin> set (git_tree_entry_name e)"
  shows "map_of (m_virtual_tree (leaf_put prefix e s)) = overlay (entry_file look e) prefix (map_of (m_virtual_tree s))"
  using assms by (simp add: leaf_put_def overlay_blob entry_file_other)

lemma run_populate_leaf:
  assumes "never_cancelled G" and "git_tree_entry_type e \<noteq> GIT_OBJECT_TREE"
  shows "run_state (populateVirtualTreeFromGitTree G repo n i (e # es) prefix) s =
    run_state (populateVirtualTreeFromGitTree G repo n (Suc i) es prefix) (leaf_put prefix e s)"
  using assms by (simp add: populateVirtualTreeFromGitTree.simps Let_def leaf_put_def)

lemma run_populate_tree:
  assumes "never_cancelled G" and "git_tree_entry_type e = GIT_OBJECT_TREE"
    and "git_tree_lookup G (world s) repo (git_tree_entry_id e) = Inr t"
    and "run_state (populateVirtualTreeFromGitTree G repo n 0 (tree_entries t)
      (entry_path prefix (git_tree_entry_name e))) s = (0, s')"
  shows "run_state (populateVirtualTreeFromGitTree G repo (Suc n) i (e # es) prefix) s =
    run_state (populateVirtualTreeFromGitTree G repo (Suc n) (Suc i) es prefix) s'"
  using assms by (simp add: populateVirtualTreeFromGitTree.simps [of G repo "Suc n"] Let_def)

text \<open>
  The loop of \<open>populateVirtualTreeFromGitTree\<close> puts the files of the tree into the virtual tree,
  whatever the order of the entries, when the tree is complete and no deeper than the stack.
\<close>

definition populates ::
  "('w, 'y) repo_api_scheme \<Rightarrow> git_repository \<Rightarrow> nat \<Rightarrow> nat \<Rightarrow> git_tree_entry list \<Rightarrow> string \<Rightarrow> 'w qgit \<Rightarrow> bool" where
  "populates G repo n i es prefix s \<longleftrightarrow>
     (\<exists>vt. run_state (populateVirtualTreeFromGitTree G repo n i es prefix) s = (0, s\<lparr>m_virtual_tree := vt\<rparr>) \<and>
      omap_ok vt \<and>
      map_of vt = overlay (tree_file (subtree_entries G (world s) repo) es) prefix (map_of (m_virtual_tree s)))"

lemma populates_Nil: "omap_ok (m_virtual_tree s) \<Longrightarrow> populates G repo n i [] prefix s"
  unfolding populates_def
  by (intro exI [of _ "m_virtual_tree s"]) (simp add: populateVirtualTreeFromGitTree.simps)

lemma populates_leaf:
  assumes "never_cancelled G" and "git_tree_entry_type e \<noteq> GIT_OBJECT_TREE" and "wf_entries (e # es)"
    and "populates G repo n (Suc i) es prefix (leaf_put prefix e s)"
  shows "populates G repo n i (e # es) prefix s"
  using assms leaf_put_overlay [OF assms(2), of prefix s "subtree_entries G (world s) repo"]
  by (auto simp: populates_def run_populate_leaf wf_entries_Cons overlay_Cons)

lemma populates_tree:
  assumes "never_cancelled G" and "git_tree_entry_type e = GIT_OBJECT_TREE" and "wf_entries (e # es)"
    and "subtree_entries G (world s) repo (git_tree_entry_id e) = Some sub"
    and "populates G repo n 0 sub (entry_path prefix (git_tree_entry_name e)) s"
    and "\<And>vt. omap_ok vt \<Longrightarrow> populates G repo (Suc n) (Suc i) es prefix (s\<lparr>m_virtual_tree := vt\<rparr>)"
  shows "populates G repo (Suc n) i (e # es) prefix s"
proof -
  let ?look = "subtree_entries G (world s) repo"
  from assms(4) obtain t where t: "git_tree_lookup G (world s) repo (git_tree_entry_id e) = Inr t" "sub = tree_entries t"
    by (auto simp: subtree_entries_def split: sum.splits)
  from assms(5) obtain vs where vs:
    "run_state (populateVirtualTreeFromGitTree G repo n 0 (tree_entries t)
       (entry_path prefix (git_tree_entry_name e))) s = (0, s\<lparr>m_virtual_tree := vs\<rparr>)" "omap_ok vs"
    "map_of vs = overlay (tree_file ?look sub) (entry_path prefix (git_tree_entry_name e)) (map_of (m_virtual_tree s))"
    by (auto simp: populates_def t(2))
  from assms(6) [OF vs(2)] obtain vt where vt:
    "run_state (populateVirtualTreeFromGitTree G repo (Suc n) (Suc i) es prefix) (s\<lparr>m_virtual_tree := vs\<rparr>) =
       (0, s\<lparr>m_virtual_tree := vt\<rparr>)" "omap_ok vt"
    "map_of vt = overlay (tree_file ?look es) prefix (map_of vs)"
    by (auto simp: populates_def)
  have "map_of vs = overlay (entry_file ?look e) prefix (map_of (m_virtual_tree s))"
    using overlay_tree [where look = ?look, OF assms(2) _ _ assms(4)] assms(3) vs(3) by (simp add: wf_entries_Cons)
  then have "map_of vt = overlay (tree_file ?look (e # es)) prefix (map_of (m_virtual_tree s))"
    using vt(3) assms(3) by (simp add: wf_entries_Cons overlay_Cons)
  with vt(1,2) show ?thesis
    by (auto simp: populates_def run_populate_tree [OF assms(1,2) t(1) vs(1)])
qed

lemma populates_complete:
  assumes nc: "never_cancelled G"
    and wf: "\<And>oid sub. subtree_entries G w repo oid = Some sub \<Longrightarrow> wf_entries sub"
  shows "world s = w \<Longrightarrow> complete_tree (subtree_entries G w repo) n es \<Longrightarrow> wf_entries es \<Longrightarrow>
    omap_ok (m_virtual_tree s) \<Longrightarrow> populates G repo n i es prefix s"
proof (induction n arbitrary: es i prefix s)
  case 0
  then show ?case
  proof (induction es arbitrary: i s)
    case Nil
    then show ?case by (simp add: populates_Nil)
  next
    case (Cons e es)
    then show ?case by (intro populates_leaf [OF nc]) (simp_all add: wf_entries_Cons)
  qed
next
  case (Suc n)
  note deeper = Suc.IH
  from Suc.prems show ?case
  proof (induction es arbitrary: i s)
    case Nil
    then show ?case by (simp add: populates_Nil)
  next
    case (Cons e es)
    show ?case
    proof (cases "git_tree_entry_type e = GIT_OBJECT_TREE")
      case False
      with Cons show ?thesis by (intro populates_leaf [OF nc]) (simp_all add: wf_entries_Cons)
    next
      case True
      with Cons.prems(2) obtain sub where
        sub: "subtree_entries G w repo (git_tree_entry_id e) = Some sub"
        and csub: "complete_tree (subtree_entries G w repo) n sub"
        by (auto split: option.splits)
      show ?thesis
        using Cons.prems deeper [OF Cons.prems(1) csub wf [OF sub] Cons.prems(4)] sub
        by (intro populates_tree [OF nc True]) (simp_all add: wf_entries_Cons Cons.IH)
    qed
  qed
qed

section \<open>The grouped directory structure\<close>

text \<open>\<open>dir_file d path\<close> is the blob that a directory holds at a path, unless the path is also a directory.\<close>

function dir_find :: "dir_entry \<Rightarrow> string \<Rightarrow> git_oid option" where
  "dir_find d path =
     (case str_find CHR ''/'' path of
        None \<Rightarrow> map_of (blobs d) path
      | Some i \<Rightarrow>
          (case map_of (subdirs d) (take i path) of
             Some d' \<Rightarrow> dir_find d' (drop (Suc i) path)
           | None \<Rightarrow> None))"
  by pat_completeness auto
termination
  by (relation "measure (\<lambda>(d, path). length path)") (auto dest: str_find_less)

function dir_isdir :: "dir_entry \<Rightarrow> string \<Rightarrow> bool" where
  "dir_isdir d path =
     (case str_find CHR ''/'' path of
        None \<Rightarrow> map_of (subdirs d) path \<noteq> None
      | Some i \<Rightarrow>
          (case map_of (subdirs d) (take i path) of
             Some d' \<Rightarrow> dir_isdir d' (drop (Suc i) path)
           | None \<Rightarrow> False))"
  by pat_completeness auto
termination
  by (relation "measure (\<lambda>(d, path). length path)") (auto dest: str_find_less)

declare dir_find.simps [simp del] dir_isdir.simps [simp del]

definition dir_file :: "dir_entry \<Rightarrow> string \<Rightarrow> git_oid option" where
  "dir_file d path = (if dir_isdir d path then None else dir_find d path)"

text \<open>Ordered maps at every level.\<close>

inductive dir_ok :: "dir_entry \<Rightarrow> bool" where
  "omap_ok bs \<Longrightarrow> omap_ok ds \<Longrightarrow> (\<And>n d. map_of ds n = Some d \<Longrightarrow> dir_ok d) \<Longrightarrow> dir_ok (DirEntry bs ds)"

inductive_simps dir_ok_simps [simp]: "dir_ok (DirEntry bs ds)"

lemma dir_ok_insert: "dir_ok d \<Longrightarrow> dir_ok (dir_insert path oid d)"
proof (induction path oid d rule: dir_insert.induct)
  case (1 path oid d)
  obtain bs ds where d: "d = DirEntry bs ds" by (cases d)
  show ?case
  proof (cases "str_find CHR ''/'' path")
    case None
    with "1.prems" d show ?thesis by (subst dir_insert.simps) simp
  next
    case (Some i)
    have "dir_ok (dir_insert (drop (Suc i) path) oid
        (case map_of ds (take i path) of Some e \<Rightarrow> e | None \<Rightarrow> DirEntry [] []))"
      using "1.prems" d by (intro "1.IH" [OF Some refl]) (auto split: option.split)
    with "1.prems" d Some show ?thesis
      by (subst dir_insert.simps) (simp add: Let_def)
  qed
qed

lemma dir_find_empty [simp]: "dir_find (DirEntry [] []) q = None"
  by (subst dir_find.simps) (simp split: option.split)

lemma dir_isdir_empty [simp]: "\<not> dir_isdir (DirEntry [] []) q"
  by (subst dir_isdir.simps) (simp split: option.split)

lemma split_path_eq:
  assumes "str_find CHR ''/'' p = Some i" and "str_find CHR ''/'' q = Some j"
  shows "p = q \<longleftrightarrow> take i p = take j q \<and> drop (Suc i) p = drop (Suc j) q"
  using str_find_split [OF assms(1)] str_find_split [OF assms(2)] assms by (metis option.inject)

lemma dir_find_insert: "dir_find (dir_insert p oid d) q = (if q = p then Some oid else dir_find d q)"
proof (induction p oid d arbitrary: q rule: dir_insert.induct)
  case (1 p oid d)
  show ?case
  proof (cases "str_find CHR ''/'' p")
    case None
    then show ?thesis
      by (subst dir_insert.simps, subst (1 2) dir_find.simps) (auto split: option.split)
  next
    case (Some i)
    note IH = "1.IH" [OF Some refl refl]
    show ?thesis
    proof (cases "str_find CHR ''/'' q")
      case None
      with Some have "q \<noteq> p" by auto
      with Some None show ?thesis
        by (subst dir_insert.simps, subst (1 2) dir_find.simps) (simp add: Let_def)
    next
      case j: (Some j)
      show ?thesis
        using Some j split_path_eq [OF j Some]
        by (subst dir_insert.simps, subst (1 2) dir_find.simps) (auto simp: Let_def IH split: option.split)
    qed
  qed
qed

lemma first_split_eq:
  "c \<notin> set a \<Longrightarrow> c \<notin> set b \<Longrightarrow> a @ c # x = b @ c # y \<longleftrightarrow> a = b \<and> x = y"
proof (induction a arbitrary: b)
  case Nil
  then show ?case by (cases b) auto
next
  case (Cons d a)
  then show ?case by (cases b) auto
qed

lemma starts_with_dir:
  "starts_with (q @ ''/'') p \<longleftrightarrow>
    (case str_find CHR ''/'' p of
       None \<Rightarrow> False
     | Some i \<Rightarrow>
         (case str_find CHR ''/'' q of
            None \<Rightarrow> q = take i p
          | Some j \<Rightarrow> take j q = take i p \<and> starts_with (drop (Suc j) q @ ''/'') (drop (Suc i) p)))"
proof (cases "str_find CHR ''/'' p")
  case None
  then show ?thesis by (auto simp: starts_with_iff str_find_None)
next
  case (Some i)
  then have p: "p = take i p @ CHR ''/'' # drop (Suc i) p" and np: "CHR ''/'' \<notin> set (take i p)"
    by (rule str_find_split)+
  show ?thesis
  proof (cases "str_find CHR ''/'' q")
    case None
    have "starts_with (q @ ''/'') p \<longleftrightarrow> q = take i p"
    proof
      assume "starts_with (q @ ''/'') p"
      then obtain t where "p = q @ CHR ''/'' # t" by (auto simp: starts_with_iff)
      moreover from this None have "str_find CHR ''/'' p = Some (length q)" by (simp add: str_find_None)
      ultimately show "q = take i p" using Some by simp
    next
      assume "q = take i p"
      then show "starts_with (q @ ''/'') p" using p by (metis starts_with_iff append.assoc append_Cons append_Nil)
    qed
    then show ?thesis by (simp add: Some None)
  next
    case j: (Some j)
    then have q: "q = take j q @ CHR ''/'' # drop (Suc j) q" and nq: "CHR ''/'' \<notin> set (take j q)"
      by (rule str_find_split)+
    have e: "q @ CHR ''/'' # t = take j q @ CHR ''/'' # drop (Suc j) q @ CHR ''/'' # t" for t
      by (subst q) simp
    have "starts_with (q @ ''/'') p \<longleftrightarrow>
        (\<exists>t. take i p @ CHR ''/'' # drop (Suc i) p = take j q @ CHR ''/'' # drop (Suc j) q @ CHR ''/'' # t)"
      by (simp only: starts_with_iff append.assoc append_Cons append_Nil e p [symmetric])
    also have "\<dots> \<longleftrightarrow> take j q = take i p \<and> (\<exists>t. drop (Suc i) p = drop (Suc j) q @ CHR ''/'' # t)"
      using first_split_eq [OF np nq] by auto
    also have "\<dots> \<longleftrightarrow> take j q = take i p \<and> starts_with (drop (Suc j) q @ ''/'') (drop (Suc i) p)"
      by (simp add: starts_with_iff)
    finally show ?thesis by (simp add: Some j)
  qed
qed

lemma dir_isdir_insert: "dir_isdir (dir_insert p oid d) q \<longleftrightarrow> dir_isdir d q \<or> starts_with (q @ ''/'') p"
proof (induction p oid d arbitrary: q rule: dir_insert.induct)
  case (1 p oid d)
  show ?case
  proof (cases "str_find CHR ''/'' p")
    case None
    then show ?thesis
      by (subst dir_insert.simps, subst (1 2) dir_isdir.simps) (simp add: starts_with_dir split: option.split)
  next
    case (Some i)
    note IH = "1.IH" [OF Some refl refl]
    show ?thesis
    proof (cases "str_find CHR ''/'' q")
      case None
      with Some show ?thesis
        by (subst dir_insert.simps, subst (1 2) dir_isdir.simps) (auto simp: Let_def starts_with_dir)
    next
      case (Some j)
      then show ?thesis
        using \<open>str_find CHR ''/'' p = Some i\<close>
        by (subst dir_insert.simps, subst (1 2) dir_isdir.simps, subst starts_with_dir)
          (auto simp: Let_def IH split: option.split)
    qed
  qed
qed

text \<open>The directory structure of a list of paths.\<close>

definition grouped :: "(string \<times> git_oid) list \<Rightarrow> dir_entry \<Rightarrow> dir_entry" where
  "grouped kvs root = foldl (\<lambda>d kv. dir_insert (fst kv) (snd kv) d) root kvs"

lemma dir_ok_grouped: "dir_ok root \<Longrightarrow> dir_ok (grouped kvs root)"
  by (induction kvs arbitrary: root) (simp_all add: grouped_def dir_ok_insert)

lemma dir_isdir_grouped:
  "dir_isdir (grouped kvs root) q \<longleftrightarrow> dir_isdir root q \<or> (\<exists>p \<in> fst ` set kvs. starts_with (q @ ''/'') p)"
  by (induction kvs arbitrary: root) (auto simp: grouped_def dir_isdir_insert)

lemma dir_find_grouped:
  "distinct (map fst kvs) \<Longrightarrow> dir_find (grouped kvs root) q =
    (case map_of kvs q of Some oid \<Rightarrow> Some oid | None \<Rightarrow> dir_find root q)"
proof (induction kvs arbitrary: root)
  case Nil
  then show ?case by (simp add: grouped_def)
next
  case (Cons kv kvs)
  obtain k v where kv: "kv = (k, v)" by (cases kv)
  from Cons.prems kv have "map_of kvs k = None" by (simp add: map_of_eq_None_iff)
  with Cons kv show ?case by (auto simp: grouped_def dir_find_insert split: option.split)
qed

text \<open>
  A path of a virtual tree is shadowed when another path has it as a directory. \<open>committed vt\<close> is the
  part of the virtual tree that a tree object can hold.
\<close>

definition shadowed :: "git_oid strmap \<Rightarrow> string \<Rightarrow> bool" where
  "shadowed vt q \<longleftrightarrow> (\<exists>p \<in> fst ` set vt. starts_with (q @ ''/'') p)"

definition committed :: "git_oid strmap \<Rightarrow> git_oid strmap" where
  "committed vt = filter (\<lambda>kv. \<not> shadowed vt (fst kv)) vt"

lemma map_of_filter_key: "map_of (filter (\<lambda>kv. Q (fst kv)) m) q = (if Q q then map_of m q else None)"
  by (induction m) auto

lemma map_of_committed: "map_of (committed vt) q = (if shadowed vt q then None else map_of vt q)"
  by (simp add: committed_def map_of_filter_key [where Q = "\<lambda>k. \<not> shadowed vt k"])

lemma omap_ok_filter: "omap_ok m \<Longrightarrow> omap_ok (filter P m)"
  by (induction m) auto

lemma dir_file_grouped:
  assumes "omap_ok vt"
  shows "dir_file (grouped vt (DirEntry [] [])) = map_of (committed vt)"
  using omap_ok_distinct [OF assms]
  by (auto simp: dir_file_def fun_eq_iff dir_isdir_grouped dir_find_grouped map_of_committed shadowed_def
      split: option.split)

lemma run_group_paths:
  "never_cancelled G \<Longrightarrow> run_state (group_paths G c kvs root) s = (Some (grouped kvs root), s)"
  by (induction kvs arbitrary: c root) (simp_all add: grouped_def)

section \<open>Writing a tree object\<close>

text \<open>
  The entries \<open>es\<close> hold the blobs \<open>bs\<close> and the subdirectories \<open>ds\<close>; a subdirectory takes the place of
  a blob with its name. The trees of the subdirectories are at most \<open>n\<close> levels deep.
\<close>

definition subtree_for ::
  "(git_oid \<Rightarrow> git_tree_entry list option) \<Rightarrow> nat \<Rightarrow> dir_entry \<Rightarrow> git_tree_entry \<Rightarrow> bool" where
  "subtree_for look n d e \<longleftrightarrow>
     git_tree_entry_type e = GIT_OBJECT_TREE \<and>
     (\<exists>sub. look (git_tree_entry_id e) = Some sub \<and> complete_tree look n sub \<and> tree_file look sub = dir_file d)"

definition blob_for :: "string \<Rightarrow> git_oid \<Rightarrow> git_tree_entry" where
  "blob_for name oid = \<lparr>git_tree_entry_name = name, git_tree_entry_id = oid, git_tree_entry_type = GIT_OBJECT_BLOB\<rparr>"

definition entries_match ::
  "(git_oid \<Rightarrow> git_tree_entry list option) \<Rightarrow> nat \<Rightarrow> git_oid strmap \<Rightarrow> (string \<times> dir_entry) list \<Rightarrow>
   git_tree_entry list \<Rightarrow> bool" where
  "entries_match look n bs ds es \<longleftrightarrow>
     (\<forall>name. (case map_of ds name of
        Some d \<Rightarrow> (\<exists>e. entry_named es name = Some e \<and> subtree_for look n d e)
      | None \<Rightarrow> entry_named es name = map_option (blob_for name) (map_of bs name)))"

lemma entries_matchD:
  "entries_match look n bs ds es \<Longrightarrow> map_of ds name = Some d \<Longrightarrow>
   \<exists>e. entry_named es name = Some e \<and> subtree_for look n d e"
  "entries_match look n bs ds es \<Longrightarrow> map_of ds name = None \<Longrightarrow>
   entry_named es name = map_option (blob_for name) (map_of bs name)"
  unfolding entries_match_def by (auto dest: spec [where x = name])

lemma tree_file_match:
  assumes "entries_match look n bs ds es"
  shows "tree_file look es = dir_file (DirEntry bs ds)"
proof
  fix path
  show "tree_file look es path = dir_file (DirEntry bs ds) path"
  proof (cases "str_find CHR ''/'' path")
    case None
    then show ?thesis
      using entries_matchD [OF assms, of path]
      unfolding dir_file_def
      by (subst tree_file.simps, subst dir_isdir.simps, subst dir_find.simps)
        (cases "map_of ds path"; cases "map_of bs path"; auto simp: subtree_for_def blob_for_def)
  next
    case (Some i)
    show ?thesis
    proof (cases "map_of ds (take i path)")
      case None
      then show ?thesis
        using entries_matchD(2) [OF assms None] Some
        unfolding dir_file_def
        by (subst tree_file.simps, subst dir_isdir.simps, subst dir_find.simps)
          (cases "map_of bs (take i path)"; simp add: blob_for_def)
    next
      case d: (Some d)
      then show ?thesis
        using entries_matchD(1) [OF assms d] Some
        by (subst tree_file.simps) (auto simp: subtree_for_def dir_file_def dir_isdir.simps [of _ path] dir_find.simps [of _ path])
    qed
  qed
qed

lemma entry_named_mem: "wf_entries es \<Longrightarrow> e \<in> set es \<Longrightarrow> entry_named es (git_tree_entry_name e) = Some e"
  by (auto simp: entry_named_def wf_entries_def comp_def)

lemma complete_match:
  assumes "entries_match look (n - 1) bs ds es" and "wf_entries es" and "n = 0 \<longrightarrow> ds = []"
  shows "complete_tree look n es"
proof -
  have e: "git_tree_entry_type e \<noteq> GIT_OBJECT_TREE \<or>
      (n > 0 \<and> (\<exists>sub. look (git_tree_entry_id e) = Some sub \<and> complete_tree look (n - 1) sub))"
    if "e \<in> set es" for e
  proof (cases "map_of ds (git_tree_entry_name e)")
    case None
    then have "\<exists>oid. e = blob_for (git_tree_entry_name e) oid"
      using entries_matchD(2) [OF assms(1) None] entry_named_mem [OF assms(2) that]
      by (cases "map_of bs (git_tree_entry_name e)") auto
    then obtain oid where "e = blob_for (git_tree_entry_name e) oid" ..
    then have "git_tree_entry_type e = GIT_OBJECT_BLOB"
      by (metis blob_for_def git_tree_entry.select_convs(3))
    then show ?thesis by simp
  next
    case (Some d)
    with assms(3) have "n > 0" by (cases n) auto
    then show ?thesis
      using entries_matchD(1) [OF assms(1) Some] entry_named_mem [OF assms(2) that]
      by (auto simp: subtree_for_def)
  qed
  show ?thesis
  proof (cases n)
    case 0
    with e show ?thesis by (auto simp: list_all_iff)
  next
    case (Suc m)
    with e show ?thesis by (fastforce simp: list_all_iff)
  qed
qed

text \<open>Looking up more trees changes nothing for a complete tree.\<close>

definition extends :: "('a \<Rightarrow> 'b option) \<Rightarrow> ('a \<Rightarrow> 'b option) \<Rightarrow> bool" where
  "extends f g \<longleftrightarrow> (\<forall>x y. f x = Some y \<longrightarrow> g x = Some y)"

lemma extends_refl [simp]: "extends f f"
  by (simp add: extends_def)

lemma extends_trans: "extends f g \<Longrightarrow> extends g h \<Longrightarrow> extends f h"
  by (simp add: extends_def)

lemma complete_extends: "extends look look' \<Longrightarrow> complete_tree look n es \<Longrightarrow> complete_tree look' n es"
proof (induction n arbitrary: es)
  case 0
  then show ?case by simp
next
  case (Suc n)
  then show ?case by (fastforce simp: list_all_iff extends_def split: option.splits)
qed

lemma entry_named_in: "entry_named es name = Some e \<Longrightarrow> e \<in> set es"
  by (auto simp: entry_named_def dest!: map_of_SomeD)

lemma complete_subtree:
  assumes "complete_tree look n es" and "entry_named es name = Some e" and "git_tree_entry_type e = GIT_OBJECT_TREE"
  obtains m sub where "n = Suc m" and "look (git_tree_entry_id e) = Some sub" and "complete_tree look m sub"
proof (cases n)
  case 0
  with assms entry_named_in [OF assms(2)] show ?thesis by (auto simp: list_all_iff)
next
  case (Suc m)
  with assms entry_named_in [OF assms(2)] that show ?thesis
    by (auto simp: list_all_iff split: option.splits)
qed

lemma tree_file_extends:
  assumes "extends look look'"
  shows "complete_tree look n es \<Longrightarrow> tree_file look' es path = tree_file look es path"
proof (induction "length path" arbitrary: n es path rule: less_induct)
  case less
  show ?case
  proof (cases "str_find CHR ''/'' path")
    case None
    then show ?thesis by (subst (1 2) tree_file.simps) simp
  next
    case (Some i)
    show ?thesis
    proof (cases "\<exists>e. entry_named es (take i path) = Some e \<and> git_tree_entry_type e = GIT_OBJECT_TREE")
      case False
      with Some show ?thesis by (subst (1 2) tree_file.simps) (auto split: option.split)
    next
      case True
      then obtain e where e: "entry_named es (take i path) = Some e" "git_tree_entry_type e = GIT_OBJECT_TREE"
        by blast
      obtain m sub where sub: "look (git_tree_entry_id e) = Some sub" "complete_tree look m sub"
        using complete_subtree [OF less.prems e] by metis
      have "tree_file look' sub (drop (Suc i) path) = tree_file look sub (drop (Suc i) path)"
        using less.hyps [OF _ sub(2)] str_find_less [OF Some] by simp
      moreover have "look' (git_tree_entry_id e) = Some sub"
        using assms sub(1) by (simp add: extends_def)
      ultimately show ?thesis
        using Some e sub(1) by (subst (1 2) tree_file.simps) simp
    qed
  qed
qed

lemma subtree_for_extends:
  "extends look look' \<Longrightarrow> subtree_for look n d e \<Longrightarrow> subtree_for look' n d e"
  unfolding subtree_for_def
  by (metis (no_types, lifting) complete_extends extends_def ext tree_file_extends)

lemma entries_match_extends:
  "extends look look' \<Longrightarrow> entries_match look n bs ds es \<Longrightarrow> entries_match look' n bs ds es"
  unfolding entries_match_def [of look']
  by (auto split: option.split dest: entries_matchD(2)) (metis entries_matchD(1) subtree_for_extends)

text \<open>What the module relies on of libgit2's trees and tree builders.\<close>

text \<open>The references and commits of a repository, which writing trees leaves alone.\<close>

definition refs_view ::
  "('w, 'y) repo_api_scheme \<Rightarrow> git_repository \<Rightarrow> 'w \<Rightarrow>
   (git_err + git_reference) \<times> (string \<Rightarrow> git_err + git_reference) \<times> (git_oid option \<Rightarrow> git_err + git_commit)" where
  "refs_view G repo w = (git_repository_head G w repo, git_reference_lookup G w repo, git_commit_lookup G w repo)"

lemma find_parent_view: "refs_view G repo w' = refs_view G repo w \<Longrightarrow> find_parent G w' repo = find_parent G w repo"
  by (simp add: refs_view_def find_parent_def split: sum.split option.split)

lemma ref_to_update_view:
  "refs_view G repo w' = refs_view G repo w \<Longrightarrow> ref_to_update G w' repo b = ref_to_update G w repo b"
  by (simp add: refs_view_def ref_to_update_def split: sum.split ref_target.split)

locale tree_store =
  fixes G :: "('w, 'y) repo_api_scheme"
    and repo :: git_repository
    and ok :: "'w \<Rightarrow> bool"
  assumes new_empty: "ok w \<Longrightarrow> git_treebuilder_new G w repo = Inr b \<Longrightarrow> entry_named b name = None"
    and insert_entry: "ok w \<Longrightarrow> git_treebuilder_insert G w repo b name oid mode = Inr b' \<Longrightarrow>
      entry_named b' = (entry_named b)(name \<mapsto>
        \<lparr>git_tree_entry_name = name, git_tree_entry_id = oid, git_tree_entry_type = type_of_mode mode\<rparr>)"
    and write_ok: "ok w \<Longrightarrow> git_treebuilder_write G w repo b = (r, w') \<Longrightarrow> ok w'"
    and write_lookup: "ok w \<Longrightarrow> git_treebuilder_write G w repo b = (Inr oid, w') \<Longrightarrow>
      \<exists>es. subtree_entries G w' repo oid = Some es \<and> entry_named es = entry_named b"
    and write_extends: "ok w \<Longrightarrow> git_treebuilder_write G w repo b = (r, w') \<Longrightarrow>
      extends (subtree_entries G w repo) (subtree_entries G w' repo)"
    and lookup_wf: "ok w \<Longrightarrow> subtree_entries G w repo oid = Some es \<Longrightarrow> wf_entries es"
    and write_refs: "ok w \<Longrightarrow> git_treebuilder_write G w repo b = (r, w') \<Longrightarrow> refs_view G repo w' = refs_view G repo w"
begin

abbreviation look :: "'w \<Rightarrow> git_oid \<Rightarrow> git_tree_entry list option" where
  "look w \<equiv> subtree_entries G w repo"

lemma run_insert_blobs:
  "ok (world s) \<Longrightarrow> run_state (insert_blobs G repo bs builder) s = (Some b, s') \<Longrightarrow> distinct (map fst bs) \<Longrightarrow>
   s' = s \<and> entry_named b = (\<lambda>name. case map_of bs name of Some oid \<Rightarrow> Some (blob_for name oid)
     | None \<Rightarrow> entry_named builder name)"
proof (induction bs arbitrary: builder)
  case Nil
  then show ?case by simp
next
  case (Cons kv bs)
  obtain k v where kv: "kv = (k, v)" by (cases kv)
  obtain b1 where b1: "git_treebuilder_insert G (world s) repo builder k v GIT_FILEMODE_BLOB = Inr b1"
    using Cons.prems(2) kv
    by (cases "git_treebuilder_insert G (world s) repo builder k v GIT_FILEMODE_BLOB")
      (auto simp: on_ok_Inl run_git_raise_exception_rc)
  have "map_of bs k = None" using Cons.prems(3) kv by (simp add: map_of_eq_None_iff)
  with Cons.IH [of b1] Cons.prems kv b1 insert_entry [OF Cons.prems(1) b1] show ?case
    by (auto simp: fun_eq_iff blob_for_def type_of_mode_def split: option.split)
qed

text \<open>The world \<open>w'\<close> has the tree \<open>oid\<close> of the directory \<open>d\<close>, and everything that \<open>w\<close> had.\<close>

definition built :: "'w \<Rightarrow> 'w \<Rightarrow> nat \<Rightarrow> dir_entry \<Rightarrow> git_oid \<Rightarrow> bool" where
  "built w w' n d oid \<longleftrightarrow> ok w' \<and> extends (look w) (look w') \<and> refs_view G repo w' = refs_view G repo w \<and>
     (\<exists>es. look w' oid = Some es \<and> wf_entries es \<and> complete_tree (look w') n es \<and>
       tree_file (look w') es = dir_file d)"

definition subdirs_built ::
  "'w \<Rightarrow> 'w \<Rightarrow> nat \<Rightarrow> (string \<times> dir_entry) list \<Rightarrow> git_treebuilder \<Rightarrow> git_treebuilder \<Rightarrow> bool" where
  "subdirs_built w w' n ds builder b \<longleftrightarrow> ok w' \<and> extends (look w) (look w') \<and>
     refs_view G repo w' = refs_view G repo w \<and> (n = 0 \<longrightarrow> ds = []) \<and>
     (\<forall>name d. map_of ds name = Some d \<longrightarrow>
        (\<exists>e. entry_named b name = Some e \<and> subtree_for (look w') (n - 1) d e)) \<and>
     (\<forall>name. map_of ds name = None \<longrightarrow> entry_named b name = entry_named builder name)"

lemma run_build_subdirs:
  assumes IH: "\<And>d s oid s'. n > 0 \<Longrightarrow> ok (world s) \<Longrightarrow> dir_ok d \<Longrightarrow>
      run_state (buildTree G repo (n - 1) d) s = (Some oid, s') \<Longrightarrow>
      \<exists>w'. s' = s\<lparr>world := w'\<rparr> \<and> built (world s) w' (n - 1) d oid"
  shows "ok (world s) \<Longrightarrow> distinct (map fst ds) \<Longrightarrow> (\<forall>d \<in> snd ` set ds. dir_ok d) \<Longrightarrow>
    run_state (build_subdirs G repo n ds builder) s = (Some b, s') \<Longrightarrow>
    \<exists>w'. s' = s\<lparr>world := w'\<rparr> \<and> subdirs_built (world s) w' n ds builder b"
proof (induction ds arbitrary: s builder)
  case Nil
  then show ?case
    by (intro exI [of _ "world s"]) (simp add: build_subdirs.simps subdirs_built_def)
next
  case (Cons nd ds)
  obtain name d where nd: "nd = (name, d)" by (cases nd)
  have n: "n > 0"
    using Cons.prems(4) by (cases n) (auto simp: nd build_subdirs.simps)
  obtain r s1 where r: "run_state (buildTree G repo (n - 1) d) s = (r, s1)" by (metis surj_pair)
  from Cons.prems(4) n r obtain oid where oid: "r = Some oid"
    by (cases r) (auto simp: nd build_subdirs.simps)
  obtain w1 where s1: "s1 = s\<lparr>world := w1\<rparr>" and w1: "built (world s) w1 (n - 1) d oid"
    using IH [OF n Cons.prems(1) _ r [unfolded oid]] Cons.prems(3) nd by auto
  then have ok1: "ok w1" by (simp add: built_def)
  obtain b1 where b1: "git_treebuilder_insert G w1 repo builder name oid GIT_FILEMODE_TREE = Inr b1"
    using Cons.prems(4) n r oid s1
    by (cases "git_treebuilder_insert G w1 repo builder name oid GIT_FILEMODE_TREE")
      (auto simp: nd build_subdirs.simps on_ok_Inl run_git_raise_exception_rc)
  have rest: "run_state (build_subdirs G repo n ds b1) (s\<lparr>world := w1\<rparr>) = (Some b, s')"
    using Cons.prems(4) n r oid s1 b1 by (simp add: nd build_subdirs.simps)
  obtain w' where s': "s' = s\<lparr>world := w'\<rparr>" and w': "subdirs_built w1 w' n ds b1 b"
    using Cons.IH [OF _ _ _ rest] ok1 Cons.prems(2,3) by auto
  have none: "map_of ds name = None" using Cons.prems(2) nd by (simp add: map_of_eq_None_iff)
  note b1' = insert_entry [OF ok1 b1]
  have "subtree_for (look w1) (n - 1) d (the (entry_named b1 name))"
    using w1 by (auto simp: built_def subtree_for_def b1' type_of_mode_def)
  then have "subtree_for (look w') (n - 1) d (the (entry_named b1 name))"
    using w' by (intro subtree_for_extends [of "look w1" "look w'"]) (auto simp: subdirs_built_def)
  then have "subdirs_built (world s) w' n (nd # ds) builder b"
    using w1 w' none b1' n extends_trans [of "look (world s)" "look w1" "look w'"]
    by (auto simp: built_def subdirs_built_def nd)
  with s' show ?case by blast
qed

lemma run_buildTree:
  "ok (world s) \<Longrightarrow> dir_ok d \<Longrightarrow> run_state (buildTree G repo n d) s = (Some oid, s') \<Longrightarrow>
   \<exists>w'. s' = s\<lparr>world := w'\<rparr> \<and> built (world s) w' n d oid"
proof (induction n arbitrary: d s oid s' rule: less_induct)
  case (less n)
  obtain bs ds where d: "d = DirEntry bs ds" by (cases d)
  note run = less.prems(3) [unfolded d buildTree.simps]
  obtain b0 where b0: "git_treebuilder_new G (world s) repo = Inr b0"
    using run by (cases "git_treebuilder_new G (world s) repo") (auto simp: on_ok_Inl run_git_raise_exception_rc)
  obtain r1 s1 where r1: "run_state (insert_blobs G repo bs b0) s = (r1, s1)" by (metis surj_pair)
  obtain b1 where b1: "r1 = Some b1" using run b0 r1 by (cases r1) auto
  have s1: "s1 = s" and e1: "entry_named b1 = (\<lambda>name. map_option (blob_for name) (map_of bs name))"
    using run_insert_blobs [OF less.prems(1) r1 [unfolded b1]] less.prems(2) d new_empty [OF less.prems(1) b0]
    by (auto simp: omap_ok_distinct fun_eq_iff split: option.split)
  obtain r2 s2 where r2: "run_state (build_subdirs G repo n ds b1) s = (r2, s2)" by (metis surj_pair)
  obtain b2 where b2: "r2 = Some b2" using run b0 r1 b1 s1 r2 by (cases r2) auto
  have dok: "\<forall>d' \<in> snd ` set ds. dir_ok d'" "distinct (map fst ds)"
    using less.prems(2) d map_of_Some_in [of ds] omap_ok_distinct by auto
  obtain w2 where s2: "s2 = s\<lparr>world := w2\<rparr>" and w2: "subdirs_built (world s) w2 n ds b1 b2"
    using run_build_subdirs [OF _ less.prems(1) dok(2,1) r2 [unfolded b2]] less.IH by auto
  obtain r3 w3 where r3: "git_treebuilder_write G w2 repo b2 = (r3, w3)" by (metis surj_pair)
  have r3': "r3 = Inr oid" and s': "s' = s\<lparr>world := w3\<rparr>"
    using run b0 r1 b1 s1 r2 b2 s2 r3
    by (cases r3; auto simp: on_ok_Inl run_git_raise_exception_rc)+
  have ok2: "ok w2" using w2 by (simp add: subdirs_built_def)
  have ok3: "ok w3" using write_ok [OF ok2 r3] .
  have ext: "extends (look w2) (look w3)" using write_extends [OF ok2 r3] .
  obtain es where es: "look w3 oid = Some es" "entry_named es = entry_named b2"
    using write_lookup [OF ok2 r3 [unfolded r3']] by blast
  have wf: "wf_entries es" using lookup_wf [OF ok3 es(1)] .
  have "entries_match (look w2) (n - 1) bs ds es"
    using w2 by (auto simp: entries_match_def subdirs_built_def es(2) e1 split: option.split)
  then have m: "entries_match (look w3) (n - 1) bs ds es"
    by (rule entries_match_extends [OF ext])
  have "n = 0 \<longrightarrow> ds = []" using w2 by (simp add: subdirs_built_def)
  then have "built (world s) w3 n d oid"
    using w2 ext ok3 es(1) wf tree_file_match [OF m] complete_match [OF m wf] write_refs [OF ok2 r3]
    by (auto simp: built_def subdirs_built_def d intro: extends_trans)
  with s' show ?case by blast
qed

text \<open>The two directions together.\<close>

lemma build_then_populate:
  fixes s :: "'w qgit"
  assumes "never_cancelled G" and "ok (world s)" and "omap_ok (m_virtual_tree s)"
    and "run_state (buildTreeFromVirtualTree G repo) s = (Some oid, s1)"
  obtains es where "look (world s1) oid = Some es" and "ok (world s1)"
    and "s1 = s\<lparr>world := world s1\<rparr>" and "refs_view G repo (world s1) = refs_view G repo (world s)"
    and "tree_file (look (world s1)) es = map_of (committed (m_virtual_tree s))"
    and "complete_tree (look (world s1)) (stack_depth G) es" and "wf_entries es"
    and "\<And>t :: 'w qgit. world t = world s1 \<Longrightarrow>
      run_state (populateVirtualTreeFromGitTree G repo (stack_depth G) 0 es []) (t\<lparr>m_virtual_tree := []\<rparr>) =
        (0, t\<lparr>m_virtual_tree := committed (m_virtual_tree s)\<rparr>)"
proof -
  let ?d = "grouped (m_virtual_tree s) (DirEntry [] [])"
  have "run_state (buildTree G repo (stack_depth G) ?d) s = (Some oid, s1)"
    using assms(4) by (simp add: buildTreeFromVirtualTree_def run_group_paths [OF assms(1)])
  moreover have "dir_ok ?d" by (rule dir_ok_grouped) simp
  ultimately obtain w' where s1: "s1 = s\<lparr>world := w'\<rparr>" and b: "built (world s) w' (stack_depth G) ?d oid"
    using run_buildTree [OF assms(2)] by blast
  from b obtain es where es: "look w' oid = Some es" "wf_entries es" "complete_tree (look w') (stack_depth G) es"
    "tree_file (look w') es = map_of (committed (m_virtual_tree s))" and ok': "ok w'"
    and view: "refs_view G repo w' = refs_view G repo (world s)"
    by (auto simp: built_def dir_file_grouped [OF assms(3)])
  have "run_state (populateVirtualTreeFromGitTree G repo (stack_depth G) 0 es []) (t\<lparr>m_virtual_tree := []\<rparr>) =
      (0, t\<lparr>m_virtual_tree := committed (m_virtual_tree s)\<rparr>)" if wt: "world t = w'" for t :: "'w qgit"
  proof -
    have "populates G repo (stack_depth G) 0 es [] (t\<lparr>m_virtual_tree := []\<rparr>)"
      using populates_complete [OF assms(1) lookup_wf [OF ok'], where s = "t\<lparr>m_virtual_tree := []\<rparr>"] es wt by simp
    then obtain vt where vt: "run_state (populateVirtualTreeFromGitTree G repo (stack_depth G) 0 es []) (t\<lparr>m_virtual_tree := []\<rparr>) =
        (0, t\<lparr>m_virtual_tree := vt\<rparr>)" "omap_ok vt" "map_of vt = map_of (committed (m_virtual_tree s))"
      using es(4) [folded wt] by (auto simp: populates_def)
    have "omap_ok (committed (m_virtual_tree s))"
      using assms(3) by (simp add: committed_def omap_ok_filter)
    with vt have "vt = committed (m_virtual_tree s)" by (intro omap_eqI)
    with vt(1) show ?thesis by simp
  qed
  with that [of es] s1 es ok' view show thesis by simp
qed

end

end
