(* ===== verification/Memory_Store.thy ===== *)
theory Memory_Store
  imports Tree_Store
begin

text \<open>
  A repository over the module's own memory backends, as an instance of the interface records. In a
  virtual repository libgit2 turns every object operation into a \<open>read\<close> or a \<open>write\<close> of the object
  database backend, and every reference operation into a \<open>lookup\<close>, \<open>write\<close> or \<open>del\<close> of the reference
  backend. Here these are the backends of \<open>Memory_ODB\<close> and \<open>Memory_RefDB\<close>; the layer above them is
  reduced to a serialisation of trees and commits, ids given by any function of the contents (a
  colliding write is refused) and the checks on entry names. The instance shows that the hypotheses of the
  theorems about libgit2's stores can be met, by the code's own backends, and it is what the
  witnesses evaluate. Operations on disk are refused.
\<close>

section \<open>Serialisation\<close>

locale codec =
  fixes put :: "'a \<Rightarrow> bytes"
    and get :: "bytes \<Rightarrow> ('a \<times> bytes) option"
  assumes get_put: "get (put x @ rest) = Some (x, rest)"
begin

definition put_all :: "'a list \<Rightarrow> bytes" where
  "put_all xs = concat (map put xs)"

lemma get_put_end: "get (put x) = Some (x, [])"
  using get_put [of x "[]"] by simp

lemma put_inject: "put x = put y \<longleftrightarrow> x = y"
  by (metis get_put_end option.inject prod.inject)

end

definition put_nat :: "nat \<Rightarrow> bytes" where
  "put_nat n = replicate n 1 @ [0]"

fun get_nat :: "bytes \<Rightarrow> (nat \<times> bytes) option" where
  "get_nat [] = None"
| "get_nat (b # bs) = (if b = 0 then Some (0, bs) else map_option (apfst Suc) (get_nat bs))"

interpretation nat: codec put_nat get_nat
proof
  fix n rest
  show "get_nat (put_nat n @ rest) = Some (n, rest)"
    by (induction n) (simp_all add: put_nat_def)
qed

definition put_pair :: "('a \<Rightarrow> bytes) \<Rightarrow> ('b \<Rightarrow> bytes) \<Rightarrow> 'a \<times> 'b \<Rightarrow> bytes" where
  "put_pair p q xy = p (fst xy) @ q (snd xy)"

definition get_pair ::
  "(bytes \<Rightarrow> ('a \<times> bytes) option) \<Rightarrow> (bytes \<Rightarrow> ('b \<times> bytes) option) \<Rightarrow> bytes \<Rightarrow> (('a \<times> 'b) \<times> bytes) option" where
  "get_pair g h bs =
     (case g bs of
        None \<Rightarrow> None
      | Some (x, r) \<Rightarrow> (case h r of None \<Rightarrow> None | Some (y, r') \<Rightarrow> Some ((x, y), r')))"

lemma codec_pair: "codec p g \<Longrightarrow> codec q h \<Longrightarrow> codec (put_pair p q) (get_pair g h)"
  by (auto simp: codec_def put_pair_def get_pair_def)

definition put_list :: "('a \<Rightarrow> bytes) \<Rightarrow> 'a list \<Rightarrow> bytes" where
  "put_list p xs = put_nat (length xs) @ concat (map p xs)"

primrec get_many :: "(bytes \<Rightarrow> ('a \<times> bytes) option) \<Rightarrow> nat \<Rightarrow> bytes \<Rightarrow> ('a list \<times> bytes) option" where
  "get_many g 0 bs = Some ([], bs)"
| "get_many g (Suc n) bs =
     (case g bs of None \<Rightarrow> None | Some (x, r) \<Rightarrow> map_option (apfst (Cons x)) (get_many g n r))"

definition get_list :: "(bytes \<Rightarrow> ('a \<times> bytes) option) \<Rightarrow> bytes \<Rightarrow> ('a list \<times> bytes) option" where
  "get_list g bs = (case get_nat bs of None \<Rightarrow> None | Some (n, r) \<Rightarrow> get_many g n r)"

lemma codec_list:
  assumes "codec p g"
  shows "codec (put_list p) (get_list g)"
proof
  fix xs rest
  have "get_many g (length xs) (concat (map p xs) @ rest) = Some (xs, rest)"
    by (induction xs) (simp_all add: codec.get_put [OF assms])
  then show "get_list g (put_list p xs @ rest) = Some (xs, rest)"
    by (simp add: get_list_def put_list_def nat.get_put)
qed

text \<open>A value is serialised through its image under an injection with a left inverse.\<close>

lemma codec_map:
  assumes "codec p g" and "\<And>x. from (to x) = x"
  shows "codec (p \<circ> to) (map_option (apfst from) \<circ> g)"
  using assms by (simp add: codec_def)

definition put_char :: "char \<Rightarrow> bytes" where
  "put_char c = [of_nat (of_char c)]"

definition get_char :: "bytes \<Rightarrow> (char \<times> bytes) option" where
  "get_char bs = (case bs of [] \<Rightarrow> None | b # r \<Rightarrow> Some (char_of (unat b), r))"

interpretation char: codec put_char get_char
proof
  fix c rest
  have "(of_char c :: nat) < 256" by simp
  then show "get_char (put_char c @ rest) = Some (c, rest)"
    by (simp add: put_char_def get_char_def unat_of_nat)
qed

definition put_string :: "string \<Rightarrow> bytes" where
  "put_string = put_list put_char"

definition get_string :: "bytes \<Rightarrow> (string \<times> bytes) option" where
  "get_string = get_list get_char"

interpretation str: codec put_string get_string
  unfolding put_string_def get_string_def by (rule codec_list) (rule char.codec_axioms)

definition put_oid :: "git_oid \<Rightarrow> bytes" where
  "put_oid = put_string \<circ> hex_of_oid"

definition get_oid :: "bytes \<Rightarrow> (git_oid \<times> bytes) option" where
  "get_oid = map_option (apfst oid_of_hex) \<circ> get_string"

interpretation oid: codec put_oid get_oid
  unfolding put_oid_def get_oid_def by (rule codec_map) (simp_all add: str.codec_axioms oid_of_hex_of_oid)

definition tag_of_type :: "git_object_t \<Rightarrow> nat" where
  "tag_of_type t =
     (case t of GIT_OBJECT_COMMIT \<Rightarrow> 0 | GIT_OBJECT_TREE \<Rightarrow> 1 | GIT_OBJECT_BLOB \<Rightarrow> 2 | GIT_OBJECT_TAG \<Rightarrow> 3)"

definition type_of_tag :: "nat \<Rightarrow> git_object_t" where
  "type_of_tag n =
     (if n = 0 then GIT_OBJECT_COMMIT else if n = 1 then GIT_OBJECT_TREE
      else if n = 2 then GIT_OBJECT_BLOB else GIT_OBJECT_TAG)"

definition entry_tuple :: "git_tree_entry \<Rightarrow> string \<times> git_oid \<times> nat" where
  "entry_tuple e = (git_tree_entry_name e, git_tree_entry_id e, tag_of_type (git_tree_entry_type e))"

definition tuple_entry :: "string \<times> git_oid \<times> nat \<Rightarrow> git_tree_entry" where
  "tuple_entry t = (case t of (n, i, k) \<Rightarrow>
     \<lparr>git_tree_entry_name = n, git_tree_entry_id = i, git_tree_entry_type = type_of_tag k\<rparr>)"

definition put_tree :: "git_tree_entry list \<Rightarrow> bytes" where
  "put_tree = put_list (put_pair put_string (put_pair put_oid put_nat) \<circ> entry_tuple)"

definition get_tree :: "bytes \<Rightarrow> (git_tree_entry list \<times> bytes) option" where
  "get_tree = get_list (map_option (apfst tuple_entry) \<circ> get_pair get_string (get_pair get_oid get_nat))"

lemma tuple_entry_tuple: "tuple_entry (entry_tuple e) = e"
  by (cases "git_tree_entry_type e")
    (simp_all add: tuple_entry_def entry_tuple_def tag_of_type_def type_of_tag_def)

interpretation tree: codec put_tree get_tree
  unfolding put_tree_def get_tree_def
  by (intro codec_list codec_map codec_pair str.codec_axioms oid.codec_axioms nat.codec_axioms tuple_entry_tuple)

text \<open>A commit is its tree, its parents, its message and the name and address of its author.\<close>

type_synonym commit_tuple = "git_oid \<times> git_oid list \<times> string \<times> string \<times> string"

definition put_commit :: "commit_tuple \<Rightarrow> bytes" where
  "put_commit = put_pair put_oid (put_pair (put_list put_oid) (put_pair put_string (put_pair put_string put_string)))"

definition get_commit :: "bytes \<Rightarrow> (commit_tuple \<times> bytes) option" where
  "get_commit = get_pair get_oid (get_pair (get_list get_oid) (get_pair get_string (get_pair get_string get_string)))"

interpretation commit_text: codec put_commit get_commit
  unfolding put_commit_def get_commit_def
  by (intro codec_list codec_pair str.codec_axioms oid.codec_axioms)

section \<open>The world\<close>

text \<open>The two backends, the entries of a merge index (path, stage, id), and a configuration file.\<close>

record mem_world =
  mw_odb :: memory_odb
  mw_refdb :: memory_refdb
  mw_index :: "(string \<times> nat \<times> git_oid) list"
  mw_config :: "(string \<times> string) list"

definition mem_T :: refdb_api where
  "mem_T = hex_refdb_api (\<lambda>pattern name. 0)"

definition mem_odb_T :: odb_api where
  "mem_odb_T = hex_odb_api (\<lambda>n. True)"

definition mem_empty :: mem_world where
  "mem_empty = \<lparr>mw_odb = qore_git_memory_odb_new, mw_refdb = qore_git_memory_refdb_new, mw_index = [], mw_config = []\<rparr>"

definition unsupported :: git_err where
  "unsupported = GitErr (- 1) (Some ''unsupported'')"

text \<open>How ids are computed from the type and the bytes of an object is a parameter \<open>H\<close>.\<close>

type_synonym hash = "git_object_t \<Rightarrow> bytes \<Rightarrow> git_oid"

definition mem_read :: "mem_world \<Rightarrow> git_object_t \<Rightarrow> git_oid \<Rightarrow> git_err + bytes" where
  "mem_read w type oid =
     (case mem_odb_read mem_odb_T (mw_odb w) oid of
        Inl rc \<Rightarrow> Inl (GitErr rc None)
      | Inr (data, len, t) \<Rightarrow> if t = type then Inr data else Inl (GitErr GIT_ENOTFOUND None))"

definition mem_write :: "hash \<Rightarrow> mem_world \<Rightarrow> git_object_t \<Rightarrow> bytes \<Rightarrow> (git_err + git_oid) \<times> mem_world" where
  "mem_write H w type data =
     (let oid = H type data
      in case mem_odb_read mem_odb_T (mw_odb w) oid of
           Inr (data', len, t) \<Rightarrow>
             if data' = data \<and> t = type then (Inr oid, w)
             else (Inl (GitErr GIT_EEXISTS (Some ''object id collision'')), w)
         | Inl _ \<Rightarrow>
             (Inr oid, w\<lparr>mw_odb := snd (mem_odb_write mem_odb_T (mw_odb w) oid data (length data) type)\<rparr>))"

definition mem_ok :: "mem_world \<Rightarrow> bool" where
  "mem_ok w \<longleftrightarrow> odb_ok mem_odb_T (mw_odb w) \<and> refdb_ok (mw_refdb w)"

lemma mem_ok_empty [simp]: "mem_ok mem_empty"
  by (simp add: mem_ok_def mem_empty_def)

lemmas mem_laws = mem_odb.ok_write [where alloc = "\<lambda>n. True", folded mem_odb_T_def]
  mem_odb.read_written [where alloc = "\<lambda>n. True", folded mem_odb_T_def]
  mem_odb.read_other [where alloc = "\<lambda>n. True", folded mem_odb_T_def]

lemma alloc_mem_odb_T [simp]: "git_odb_backend_data_alloc mem_odb_T n"
  by (simp add: mem_odb_T_def)

lemma mem_write_ok: "mem_ok w \<Longrightarrow> mem_write H w type data = (r, w') \<Longrightarrow> mem_ok w'"
  by (auto simp: mem_write_def mem_ok_def Let_def mem_laws split: sum.splits if_splits)

lemma mem_write_refdb: "mem_write H w type data = (r, w') \<Longrightarrow> mw_refdb w' = mw_refdb w"
  by (auto simp: mem_write_def Let_def split: sum.splits if_splits)

lemma mem_write_read: "mem_ok w \<Longrightarrow> mem_write H w type data = (Inr oid, w') \<Longrightarrow> mem_read w' type oid = Inr data"
  by (auto simp: mem_write_def mem_read_def mem_ok_def Let_def mem_laws split: sum.splits if_splits)

lemma mem_write_keeps:
  assumes "mem_ok w" and "mem_write H w type data = (r, w')" and "mem_read w type' oid = Inr d"
  shows "mem_read w' type' oid = Inr d"
proof (cases "mem_odb_read mem_odb_T (mw_odb w) (H type data)")
  case (Inr x)
  with assms show ?thesis by (cases x) (auto simp: mem_write_def Let_def split: if_splits)
next
  case (Inl rc)
  with assms(3) have "oid \<noteq> H type data" by (auto simp: mem_read_def)
  with Inl assms show ?thesis
    by (auto simp: mem_write_def mem_read_def mem_ok_def Let_def mem_laws split: sum.splits)
qed

lemma mem_read_other:
  assumes "mem_ok w" and "mem_write H w type data = (r, w')" and "type' \<noteq> type"
  shows "mem_read w' type' oid = mem_read w type' oid"
proof (cases "mem_odb_read mem_odb_T (mw_odb w) (H type data)")
  case (Inr x)
  with assms show ?thesis by (cases x) (auto simp: mem_write_def Let_def split: if_splits)
next
  case (Inl rc)
  then have rc: "rc = GIT_ENOTFOUND" by (auto simp: odb_read_abs split: option.splits)
  show ?thesis
    using Inl assms
    by (cases "oid = H type data")
      (auto simp: mem_write_def mem_read_def mem_ok_def Let_def mem_laws rc split: sum.splits)
qed

section \<open>Objects and references\<close>

definition mem_tree_lookup :: "mem_world \<Rightarrow> git_oid \<Rightarrow> git_err + git_tree" where
  "mem_tree_lookup w oid =
     (case mem_read w GIT_OBJECT_TREE oid of
        Inl e \<Rightarrow> Inl e
      | Inr data \<Rightarrow>
          (case get_tree data of
             Some (es, []) \<Rightarrow>
               if wf_entries es then Inr \<lparr>git_tree_id = oid, tree_entries = es\<rparr> else Inl (GitErr (- 1) None)
           | _ \<Rightarrow> Inl (GitErr (- 1) None)))"

definition mem_tree_write :: "hash \<Rightarrow> mem_world \<Rightarrow> git_treebuilder \<Rightarrow> (git_err + git_oid) \<times> mem_world" where
  "mem_tree_write H w b =
     (if wf_entries b then mem_write H w GIT_OBJECT_TREE (put_tree b) else (Inl (GitErr (- 1) None), w))"

definition mem_tree_insert ::
  "git_treebuilder \<Rightarrow> string \<Rightarrow> git_oid \<Rightarrow> git_filemode \<Rightarrow> git_err + git_treebuilder" where
  "mem_tree_insert b name oid mode =
     (if name \<in> {[], ''.'', ''..'', ''.git''} \<or> CHR ''/'' \<in> set name
      then Inl (GitErr (- 1) (Some ''failed to insert entry: invalid name for a tree entry''))
      else Inr (map snd (omap_put name
        \<lparr>git_tree_entry_name = name, git_tree_entry_id = oid, git_tree_entry_type = type_of_mode mode\<rparr>
        (map (\<lambda>e. (git_tree_entry_name e, e)) b))))"

text \<open>What \<open>git_commit_message\<close> returns for the message that \<open>git_commit_create\<close> was given: it is taken as a C
  string, up to the first null character, and leading newlines are removed.\<close>

definition committed_message :: "string \<Rightarrow> string" where
  "committed_message message =
     dropWhile (\<lambda>c. c = CHR 0x0A) (takeWhile (\<lambda>c. c \<noteq> CHR 0x00) message)"

definition mem_commit_lookup :: "mem_world \<Rightarrow> git_oid option \<Rightarrow> git_err + git_commit" where
  "mem_commit_lookup w oid =
     (case oid of
        None \<Rightarrow> Inl (GitErr (- 1) (Some ''invalid argument''))
      | Some oid \<Rightarrow>
          (case mem_read w GIT_OBJECT_COMMIT oid of
             Inl e \<Rightarrow> Inl e
           | Inr data \<Rightarrow>
               (case get_commit data of
                  Some ((tree, parents, message, name, email), []) \<Rightarrow>
                    let sig = \<lparr>sig_name = name, sig_email = email, sig_when = 0\<rparr>
                    in Inr \<lparr>git_commit_id = oid, git_commit_tree_id = tree, git_commit_parent_ids = parents,
                      git_commit_message = committed_message message, git_commit_summary = committed_message message,
                      git_commit_author = Some sig, git_commit_committer = Some sig\<rparr>
                | _ \<Rightarrow> Inl (GitErr (- 1) None))))"

definition mem_reference_lookup :: "mem_world \<Rightarrow> string \<Rightarrow> git_err + git_reference" where
  "mem_reference_lookup w name = mem_refdb_lookup mem_T (mw_refdb w) name"

definition mem_head :: "mem_world \<Rightarrow> git_err + git_reference" where
  "mem_head w =
     (case mem_reference_lookup w ''HEAD'' of
        Inl e \<Rightarrow> Inl (GitErr GIT_ENOTFOUND None)
      | Inr head \<Rightarrow>
          (case reference_target head of
             Direct _ \<Rightarrow> Inr head
           | Symbolic t \<Rightarrow>
               (case mem_reference_lookup w t of
                  Inl e \<Rightarrow> Inl (GitErr GIT_EUNBORNBRANCH None)
                | Inr r \<Rightarrow> Inr r)))"

definition mem_ref_write ::
  "mem_world \<Rightarrow> string \<Rightarrow> ref_target \<Rightarrow> bool \<Rightarrow> (git_err + git_reference) \<times> mem_world" where
  "mem_ref_write w name target force =
     (let ref = \<lparr>git_reference_name = name, reference_target = target\<rparr>
      in case mem_refdb_write (mw_refdb w) ref force None None of
           (Inl e, _) \<Rightarrow> (Inl e, w)
         | (Inr _, db) \<Rightarrow> (Inr ref, w\<lparr>mw_refdb := db\<rparr>))"

text \<open>The branch that an update of a reference moves, and the commit it points to.\<close>

definition mem_update_target :: "mem_world \<Rightarrow> string \<Rightarrow> string" where
  "mem_update_target w name =
     (case mem_reference_lookup w name of
        Inr r \<Rightarrow> (case reference_target r of Symbolic t \<Rightarrow> t | Direct _ \<Rightarrow> name)
      | Inl _ \<Rightarrow> name)"

definition mem_commit_create ::
  "hash \<Rightarrow> mem_world \<Rightarrow> string \<Rightarrow> git_signature \<Rightarrow> string \<Rightarrow> git_tree \<Rightarrow> git_commit list \<Rightarrow>
   (git_err + git_oid) \<times> mem_world" where
  "mem_commit_create H w update_ref author message tree parents =
     (let branch = mem_update_target w update_ref;
          stale = (case mem_reference_lookup w branch of
              Inr r \<Rightarrow> (case (reference_target r, parents) of
                         (Direct tip, p # _) \<Rightarrow> git_commit_id p \<noteq> tip
                       | _ \<Rightarrow> True)
            | Inl _ \<Rightarrow> False)
      in if stale then (Inl (GitErr (- 15) (Some ''failed to create commit: current tip is not the first parent'')), w)
         else
           (case mem_write H w GIT_OBJECT_COMMIT (put_commit
                   (git_tree_id tree, map git_commit_id parents, message, sig_name author, sig_email author)) of
              (Inl e, w') \<Rightarrow> (Inl e, w')
            | (Inr oid, w') \<Rightarrow>
                (case mem_ref_write w' branch (Direct oid) True of
                   (Inl e, w'') \<Rightarrow> (Inl e, w'')
                 | (Inr _, w'') \<Rightarrow> (Inr oid, w''))))"

primrec mem_first_ref :: "mem_world \<Rightarrow> string list \<Rightarrow> git_oid option" where
  "mem_first_ref w [] = None"
| "mem_first_ref w (n # ns) =
     (case mem_reference_lookup w n of
        Inr r \<Rightarrow> (case reference_target r of Direct oid \<Rightarrow> Some oid | Symbolic _ \<Rightarrow> mem_first_ref w ns)
      | Inl _ \<Rightarrow> mem_first_ref w ns)"

definition mem_object :: "mem_world \<Rightarrow> git_oid option \<Rightarrow> git_err + git_object" where
  "mem_object w oid =
     (case oid of
        None \<Rightarrow> Inl (GitErr (- 1) None)
      | Some oid \<Rightarrow>
          (case mem_odb_read mem_odb_T (mw_odb w) oid of
             Inl rc \<Rightarrow> Inl (GitErr rc None)
           | Inr (data, len, t) \<Rightarrow> Inr \<lparr>git_object_id = oid, git_object_type = t\<rparr>))"

definition mem_revparse_name :: "mem_world \<Rightarrow> string \<Rightarrow> git_err + git_object" where
  "mem_revparse_name w spec =
     (case mem_first_ref w [spec, ''refs/'' @ spec, ''refs/tags/'' @ spec, ''refs/heads/'' @ spec] of
        Some oid \<Rightarrow> Inr \<lparr>git_object_id = oid, git_object_type = GIT_OBJECT_COMMIT\<rparr>
      | None \<Rightarrow>
          (case (spec = ''HEAD'', mem_head w) of
             (True, Inr r) \<Rightarrow>
               (case reference_target r of
                  Direct oid \<Rightarrow> Inr \<lparr>git_object_id = oid, git_object_type = GIT_OBJECT_COMMIT\<rparr>
                | Symbolic _ \<Rightarrow> Inl (GitErr GIT_ENOTFOUND None))
           | _ \<Rightarrow> Inl (GitErr GIT_ENOTFOUND None)))"

text \<open>A full id comes before the names.\<close>

definition mem_revparse :: "mem_world \<Rightarrow> string \<Rightarrow> git_err + git_object" where
  "mem_revparse w spec =
     (if length spec = 40
      then (case mem_object w (Some (oid_of_hex spec)) of Inr obj \<Rightarrow> Inr obj | Inl _ \<Rightarrow> mem_revparse_name w spec)
      else mem_revparse_name w spec)"

text \<open>The entry at a path: the last one of the chain of trees.\<close>

function mem_bypath :: "mem_world \<Rightarrow> git_tree_entry list \<Rightarrow> string \<Rightarrow> git_err + git_tree_entry" where
  "mem_bypath w es path =
     (case str_find CHR ''/'' path of
        None \<Rightarrow> (case entry_named es path of Some e \<Rightarrow> Inr e | None \<Rightarrow> Inl (GitErr GIT_ENOTFOUND None))
      | Some i \<Rightarrow>
          (case entry_named es (take i path) of
             Some e \<Rightarrow>
               if git_tree_entry_type e \<noteq> GIT_OBJECT_TREE then Inl (GitErr GIT_ENOTFOUND None)
               else (case mem_tree_lookup w (git_tree_entry_id e) of
                       Inr t \<Rightarrow> mem_bypath w (tree_entries t) (drop (Suc i) path)
                     | Inl err \<Rightarrow> Inl err)
           | None \<Rightarrow> Inl (GitErr GIT_ENOTFOUND None)))"
  by pat_completeness auto
termination
  by (relation "measure (\<lambda>(w, es, path). length path)") (auto dest: str_find_less)

declare mem_bypath.simps [simp del]

section \<open>The interface\<close>

definition mem_branch_delete :: "mem_world \<Rightarrow> git_reference \<Rightarrow> (git_err + unit) \<times> mem_world" where
  "mem_branch_delete w r =
     (case mem_refdb_del (mw_refdb w) (git_reference_name r) None None of
        (Inl e, _) \<Rightarrow> (Inl e, w)
      | (Inr _, db) \<Rightarrow> (Inr (), w\<lparr>mw_refdb := db\<rparr>))"

definition mem_api :: "hash \<Rightarrow> nat \<Rightarrow> mem_world repo_api" where
  "mem_api H depth = \<lparr>
     git_oid_tostr = hex_of_oid,
     git_oid_fromstr = oid_of_hex,
     git_odb_backend_data_alloc = (\<lambda>n. True),
     git_reference__alloc = git_reference__alloc mem_T,
     git_reference__alloc_symbolic = git_reference__alloc_symbolic mem_T,
     fnmatch = (\<lambda>pattern name. 0),
     qore_check_cancel = (\<lambda>w what. (None, w)),
     stack_depth = depth,
     sandbox_active = (\<lambda>w. False),
     fs_check_access = (\<lambda>w path mode. None),
     net_check_connect = (\<lambda>w a. None),
     os_getaddrinfo = (\<lambda>w host port. (- 2, [])),
     os_gai_strerror = (\<lambda>e. ''name not known''),
     os_getenv = (\<lambda>w name. None),
     os_mkdtemp = (\<lambda>w path. (Inl ''no disk'', w)),
     os_mkdir = (\<lambda>w path. w),
     os_open = (\<lambda>w path. (Inl ''no disk'', w)),
     os_fdopen = (\<lambda>w fd. (Inl ''no disk'', w)),
     os_close = (\<lambda>w fd. w),
     os_fwrite = (\<lambda>w f data. (0, w)),
     os_fclose = (\<lambda>w f. w),
     os_remove = (\<lambda>w path. w),
     os_nftw_remove = (\<lambda>w path. w),
     git_blob_lookup = (\<lambda>w repo. mem_read w GIT_OBJECT_BLOB),
     git_blob_create_from_buffer = (\<lambda>w repo. mem_write H w GIT_OBJECT_BLOB),
     git_tree_lookup = (\<lambda>w repo. mem_tree_lookup w),
     git_tree_entry_bypath = (\<lambda>w repo tree path. mem_bypath w (tree_entries tree) path),
     git_treebuilder_new = (\<lambda>w repo. Inr []),
     git_treebuilder_insert = (\<lambda>w repo. mem_tree_insert),
     git_treebuilder_write = (\<lambda>w repo. mem_tree_write H w),
     git_commit_lookup = (\<lambda>w repo. mem_commit_lookup w),
     git_commit_tree = (\<lambda>w repo c. mem_tree_lookup w (git_commit_tree_id c)),
     git_commit_create = (\<lambda>w repo ref author committer message tree parents.
       mem_commit_create H w ref author message tree parents),
     git_object_lookup = (\<lambda>w repo. mem_object w),
     git_object_peel_commit = (\<lambda>w repo obj. if git_object_type obj = GIT_OBJECT_COMMIT then Inr obj else Inl unsupported),
     git_revparse_single = (\<lambda>w repo. mem_revparse w),
     git_signature_now = (\<lambda>w name email. Inr \<lparr>sig_name = name, sig_email = email, sig_when = 0\<rparr>),
     git_signature_default = (\<lambda>w repo. Inl (GitErr GIT_ENOTFOUND None)),
     git_repository_head = (\<lambda>w repo. mem_head w),
     git_reference_lookup = (\<lambda>w repo. mem_reference_lookup w),
     git_reference_symbolic_create = (\<lambda>w repo name target force msg. mem_ref_write w name (Symbolic target) force),
     git_reference_create = (\<lambda>w repo name oid force msg. mem_ref_write w name (Direct oid) force),
     git_reference_set_target = (\<lambda>w repo r oid msg. mem_ref_write w (git_reference_name r) (Direct oid) True),
     git_reference_list = (\<lambda>w repo. Inr (drain_names mem_T (mem_refdb_iterator (mw_refdb w) None))),
     git_reference_is_branch = (\<lambda>r. starts_with ''refs/heads/'' (git_reference_name r)),
     git_repository_set_head = (\<lambda>w repo name. case mem_ref_write w ''HEAD'' (Symbolic name) True of
        (Inl e, w') \<Rightarrow> (Inl e, w') | (Inr _, w') \<Rightarrow> (Inr (), w')),
     git_repository_set_head_detached = (\<lambda>w repo oid. case mem_ref_write w ''HEAD'' (Direct oid) True of
        (Inl e, w') \<Rightarrow> (Inl e, w') | (Inr _, w') \<Rightarrow> (Inr (), w')),
     git_branch_create = (\<lambda>w repo name c force. mem_ref_write w (''refs/heads/'' @ name) (Direct (git_commit_id c)) force),
     git_branch_lookup_local = (\<lambda>w repo name. mem_reference_lookup w (''refs/heads/'' @ name)),
     git_branch_delete = (\<lambda>w repo. mem_branch_delete w),
     git_branch_iterator = (\<lambda>w repo remote.
       Inr (drain_refs mem_T (mem_refdb_iterator (mw_refdb w) None))),
     git_branch_name = (\<lambda>r. Inr (if starts_with ''refs/heads/'' (git_reference_name r)
       then Some (drop 11 (git_reference_name r)) else None)),
     git_tag_create = (\<lambda>w repo name obj tagger message force. (Inl unsupported, w)),
     git_tag_create_lightweight = (\<lambda>w repo name obj force.
       case mem_ref_write w (''refs/tags/'' @ name) (Direct (git_object_id obj)) force of
         (Inl e, w') \<Rightarrow> (Inl e, w') | (Inr _, w') \<Rightarrow> (Inr (git_object_id obj), w')),
     git_tag_delete = (\<lambda>w repo name. (Inl unsupported, w)),
     git_tag_list = (\<lambda>w repo. Inr []),
     git_repository_open = (\<lambda>w path. (Inl unsupported, w)),
     git_repository_init = (\<lambda>w path bare. (Inl unsupported, w)),
     git_repository_new = (\<lambda>w. (Inr 0, w)),
     git_repository_free = (\<lambda>w repo. w),
     git_repository_path = (\<lambda>w repo. []),
     git_repository_workdir = (\<lambda>w repo. None),
     git_repository_is_bare = (\<lambda>w repo. True),
     git_odb_new = (\<lambda>w. (Inr 0, w)),
     git_odb_add_backend = (\<lambda>w odb backend priority. (Inr (), w\<lparr>mw_odb := backend\<rparr>)),
     git_repository_set_odb = (\<lambda>w repo odb. w),
     git_refdb_new = (\<lambda>w repo. (Inr 0, w)),
     git_refdb_set_backend = (\<lambda>w refdb backend. (Inr (), w\<lparr>mw_refdb := backend\<rparr>)),
     git_repository_set_refdb = (\<lambda>w repo refdb. w),
     git_config_new = (\<lambda>w. (Inr 0, w)),
     git_repository_set_config = (\<lambda>w repo config. w),
     git_repository_config = (\<lambda>w repo. Inl unsupported),
     git_config_get_entry = (\<lambda>w config key. Inl (GitErr GIT_ENOTFOUND None)),
     git_config_set_string = (\<lambda>w config key val. (Inl unsupported, w)),
     git_index_new = (\<lambda>w. (Inr 0, w)),
     git_repository_set_index = (\<lambda>w repo index. w),
     git_repository_index = (\<lambda>w repo. Inl unsupported),
     git_index_add_bypath = (\<lambda>w index path. (Inl unsupported, w)),
     git_index_remove_bypath = (\<lambda>w index path. (Inl unsupported, w)),
     git_index_write = (\<lambda>w index. (Inl unsupported, w)),
     git_index_write_tree = (\<lambda>w index. (Inl unsupported, w)),
     git_checkout_tree = (\<lambda>w repo c. (Inl unsupported, w)),
     git_error_last = (\<lambda>w. None),
     git_status_list = (\<lambda>w repo. Inl unsupported)\<rparr>"

lemma mem_api_simps [simp]:
  "git_blob_lookup (mem_api H depth) w repo = mem_read w GIT_OBJECT_BLOB"
  "git_blob_create_from_buffer (mem_api H depth) w repo = mem_write H w GIT_OBJECT_BLOB"
  "git_tree_lookup (mem_api H depth) w repo = mem_tree_lookup w"
  "git_tree_entry_bypath (mem_api H depth) w repo tree path = mem_bypath w (tree_entries tree) path"
  "git_treebuilder_new (mem_api H depth) w repo = Inr []"
  "git_treebuilder_insert (mem_api H depth) w repo = mem_tree_insert"
  "git_treebuilder_write (mem_api H depth) w repo = mem_tree_write H w"
  "git_commit_lookup (mem_api H depth) w repo = mem_commit_lookup w"
  "git_commit_tree (mem_api H depth) w repo c = mem_tree_lookup w (git_commit_tree_id c)"
  "git_commit_create (mem_api H depth) w repo ref author committer message tree parents =
     mem_commit_create H w ref author message tree parents"
  "git_repository_head (mem_api H depth) w repo = mem_head w"
  "git_reference_lookup (mem_api H depth) w repo = mem_reference_lookup w"
  "git_reference_symbolic_create (mem_api H depth) w repo name target force msg =
     mem_ref_write w name (Symbolic target) force"
  "git_revparse_single (mem_api H depth) w repo = mem_revparse w"
  "git_object_peel_commit (mem_api H depth) w repo obj =
     (if git_object_type obj = GIT_OBJECT_COMMIT then Inr obj else Inl unsupported)"
  "stack_depth (mem_api H depth) = depth"
  "git_oid_tostr (mem_api H depth) = hex_of_oid"
  by (simp_all add: mem_api_def)

lemma never_cancelled_mem [simp]: "never_cancelled (mem_api H depth)"
  by (simp add: never_cancelled_def mem_api_def)

lemma subtree_entries_mem:
  "subtree_entries (mem_api H depth) w repo oid =
     (case mem_read w GIT_OBJECT_TREE oid of
        Inl _ \<Rightarrow> None
      | Inr data \<Rightarrow> (case get_tree data of Some (es, []) \<Rightarrow> if wf_entries es then Some es else None | _ \<Rightarrow> None))"
  by (auto simp: subtree_entries_def mem_tree_lookup_def split: sum.splits option.splits list.splits)

lemma names_after_put:
  "git_tree_entry_name e = name \<Longrightarrow>
   map (\<lambda>x. (git_tree_entry_name (snd x), snd x)) (omap_put name e (map (\<lambda>e. (git_tree_entry_name e, e)) b)) =
     omap_put name e (map (\<lambda>e. (git_tree_entry_name e, e)) b)"
  using set_omap_put [of name e "map (\<lambda>e. (git_tree_entry_name e, e)) b"] by (intro map_idI) auto

lemma mem_reference_view:
  assumes "mw_refdb w' = mw_refdb w" and "\<And>oid. mem_read w' GIT_OBJECT_COMMIT oid = mem_read w GIT_OBJECT_COMMIT oid"
  shows "refs_view (mem_api H depth) repo w' = refs_view (mem_api H depth) repo w"
proof -
  have l: "mem_reference_lookup w' = mem_reference_lookup w"
    using assms(1) by (simp add: fun_eq_iff mem_reference_lookup_def)
  have "mem_head w' = mem_head w" by (simp add: mem_head_def l split: sum.split ref_target.split)
  moreover have "mem_commit_lookup w' oid = mem_commit_lookup w oid" for oid
    by (cases oid) (simp_all add: mem_commit_lookup_def assms(2))
  ultimately show ?thesis using l by (simp add: refs_view_def fun_eq_iff)
qed

text \<open>The memory backends meet the contract of the tree store.\<close>

interpretation mem_trees: tree_store "mem_api H depth" repo mem_ok for H depth repo
proof (unfold_locales, goal_cases)
  case (1 w b name)
  then show ?case by simp
next
  case (2 w b name oid mode b')
  then show ?case
    by (auto simp: mem_tree_insert_def entry_named_def comp_def names_after_put split: if_splits)
next
  case (3 w b r w')
  then show ?case by (auto simp: mem_tree_write_def dest: mem_write_ok split: if_splits)
next
  case (4 w b oid w')
  then have "mem_read w' GIT_OBJECT_TREE oid = Inr (put_tree b)" and "wf_entries b"
    by (auto simp: mem_tree_write_def dest: mem_write_read split: if_splits)
  then show ?case by (simp add: subtree_entries_mem tree.get_put_end)
next
  case (5 w b r w')
  have "mem_read w' GIT_OBJECT_TREE oid = Inr d" if "mem_read w GIT_OBJECT_TREE oid = Inr d" for oid d
    using 5 that mem_write_keeps [of w] by (auto simp: mem_tree_write_def split: if_splits)
  then show ?case
    by (auto simp: extends_def subtree_entries_mem split: sum.splits)
next
  case (6 w oid es)
  then show ?case by (auto simp: subtree_entries_mem split: sum.splits option.splits list.splits if_splits)
next
  case (7 w b r w')
  then show ?case
    by (cases "wf_entries b")
      (auto simp: mem_tree_write_def mem_write_refdb mem_read_other intro!: mem_reference_view)
qed

end
