(* ===== verification/Memory_Api.thy ===== *)
theory Memory_Api
  imports Client Memory_Store
begin

text \<open>
  The instance of \<open>Memory_Store\<close> extended to the whole interface: histories, stashes and remotes
  are refused, and so is the merge of two trees, though not the work on a merge index. It is what the witnesses of the theorems about whole objects run on;
  where one needs more, it replaces single fields.
\<close>

definition mem_history_api :: "hash \<Rightarrow> nat \<Rightarrow> mem_world history_api" where
  "mem_history_api H depth = repo_api.extend (mem_api H depth) (history_api.fields
     (\<lambda>w repo from to pathspec. Inl unsupported)
     (\<lambda>w d. Inl unsupported)
     (\<lambda>w d. Inl unsupported)
     (\<lambda>w repo. Inl unsupported)
     (\<lambda>w walker. Inl unsupported)
     (\<lambda>w walker. [])
     (\<lambda>w repo c n. Inl unsupported)
     (\<lambda>w repo. GIT_REPOSITORY_STATE_NONE)
     (\<lambda>w repo path newest oldest. Inl unsupported))"

definition mem_stash_api :: "hash \<Rightarrow> nat \<Rightarrow> mem_world stash_api" where
  "mem_stash_api H depth = history_api.extend (mem_history_api H depth) (stash_api.fields
     (\<lambda>w repo index. (Inl unsupported, w))
     (\<lambda>w repo sig message. (Inl unsupported, w))
     (\<lambda>w repo n. (Inl unsupported, w))
     (\<lambda>w repo. ([], Some unsupported)))"

definition mem_remote_api :: "hash \<Rightarrow> nat \<Rightarrow> mem_world remote_api" where
  "mem_remote_api H depth = stash_api.extend (mem_stash_api H depth) (remote_api.fields
     (\<lambda>w repo. Inl unsupported)
     (\<lambda>w odb. ([], None))
     (\<lambda>w odb oid. Inl unsupported)
     (\<lambda>w odb data type. (Inl unsupported, w))
     (\<lambda>w repo name url. (Inl unsupported, w))
     (\<lambda>w repo name. (Inl unsupported, w))
     (\<lambda>w repo name. Inl unsupported)
     (\<lambda>w remote. [])
     (\<lambda>cb remote p. (Inl unsupported, p))
     (\<lambda>cb remote refspec p. (Inl unsupported, p)))"

text \<open>The merge index: a list of entries. An added entry replaces the one of the same path and stage. The
  index can be written as a tree when it has no conflict and no directories.\<close>

definition mem_index_entries :: "mem_world \<Rightarrow> git_index_entry option list" where
  "mem_index_entries w = map (\<lambda>(path, stage, oid).
     Some \<lparr>ie_path = path, ie_id = oid, ie_mode = GIT_FILEMODE_BLOB, ie_stage = stage\<rparr>) (mw_index w)"

definition mem_index_at :: "mem_world \<Rightarrow> string \<Rightarrow> nat \<Rightarrow> git_index_entry option" where
  "mem_index_at w path stage = map_option (\<lambda>(p, st, oid).
       \<lparr>ie_path = p, ie_id = oid, ie_mode = GIT_FILEMODE_BLOB, ie_stage = st\<rparr>)
     (find (\<lambda>(p, st, oid). p = path \<and> st = stage) (mw_index w))"

definition mem_conflict_paths :: "mem_world \<Rightarrow> string list" where
  "mem_conflict_paths w = remdups (map fst (filter (\<lambda>(p, stage, oid). stage \<noteq> 0) (mw_index w)))"

definition mem_conflict_remove :: "string \<Rightarrow> mem_world \<Rightarrow> mem_world" where
  "mem_conflict_remove path w = w\<lparr>mw_index := filter (\<lambda>(p, stage, oid). p \<noteq> path \<or> stage = 0) (mw_index w)\<rparr>"

definition mem_index_add :: "mem_world \<Rightarrow> git_index_entry \<Rightarrow> mem_world" where
  "mem_index_add w e = w\<lparr>mw_index := filter (\<lambda>(p, stage, oid). p \<noteq> ie_path e \<or> stage \<noteq> ie_stage e) (mw_index w) @
     [(ie_path e, ie_stage e, ie_id e)]\<rparr>"

fun mem_index_tree :: "(string \<times> nat \<times> git_oid) list \<Rightarrow> git_treebuilder \<Rightarrow> git_err + git_treebuilder" where
  "mem_index_tree [] b = Inr b"
| "mem_index_tree ((path, stage, oid) # es) b =
     (if stage \<noteq> 0 then Inl unsupported
      else (case mem_tree_insert b path oid GIT_FILEMODE_BLOB of Inl e \<Rightarrow> Inl e | Inr b' \<Rightarrow> mem_index_tree es b'))"

definition mem_index_write_tree :: "hash \<Rightarrow> mem_world \<Rightarrow> (git_err + git_oid) \<times> mem_world" where
  "mem_index_write_tree H w =
     (case mem_index_tree (mw_index w) [] of Inl e \<Rightarrow> (Inl e, w) | Inr b \<Rightarrow> mem_tree_write H w b)"

definition mem_merge_api :: "hash \<Rightarrow> nat \<Rightarrow> mem_world merge_api" where
  "mem_merge_api H depth = remote_api.extend (mem_remote_api H depth) (merge_api.fields
     (\<lambda>n. True)
     (\<lambda>w repo oid. Inl unsupported)
     (\<lambda>w repo ann. Inl unsupported)
     (\<lambda>w repo ours theirs favor. (Inl unsupported, w))
     (\<lambda>w index. mem_conflict_paths w \<noteq> [])
     (\<lambda>w index. Inr (map (\<lambda>p. (mem_index_at w p 1, mem_index_at w p 2, mem_index_at w p 3)) (mem_conflict_paths w)))
     (\<lambda>w index path. (Inr (), mem_conflict_remove path w))
     (\<lambda>w index e. (Inr (), mem_index_add w e))
     (\<lambda>w index. mem_index_entries w)
     (\<lambda>w index repo. mem_index_write_tree H w))"

lemmas mem_full_defs = mem_merge_api_def mem_remote_api_def mem_stash_api_def mem_history_api_def
  remote_api.defs stash_api.defs history_api.defs repo_api.defs merge_api.defs mem_api_def

lemma mem_merge_api_simps [simp]:
  "git_blob_create_from_buffer (mem_merge_api H depth) w repo = mem_write H w GIT_OBJECT_BLOB"
  by (simp add: mem_full_defs)

end
