(* ===== verification/Working_Tree.thy ===== *)
theory Working_Tree
  imports Memory_Store
begin

text \<open>
  What the file operations, \<open>commit\<close> and \<open>checkout\<close> promise together: the properties of the virtual
  working tree. The laws of libgit2's stores are the locales \<open>tree_store\<close> (of \<open>Tree_Store\<close>),
  \<open>blob_store\<close> and \<open>commit_store\<close>, all interpreted on the memory backends; a property that relies on
  one names it as a hypothesis.
\<close>

section \<open>Blobs\<close>

locale blob_store =
  fixes G :: "('w, 'y) repo_api_scheme"
    and repo :: git_repository
    and ok :: "'w \<Rightarrow> bool"
  assumes create_ok: "ok w \<Longrightarrow> git_blob_create_from_buffer G w repo data = (r, w') \<Longrightarrow> ok w'"
    and create_lookup: "ok w \<Longrightarrow> git_blob_create_from_buffer G w repo data = (Inr oid, w') \<Longrightarrow>
      git_blob_lookup G w' repo oid = Inr data"
    and create_keeps_blobs: "ok w \<Longrightarrow> git_blob_create_from_buffer G w repo data = (r, w') \<Longrightarrow>
      git_blob_lookup G w repo oid = Inr d \<Longrightarrow> git_blob_lookup G w' repo oid = Inr d"
    and create_keeps_head: "ok w \<Longrightarrow> git_blob_create_from_buffer G w repo data = (r, w') \<Longrightarrow>
      git_repository_head G w' repo = git_repository_head G w repo"
    and create_keeps_commits: "ok w \<Longrightarrow> git_blob_create_from_buffer G w repo data = (r, w') \<Longrightarrow>
      git_commit_lookup G w repo cid = Inr c \<Longrightarrow> git_commit_lookup G w' repo cid = Inr c"
    and create_keeps_tree: "ok w \<Longrightarrow> git_blob_create_from_buffer G w repo data = (r, w') \<Longrightarrow>
      git_commit_tree G w repo c = Inr t \<Longrightarrow> git_commit_tree G w' repo c = Inr t"
    and create_keeps_entries: "ok w \<Longrightarrow> git_blob_create_from_buffer G w repo data = (r, w') \<Longrightarrow>
      git_tree_entry_bypath G w' repo t path = git_tree_entry_bypath G w repo t path"

lemma mem_bypath_cong:
  assumes "\<And>oid. mem_tree_lookup w' oid = mem_tree_lookup w oid"
  shows "mem_bypath w' es path = mem_bypath w es path"
proof (induction "length path" arbitrary: es path rule: less_induct)
  case less
  show ?case
  proof (cases "str_find CHR ''/'' path")
    case None
    then show ?thesis by (simp add: mem_bypath.simps [of _ es path])
  next
    case (Some i)
    with less.hyps [of "drop (Suc i) path"] str_find_less [OF Some] show ?thesis
      by (simp add: mem_bypath.simps [of _ es path] assms split: option.split sum.split)
  qed
qed

lemma mem_blob_keeps_trees:
  "mem_ok w \<Longrightarrow> mem_write H w GIT_OBJECT_BLOB data = (r, w') \<Longrightarrow> mem_tree_lookup w' oid = mem_tree_lookup w oid"
  by (simp add: mem_tree_lookup_def mem_read_other)

lemma mem_tree_keeps:
  "mem_ok w \<Longrightarrow> mem_write H w type data = (r, w') \<Longrightarrow> mem_tree_lookup w oid = Inr t \<Longrightarrow> mem_tree_lookup w' oid = Inr t"
  by (auto simp: mem_tree_lookup_def mem_write_keeps split: sum.splits)

lemma mem_commit_keeps:
  "mem_ok w \<Longrightarrow> mem_write H w type data = (r, w') \<Longrightarrow> mem_commit_lookup w cid = Inr c \<Longrightarrow> mem_commit_lookup w' cid = Inr c"
  by (auto simp: mem_commit_lookup_def mem_write_keeps split: option.splits sum.splits)

lemma mem_head_write: "mem_write H w type data = (r, w') \<Longrightarrow> mem_head w' = mem_head w"
proof -
  assume "mem_write H w type data = (r, w')"
  then have "mem_reference_lookup w' = mem_reference_lookup w"
    by (simp add: fun_eq_iff mem_reference_lookup_def mem_write_refdb)
  then show ?thesis by (simp add: mem_head_def split: sum.split ref_target.split)
qed

interpretation mem_blobs: blob_store "mem_api H depth" repo mem_ok for H depth repo
proof (unfold_locales, goal_cases)
  case (7 w data r w' t path)
  then show ?case by (simp add: mem_bypath_cong [OF mem_blob_keeps_trees])
qed (simp_all add: mem_write_ok mem_write_read mem_write_keeps mem_head_write mem_commit_keeps mem_tree_keeps)

section \<open>Reading and writing files\<close>

text \<open>What \<open>readFile\<close> returns for an accepted path in an open, unlocked repository.\<close>

lemma run_readFile_staged:
  assumes "\<not> m_lock s" and "m_repo s = Some repo" and "path_ok path"
    and "map_of (m_virtual_tree s) path = Some oid" and "git_blob_lookup G (world s) repo oid = Inr data"
  shows "run_state (readFile G path) s = (Some data, s)"
  using assms by (simp add: readFile_def run_guarded run_validateRepoPath_ok)

lemma run_readFile_head:
  assumes "\<not> m_lock s" and "m_repo s = Some repo" and "path_ok path"
    and "map_of (m_virtual_tree s) path = None" and "head_tree G (world s) repo = Some tree"
    and "git_tree_entry_bypath G (world s) repo tree path = Inr e"
    and "git_blob_lookup G (world s) repo (git_tree_entry_id e) = Inr data"
  shows "run_state (readFile G path) s = (Some data, s)"
  using assms
  by (auto simp: readFile_def run_guarded run_validateRepoPath_ok head_tree_def split: sum.splits)

text \<open>The two ways in which a file can be there.\<close>

definition staged_content :: "('w, 'y) repo_api_scheme \<Rightarrow> git_repository \<Rightarrow> 'w qgit \<Rightarrow> string \<Rightarrow> bytes \<Rightarrow> bool" where
  "staged_content G repo s path data \<longleftrightarrow>
     (case map_of (m_virtual_tree s) path of
        Some oid \<Rightarrow> git_blob_lookup G (world s) repo oid = Inr data
      | None \<Rightarrow> False)"

definition head_content :: "('w, 'y) repo_api_scheme \<Rightarrow> git_repository \<Rightarrow> 'w \<Rightarrow> string \<Rightarrow> bytes \<Rightarrow> bool" where
  "head_content G repo w path data \<longleftrightarrow>
     (case head_tree G w repo of
        Some tree \<Rightarrow>
          (case git_tree_entry_bypath G w repo tree path of
             Inr e \<Rightarrow> git_blob_lookup G w repo (git_tree_entry_id e) = Inr data
           | Inl _ \<Rightarrow> False)
      | None \<Rightarrow> False)"

lemma readFile_cases:
  assumes "\<not> m_lock s" and "m_repo s = Some repo"
  shows "fst (run_state (readFile G path) s) = Some data \<longleftrightarrow>
    path_ok path \<and>
    (staged_content G repo s path data \<or>
     (map_of (m_virtual_tree s) path = None \<and> head_content G repo (world s) path data))"
proof (cases "path_ok path")
  case False
  obtain d where "run_state (validateRepoPath path) (s\<lparr>m_lock := True\<rparr>) =
      (False, (s\<lparr>m_lock := True\<rparr>)\<lparr>xsink := xsink s @ [Exn ''GIT-PATH-ERROR'' d]\<rparr>)"
    using run_validateRepoPath_bad [OF False, of "s\<lparr>m_lock := True\<rparr>"] by auto
  with assms False show ?thesis by (simp add: readFile_def run_guarded)
next
  case True
  with assms show ?thesis
    by (auto simp: readFile_def run_guarded run_validateRepoPath_ok staged_content_def head_content_def
        head_tree_def on_ok_def run_git_raise_exception_rc split: option.splits sum.splits)
qed

lemma fileExists_iff:
  assumes "\<not> m_lock s" and "m_repo s = Some repo" and "path_ok path"
  shows "run_state (fileExists G path) s =
    (map_of (m_virtual_tree s) path \<noteq> None \<or>
     (case head_tree G (world s) repo of
        Some tree \<Rightarrow> (case git_tree_entry_bypath G (world s) repo tree path of Inr _ \<Rightarrow> True | Inl _ \<Rightarrow> False)
      | None \<Rightarrow> False), s)"
  using assms
  by (simp add: fileExists_def run_guarded run_validateRepoPath_ok split: option.split sum.split)

lemma run_writeFile_virtual:
  assumes "\<not> m_lock s" and "m_repo s = Some repo" and "m_virtual s" and "path_ok path"
  shows "run_state (writeFile G path data) s =
    (case git_blob_create_from_buffer G (world s) repo data of
       (Inr oid, w) \<Rightarrow> (0, s\<lparr>world := w, m_virtual_tree := omap_put path oid (m_virtual_tree s)\<rparr>)
     | (Inl e, w) \<Rightarrow>
         let t = snd (run_state (git_raise_exception_rc ''GIT-WRITE-ERROR'' e ''failed to create blob from buffer'') s)
         in (- 1, t\<lparr>world := w\<rparr>))"
  using assms
  by (auto simp: writeFile_def run_guarded run_validateRepoPath_ok on_ok_Inl run_git_raise_exception_rc
      split: prod.split sum.split)

lemma writeFile_path_ok:
  assumes "\<not> m_lock s" and "m_repo s = Some repo" and "run_state (writeFile G path data) s = (rc, t)"
    and "\<not> rc < 0"
  shows "path_ok path"
proof (rule ccontr)
  assume bad: "\<not> path_ok path"
  obtain d where "run_state (validateRepoPath path) (s\<lparr>m_lock := True\<rparr>) =
      (False, (s\<lparr>m_lock := True\<rparr>)\<lparr>xsink := xsink s @ [Exn ''GIT-PATH-ERROR'' d]\<rparr>)"
    using run_validateRepoPath_bad [OF bad, of "s\<lparr>m_lock := True\<rparr>"] by auto
  with assms show False by (simp add: writeFile_def run_guarded)
qed

text \<open>A blob creation keeps the files that can be read.\<close>

lemma head_content_keeps:
  assumes b: "blob_store G repo ok" and "ok w"
    and c: "git_blob_create_from_buffer G w repo data = (r, w')" and "head_content G repo w path d"
  shows "head_content G repo w' path d"
proof -
  note keep = blob_store.create_keeps_head [OF b assms(2) c] blob_store.create_keeps_commits [OF b assms(2) c]
    blob_store.create_keeps_tree [OF b assms(2) c] blob_store.create_keeps_entries [OF b assms(2) c]
    blob_store.create_keeps_blobs [OF b assms(2) c]
  from assms(4) show ?thesis
    by (auto simp: head_content_def head_tree_def keep split: option.splits sum.splits)
qed

text \<open>HEAD has no file at the path, as the code sees it.\<close>

definition head_missing :: "('w, 'y) repo_api_scheme \<Rightarrow> git_repository \<Rightarrow> 'w \<Rightarrow> string \<Rightarrow> bool" where
  "head_missing G repo w path \<longleftrightarrow>
     (case git_repository_head G w repo of
        Inl e \<Rightarrow> err_rc e = GIT_EUNBORNBRANCH \<or> err_rc e = GIT_ENOTFOUND
      | Inr _ \<Rightarrow>
          (case head_tree G w repo of
             Some tree \<Rightarrow>
               (case git_tree_entry_bypath G w repo tree path of Inl e \<Rightarrow> err_rc e = GIT_ENOTFOUND | Inr _ \<Rightarrow> False)
           | None \<Rightarrow> False))"

lemma head_missing_keeps:
  assumes b: "blob_store G repo ok" and "ok w"
    and c: "git_blob_create_from_buffer G w repo data = (r, w')" and "head_missing G repo w path"
  shows "head_missing G repo w' path"
proof (cases "git_repository_head G w repo")
  case (Inl e)
  with assms(4) show ?thesis
    by (simp add: head_missing_def blob_store.create_keeps_head [OF b assms(2) c])
next
  case (Inr r)
  with assms(4) obtain tree where t: "head_tree G w repo = Some tree"
    by (auto simp: head_missing_def split: option.splits)
  then have "head_tree G w' repo = Some tree"
    by (auto simp: head_tree_def blob_store.create_keeps_head [OF b assms(2) c]
        blob_store.create_keeps_commits [OF b assms(2) c] blob_store.create_keeps_tree [OF b assms(2) c]
        split: sum.splits)
  with t Inr assms(4) show ?thesis
    by (simp add: head_missing_def blob_store.create_keeps_head [OF b assms(2) c]
        blob_store.create_keeps_entries [OF b assms(2) c])
qed

lemma run_readFile_missing:
  assumes "\<not> m_lock s" and "m_repo s = Some repo" and "path_ok path"
    and "map_of (m_virtual_tree s) path = None" and "head_missing G repo (world s) path"
  shows "run_state (readFile G path) s = (None, s)"
  using assms
  by (auto simp: readFile_def run_guarded run_validateRepoPath_ok head_missing_def head_tree_def
      split: sum.splits option.splits)

text \<open>A read finds nothing and raises nothing exactly when neither the virtual tree nor HEAD has the path.\<close>

lemma readFile_quiet:
  assumes "\<not> m_lock s" and "m_repo s = Some repo" and "run_state (readFile G path) s = (None, s)"
  shows "path_ok path \<and> map_of (m_virtual_tree s) path = None \<and> head_missing G repo (world s) path"
proof (cases "path_ok path")
  case False
  obtain d where "run_state (validateRepoPath path) (s\<lparr>m_lock := True\<rparr>) =
      (False, (s\<lparr>m_lock := True\<rparr>)\<lparr>xsink := xsink s @ [Exn ''GIT-PATH-ERROR'' d]\<rparr>)"
    using run_validateRepoPath_bad [OF False, of "s\<lparr>m_lock := True\<rparr>"] by auto
  with assms have "xsink s @ [Exn ''GIT-PATH-ERROR'' d] = xsink s"
    by (auto simp: readFile_def run_guarded dest!: arg_cong [where f = xsink])
  then show ?thesis by simp
next
  case True
  have sink: "s\<lparr>xsink := xsink s @ [e], m_lock := l\<rparr> \<noteq> s" for e l by (cases s) auto
  from True assms show ?thesis
    by (auto simp: readFile_def run_guarded run_validateRepoPath_ok head_missing_def head_tree_def on_ok_def sink
        run_git_raise_exception_rc split: option.splits sum.splits if_splits)
qed

text \<open>C25: in a virtual repository a file that \<open>writeFile\<close> accepted reads back exactly the bytes written
  and exists. Every other path reads as before: one that had contents has the same contents, one that
  had none, neither staged nor in HEAD, still has none, and no other path is staged or forgotten
  (libgit2 storing blobs as documented). The read changes nothing.\<close>

theorem writeFile_readFile:
  assumes "blob_store G repo ok" and "ok (world s)"
    and "\<not> m_lock s" and "m_repo s = Some repo" and "m_virtual s"
    and "run_state (writeFile G path data) s = (0, t)"
  shows "run_state (readFile G path) t = (Some data, t) \<and>
    run_state (fileExists G path) t = (True, t) \<and>
    (\<forall>q. q \<noteq> path \<longrightarrow>
       (\<forall>c. fst (run_state (readFile G q) s) = Some c \<longrightarrow> fst (run_state (readFile G q) t) = Some c) \<and>
       (run_state (readFile G q) s = (None, s) \<longrightarrow> run_state (readFile G q) t = (None, t)) \<and>
       map_of (m_virtual_tree t) q = map_of (m_virtual_tree s) q)"
proof -
  note b = assms(1)
  have p: "path_ok path" using assms(3,4,6) by (rule writeFile_path_ok) simp
  obtain r w where c: "git_blob_create_from_buffer G (world s) repo data = (r, w)" by (metis surj_pair)
  obtain oid where r: "r = Inr oid" and t: "t = s\<lparr>world := w, m_virtual_tree := omap_put path oid (m_virtual_tree s)\<rparr>"
    using assms(6) c by (cases r) (auto simp: run_writeFile_virtual [OF assms(3-5) p] Let_def)
  have open_t: "\<not> m_lock t" "m_repo t = Some repo" using assms(3,4) by (simp_all add: t)
  have new: "git_blob_lookup G w repo oid = Inr data"
    using blob_store.create_lookup [OF b assms(2) c [unfolded r]] .
  have "run_state (readFile G path) t = (Some data, t)"
    using open_t p new by (intro run_readFile_staged) (simp_all add: t)
  moreover have "run_state (fileExists G path) t = (True, t)"
    using fileExists_iff [OF open_t p] by (simp add: t)
  moreover have "fst (run_state (readFile G q) t) = Some d"
    if "q \<noteq> path" and "fst (run_state (readFile G q) s) = Some d" for q d
    using that blob_store.create_keeps_blobs [OF b assms(2) c] head_content_keeps [OF b assms(2) c]
    unfolding readFile_cases [OF assms(3,4)] readFile_cases [OF open_t]
    by (auto simp: t staged_content_def split: option.splits)
  moreover have "run_state (readFile G q) t = (None, t)"
    if "q \<noteq> path" and "run_state (readFile G q) s = (None, s)" for q
    using readFile_quiet [OF assms(3,4) that(2)] head_missing_keeps [OF b assms(2) c] that(1)
    by (intro run_readFile_missing [OF open_t]) (simp_all add: t)
  moreover have "map_of (m_virtual_tree t) q = map_of (m_virtual_tree s) q" if "q \<noteq> path" for q
    using that by (simp add: t)
  ultimately show ?thesis by blast
qed

lemma mem_write_empty:
  "mem_write H mem_empty type data =
     (Inr (H type data), mem_empty\<lparr>mw_odb := snd (mem_odb_write mem_odb_T (mw_odb mem_empty)
       (H type data) data (length data) type)\<rparr>)"
  by (simp add: mem_write_def mem_empty_def odb_read_abs Let_def)

text \<open>The ids of the examples.\<close>

definition size_hash :: hash where
  "size_hash type data = of_nat (length data)"

definition mem_object_state :: "mem_world qgit" where
  "mem_object_state = (blank mem_empty)\<lparr>m_repo := Some 0, m_index := Some 0, m_virtual := True, m_in_memory := True\<rparr>"

theorem writeFile_readFile_witness:
  "fst (run_state (readFile (mem_api size_hash 9) ''etc/db.yaml'')
     (snd (run_state (writeFile (mem_api size_hash 9) ''etc/db.yaml'' [104, 105]) mem_object_state))) = Some [104, 105]"
proof -
  let ?t = "snd (run_state (writeFile (mem_api size_hash 9) ''etc/db.yaml'' [104, 105]) mem_object_state)"
  have "run_state (writeFile (mem_api size_hash 9) ''etc/db.yaml'' [104, 105]) mem_object_state = (0, ?t)"
    by (subst (1 2) run_writeFile_virtual)
      (simp_all add: mem_object_state_def blank_def path_ok_def mem_write_empty)
  from writeFile_readFile [OF mem_blobs.blob_store_axioms _ _ _ _ this] show ?thesis
    by (simp add: mem_object_state_def blank_def)
qed

text \<open>C39: a refused write takes effect all the same. When the sandbox policy refuses the target file of a
  \<open>writeFile\<close> in disk mode, the call fails with the exception of the policy, and no file is created,
  opened or written and no index updated: the outcome does not depend on what these calls would have
  done. But the blob is stored and the path recorded in the virtual tree, so that a \<open>readFile\<close> of the
  path then returns the refused bytes; the other paths are recorded as before.\<close>

theorem writeFile_refused_by_sandbox:
  fixes G :: "('w, 'y) repo_api_scheme" and s :: "'w qgit"
  assumes "blob_store G repo ok" and "ok (world s)"
    and "\<not> m_lock s" and "m_repo s = Some repo" and "\<not> m_virtual s" and "path_ok path"
    and "git_blob_create_from_buffer G (world s) repo data = (Inr oid, w)"
    and "git_repository_workdir G w repo = Some workdir"
    and "sandbox_active G w" and "fs_check_access G w (workdir @ path) [QSEC_WRITE, QSEC_CREATE] = Some e"
  shows "\<exists>t. run_state (writeFile G path data) s = (- 1, t) \<and> xsink t = xsink s @ [e] \<and> world t = w \<and>
    run_state (readFile G path) t = (Some data, t) \<and>
    (\<forall>q. q \<noteq> path \<longrightarrow> map_of (m_virtual_tree t) q = map_of (m_virtual_tree s) q) \<and>
    (\<forall>mkdir' open' fdopen' write' add' save'.
       run_state (writeFile (G\<lparr>os_mkdir := mkdir', os_open := open', os_fdopen := fdopen', os_fwrite := write',
         git_index_add_bypath := add', git_index_write := save'\<rparr>) path data) s = (- 1, t))"
proof -
  let ?t = "s\<lparr>world := w, m_virtual_tree := omap_put path oid (m_virtual_tree s), xsink := xsink s @ [e]\<rparr>"
  have run: "run_state (writeFile G' path data) s = (- 1, ?t)"
    if "git_blob_create_from_buffer G' = git_blob_create_from_buffer G"
      "git_repository_workdir G' = git_repository_workdir G" "sandbox_active G' = sandbox_active G"
      "fs_check_access G' = fs_check_access G" for G' :: "('w, 'y) repo_api_scheme"
    using assms(3-10) that
    by (simp add: writeFile_def run_guarded run_validateRepoPath_ok checkFsAccess_def check_passes_def Let_def)
  have "run_state (readFile G path) ?t = (Some data, ?t)"
    using assms(3,4,6) blob_store.create_lookup [OF assms(1,2,7)] by (intro run_readFile_staged) simp_all
  with run show ?thesis by (intro exI [of _ ?t]) simp
qed

definition mem_api_denied :: "mem_world repo_api" where
  "mem_api_denied = (mem_api size_hash 9)\<lparr>git_repository_workdir := \<lambda>w repo. Some ''/srv/'', sandbox_active := \<lambda>w. True,
     fs_check_access := \<lambda>w path mode. Some (Exn ''ILLEGAL-FILESYSTEM-ACCESS'' path)\<rparr>"

lemma mem_denied_blobs: "blob_store mem_api_denied repo mem_ok"
  using mem_blobs.blob_store_axioms [of size_hash 9 repo] by (simp add: blob_store_def mem_api_denied_def)

theorem writeFile_refused_by_sandbox_witness:
  "\<exists>t. run_state (writeFile mem_api_denied ''a'' [1]) (mem_object_state\<lparr>m_virtual := False\<rparr>) = (- 1, t) \<and>
     xsink t = [Exn ''ILLEGAL-FILESYSTEM-ACCESS'' ''/srv/a''] \<and> run_state (readFile mem_api_denied ''a'') t = (Some [1], t)"
proof -
  let ?s = "mem_object_state\<lparr>m_virtual := False\<rparr>"
  have "mem_ok (world ?s)" "\<not> m_lock ?s" "m_repo ?s = Some 0" "\<not> m_virtual ?s" "path_ok ''a''"
    by (simp_all add: mem_object_state_def blank_def path_ok_def)
  moreover have "git_blob_create_from_buffer mem_api_denied (world ?s) 0 [1] =
      (Inr (size_hash GIT_OBJECT_BLOB [1]), snd (mem_write size_hash mem_empty GIT_OBJECT_BLOB [1]))"
    by (simp add: mem_api_denied_def mem_object_state_def blank_def mem_write_empty)
  ultimately show ?thesis
    using writeFile_refused_by_sandbox [OF mem_denied_blobs, of ?s 0 "''a''" "[1]"]
    by (fastforce simp: mem_api_denied_def mem_object_state_def blank_def)
qed

text \<open>\<open>deleteFile\<close> in a virtual repository only forgets the staged version. It removes the path from
  the virtual tree and changes nothing else; a file that the HEAD commit has can still be read with
  its committed bytes and still exists afterwards.\<close>

lemma deleteFile_keeps_committed:
  assumes "\<not> m_lock s" and "m_repo s = Some repo" and "m_virtual s" and "path_ok path"
    and "omap_ok (m_virtual_tree s)" and "head_content G repo (world s) path data"
  shows "run_state (deleteFile G path) s = (0, s\<lparr>m_virtual_tree := omap_erase path (m_virtual_tree s)\<rparr>) \<and>
    fst (run_state (readFile G path) (s\<lparr>m_virtual_tree := omap_erase path (m_virtual_tree s)\<rparr>)) = Some data \<and>
    fst (run_state (fileExists G path) (s\<lparr>m_virtual_tree := omap_erase path (m_virtual_tree s)\<rparr>))"
proof -
  let ?t = "s\<lparr>m_virtual_tree := omap_erase path (m_virtual_tree s)\<rparr>"
  have t: "\<not> m_lock ?t" "m_repo ?t = Some repo" using assms(1,2) by simp_all
  have none: "map_of (m_virtual_tree ?t) path = None" using assms(5) by simp
  have "run_state (deleteFile G path) s = (0, ?t)"
    using assms(1-4) by (simp add: deleteFile_def run_guarded run_validateRepoPath_ok)
  moreover have "fst (run_state (readFile G path) ?t) = Some data"
    using none assms(4,6) unfolding readFile_cases [OF t] by simp
  moreover have "fst (run_state (fileExists G path) ?t)"
    using assms(6) unfolding fileExists_iff [OF t assms(4)]
    by (auto simp: head_content_def split: option.splits sum.splits)
  ultimately show ?thesis by blast
qed

text \<open>A world with one commit on the branch main, whose tree has one file.\<close>

definition one_commit :: mem_world where
  "one_commit =
     \<lparr>mw_odb = snd (mem_odb_write mem_odb_T (snd (mem_odb_write mem_odb_T (snd (mem_odb_write mem_odb_T
          qore_git_memory_odb_new 1 [7, 8] 2 GIT_OBJECT_BLOB))
          2 (put_tree [blob_for ''a'' 1]) (length (put_tree [blob_for ''a'' 1])) GIT_OBJECT_TREE))
          3 (put_commit (2, [], ''first'', ''Ann'', ''a@x'')) (length (put_commit (2, [], ''first'', ''Ann'', ''a@x''))) GIT_OBJECT_COMMIT),
      mw_refdb = \<lparr>refs = [(''HEAD'', \<lparr>entry_oid = 0, symbolic_target = ''refs/heads/main'', is_symbolic = True\<rparr>),
        (''refs/heads/main'', \<lparr>entry_oid = 3, symbolic_target = [], is_symbolic = False\<rparr>)]\<rparr>,
      mw_index = [], mw_config = []\<rparr>"

lemma oid_text_mem [simp]: "oid_text mem_odb_T"
  unfolding mem_odb_T_def by (rule hex_odb.oid_text_axioms)

lemma one_commit_ids: "odb_abs mem_odb_T (mw_odb one_commit) oid = None" if "oid \<notin> {1, 2, 3}"
  using that by (simp add: one_commit_def)

lemma one_commit_read:
  "mem_read one_commit GIT_OBJECT_BLOB 1 = Inr [7, 8]"
  "mem_read one_commit GIT_OBJECT_TREE 2 = Inr (put_tree [blob_for ''a'' 1])"
  "mem_read one_commit GIT_OBJECT_COMMIT 3 = Inr (put_commit (2, [], ''first'', ''Ann'', ''a@x''))"
  by (simp_all add: mem_read_def one_commit_def odb_read_abs numeral_2_eq_2)

lemma one_commit_tree: "mem_tree_lookup one_commit 2 = Inr \<lparr>git_tree_id = 2, tree_entries = [blob_for ''a'' 1]\<rparr>"
  by (simp add: mem_tree_lookup_def one_commit_read tree.get_put_end wf_entries_def blob_for_def)

lemma one_commit_refs:
  "mem_reference_lookup one_commit ''HEAD'' =
     Inr \<lparr>git_reference_name = ''HEAD'', reference_target = Symbolic ''refs/heads/main''\<rparr>"
  "mem_reference_lookup one_commit ''refs/heads/main'' =
     Inr \<lparr>git_reference_name = ''refs/heads/main'', reference_target = Direct 3\<rparr>"
  by (simp_all add: mem_reference_lookup_def one_commit_def mem_refdb_lookup_def ref_of_entry_def
      mem_T_def hex_refdb_api_def)

lemma one_commit_head: "mem_head one_commit = Inr \<lparr>git_reference_name = ''refs/heads/main'', reference_target = Direct 3\<rparr>"
  by (simp add: mem_head_def one_commit_refs)

lemma one_commit_head_tree:
  "head_tree (mem_api H depth) one_commit repo = Some \<lparr>git_tree_id = 2, tree_entries = [blob_for ''a'' 1]\<rparr>"
  by (simp add: head_tree_def one_commit_head git_reference_target_def mem_commit_lookup_def one_commit_read
      commit_text.get_put_end one_commit_tree Let_def)

lemma one_commit_content: "head_content (mem_api H depth) repo one_commit ''a'' [7, 8]"
  by (simp add: head_content_def one_commit_head_tree mem_bypath.simps entry_named_def blob_for_def one_commit_read)

section \<open>Trees\<close>

text \<open>C2: round trip of the virtual tree through git's tree objects. When \<open>buildTreeFromVirtualTree\<close>
  returns an id, it changed nothing but the object store, the store has the tree under that id, and
  \<open>populateVirtualTreeFromGitTree\<close> on it (started with an empty virtual tree in any later state with
  that store) succeeds and restores exactly the original virtual tree less the paths that are also
  directories of other paths, which the tree silently drops.\<close>

theorem virtual_tree_roundtrip:
  assumes "tree_store G repo ok" and "never_cancelled G" and "ok (world s)" and "omap_ok (m_virtual_tree s)"
    and "run_state (buildTreeFromVirtualTree G repo) s = (Some oid, t)"
  shows "t = s\<lparr>world := world t\<rparr> \<and>
    (\<exists>es. subtree_entries G (world t) repo oid = Some es \<and>
      run_state (populateVirtualTreeFromGitTree G repo (stack_depth G) 0 es []) (u\<lparr>world := world t, m_virtual_tree := []\<rparr>) =
        (0, u\<lparr>world := world t,
              m_virtual_tree := filter (\<lambda>(p, oid). \<not> (\<exists>q \<in> fst ` set (m_virtual_tree s). starts_with (p @ ''/'') q))
                (m_virtual_tree s)\<rparr>))"
proof (rule tree_store.build_then_populate [OF assms(1-5)])
  fix es
  assume es: "subtree_entries G (world t) repo oid = Some es" and t: "t = s\<lparr>world := world t\<rparr>"
    and run: "\<And>v :: 'a qgit. world v = world t \<Longrightarrow>
      run_state (populateVirtualTreeFromGitTree G repo (stack_depth G) 0 es []) (v\<lparr>m_virtual_tree := []\<rparr>) =
        (0, v\<lparr>m_virtual_tree := committed (m_virtual_tree s)\<rparr>)"
  have "committed (m_virtual_tree s) =
      filter (\<lambda>(p, oid). \<not> (\<exists>q \<in> fst ` set (m_virtual_tree s). starts_with (p @ ''/'') q)) (m_virtual_tree s)"
    by (simp add: committed_def shadowed_def split_def)
  with es t run [of "u\<lparr>world := world t\<rparr>"] show ?thesis by auto
qed

text \<open>Writing to a store whose ids are sizes.\<close>

lemma length_put_nat [simp]: "length (put_nat n) = Suc n"
  by (simp add: put_nat_def)

lemma length_put_string [simp]: "length (put_string s) = Suc (2 * length s)"
proof -
  have "length (concat (map put_char s)) = length s"
    by (induction s) (simp_all add: put_char_def)
  then show ?thesis by (simp add: put_string_def put_list_def)
qed

lemma length_put_oid [simp]: "length (put_oid oid) = 81"
  by (simp add: put_oid_def length_hex_of_oid GIT_OID_SHA1_HEXSIZE_def)

lemma length_put_tree [simp]:
  "length (put_tree es) = Suc (length es) +
    sum_list (map (\<lambda>e. 83 + 2 * length (git_tree_entry_name e) + tag_of_type (git_tree_entry_type e)) es)"
proof -
  have "length (concat (map (put_pair put_string (put_pair put_oid put_nat) \<circ> entry_tuple) es)) =
      sum_list (map (\<lambda>e. 83 + 2 * length (git_tree_entry_name e) + tag_of_type (git_tree_entry_type e)) es)"
    by (induction es) (simp_all add: put_pair_def entry_tuple_def)
  then show ?thesis by (simp add: put_tree_def put_list_def)
qed

lemma mem_write_fresh:
  "odb_abs mem_odb_T (mw_odb w) (H type data) = None \<Longrightarrow> mem_write H w type data =
     (Inr (H type data), w\<lparr>mw_odb := snd (mem_odb_write mem_odb_T (mw_odb w) (H type data) data (length data) type)\<rparr>)"
  by (simp add: mem_write_def odb_read_abs Let_def)

lemma mem_write_new:
  assumes "odb_abs mem_odb_T (mw_odb w) (H type data) = None"
  obtains w' where "mem_write H w type data = (Inr (H type data), w')"
    and "odb_abs mem_odb_T (mw_odb w') = (odb_abs mem_odb_T (mw_odb w))(H type data \<mapsto> \<lparr>odb_data = data, odb_type = type\<rparr>)"
  by (rule that [OF mem_write_fresh [of w H type data, OF assms]]) simp

definition shadow_state :: "mem_world qgit" where
  "shadow_state = mem_object_state\<lparr>m_virtual_tree := [(''d'', 1), (''d/x'', 2)]\<rparr>"

lemma shadow_builds:
  "\<exists>oid t. run_state (buildTreeFromVirtualTree (mem_api size_hash 9) 0) shadow_state = (Some oid, t)"
proof -
  have g: "grouped (m_virtual_tree shadow_state) (DirEntry [] []) =
      DirEntry [(''d'', 1)] [(''d'', DirEntry [(''x'', 2)] [])]"
    by (simp add: shadow_state_def grouped_def dir_insert.simps)
  have w: "world shadow_state = mem_empty"
    by (simp add: shadow_state_def mem_object_state_def blank_def)
  show ?thesis
    by (simp add: buildTreeFromVirtualTree_def run_group_paths g buildTree.simps build_subdirs.simps w
        mem_tree_insert_def mem_tree_write_def wf_entries_def mem_write_fresh mem_empty_def
        size_hash_def tag_of_type_def type_of_mode_def)
qed

theorem virtual_tree_roundtrip_witness:
  "\<exists>w es. run_state (populateVirtualTreeFromGitTree (mem_api size_hash 9) 0 9 0 es [])
     (mem_object_state\<lparr>world := w, m_virtual_tree := []\<rparr>) =
     (0, mem_object_state\<lparr>world := w, m_virtual_tree := [(''d/x'', 2)]\<rparr>)"
proof -
  obtain oid t where "run_state (buildTreeFromVirtualTree (mem_api size_hash 9) 0) shadow_state = (Some oid, t)"
    using shadow_builds by blast
  from virtual_tree_roundtrip [OF mem_trees.tree_store_axioms never_cancelled_mem _ _ this, of mem_object_state]
  show ?thesis
    by (auto simp: shadow_state_def mem_object_state_def blank_def)
qed

section \<open>Checkout\<close>

lemma run_checkout_virtual:
  fixes G :: "('w, 'y) repo_api_scheme" and s :: "'w qgit"
  assumes "never_cancelled G" and "\<not> m_lock s" and "m_repo s = Some repo" and "m_virtual s"
    and "git_revparse_single G (world s) repo ref = Inr target"
    and "git_object_peel_commit G (world s) repo target = Inr peeled"
    and "git_commit_lookup G (world s) repo (Some (git_object_id peeled)) = Inr c"
    and "git_commit_tree G (world s) repo c = Inr tree"
    and "complete_tree (subtree_entries G (world s) repo) (stack_depth G) (tree_entries tree)"
    and "wf_entries (tree_entries tree)"
    and "\<And>oid sub. subtree_entries G (world s) repo oid = Some sub \<Longrightarrow> wf_entries sub"
  shows "\<exists>vt. run_state (checkout G ref) s =
      (0, s\<lparr>m_virtual_tree := vt,
            world := (case git_reference_lookup G (world s) repo (''refs/heads/'' @ ref) of
                Inr _ \<Rightarrow> snd (git_reference_symbolic_create G (world s) repo ''HEAD'' (''refs/heads/'' @ ref) True
                  (Some ''checkout''))
              | Inl _ \<Rightarrow> snd (git_repository_set_head_detached G (world s) repo (git_object_id target)))\<rparr>) \<and>
    omap_ok vt \<and> map_of vt = tree_file (subtree_entries G (world s) repo) (tree_entries tree)"
proof -
  let ?s = "s\<lparr>m_lock := True, m_virtual_tree := []\<rparr>"
  have "populates G repo (stack_depth G) 0 (tree_entries tree) [] ?s"
    using populates_complete [OF assms(1,11), where s = ?s] assms(9,10) by simp
  then obtain vt where
    vt: "run_state (populateVirtualTreeFromGitTree G repo (stack_depth G) 0 (tree_entries tree) []) ?s =
      (0, ?s\<lparr>m_virtual_tree := vt\<rparr>)" "omap_ok vt"
      "map_of vt = tree_file (subtree_entries G (world s) repo) (tree_entries tree)"
    by (auto simp: populates_def)
  show ?thesis
    using vt assms(2-8)
    by (intro exI [of _ vt])
      (simp add: checkout_def run_guarded checkout_virtual_def detach_head_def Let_def split: sum.split)
qed

text \<open>C6: \<open>checkout\<close> in a virtual repository. When the argument resolves to a commit whose tree is in the
  store (with well-formed subtrees, no deeper than the stack) and nothing is cancelled, \<open>checkout\<close>
  succeeds without an exception; the virtual tree then holds exactly the files of the commit's
  tree, whatever it held before (uncommitted writes are discarded), and the only change outside the
  object is that of HEAD: symbolic when the argument names a local branch, detached otherwise.\<close>

theorem checkout_loads_tree:
  fixes G :: "('w, 'y) repo_api_scheme" and s :: "'w qgit"
  assumes "never_cancelled G" and "\<not> m_lock s" and "m_repo s = Some repo" and "m_virtual s"
    and "git_revparse_single G (world s) repo ref = Inr target"
    and "git_object_peel_commit G (world s) repo target = Inr peeled"
    and "git_commit_lookup G (world s) repo (Some (git_object_id peeled)) = Inr c"
    and "git_commit_tree G (world s) repo c = Inr tree"
    and "complete_tree (subtree_entries G (world s) repo) (stack_depth G) (tree_entries tree)"
    and "wf_entries (tree_entries tree)"
    and "\<And>oid sub. subtree_entries G (world s) repo oid = Some sub \<Longrightarrow> wf_entries sub"
  shows "\<exists>vt. run_state (checkout G ref) s =
      (0, s\<lparr>m_virtual_tree := vt,
            world := (case git_reference_lookup G (world s) repo (''refs/heads/'' @ ref) of
                Inr _ \<Rightarrow> snd (git_reference_symbolic_create G (world s) repo ''HEAD'' (''refs/heads/'' @ ref) True
                  (Some ''checkout''))
              | Inl _ \<Rightarrow> snd (git_repository_set_head_detached G (world s) repo (git_object_id target)))\<rparr>) \<and>
    omap_ok vt \<and> map_of vt = tree_file (subtree_entries G (world s) repo) (tree_entries tree)"
  using assms by (rule run_checkout_virtual)

lemma one_commit_ok: "mem_ok one_commit"
proof -
  have "refdb_ok (mw_refdb one_commit)"
    by (simp add: one_commit_def refdb_ok_def entry_ok_def) (simp add: list_less_def lexord_def)?
  then show ?thesis by (simp add: mem_ok_def one_commit_def)
qed

lemma one_commit_wf: "subtree_entries (mem_api H depth) one_commit repo oid = Some sub \<Longrightarrow> wf_entries sub"
  by (rule tree_store.lookup_wf [OF mem_trees.tree_store_axioms one_commit_ok])

lemma one_commit_revparse: "mem_revparse one_commit ''main'' = Inr \<lparr>git_object_id = 3, git_object_type = GIT_OBJECT_COMMIT\<rparr>"
proof -
  have "mem_reference_lookup one_commit n = Inl (GitErr GIT_ENOTFOUND None)"
    if "n \<in> {''main'', ''refs/main'', ''refs/tags/main''}" for n
    using that by (auto simp: mem_reference_lookup_def one_commit_def mem_refdb_lookup_def)
  then show ?thesis by (simp add: mem_revparse_def mem_revparse_name_def one_commit_refs)
qed

definition first_commit :: git_commit where
  "first_commit = \<lparr>git_commit_id = 3, git_commit_tree_id = 2, git_commit_parent_ids = [],
     git_commit_message = ''first'', git_commit_summary = ''first'',
     git_commit_author = Some \<lparr>sig_name = ''Ann'', sig_email = ''a@x'', sig_when = 0\<rparr>,
     git_commit_committer = Some \<lparr>sig_name = ''Ann'', sig_email = ''a@x'', sig_when = 0\<rparr>\<rparr>"

lemma one_commit_lookup: "mem_commit_lookup one_commit (Some 3) = Inr first_commit"
  by (simp add: mem_commit_lookup_def one_commit_read commit_text.get_put_end Let_def first_commit_def committed_message_def)

lemma first_commit_tree: "mem_tree_lookup one_commit (git_commit_tree_id first_commit) =
    Inr \<lparr>git_tree_id = 2, tree_entries = [blob_for ''a'' 1]\<rparr>"
  by (simp add: one_commit_tree first_commit_def)

lemma one_commit_complete:
  "complete_tree look n [blob_for ''a'' 1]" "wf_entries [blob_for ''a'' 1]"
  by (cases n) (simp_all add: blob_for_def wf_entries_def)

theorem checkout_loads_tree_witness:
  "\<exists>vt w. run_state (checkout (mem_api size_hash 9) ''main'')
       (mem_object_state\<lparr>world := one_commit, m_virtual_tree := [(''junk'', 5)]\<rparr>) =
       (0, mem_object_state\<lparr>world := w, m_virtual_tree := vt\<rparr>) \<and>
     map_of vt ''a'' = Some 1 \<and> map_of vt ''junk'' = None"
proof -
  let ?s = "mem_object_state\<lparr>world := one_commit, m_virtual_tree := [(''junk'', 5)]\<rparr>"
  let ?G = "mem_api size_hash 9"
  let ?o = "\<lparr>git_object_id = 3, git_object_type = GIT_OBJECT_COMMIT\<rparr>"
  have w: "world ?s = one_commit" by simp
  have s: "\<not> m_lock ?s" "m_repo ?s = Some 0" "m_virtual ?s"
    by (simp_all add: mem_object_state_def blank_def)
  have "\<exists>vt. run_state (checkout ?G ''main'') ?s =
      (0, ?s\<lparr>m_virtual_tree := vt,
            world := (case git_reference_lookup ?G (world ?s) 0 (''refs/heads/'' @ ''main'') of
                Inr _ \<Rightarrow> snd (git_reference_symbolic_create ?G (world ?s) 0 ''HEAD'' (''refs/heads/'' @ ''main'') True
                  (Some ''checkout''))
              | Inl _ \<Rightarrow> snd (git_repository_set_head_detached ?G (world ?s) 0 (git_object_id ?o)))\<rparr>) \<and>
    omap_ok vt \<and> map_of vt = tree_file (subtree_entries ?G (world ?s) 0)
      (tree_entries \<lparr>git_tree_id = 2, tree_entries = [blob_for ''a'' 1]\<rparr>)"
    by (rule checkout_loads_tree [OF never_cancelled_mem s, where c = first_commit and peeled = ?o])
      (simp_all add: w one_commit_revparse one_commit_lookup first_commit_tree one_commit_complete one_commit_wf)
  then obtain vt w where "run_state (checkout ?G ''main'') ?s = (0, ?s\<lparr>m_virtual_tree := vt, world := w\<rparr>)"
      "map_of vt = tree_file (subtree_entries ?G one_commit 0) [blob_for ''a'' 1]"
    by auto
  then show ?thesis
    by (intro exI [of _ vt] exI [of _ w])
      (simp add: tree_file.simps entry_named_def blob_for_def)
qed

end
