(* ===== verification/Lifecycle.thy ===== *)
theory Lifecycle
  imports Memory_Api Working_Tree
begin

text \<open>
  Invariants of the reachable states of an object. They
  are the interpretations \<open>members\<close> (maps ordered, modes consistent), \<open>locking\<close> (no call waits for its
  own lock) and \<open>opened\<close> (the handle of the repository is set) of the frame that every method keeps.
\<close>

definition opened :: "'w qgit \<Rightarrow> bool" where
  "opened s \<longleftrightarrow> m_repo s \<noteq> None"

interpretation opened: repo_frame "opened :: 'w qgit \<Rightarrow> bool" "opened :: 'w qgit \<Rightarrow> bool"
  by unfold_locales (simp_all add: opened_def)

definition idle :: "'w qgit \<Rightarrow> bool" where
  "idle s \<longleftrightarrow> object_ok s \<and> lock_free s \<and> opened s"

interpretation idle: qgit_frame "idle :: 'w qgit \<Rightarrow> bool"
  by unfold_locales (simp_all add: idle_def object_ok_def lock_free_def opened_def)

section \<open>Constructors\<close>

lemma keeps_idle_index: "keeps idle (modify (\<lambda>s. s\<lparr>m_index := i\<rparr>))"
  by (rule keeps_modify) (simp add: idle_def object_ok_def lock_free_def opened_def)

lemma keeps_attach_backends: "keeps idle (attach_backends G repo)"
  unfolding attach_backends_def by (intro keeps_rules idle.keeps_session keeps_idle_index)

lemma idle_virtual:
  fixes s :: "'w qgit"
  assumes "fresh s" and "run_state (QoreGitRepository_virtual G) s = ((), t)" and "xsink t = []"
  shows "idle t"
proof (cases "fst (git_repository_new G (world s))")
  case (Inl e)
  with assms show ?thesis
    by (auto simp: QoreGitRepository_virtual_def init_members_def on_ok_def run_git_raise_exception_rc)
next
  case (Inr h)
  let ?u = "s\<lparr>m_index := None, m_path := [], m_virtual := True, m_in_memory := True,
      m_tempdir_created := False, m_virtual_tree := [], m_mem_config := [], m_lock := False,
      world := snd (git_repository_new G (world s)), m_repo := Some h\<rparr>"
  have "idle ?u"
    using assms(1) by (simp add: idle_def object_ok_def lock_free_def opened_def fresh_def)
  moreover have "run_state (attach_backends G h) ?u = ((), t)"
    using assms(2) Inr by (simp add: QoreGitRepository_virtual_def init_members_def set_repo_def)
  ultimately show ?thesis by (rule keepsE [OF keeps_attach_backends, rotated])
qed

lemma idle_fields:
  "fresh s \<Longrightarrow> m_repo t \<noteq> None \<Longrightarrow> m_virtual_tree t = [] \<Longrightarrow> m_mem_config t = [] \<Longrightarrow>
   git_tempdirs t = git_tempdirs s \<Longrightarrow> \<not> m_in_memory t \<Longrightarrow> \<not> m_tempdir_created t \<Longrightarrow> \<not> m_lock t \<Longrightarrow>
   deadlocked t = deadlocked s \<Longrightarrow> idle t"
  by (simp add: idle_def object_ok_def lock_free_def opened_def fresh_def)

lemma idle_open:
  assumes "fresh s" and "run_state (QoreGitRepository_open G path) s = ((), t)" and "xsink t = []"
  shows "idle t"
proof (rule idle_fields [OF assms(1)])
qed (insert assms, auto simp: QoreGitRepository_open_def init_members_def checkFsAccess_def check_passes_def
    set_repo_def on_ok_def run_git_raise_exception_rc split: sum.splits option.splits if_splits)

lemma idle_init:
  assumes "fresh s" and "run_state (QoreGitRepository_init G path bare) s = ((), t)" and "xsink t = []"
  shows "idle t"
proof (rule idle_fields [OF assms(1)])
qed (insert assms, auto simp: QoreGitRepository_init_def init_members_def checkFsAccess_def check_passes_def
    set_repo_def on_ok_def run_git_raise_exception_rc split: sum.splits option.splits if_splits)

lemma idle_constructed: "constructed G s \<Longrightarrow> idle s"
  by (erule constructedE) (auto dest: idle_virtual idle_open idle_init)

lemma idle_step:
  assumes "idle s" and "step G s t"
  shows "idle t"
  using assms(2)
proof (rule stepE)
  fix op v
  assume "allowed G op" and "run_state (perform G op) s = (v, t)"
  with assms(1) show ?thesis
    by (auto simp: idle_def dest: members.client_keeps(2) [THEN keepsE] locking.client_keeps(2) [THEN keepsE]
        opened.client_keeps(2) [THEN keepsE])
qed (use assms(1) in \<open>simp_all add: idle_def object_ok_def lock_free_def opened_def\<close>)

lemma idle_reachable: "reachable G s \<Longrightarrow> idle s"
  by (induction rule: reachable.induct) (auto intro: idle_constructed idle_step)

section \<open>Properties\<close>

text \<open>C7: in every state that an object can reach from a constructor by calls of its methods (with
  merge resolvers that may call any method of the same object, nested to any depth), by actions
  of others on the outside world and on the module's registry, and by exception handling: the
  two maps of the object are ordered, an object store in memory only occurs in virtual mode, a
  temporary directory marked as created by the object is in the module's registry, the repository
  handle is set, the lock is free, and no call has ever waited for its own lock.\<close>

theorem reachable_states_invariant:
  assumes "reachable G s"
  shows "object_ok s \<and> m_repo s \<noteq> None \<and> \<not> m_lock s \<and> \<not> deadlocked s"
  using idle_reachable [OF assms] by (simp add: idle_def opened_def lock_free_def)

lemma run_virtual_mem:
  "run_state (QoreGitRepository_virtual (mem_merge_api H depth)) (blank mem_empty) =
     ((), mem_object_state)"
  by (simp add: QoreGitRepository_virtual_def attach_backends_def init_members_def set_repo_def mem_full_defs
      blank_def mem_object_state_def mem_empty_def)

theorem reachable_states_invariant_witness:
  "\<exists>s. reachable (mem_merge_api size_hash 9) s \<and> map_of (m_virtual_tree s) ''a'' = Some 1 \<and>
     object_ok s \<and> m_repo s \<noteq> None \<and> \<not> m_lock s \<and> \<not> deadlocked s"
proof -
  let ?G = "mem_merge_api size_hash 9"
  let ?s = "mem_object_state"
  let ?t = "snd (run_state (perform ?G (OpWriteFile ''a'' [7])) ?s)"
  have "constructed ?G ?s"
    by (rule constructed_virtual [OF _ run_virtual_mem]) (simp_all add: fresh_def blank_def mem_object_state_def)
  moreover have "step ?G ?s ?t"
    by (rule step_call [where op = "OpWriteFile ''a'' [7]"])
      (auto intro: allowed_plain simp: resolver_of_def prod_eq_iff)
  ultimately have r: "reachable ?G ?t" by (blast intro: reachable.intros)
  have "map_of (m_virtual_tree ?t) ''a'' = Some 1"
    by (simp add: as_value_def run_writeFile_virtual path_ok_def mem_object_state_def blank_def mem_write_empty
        size_hash_def)
  with reachable_states_invariant [OF r] r show ?thesis by blast
qed

end
