(* ===== verification/Reporting.thy ===== *)
theory Reporting
  imports Lifecycle
begin

text \<open>
  How errors are reported. A method signals an error twice: with an exception in the sink and with
  its return value. \<open>outcome R m\<close> says that a computation that starts with an empty sink ends with a
  value and a sink that \<open>R\<close> relates (its second argument: an exception was raised); \<open>fails R m\<close> is the
  same for a computation that starts after an exception. One rule per combinator and one lemma per
  method give the property of all methods. Runs that deadlock or overflow the stack have no
  outcome and are left out.
\<close>

definition lost :: "'w qgit \<Rightarrow> bool" where
  "lost s \<longleftrightarrow> stack_overflow s \<or> deadlocked s"

interpretation lost: repo_frame "lost :: 'w qgit \<Rightarrow> bool" "lost :: 'w qgit \<Rightarrow> bool"
  by unfold_locales (auto simp: lost_def)

definition outcome :: "('a \<Rightarrow> bool \<Rightarrow> bool) \<Rightarrow> ('w, 'a) qmethod \<Rightarrow> bool" where
  "outcome R m \<longleftrightarrow> keeps lost m \<and> (\<forall>s. xsink s = [] \<longrightarrow> \<not> lost (snd (run_state m s)) \<longrightarrow>
     R (fst (run_state m s)) (xsink (snd (run_state m s)) \<noteq> []))"

definition fails :: "('a \<Rightarrow> bool \<Rightarrow> bool) \<Rightarrow> ('w, 'a) qmethod \<Rightarrow> bool" where
  "fails R m \<longleftrightarrow> keeps lost m \<and> (\<forall>s. xsink s \<noteq> [] \<longrightarrow> \<not> lost (snd (run_state m s)) \<longrightarrow>
     xsink (snd (run_state m s)) \<noteq> [] \<and> R (fst (run_state m s)) True)"

text \<open>A computation that does not raise, and the three kinds of results.\<close>

abbreviation quiet :: "'a \<Rightarrow> bool \<Rightarrow> bool" where "quiet \<equiv> (\<lambda>v raised. \<not> raised)"
abbreviation passes :: "bool \<Rightarrow> bool \<Rightarrow> bool" where "passes \<equiv> (\<lambda>ok raised. ok \<longleftrightarrow> \<not> raised)"
abbreviation status :: "int \<Rightarrow> bool \<Rightarrow> bool" where "status \<equiv> (\<lambda>rc raised. rc < 0 \<longleftrightarrow> raised)"
abbreviation nullable :: "'a option \<Rightarrow> bool \<Rightarrow> bool" where "nullable \<equiv> (\<lambda>r raised. raised \<longrightarrow> r = None)"
abbreviation partial :: "'a option \<Rightarrow> bool \<Rightarrow> bool" where "partial \<equiv> (\<lambda>r raised. raised \<longleftrightarrow> r = None)"

section \<open>Rules\<close>

named_theorems outcome_rules \<comment> \<open>rules for \<open>outcome\<close> and \<open>fails\<close>\<close>

lemma outcomeD: "outcome R m \<Longrightarrow> run_state m s = (v, t) \<Longrightarrow> xsink s = [] \<Longrightarrow> \<not> lost t \<Longrightarrow> R v (xsink t \<noteq> [])"
  unfolding outcome_def by (metis fst_conv snd_conv)

lemma failsD: "fails R m \<Longrightarrow> run_state m s = (v, t) \<Longrightarrow> xsink s \<noteq> [] \<Longrightarrow> \<not> lost t \<Longrightarrow> xsink t \<noteq> [] \<and> R v True"
  unfolding fails_def by (metis fst_conv snd_conv)

lemma lostD: "outcome R m \<Longrightarrow> keeps lost m" and lostD': "fails R m \<Longrightarrow> keeps lost m"
  by (simp_all add: outcome_def fails_def)

lemma outcomeI:
  "keeps lost m \<Longrightarrow> (\<And>s v t. run_state m s = (v, t) \<Longrightarrow> xsink s = [] \<Longrightarrow> \<not> lost t \<Longrightarrow> R v (xsink t \<noteq> [])) \<Longrightarrow> outcome R m"
  unfolding outcome_def by (metis prod.collapse)

lemma failsI:
  "keeps lost m \<Longrightarrow> (\<And>s v t. run_state m s = (v, t) \<Longrightarrow> xsink s \<noteq> [] \<Longrightarrow> \<not> lost t \<Longrightarrow> xsink t \<noteq> [] \<and> R v True) \<Longrightarrow> fails R m"
  unfolding fails_def by (metis prod.collapse)

lemma outcome_mono: "outcome R m \<Longrightarrow> (\<And>v b. R v b \<Longrightarrow> R' v b) \<Longrightarrow> outcome R' m"
  by (auto simp: outcome_def)

lemma outcome_return [outcome_rules]: "R v False \<Longrightarrow> outcome R (ret v)"
  by (simp add: outcome_def keeps_return)

lemma fails_return [outcome_rules]: "R v True \<Longrightarrow> fails R (ret v)"
  by (simp add: fails_def keeps_return)

lemma outcome_bind:
  assumes m: "outcome R' m" and raised: "\<And>a. R' a True \<Longrightarrow> fails R (f a)"
    and ok: "\<And>a. R' a False \<Longrightarrow> outcome R (f a)" and lost: "\<And>a. keeps lost (f a)"
  shows "outcome R (State_Monad.bind m f)"
proof (rule outcomeI)
  show "keeps lost (State_Monad.bind m f)" by (intro keeps_bind lostD [OF m] lost)
  fix s v t
  assume r: "run_state (State_Monad.bind m f) s = (v, t)" and s: "xsink s = []" and t: "\<not> lost t"
  obtain a u where a: "run_state m s = (a, u)" by (cases "run_state m s")
  with r have f: "run_state (f a) u = (v, t)" by simp
  with t lost [of a] have u: "\<not> lost u" by (auto dest: keepsE)
  show "R v (xsink t \<noteq> [])"
  proof (cases "xsink u = []")
    case True
    with outcomeD [OF m a s u] show ?thesis by (intro outcomeD [OF ok f _ t]) simp_all
  next
    case False
    with outcomeD [OF m a s u] have "fails R (f a)" by (intro raised) simp
    from failsD [OF this f False t] show ?thesis by simp
  qed
qed

text \<open>Derived rules, by the kind of the first computation.\<close>

lemma outcome_bind_quiet: "outcome quiet m \<Longrightarrow> (\<And>a. outcome R (f a)) \<Longrightarrow> outcome R (State_Monad.bind m f)"
  by (rule outcome_bind [where R' = quiet]) (auto dest: lostD)

lemma outcome_bind_passes:
  "outcome passes m \<Longrightarrow> fails R (f False) \<Longrightarrow> outcome R (f True) \<Longrightarrow> outcome R (State_Monad.bind m f)"
proof (rule outcome_bind [where R' = passes])
  fix a
  show "fails R (f False) \<Longrightarrow> outcome R (f True) \<Longrightarrow> keeps lost (f a)" by (cases a) (auto dest: lostD lostD')
qed auto

lemma outcome_bind_cancel:
  "outcome (\<lambda>c raised. c \<longleftrightarrow> raised) m \<Longrightarrow> fails R (f True) \<Longrightarrow> outcome R (f False) \<Longrightarrow>
   outcome R (State_Monad.bind m f)"
proof (rule outcome_bind [where R' = "\<lambda>c raised. c \<longleftrightarrow> raised"])
  fix a
  show "fails R (f True) \<Longrightarrow> outcome R (f False) \<Longrightarrow> keeps lost (f a)" by (cases a) (auto dest: lostD lostD')
qed auto

lemma outcome_bind_partial:
  "outcome partial m \<Longrightarrow> fails R (f None) \<Longrightarrow> (\<And>a. outcome R (f (Some a))) \<Longrightarrow> outcome R (State_Monad.bind m f)"
proof (rule outcome_bind [where R' = partial])
  fix a
  show "fails R (f None) \<Longrightarrow> (\<And>a. outcome R (f (Some a))) \<Longrightarrow> keeps lost (f a)"
    by (cases a) (auto dest: lostD lostD')
qed auto

lemma outcome_bind_stops:
  "outcome (\<lambda>r raised. raised \<longleftrightarrow> r \<noteq> None) m \<Longrightarrow> (\<And>a. fails R (f (Some a))) \<Longrightarrow> outcome R (f None) \<Longrightarrow>
   outcome R (State_Monad.bind m f)"
proof (rule outcome_bind [where R' = "\<lambda>r raised. raised \<longleftrightarrow> r \<noteq> None"])
  fix a
  show "(\<And>a. fails R (f (Some a))) \<Longrightarrow> outcome R (f None) \<Longrightarrow> keeps lost (f a)"
    by (cases a) (auto dest: lostD lostD')
qed auto

lemma outcome_bind_status:
  assumes "outcome status m" and "\<And>rc. rc < 0 \<Longrightarrow> fails R (f rc)" and "\<And>rc. \<not> rc < 0 \<Longrightarrow> outcome R (f rc)"
  shows "outcome R (State_Monad.bind m f)"
proof (rule outcome_bind [OF assms(1)])
  fix a
  show "keeps lost (f a)" using assms(2,3) [of a] by (cases "a < 0") (auto dest: lostD lostD')
qed (use assms(2,3) in auto)

lemma outcome_bind_nullable:
  assumes "outcome nullable m" and "fails R (f None)" and "\<And>a. outcome R (f a)"
  shows "outcome R (State_Monad.bind m f)"
  by (rule outcome_bind [OF assms(1)]) (use assms(2,3) in \<open>auto dest: lostD\<close>)

section \<open>Primitive steps\<close>

lemma outcome_query: "outcome quiet (query f)"
  by (simp add: outcome_def keeps_def)

lemma outcome_gets: "outcome quiet (gets f)"
  by (simp add: outcome_def keeps_def)

lemma outcome_effect: "outcome quiet (effect f)"
  by (simp add: outcome_def keeps_def lost_def)

lemma outcome_effect_unit: "outcome quiet (effect_unit f)"
  by (simp add: outcome_def keeps_def lost_def)

lemma outcome_modify:
  "(\<And>s. xsink (f s) = xsink s) \<Longrightarrow> (\<And>s. lost s \<Longrightarrow> lost (f s)) \<Longrightarrow> outcome quiet (modify f)"
  by (simp add: outcome_def keeps_def)

lemmas outcome_bind_primitive [outcome_rules] = outcome_query [THEN outcome_bind_quiet]
  outcome_gets [THEN outcome_bind_quiet] outcome_effect [THEN outcome_bind_quiet]
  outcome_effect_unit [THEN outcome_bind_quiet]

lemma outcome_bind_modify [outcome_rules]:
  "(\<And>s. xsink (g s) = xsink s) \<Longrightarrow> (\<And>s. lost s \<Longrightarrow> lost (g s)) \<Longrightarrow> outcome R (f ()) \<Longrightarrow>
   outcome R (State_Monad.bind (modify g) f)"
  by (rule outcome_bind_quiet [OF outcome_modify]) simp_all

lemma outcome_overflow [outcome_rules]:
  "outcome R (State_Monad.bind (modify (\<lambda>s. s\<lparr>stack_overflow := True\<rparr>)) (\<lambda>_. ret v))"
  by (simp add: outcome_def keeps_def lost_def)

lemma outcome_query_end [outcome_rules]: "(\<And>w. R (f w) False) \<Longrightarrow> outcome R (query f)"
  by (simp add: outcome_def keeps_def)

lemma outcome_gets_end [outcome_rules]: "(\<And>w. R (f w) False) \<Longrightarrow> outcome R (gets f)"
  by (simp add: outcome_def keeps_def)

lemma fails_bind_primitive [outcome_rules]:
  "(\<And>a. fails R (f1 a)) \<Longrightarrow> fails R (State_Monad.bind (query q) f1)"
  "(\<And>a. fails R (f2 a)) \<Longrightarrow> fails R (State_Monad.bind (gets h) f2)"
  "(\<And>a. fails R (f3 a)) \<Longrightarrow> fails R (State_Monad.bind (effect e) f3)"
  "fails R (f4 ()) \<Longrightarrow> fails R (State_Monad.bind (effect_unit u) f4)"
  "fails R (f4 ()) \<Longrightarrow> fails R (State_Monad.bind (raiseException err d) f4)"
  by (auto simp: fails_def keeps_def lost_def)

lemma keeps_bind_raised:
  assumes "keeps lost (f True)" and "keeps lost (f False)"
  shows "keeps lost (State_Monad.bind exception_raised f)"
proof (rule keeps_bind [OF lost.keeps_exception_raised])
  show "keeps lost (f a)" for a using assms by (cases a) simp_all
qed

lemma fails_bind_raised:
  "fails R (f True) \<Longrightarrow> keeps lost (f False) \<Longrightarrow> fails R (State_Monad.bind exception_raised f)"
  by (rule failsI) (auto simp: fails_def keeps_bind_raised)

lemma outcome_bind_raise [outcome_rules]:
  "fails R (f ()) \<Longrightarrow> outcome R (State_Monad.bind (raiseException err d) f)"
  by (simp add: fails_def outcome_def keeps_def lost_def)

lemma outcome_bind_raise_rc [outcome_rules]:
  "fails R (f (- 1)) \<Longrightarrow> outcome R (State_Monad.bind (git_raise_exception_rc err e ctx) f)"
  "fails R (f (- 1)) \<Longrightarrow> outcome R (State_Monad.bind (git_raise_exception err e ctx) f)"
  by (simp_all add: fails_def outcome_def keeps_def lost_def git_raise_exception_rc_def git_raise_exception_def)

lemma outcome_bind_raised [outcome_rules]:
  "fails R (f True) \<Longrightarrow> outcome R (f False) \<Longrightarrow> outcome R (State_Monad.bind exception_raised f)"
  by (rule outcomeI) (auto simp: outcome_def fails_def keeps_bind_raised)

section \<open>Combinators\<close>

lemma outcome_if [outcome_rules]:
  "(b \<Longrightarrow> outcome R m) \<Longrightarrow> (\<not> b \<Longrightarrow> outcome R n) \<Longrightarrow> outcome R (if b then m else n)"
  "(b \<Longrightarrow> fails R m) \<Longrightarrow> (\<not> b \<Longrightarrow> fails R n) \<Longrightarrow> fails R (if b then m else n)"
  by simp_all

lemma outcome_case_option [outcome_rules]:
  "(x = None \<Longrightarrow> outcome R m) \<Longrightarrow> (\<And>a. x = Some a \<Longrightarrow> outcome R (f a)) \<Longrightarrow> outcome R (case_option m f x)"
  "(x = None \<Longrightarrow> fails R m) \<Longrightarrow> (\<And>a. x = Some a \<Longrightarrow> fails R (f a)) \<Longrightarrow> fails R (case_option m f x)"
  by (simp_all split: option.split)

lemma outcome_case_sum [outcome_rules]:
  "(\<And>e. x = Inl e \<Longrightarrow> outcome R (f e)) \<Longrightarrow> (\<And>a. x = Inr a \<Longrightarrow> outcome R (g a)) \<Longrightarrow> outcome R (case_sum f g x)"
  "(\<And>e. x = Inl e \<Longrightarrow> fails R (f e)) \<Longrightarrow> (\<And>a. x = Inr a \<Longrightarrow> fails R (g a)) \<Longrightarrow> fails R (case_sum f g x)"
  by (simp_all split: sum.split)

lemma outcome_case_prod [outcome_rules]:
  "(\<And>a b. p = (a, b) \<Longrightarrow> outcome R (f a b)) \<Longrightarrow> outcome R (case_prod f p)"
  "(\<And>a b. p = (a, b) \<Longrightarrow> fails R (f a b)) \<Longrightarrow> fails R (case_prod f p)"
  by (simp_all split: prod.split)

lemma outcome_on_ok [outcome_rules]:
  "R r True \<Longrightarrow> (\<And>a. outcome R (k a)) \<Longrightarrow> outcome R (on_ok err ctx r res k)"
  unfolding on_ok_def by (intro outcome_rules)

lemma outcome_check_passes: "outcome passes (check_passes r)"
  unfolding check_passes_def by (intro outcome_rules) simp_all

lemma outcome_check_cancel: "outcome (\<lambda>c raised. c \<longleftrightarrow> raised) (check_cancel G what)"
  unfolding check_cancel_def by (intro outcome_rules outcome_bind_passes [OF outcome_check_passes]) simp_all

lemma outcome_cancelled_when: "outcome (\<lambda>c raised. c \<longleftrightarrow> raised) (cancelled_when b G what)"
  unfolding cancelled_when_def by (intro outcome_rules outcome_check_cancel) simp_all

lemma outcome_checkFsAccess: "outcome passes (checkFsAccess G path mode)"
  unfolding checkFsAccess_def by (intro outcome_rules outcome_check_passes) simp_all

lemmas outcome_bind_checks [outcome_rules] = outcome_check_cancel [THEN outcome_bind_cancel]
  outcome_cancelled_when [THEN outcome_bind_cancel] outcome_checkFsAccess [THEN outcome_bind_passes]
  outcome_check_passes [THEN outcome_bind_passes]

text \<open>A choice between steps without a result raises nothing in this code.\<close>

lemma outcome_bind_unit [outcome_rules]:
  fixes f :: "unit \<Rightarrow> ('w, 'a) qmethod"
  shows "outcome quiet (if b then m else n) \<Longrightarrow> outcome R (f ()) \<Longrightarrow> outcome R (State_Monad.bind (if b then m else n) f)"
    and "outcome quiet (case_option m g x) \<Longrightarrow> outcome R (f ()) \<Longrightarrow> outcome R (State_Monad.bind (case_option m g x) f)"
    and "outcome quiet (case_sum h k y) \<Longrightarrow> outcome R (f ()) \<Longrightarrow> outcome R (State_Monad.bind (case_sum h k y) f)"
  by (rule outcome_bind_quiet; simp)+

text \<open>Loops whose body leaves early exactly when it raises.\<close>

lemma outcome_for:
  assumes "\<And>i x. outcome (\<lambda>r raised. raised \<longleftrightarrow> r \<noteq> None) (f i x)"
  shows "outcome (\<lambda>r raised. raised \<longleftrightarrow> r \<noteq> None) (for_from f i xs)"
proof (induction xs arbitrary: i)
  case Nil
  then show ?case by (simp add: outcome_return)
next
  case (Cons x xs)
  show ?case
    unfolding for_from.simps by (intro outcome_bind_stops [OF assms] outcome_rules Cons) simp_all
qed

lemma outcome_for_quiet:
  assumes "\<And>i x. outcome quiet (f i x)"
  shows "outcome quiet (for_from f i xs)"
proof (induction xs arbitrary: i)
  case Nil
  then show ?case by (simp add: outcome_return)
next
  case (Cons x xs)
  show ?case
    unfolding for_from.simps by (intro outcome_bind_quiet [OF assms] outcome_rules Cons) simp_all
qed

text \<open>A guarded method reports what its body reports.\<close>

lemma outcome_checkRepo: "outcome partial checkRepo"
  unfolding checkRepo_def by (intro outcome_rules) simp_all

lemma outcome_auto_lock:
  assumes "outcome R m"
  shows "outcome R (auto_lock r m)"
proof (rule outcomeI)
  show "keeps lost (auto_lock r m)" by (intro lost.keeps_auto_lock lostD [OF assms])
  fix s v t
  assume r: "run_state (auto_lock r m) s = (v, t)" and s: "xsink s = []" and t: "\<not> lost t"
  have l: "\<not> m_lock s" using r t by (auto simp: auto_lock_def lost_def)
  obtain u where u: "run_state m (s\<lparr>m_lock := True\<rparr>) = (v, u)" and tu: "t = u\<lparr>m_lock := False\<rparr>"
    using r l by (auto simp: auto_lock_def split: prod.splits)
  then have "\<not> lost u" using t by (simp add: lost_def)
  from outcomeD [OF assms u _ this] s tu show "R v (xsink t \<noteq> [])" by simp
qed

lemma outcome_guarded [outcome_rules]:
  "R r True \<Longrightarrow> (\<And>h. outcome R (body h)) \<Longrightarrow> outcome R (guarded r body)"
  unfolding guarded_def
  by (intro outcome_auto_lock outcome_bind_partial [OF outcome_checkRepo] outcome_rules) simp_all

end
