(* ===== verification/Error_Reports.thy ===== *)
theory Error_Reports
  imports Reporting
begin

text \<open>
  What each method reports, and the summary for all of them: a status is negative exactly when
  an exception was raised, and a method that raised returns nothing.
\<close>

section \<open>Checks and files\<close>

lemma outcome_validateRepoPath: "outcome passes (validateRepoPath path)"
  unfolding validateRepoPath_def by (intro outcome_rules) simp_all

lemma outcome_validateRemoteUrl: "outcome passes (validateRemoteUrl url)"
  unfolding validateRemoteUrl_def by (intro outcome_rules) simp_all

lemmas outcome_bind_path [outcome_rules] = outcome_validateRepoPath [THEN outcome_bind_passes]
  outcome_validateRemoteUrl [THEN outcome_bind_passes]

lemma outcome_getPath: "outcome partial (getPath G)"
  unfolding getPath_def by (intro outcome_rules) simp_all

lemma outcome_getWorkdir: "outcome nullable (getWorkdir G)"
  unfolding getWorkdir_def by (intro outcome_rules) simp_all

lemma outcome_isBare: "outcome (\<lambda>b raised. raised \<longrightarrow> \<not> b) (isBare G)"
  unfolding isBare_def by (intro outcome_rules) simp_all

lemma outcome_isEmpty: "outcome (\<lambda>b raised. raised \<longrightarrow> \<not> b) (isEmpty G)"
  unfolding isEmpty_def by (intro outcome_rules) simp_all

lemma outcome_isVirtual: "outcome (\<lambda>b raised. raised \<longrightarrow> \<not> b) isVirtual"
  unfolding isVirtual_def by (intro outcome_rules) simp_all

lemma outcome_configSet: "outcome status (configSet G key val)"
  unfolding configSet_def by (intro outcome_rules) (simp_all add: lost_def)

lemma outcome_configGet: "outcome nullable (configGet G key)"
  unfolding configGet_def by (intro outcome_rules) simp_all

lemma outcome_addToIndex: "outcome status (addToIndex G path)"
  unfolding addToIndex_def by (intro outcome_rules) simp_all

lemma outcome_removeFromIndex: "outcome status (removeFromIndex G path)"
  unfolding removeFromIndex_def by (intro outcome_rules) simp_all

lemma outcome_readFile: "outcome nullable (readFile G path)"
  unfolding readFile_def by (intro outcome_rules) simp_all

lemma outcome_readFileString: "outcome nullable (readFileString G path encoding)"
  unfolding readFileString_def
  by (intro outcome_bind_nullable [OF outcome_readFile] fails_bind_raised outcome_rules keeps_rules) simp_all

lemma outcome_make_directories: "outcome quiet (make_directories G dir)"
  unfolding make_directories_def
  by (intro outcome_bind_quiet [OF outcome_for_quiet] outcome_rules) simp_all

lemma outcome_write_to_disk: "outcome passes (write_to_disk G path data)"
  unfolding write_to_disk_def by (intro outcome_rules) simp_all

lemmas outcome_bind_files [outcome_rules] = outcome_make_directories [THEN outcome_bind_quiet]
  outcome_write_to_disk [THEN outcome_bind_passes]

lemma outcome_writeFile: "outcome status (writeFile G path data)"
  unfolding writeFile_def Let_def by (intro outcome_rules) (simp_all add: lost_def)

lemma outcome_deleteFile: "outcome status (deleteFile G path)"
  unfolding deleteFile_def Let_def
  by (intro outcome_rules) (simp_all add: lost_def, (rule outcome_bind_cancel; intro outcome_rules; simp))

lemma outcome_fileExists: "outcome (\<lambda>b raised. raised \<longrightarrow> \<not> b) (fileExists G path)"
  unfolding fileExists_def by (intro outcome_rules) simp_all

section \<open>Trees, commits and status\<close>

lemma outcome_group_paths: "outcome partial (group_paths G c kvs root)"
proof (induction kvs arbitrary: c root)
  case Nil
  show ?case unfolding group_paths.simps by (intro outcome_rules) simp
next
  case (Cons kv kvs)
  show ?case unfolding group_paths.simps by (intro outcome_rules Cons) simp_all
qed

lemma outcome_insert_blobs: "outcome partial (insert_blobs G repo bs builder)"
proof (induction bs arbitrary: builder)
  case Nil
  show ?case unfolding insert_blobs.simps by (intro outcome_rules) simp
next
  case (Cons b bs)
  show ?case unfolding insert_blobs.simps by (intro outcome_rules Cons) simp_all
qed

lemma outcome_build_subdirs_step:
  assumes "\<And>d. n \<noteq> 0 \<Longrightarrow> outcome partial (buildTree G repo (n - 1) d)"
  shows "outcome partial (build_subdirs G repo n ds builder)"
proof (induction ds arbitrary: builder)
  case Nil
  show ?case unfolding build_subdirs.simps by (intro outcome_rules) simp
next
  case (Cons d ds)
  obtain name dir where d: "d = (name, dir)" by (cases d)
  show ?case
    unfolding d build_subdirs.simps
    by (intro outcome_if outcome_overflow outcome_bind_partial [OF assms] outcome_rules Cons) simp_all
qed

lemma outcome_buildTree_step:
  assumes "\<And>ds builder. outcome partial (build_subdirs G repo n ds builder)"
  shows "outcome partial (buildTree G repo n d)"
proof (cases d)
  case (DirEntry bs ds)
  show ?thesis
    unfolding DirEntry buildTree.simps
    by (intro outcome_rules outcome_bind_partial [OF outcome_insert_blobs] outcome_bind_partial [OF assms]) simp_all
qed

lemma outcome_buildTree: "outcome partial (buildTree G repo n d)"
proof (induction n arbitrary: d)
  case 0
  show ?case by (rule outcome_buildTree_step, rule outcome_build_subdirs_step) simp
next
  case (Suc n)
  show ?case by (rule outcome_buildTree_step, rule outcome_build_subdirs_step) (simp add: Suc)
qed

lemma outcome_buildTreeFromVirtualTree: "outcome partial (buildTreeFromVirtualTree G repo)"
  unfolding buildTreeFromVirtualTree_def
  by (intro outcome_rules outcome_bind_partial [OF outcome_group_paths] outcome_buildTree) simp_all

lemma outcome_populate: "outcome status (populateVirtualTreeFromGitTree G repo n i es prefix)"
proof (induction n arbitrary: i es prefix)
  case 0
  show ?case
  proof (induction es arbitrary: i prefix)
    case Nil
    show ?case unfolding populateVirtualTreeFromGitTree.simps by (intro outcome_rules) simp
  next
    case (Cons e es)
    show ?case
      unfolding populateVirtualTreeFromGitTree.simps Let_def
      by (intro outcome_rules Cons) (simp_all add: lost_def outcome_overflow)
  qed
next
  case (Suc n)
  note deeper = Suc
  show ?case
  proof (induction es arbitrary: i prefix)
    case Nil
    show ?case unfolding populateVirtualTreeFromGitTree.simps by (intro outcome_rules) simp
  next
    case (Cons e es)
    show ?case
      unfolding populateVirtualTreeFromGitTree.simps Let_def
      by (intro outcome_bind_status outcome_rules Cons) (simp_all add: lost_def deeper)
  qed
qed

lemma outcome_overrideSignature: "outcome quiet (overrideSignatureFromConfig G repo sig)"
  unfolding overrideSignatureFromConfig_def
  by (intro outcome_rules) (rule outcome_bind_quiet; intro outcome_rules; simp)+

lemmas outcome_bind_trees [outcome_rules] = outcome_buildTreeFromVirtualTree [THEN outcome_bind_partial]
  outcome_populate [THEN outcome_bind_status] outcome_overrideSignature [THEN outcome_bind_quiet]

lemma outcome_commit_virtual: "outcome partial (commit_virtual G repo message)"
  unfolding commit_virtual_def Let_def
  by (intro outcome_rules) simp_all

lemma outcome_commit_disk: "outcome partial (commit_disk G repo message)"
  unfolding commit_disk_def by (intro outcome_rules) simp_all

lemma outcome_commit: "outcome partial (commit G message)"
  unfolding commit_def by (intro outcome_rules outcome_commit_virtual outcome_commit_disk) simp_all

lemma outcome_headCommitId: "outcome nullable (headCommitId G)"
  unfolding headCommitId_def by (intro outcome_rules) simp_all

lemma outcome_status_virtual: "outcome partial (status_virtual G c kvs result)"
proof (induction kvs arbitrary: c result)
  case Nil
  show ?case unfolding status_virtual.simps by (intro outcome_rules) simp
next
  case (Cons kv kvs)
  show ?case unfolding status_virtual.simps by (intro outcome_rules Cons) simp_all
qed

lemma outcome_status_disk: "outcome partial (status_disk G i es result)"
proof (induction es arbitrary: i result)
  case Nil
  show ?case unfolding status_disk.simps by (intro outcome_rules) simp
next
  case (Cons e es)
  show ?case unfolding status_disk.simps by (intro outcome_rules Cons) simp_all
qed

lemma outcome_getStatus: "outcome partial (getStatus G)"
  unfolding getStatus_def
  by (intro outcome_rules outcome_status_virtual outcome_status_disk) simp_all

section \<open>Branches, tags and history\<close>

lemma outcome_createBranch: "outcome status (createBranch G name from_ref)"
  unfolding createBranch_def
  by (intro outcome_guarded, simp, rule outcome_bind_partial) (intro outcome_rules; simp)+

lemma outcome_deleteBranch: "outcome status (deleteBranch G name)"
  unfolding deleteBranch_def by (intro outcome_rules) simp_all

lemma outcome_detach_head: "outcome quiet (detach_head G repo ref)"
  unfolding detach_head_def by (intro outcome_rules) simp_all

lemma outcome_checkout_virtual: "outcome status (checkout_virtual G repo ref c)"
  unfolding checkout_virtual_def Let_def
  by (intro outcome_rules outcome_detach_head) (simp_all add: lost_def)

lemma outcome_checkout_disk: "outcome status (checkout_disk G repo ref c)"
  unfolding checkout_disk_def Let_def by (intro outcome_rules outcome_detach_head) simp_all

lemma outcome_checkout: "outcome status (checkout G ref)"
  unfolding checkout_def by (intro outcome_rules outcome_checkout_virtual outcome_checkout_disk) simp_all

lemma outcome_collect_branches: "outcome partial (collect_branches G c rs result)"
proof (induction rs arbitrary: c result)
  case Nil
  show ?case unfolding collect_branches.simps by (intro outcome_rules) simp
next
  case (Cons r rs)
  show ?case unfolding collect_branches.simps by (intro outcome_rules Cons) simp_all
qed

lemma outcome_listBranches: "outcome partial (listBranches G remote)"
  unfolding listBranches_def by (intro outcome_rules outcome_collect_branches) simp_all

lemma outcome_currentBranch: "outcome nullable (currentBranch G)"
  unfolding currentBranch_def by (intro outcome_rules) simp_all

lemma outcome_createTag: "outcome status (createTag G name message target_ref)"
  unfolding createTag_def
  by (intro outcome_guarded, simp, rule outcome_bind_partial) (intro outcome_rules; simp)+

lemma outcome_deleteTag: "outcome status (deleteTag G name)"
  unfolding deleteTag_def by (intro outcome_rules) simp_all

lemma outcome_poll: "outcome (\<lambda>r raised. raised \<longleftrightarrow> r \<noteq> None)
    (for_from (\<lambda>i x. do { c \<leftarrow> cancelled_when (b i) G what; ret (if c then Some () else None) }) i xs)"
  by (intro outcome_for outcome_rules) simp_all

lemma outcome_listTags: "outcome partial (listTags G)"
  unfolding listTags_def by (intro outcome_rules outcome_bind_stops [OF outcome_poll]) simp_all

lemma outcome_polled_list: "outcome partial (polled_list G what f xs)"
  unfolding polled_list_def by (intro outcome_rules outcome_bind_stops [OF outcome_poll]) simp_all

lemma outcome_compute_diff:
  "(\<And>d. outcome partial (k d)) \<Longrightarrow> outcome partial (compute_diff G repo from_ref to_ref k)"
  unfolding compute_diff_def by (intro outcome_rules) simp_all

lemma outcome_diff: "outcome partial (diff G from_ref to_ref)"
  unfolding diff_def by (intro outcome_guarded outcome_compute_diff outcome_polled_list) simp

lemma outcome_diffPatch: "outcome partial (diffPatch G from_ref to_ref)"
  unfolding diffPatch_def by (intro outcome_guarded outcome_compute_diff outcome_rules) simp_all

lemma outcome_stats_tree: "outcome partial (stats_tree G repo side ref)"
  unfolding stats_tree_def by (intro outcome_rules) simp_all

lemma outcome_diffStats: "outcome partial (diffStats G from_ref to_ref)"
  unfolding diffStats_def
  by (intro outcome_guarded outcome_bind_partial [where m = "case_option _ _ _"]
      outcome_bind_partial [OF outcome_stats_tree] outcome_rules) simp_all

lemma outcome_log_loop: "outcome partial (log_loop G repo max_count path oids count result)"
proof (induction oids arbitrary: count result)
  case Nil
  show ?case unfolding log_loop.simps by (intro outcome_rules) simp
next
  case (Cons oid oids)
  show ?case unfolding log_loop.simps by (intro outcome_rules Cons) simp_all
qed

lemma outcome_log: "outcome partial (log G max_count path)"
  unfolding log_def by (intro outcome_rules outcome_log_loop) simp_all

lemma outcome_lookupCommit: "outcome partial (lookupCommit G ref)"
  unfolding lookupCommit_def by (intro outcome_rules) simp_all

lemma outcome_getState: "outcome partial (getState G)"
  unfolding getState_def by (intro outcome_rules) simp_all

lemma outcome_blame_option: "outcome partial (blame_commit_option G repo opts key)"
  unfolding blame_commit_option_def
  by (cases "getKeyValue opts key") (simp_all, (intro outcome_rules; simp)+)

lemma outcome_blame: "outcome partial (blame G path opts)"
  unfolding blame_def
  by (intro outcome_rules outcome_bind_partial [OF outcome_blame_option] outcome_polled_list) simp_all

section \<open>Stash and remotes\<close>

lemma outcome_stash: "outcome partial (stash G message)"
  unfolding stash_def by (intro outcome_rules) simp_all

lemma outcome_stashPop: "outcome status (stashPop G)"
  unfolding stashPop_def by (intro outcome_rules) simp_all

lemma outcome_case_ref_target [outcome_rules]:
  "(\<And>oid. outcome R (g oid)) \<Longrightarrow> (\<And>t. outcome R (f t)) \<Longrightarrow>
   outcome R (case x of Direct oid \<Rightarrow> g oid | Symbolic t \<Rightarrow> f t)"
  by (cases x) simp_all

lemma outcome_copy_reference: "outcome quiet (copy_reference G repo disk_repo name)"
  unfolding copy_reference_def by (intro outcome_rules) simp_all

lemma outcome_copy_references: "outcome passes (copy_references G repo disk_repo)"
proof -
  have "outcome (\<lambda>r raised. raised \<longleftrightarrow> r \<noteq> None) (for_from (\<lambda>i name. do {
      cancel \<leftarrow> cancelled_when (i mod 100 = 0) G ''git migrate'';
      if cancel then ret (Some ()) else do { copy_reference G repo disk_repo name; ret None }
    }) 0 names)" for names
    by (intro outcome_for outcome_rules outcome_bind_quiet [OF outcome_copy_reference]) simp_all
  then show ?thesis
    unfolding copy_references_def by (intro outcome_rules outcome_bind_stops) simp_all
qed

lemma outcome_copy_config: "outcome quiet (copy_config G disk_repo)"
  unfolding copy_config_def
  by (intro outcome_bind_quiet [OF outcome_for_quiet] outcome_rules) simp_all

lemma outcome_for_early:
  assumes "\<And>i x. outcome (\<lambda>r raised. raised \<longrightarrow> r \<noteq> None) (f i x)"
  shows "outcome (\<lambda>r raised. raised \<longrightarrow> r \<noteq> None) (for_from f i xs)"
proof (induction xs arbitrary: i)
  case Nil
  then show ?case by (simp add: outcome_return)
next
  case (Cons x xs)
  show ?case
    unfolding for_from.simps
  proof (rule outcome_bind [OF assms])
    fix r :: "'b option"
    show "keeps lost (case r of None \<Rightarrow> for_from f (Suc i) xs | Some v \<Rightarrow> ret (Some v))"
      by (intro keeps_rules lostD [OF assms])
  qed (intro outcome_rules Cons; simp)+
qed

lemma outcome_copy_objects: "outcome (\<lambda>ok raised. raised \<longrightarrow> \<not> ok) (copy_objects G src dst oids)"
  unfolding copy_objects_def
proof (rule outcome_bind [OF outcome_for_early])
  show "outcome (\<lambda>r raised. raised \<longrightarrow> r \<noteq> None) (copy_object G src dst i oid)" for i oid
    unfolding copy_object_def by (intro outcome_rules) simp_all
qed (auto intro!: outcome_rules keeps_rules)

lemma outcome_bind_copied:
  assumes "fails R (f False)" and "\<And>a. outcome R (f a)"
  shows "outcome R (State_Monad.bind (copy_objects G src dst oids) f)"
  by (rule outcome_bind [OF outcome_copy_objects]) (use assms in \<open>auto dest: lostD\<close>)

lemma outcome_migrate_contents: "outcome passes (migrate_contents G repo disk_repo)"
  unfolding migrate_contents_def
  by (intro outcome_rules outcome_bind_copied fails_bind_raised outcome_copy_references [THEN outcome_bind_passes]
      outcome_copy_reference [THEN outcome_bind_quiet] outcome_copy_config [THEN outcome_bind_quiet]
      keeps_rules lost.keeps_session lost.keeps_copy_references lost.keeps_copy_reference lost.keeps_copy_config)
    simp_all

lemma fails_bind_abort: "fails R (f ()) \<Longrightarrow> fails R (State_Monad.bind (migrate_abort G disk_repo dir) f)"
  unfolding migrate_abort_def by (auto simp: fails_def keeps_def lost_def)

lemma outcome_migrateToDisk: "outcome status (migrateToDisk G repo)"
  unfolding migrateToDisk_def migrate_swap_def
  by (intro outcome_rules outcome_migrate_contents [THEN outcome_bind_passes] fails_bind_abort)
    (simp_all add: lost_def)

lemma outcome_raise_end:
  "R (- 1) True \<Longrightarrow> outcome R (git_raise_exception_rc err e ctx)"
  by (simp add: outcome_def keeps_def lost_def git_raise_exception_rc_def)

lemma outcome_addRemote: "outcome status (addRemote G name url)"
  unfolding addRemote_def
  by (intro outcome_rules outcome_migrateToDisk [THEN outcome_bind_status] outcome_raise_end) simp_all

lemma outcome_removeRemote: "outcome status (removeRemote G name)"
  unfolding removeRemote_def by (intro outcome_rules) simp_all

section \<open>Merge\<close>

lemma outcome_lookupBlobContent: "outcome nullable (lookupBlobContent G repo oid)"
  unfolding lookupBlobContent_def by (intro outcome_rules) simp_all

lemma outcome_bind_blob [outcome_rules]:
  "fails R (f None) \<Longrightarrow> (\<And>a. outcome R (f a)) \<Longrightarrow> outcome R (State_Monad.bind (lookupBlobContent G repo oid) f)"
  by (rule outcome_bind_nullable [OF outcome_lookupBlobContent])

lemma outcome_buildConflictHash: "outcome partial (buildConflictHash G repo info ours theirs)"
  unfolding buildConflictHash_def
  by (intro outcome_rules fails_bind_raised keeps_rules lost.keeps_session lost.keeps_lookupBlobContent) simp_all

lemma outcome_applyResolvedContent: "outcome status (applyResolvedContent G repo path data ix)"
  unfolding applyResolvedContent_def by (intro outcome_rules) simp_all

lemma outcome_index_loop: "outcome status (index_loop G i es)"
proof (induction es arbitrary: i)
  case Nil
  show ?case unfolding index_loop.simps by (intro outcome_rules) simp
next
  case (Cons e es)
  show ?case unfolding index_loop.simps by (intro outcome_rules outcome_modify Cons) (simp_all add: lost_def)
qed

lemma outcome_populateFromIndex: "outcome status (populateVirtualTreeFromIndex G index)"
  unfolding populateVirtualTreeFromIndex_def
  by (intro outcome_rules outcome_index_loop) (simp_all add: lost_def)

lemma outcome_createMergeCommit: "outcome partial (createMergeCommit G repo message ours theirs ix)"
  unfolding createMergeCommit_def
  by (intro outcome_rules outcome_bind_status [where m = "if _ then populateVirtualTreeFromIndex _ _ else _"]
      outcome_populateFromIndex) simp_all

lemma outcome_merge_fast_forward: "outcome partial (merge_fast_forward G repo theirs)"
proof -
  have "outcome passes (on_ok err ctx False rc (\<lambda>tree. do {
      modify (\<lambda>s. s\<lparr>m_virtual_tree := []\<rparr>);
      rc \<leftarrow> populateVirtualTreeFromGitTree G repo n 0 (es tree) [];
      ret (\<not> rc < 0) }))" for err ctx rc n and es :: "'c \<Rightarrow> _"
    by (intro outcome_rules) (simp_all add: lost_def)
  note populate = this
  show ?thesis
    unfolding merge_fast_forward_def
    by (intro outcome_bind_passes [where m = "if _ then _ else _"] outcome_bind_passes [where m = "case_sum _ _ _"]
        outcome_rules populate) simp_all
qed

lemma outcome_merge_finish:
  "outcome partial (merge_finish G repo no_commit message ours theirs ix conflicts resolved)"
  unfolding merge_finish_def
  by (intro outcome_bind_partial [OF outcome_createMergeCommit] fails_bind_raised outcome_rules keeps_rules) simp_all

lemma outcome_resolve_conflicts: "outcome passes (resolve_conflicts G repo use_ours ix infos)"
proof -
  have "outcome (\<lambda>r raised. raised \<longleftrightarrow> r \<noteq> None) (for_from (\<lambda>i ci. do {
       cancel \<leftarrow> cancelled_when (Suc i mod 10 = 0) G ''git merge resolve'';
       if cancel then ret (Some ()) else
       (case (if use_ours then ours_oid ci else theirs_oid ci) of
          Some content_oid \<Rightarrow> do {
            blob \<leftarrow> lookupBlobContent G repo (Some content_oid);
            raised \<leftarrow> exception_raised;
            if raised then ret (Some ()) else
            (case blob of
               None \<Rightarrow> ret None
             | Some b \<Rightarrow> do {
                 rc \<leftarrow> applyResolvedContent G repo (ci_path ci) b ix;
                 ret (if rc < 0 then Some () else None)
               })
          }
        | None \<Rightarrow> do {
            effect (\<lambda>w. git_index_conflict_remove G w ix (ci_path ci));
            ret None
          })
     }) 0 infos)"
    by (intro outcome_for outcome_rules fails_bind_raised keeps_rules lost.keeps_applyResolvedContent
        outcome_bind_status [OF outcome_applyResolvedContent]) simp_all
  then show ?thesis
    unfolding resolve_conflicts_def by (intro outcome_rules outcome_bind_stops) simp_all
qed

lemma outcome_build_hashes: "outcome partial (build_hashes G repo what ours theirs i cis hashes)"
proof (induction cis arbitrary: i hashes)
  case Nil
  show ?case unfolding build_hashes.simps by (intro outcome_rules) simp
next
  case (Cons ci cis)
  show ?case
    unfolding build_hashes.simps
    by (intro outcome_bind_partial [OF outcome_buildConflictHash] fails_bind_raised outcome_rules Cons
        lost.keeps_build_hashes keeps_rules) simp_all
qed

text \<open>The first phase ends without a value exactly when it raised, and asks for callbacks only under
  the strategy \<open>callback\<close>.\<close>

definition phase1_outcome :: "string \<Rightarrow> merge_phase1 \<Rightarrow> bool \<Rightarrow> bool" where
  "phase1_outcome strategy p raised \<longleftrightarrow>
     (raised \<longleftrightarrow> p = Finished None) \<and> (strategy \<in> {''detect'', ''ours'', ''theirs''} \<longrightarrow> (\<exists>r. p = Finished r))"

lemma phase1_outcome_simps [simp]:
  "phase1_outcome strategy (Finished r) raised \<longleftrightarrow> (raised \<longleftrightarrow> r = None)"
  "phase1_outcome strategy (NeedsCallback mp) raised \<longleftrightarrow>
     \<not> raised \<and> strategy \<notin> {''detect'', ''ours'', ''theirs''}"
  by (auto simp: phase1_outcome_def)

lemma outcome_finished: "outcome partial m \<Longrightarrow>
  outcome (phase1_outcome strategy) (State_Monad.bind m (\<lambda>r. ret (Finished r)))"
  by (rule outcome_bind_partial) (simp_all add: outcome_return fails_return)

lemma outcome_merge_normal:
  "outcome (phase1_outcome strategy) (merge_normal G repo strategy no_commit message ours theirs)"
proof -
  have "outcome (\<lambda>r raised. raised \<longleftrightarrow> r \<noteq> None) (for_from (\<lambda>i c. do {
       cancel \<leftarrow> cancelled_when (Suc i mod 100 = 0) G ''git merge'';
       ret (if cancel then Some () else None) }) 0 cs)" for cs :: "'c list"
    by (intro outcome_for outcome_bind_cancel [OF outcome_cancelled_when] outcome_rules) simp_all
  then show ?thesis
    unfolding merge_normal_def Let_def
    by (intro outcome_bind_stops [where m = "for_from _ _ _"] outcome_bind_passes [OF outcome_resolve_conflicts]
        outcome_finished outcome_merge_finish outcome_bind_partial [OF outcome_build_hashes] outcome_rules) simp_all
qed

lemma outcome_merge_analyse:
  "outcome (phase1_outcome strategy) (merge_analyse G ref strategy no_commit message repo)"
  unfolding merge_analyse_def
  by (intro outcome_finished outcome_merge_fast_forward outcome_merge_normal outcome_rules) simp_all

lemma outcome_merge_apply: "outcome partial (merge_apply G no_commit message mp resolutions unresolved repo)"
proof -
  have "outcome (\<lambda>r raised. raised \<longleftrightarrow> r \<noteq> None) (for_from (\<lambda>i kv. do {
       rc \<leftarrow> applyResolvedContent G repo (fst kv) (snd kv) (mp_index mp);
       ret (if rc < 0 then Some () else None) }) 0 resolutions)"
    by (intro outcome_for outcome_bind_status [OF outcome_applyResolvedContent] outcome_rules) simp_all
  then show ?thesis
    unfolding merge_apply_def
    by (intro outcome_bind_stops [where m = "for_from _ _ _"] outcome_bind_partial [OF outcome_createMergeCommit]
        fails_bind_raised outcome_rules keeps_rules) simp_all
qed

text \<open>The resolver may raise or handle exceptions as it likes; the phase looks at the sink after it.\<close>

lemma outcome_bind_resolver:
  assumes "keeps lost m" and "\<And>a. fails R (f a)" and "\<And>a. outcome R (f a)"
  shows "outcome R (State_Monad.bind m f)"
  by (rule outcome_bind [where R' = "\<lambda>_ _. True"]) (use assms in \<open>auto simp: outcome_def\<close>)

lemma outcome_case_qvalue:
  assumes "\<And>s. outcome R (f s)" and "\<And>b. outcome R (g b)" and "outcome R h"
  shows "outcome R (case v of QString s \<Rightarrow> f s | QBinary b \<Rightarrow> g b | _ \<Rightarrow> h)"
  using assms by (cases v) simp_all

lemma outcome_run_callbacks:
  assumes "\<And>c. keeps lost (resolver c)"
  shows "outcome partial (run_callbacks G resolver cs resolutions unresolved)"
proof (induction cs arbitrary: resolutions unresolved)
  case Nil
  show ?case unfolding run_callbacks.simps by (intro outcome_rules) simp
next
  case (Cons c cs)
  show ?case
    unfolding run_callbacks.simps
    by (intro outcome_bind_checks(1) outcome_bind_resolver [OF assms] fails_bind_raised outcome_case_qvalue
        outcome_rules Cons keeps_case_qvalue keeps_rules lost.keeps_run_callbacks lost.keeps_session assms) simp_all
qed

lemma outcome_merge:
  assumes "\<And>resolver c. opt_resolver opts = Some resolver \<Longrightarrow> keeps lost (resolver c)"
  shows "outcome partial (merge G ref opts)"
proof -
  let ?rest = "\<lambda>message no_commit p1. case p1 of Finished r \<Rightarrow> ret r | NeedsCallback mp \<Rightarrow>
      (case opt_resolver opts of
         None \<Rightarrow> ret None
       | Some resolver \<Rightarrow> do {
           p2 \<leftarrow> run_callbacks G resolver (zip (mp_infos mp) (mp_hashes mp)) [] [];
           (case p2 of
              None \<Rightarrow> ret None
            | Some (resolutions, unresolved) \<Rightarrow>
                guarded None (merge_apply G no_commit message mp resolutions unresolved))
         })"
  have rest: "outcome partial (?rest message no_commit p1)" if "phase1_outcome strategy p1 False"
    "strategy = ''callback'' \<longrightarrow> opt_resolver opts \<noteq> None"
    "strategy \<in> {''detect'', ''ours'', ''theirs'', ''callback''}" for message no_commit p1 strategy
  proof (cases p1)
    case (Finished r)
    with that show ?thesis by (simp add: outcome_return)
  next
    case (NeedsCallback mp)
    with that obtain resolver where r: "opt_resolver opts = Some resolver" by auto
    from NeedsCallback show ?thesis
      by (simp add: r)
        (intro outcome_bind_partial [OF outcome_run_callbacks] outcome_rules outcome_merge_apply assms [OF r]; simp)
  qed
  have failed: "fails partial (?rest message no_commit p1)" if "phase1_outcome strategy p1 True"
    for message no_commit p1 strategy
    using that by (cases p1) (simp_all add: fails_return)
  have "keeps lost (?rest message no_commit p1)" for message no_commit p1
    by (cases p1; simp)
      (intro keeps_rules lost.keeps_run_callbacks lost.keeps_guarded lost.keeps_merge_apply assms, assumption?)+
  note rest = rest failed this
  show ?thesis
    unfolding merge_def Let_def
    by (intro outcome_if outcome_bind_raise outcome_bind [where R' = "phase1_outcome (merge_strategy opts)"]
        outcome_guarded outcome_merge_analyse rest) (auto intro: fails_return)
qed

section \<open>Network operations\<close>

text \<open>The contract of libgit2's transfer callbacks: a callback that reports failure makes the transfer
  fail. So a transfer that succeeds, with a callback that only writes to its payload when it
  fails, leaves the payload as it was.\<close>

definition aborts_report :: "(('w payload \<Rightarrow> int \<times> 'w payload) \<Rightarrow> 'w payload \<Rightarrow> (git_err + unit) \<times> 'w payload) \<Rightarrow> bool" where
  "aborts_report transfer \<longleftrightarrow>
     (\<forall>cb. (\<forall>w xs w' xs'. cb (w, xs) = (0, (w', xs')) \<longrightarrow> xs' = xs) \<longrightarrow>
       (\<forall>w xs w' xs'. transfer cb (w, xs) = (Inr (), (w', xs')) \<longrightarrow> xs' = xs))"

definition transfers_report :: "('w, 'y) remote_api_scheme \<Rightarrow> bool" where
  "transfers_report G \<longleftrightarrow> (\<forall>remote. aborts_report (\<lambda>cb. git_remote_fetch G cb remote)) \<and>
     (\<forall>remote rs. aborts_report (\<lambda>cb. git_remote_push G cb remote rs))"

lemma callback_quiet:
  "qore_git_transfer_progress_cb G (w, xs) = (0, (w', xs')) \<Longrightarrow> xs' = xs"
  by (auto simp: qore_git_transfer_progress_cb_def split: prod.splits option.splits)

lemma outcome_transfer:
  assumes "aborts_report transfer"
  shows "outcome status (do {
     rc \<leftarrow> with_payload (transfer (qore_git_transfer_progress_cb G));
     transfer_result err ctx rc })"
proof (rule outcomeI)
  show "keeps lost (do {
     rc \<leftarrow> with_payload (transfer (qore_git_transfer_progress_cb G));
     transfer_result err ctx rc })"
    by (intro keeps_rules lost.keeps_with_payload lost.keeps_transfer_result)
  have quiet: "transfer (qore_git_transfer_progress_cb G) (w, xs) = (Inr (), (w', xs')) \<Longrightarrow> xs' = xs" for w xs w' xs'
    by (rule assms [unfolded aborts_report_def, rule_format]) (auto intro: callback_quiet)
  fix s v t
  assume r: "run_state (do {
     rc \<leftarrow> with_payload (transfer (qore_git_transfer_progress_cb G));
     transfer_result err ctx rc }) s = (v, t)" and s: "xsink s = []"
  obtain a w xs where a: "transfer (qore_git_transfer_progress_cb G) (world s, xsink s) = (a, (w, xs))"
    by (cases "transfer (qore_git_transfer_progress_cb G) (world s, xsink s)") auto
  have "run_state (with_payload (transfer (qore_git_transfer_progress_cb G))) s = (a, s\<lparr>world := w, xsink := xs\<rparr>)"
    unfolding with_payload_def using a by simp
  then have vt: "run_state (transfer_result err ctx a) (s\<lparr>world := w, xsink := xs\<rparr>) = (v, t)"
    using r by simp
  show "v < 0 \<longleftrightarrow> xsink t \<noteq> []"
  proof (cases a)
    case (Inl e)
    from vt show ?thesis
      unfolding transfer_result_def Inl by (cases "xs = []") (auto simp: run_git_raise_exception_rc)
  next
    case (Inr u)
    then have "xs = []" using quiet [of "world s" "xsink s" w xs] a s by simp
    with vt show ?thesis unfolding transfer_result_def Inr by auto
  qed
qed

lemma outcome_bind_result:
  assumes "outcome (\<lambda>r raised. if raised then r = Some v else r = None) m" and "fails R (f (Some v))"
    and "outcome R (f None)" and "\<And>a. keeps lost (f a)"
  shows "outcome R (State_Monad.bind m f)"
  by (rule outcome_bind [OF assms(1)]) (use assms(2-4) in auto)

lemma outcome_for_result:
  assumes "\<And>i x. outcome (\<lambda>r raised. if raised then r = Some v else r = None) (f i x)"
  shows "outcome (\<lambda>r raised. if raised then r = Some v else r = None) (for_from f i xs)"
proof (induction xs arbitrary: i)
  case Nil
  then show ?case by (simp add: outcome_return)
next
  case (Cons x xs)
  show ?case
    unfolding for_from.simps
    by (intro outcome_bind_result [OF assms] outcome_rules Cons keeps_rules lostD [OF assms]) simp_all
qed

lemma outcome_checkNetAccess: "outcome passes (checkNetAccess G url)"
proof -
  have "outcome (\<lambda>r raised. if raised then r = Some False else r = None) (for_from (\<lambda>i ai. do {
       deny \<leftarrow> query (\<lambda>w. net_check_connect G w ai);
       ok \<leftarrow> check_passes deny;
       ret (if ok then None else Some False) }) 0 ais)" for ais
    by (intro outcome_for_result outcome_rules) simp_all
  note loop = this
  show ?thesis
    unfolding checkNetAccess_def Let_def
    by (intro outcome_rules outcome_check_passes outcome_bind_result [OF loop] keeps_return) simp_all
qed

lemma outcome_fetch:
  assumes "transfers_report G"
  shows "outcome status (fetch G remote_name)"
proof -
  have "outcome status (do {
     rc \<leftarrow> with_payload (git_remote_fetch G (qore_git_transfer_progress_cb G) remote);
     transfer_result err ctx rc })" for remote err ctx
    by (rule outcome_transfer) (use assms in \<open>simp add: transfers_report_def\<close>)
  then show ?thesis
    unfolding fetch_def by (intro outcome_rules outcome_bind_passes [OF outcome_checkNetAccess]) simp_all
qed

lemma outcome_push:
  assumes "transfers_report G"
  shows "outcome status (push G remote_name refspec)"
proof -
  have "outcome status (do {
     rc \<leftarrow> with_payload (git_remote_push G (qore_git_transfer_progress_cb G) remote rs);
     transfer_result err ctx rc })" for remote rs err ctx
    by (rule outcome_transfer [where transfer = "\<lambda>cb. git_remote_push G cb remote rs"])
      (use assms in \<open>simp add: transfers_report_def\<close>)
  then show ?thesis
    unfolding push_def by (intro outcome_rules outcome_bind_passes [OF outcome_checkNetAccess]) simp_all
qed

lemma outcome_pull_tracking_ref: "outcome partial (pull_tracking_ref G remote_name repo)"
  unfolding pull_tracking_ref_def Let_def by (intro outcome_rules) simp_all

lemma outcome_pull:
  assumes "transfers_report G" and "\<And>resolver c. opt_resolver opts = Some resolver \<Longrightarrow> keeps lost (resolver c)"
  shows "outcome partial (pull G remote_name opts)"
  unfolding pull_def
  by (intro outcome_bind_status [OF outcome_fetch] outcome_rules outcome_bind_partial [where m = "guarded _ _"]
      outcome_pull_tracking_ref outcome_merge assms) simp_all

section \<open>The summary\<close>

text \<open>
  How a method reports an exception: \<open>Status\<close>, its result is negative; \<open>Value\<close>, it returns nothing, and
  only then; \<open>Nullable\<close>, it returns nothing (which can also mean that there is nothing to return);
  \<open>Flag\<close>, it returns false; \<open>Unchecked\<close>, the list built so far comes back with the exception.
\<close>

datatype report = Status | Value | Nullable | Flag | Unchecked

fun report_of :: "'w operation \<Rightarrow> report" where
  "report_of OpGetWorkdir = Nullable"
| "report_of (OpConfigGet key) = Nullable"
| "report_of (OpReadFile path) = Nullable"
| "report_of (OpReadFileString path encoding) = Nullable"
| "report_of OpHeadCommitId = Nullable"
| "report_of OpCurrentBranch = Nullable"
| "report_of OpIsBare = Flag"
| "report_of OpIsEmpty = Flag"
| "report_of OpIsVirtual = Flag"
| "report_of (OpFileExists path) = Flag"
| "report_of (OpListFiles pattern recursive) = Unchecked"
| "report_of OpStashList = Unchecked"
| "report_of (OpConfigSet key val) = Status"
| "report_of (OpAddToIndex path) = Status"
| "report_of (OpRemoveFromIndex path) = Status"
| "report_of (OpWriteFile path data) = Status"
| "report_of (OpWriteFileString path content) = Status"
| "report_of (OpDeleteFile path) = Status"
| "report_of (OpCreateBranch name from_ref) = Status"
| "report_of (OpDeleteBranch name) = Status"
| "report_of (OpCheckout ref) = Status"
| "report_of (OpCreateTag name message target) = Status"
| "report_of (OpDeleteTag name) = Status"
| "report_of OpStashPop = Status"
| "report_of (OpAddRemote name url) = Status"
| "report_of (OpRemoveRemote name) = Status"
| "report_of (OpFetch remote) = Status"
| "report_of (OpPush remote refspec) = Status"
| "report_of op = Value"

definition reported :: "report \<Rightarrow> qvalue \<Rightarrow> bool \<Rightarrow> bool" where
  "reported k v raised = (case k of
     Status \<Rightarrow> (\<exists>rc. v = QInt rc \<and> (rc < 0 \<longleftrightarrow> raised))
   | Value \<Rightarrow> raised \<longleftrightarrow> v = QNothing
   | Nullable \<Rightarrow> raised \<longrightarrow> v = QNothing
   | Flag \<Rightarrow> \<exists>b. v = QBool b \<and> (raised \<longrightarrow> \<not> b)
   | Unchecked \<Rightarrow> True)"

lemma outcome_as_value:
  "outcome R m \<Longrightarrow> (\<And>r b. R r b \<Longrightarrow> R' (f r) b) \<Longrightarrow> outcome R' (as_value f m)"
  by (auto simp: outcome_def as_value_def keeps_def split_beta)

lemma outcome_as_status: "outcome status m \<Longrightarrow> outcome (reported Status) (as_value QInt m)"
  and outcome_as_option: "outcome partial m' \<Longrightarrow> (\<And>x. f x \<noteq> QNothing) \<Longrightarrow> outcome (reported Value) (as_value (qoption f) m')"
  and outcome_as_nullable: "outcome nullable m'' \<Longrightarrow> outcome (reported Nullable) (as_value (qoption g) m'')"
  and outcome_as_flag: "outcome (\<lambda>b raised. raised \<longrightarrow> \<not> b) m3 \<Longrightarrow> outcome (reported Flag) (as_value QBool m3)"
  by (erule outcome_as_value; simp add: reported_def qoption_def split: option.split)+

lemma outcome_unchecked: "keeps lost m \<Longrightarrow> outcome (reported Unchecked) m"
  by (simp add: outcome_def reported_def)

lemma outcome_perform:
  assumes "transfers_report G" and "\<And>resolver c. resolver_of op = Some resolver \<Longrightarrow> keeps lost (resolver c)"
  shows "outcome (reported (report_of op)) (perform G op)"
proof (cases "report_of op = Unchecked")
  case True
  then show ?thesis using assms(2) by (simp add: outcome_unchecked lost.keeps_perform)
next
  case False
  with assms show ?thesis
    by (cases op)
      (simp_all add: resolver_of_def outcome_as_status outcome_as_option outcome_as_nullable outcome_as_flag
        outcome_getPath outcome_getWorkdir outcome_isBare outcome_isEmpty outcome_isVirtual outcome_configSet outcome_configGet
        outcome_addToIndex outcome_removeFromIndex outcome_readFile outcome_readFileString outcome_writeFile
        writeFileString_def outcome_deleteFile outcome_fileExists outcome_commit outcome_headCommitId
        outcome_getStatus outcome_createBranch outcome_deleteBranch outcome_checkout outcome_listBranches
        outcome_currentBranch outcome_createTag outcome_deleteTag outcome_listTags outcome_diff outcome_diffPatch
        outcome_diffStats outcome_log outcome_lookupCommit outcome_getState outcome_blame outcome_stash
        outcome_stashPop outcome_addRemote outcome_removeRemote outcome_fetch outcome_push outcome_merge outcome_pull
        split: prod.split)
qed

section \<open>Property\<close>

text \<open>C9: every method reports what it raises. A call (with any resolver written against the same object)
  that starts with an empty exception sink, and neither waits for its own lock nor overflows the
  stack, ends in agreement with its result: the methods with a status return a negative number
  exactly when an exception is pending; the methods with a value return nothing exactly when one
  is pending; the rest return nothing (or false) when one is pending. Only \<open>listFiles\<close> and
  \<open>stashList\<close> promise nothing. libgit2's transfers must fail when their callback does.\<close>

theorem errors_are_reported:
  assumes "transfers_report G" and "allowed G op" and "xsink s = []"
    and "run_state (perform G op) s = (v, t)" and "\<not> stack_overflow t" and "\<not> deadlocked t"
  shows "reported (report_of op) v (xsink t \<noteq> [])"
proof -
  have "keeps lost (resolver c)" if "resolver_of op = Some resolver" for resolver c
    using assms(2) that by (elim allowedE) (auto intro: lost.client_keeps(1))
  then have "outcome (reported (report_of op)) (perform G op)" by (rule outcome_perform [OF assms(1)])
  from outcomeD [OF this assms(4,3)] assms(5,6) show ?thesis by (simp add: lost_def)
qed

lemma mem_transfers_report: "transfers_report (mem_merge_api H depth)"
  by (simp add: transfers_report_def aborts_report_def mem_full_defs)

theorem errors_are_reported_witness:
  "\<exists>v t. run_state (perform (mem_merge_api size_hash 9) (OpWriteFile ''/a'' [7])) mem_object_state = (v, t) \<and>
     v = QInt (- 1) \<and> xsink t \<noteq> [] \<and> reported Status v (xsink t \<noteq> [])"
proof -
  let ?G = "mem_merge_api size_hash 9"
  let ?op = "OpWriteFile ''/a'' [7] :: mem_world operation"
  let ?v = "fst (run_state (perform ?G ?op) mem_object_state)"
  let ?t = "snd (run_state (perform ?G ?op) mem_object_state)"
  have "?v = QInt (- 1) \<and> xsink ?t \<noteq> [] \<and> \<not> stack_overflow ?t \<and> \<not> deadlocked ?t"
    by (simp add: as_value_def writeFile_def guarded_def auto_lock_def checkRepo_def mem_object_state_def blank_def
        validateRepoPath_def)
  moreover from this have "reported (report_of ?op) ?v (xsink ?t \<noteq> [])"
    by (intro errors_are_reported [OF mem_transfers_report, where s = mem_object_state])
      (auto intro: allowed_plain simp: resolver_of_def mem_object_state_def blank_def prod_eq_iff)
  ultimately show ?thesis by (simp add: prod_eq_iff)
qed

end
