(* ===== verification/File_Refinement.thy ===== *)
theory File_Refinement
  imports Working_Tree
begin

text \<open>
  The virtual working tree as an abstract file system. The specification keeps two maps from paths to
  contents, the staged files and the files of HEAD, and knows nothing of ids, trees or the store.
  Any sequence of writes and deletions on the object is simulated by the same sequence on the
  specification, and reads agree.
\<close>

section \<open>The specification\<close>

text \<open>What a path of HEAD holds: a file, nothing, or something that cannot be read as a file.\<close>

datatype committed_file = Content bytes | Missing | Unreadable

record file_system =
  staged_files :: "string \<Rightarrow> bytes option"
  head_files :: "string \<Rightarrow> committed_file"

datatype file_call = Write_Call string bytes | Delete_Call string

fun spec_call :: "file_call \<Rightarrow> file_system \<Rightarrow> file_system" where
  "spec_call (Write_Call path data) fs = fs\<lparr>staged_files := (staged_files fs)(path \<mapsto> data)\<rparr>"
| "spec_call (Delete_Call path) fs = fs\<lparr>staged_files := (staged_files fs)(path := None)\<rparr>"

definition spec_read :: "file_system \<Rightarrow> string \<Rightarrow> committed_file" where
  "spec_read fs path = (case staged_files fs path of Some data \<Rightarrow> Content data | None \<Rightarrow> head_files fs path)"

section \<open>The implementation\<close>

fun file_method :: "('w, 'y) repo_api_scheme \<Rightarrow> file_call \<Rightarrow> ('w, int) qmethod" where
  "file_method G (Write_Call path data) = writeFile G path data"
| "file_method G (Delete_Call path) = deleteFile G path"

text \<open>A sequence of calls, up to the first that fails: the number of calls that failed is 0 or 1.\<close>

primrec file_methods :: "('w, 'y) repo_api_scheme \<Rightarrow> file_call list \<Rightarrow> ('w, int) qmethod" where
  "file_methods G [] = ret 0"
| "file_methods G (c # cs) = do { rc \<leftarrow> file_method G c; if rc < 0 then ret rc else file_methods G cs }"

text \<open>The simulation: an open, idle, virtual object; every staged path has its blob in the store.\<close>

definition simulates :: "('w, 'y) repo_api_scheme \<Rightarrow> git_repository \<Rightarrow> ('w \<Rightarrow> bool) \<Rightarrow> 'w qgit \<Rightarrow> file_system \<Rightarrow> bool" where
  "simulates G repo ok s fs \<longleftrightarrow>
     \<not> m_lock s \<and> m_repo s = Some repo \<and> m_virtual s \<and> omap_ok (m_virtual_tree s) \<and> ok (world s) \<and>
     (\<forall>path. case staged_files fs path of
         Some data \<Rightarrow> staged_content G repo s path data
       | None \<Rightarrow> map_of (m_virtual_tree s) path = None) \<and>
     (\<forall>path. case head_files fs path of
         Content data \<Rightarrow> head_content G repo (world s) path data
       | Missing \<Rightarrow> head_missing G repo (world s) path
       | Unreadable \<Rightarrow> True)"

lemma simulatesD:
  assumes "simulates G repo ok s fs"
  shows "\<not> m_lock s" and "m_repo s = Some repo" and "m_virtual s" and "omap_ok (m_virtual_tree s)" and "ok (world s)"
    and "staged_files fs path = Some data \<Longrightarrow> staged_content G repo s path data"
    and "staged_files fs path = None \<Longrightarrow> map_of (m_virtual_tree s) path = None"
    and "head_files fs path = Content data \<Longrightarrow> head_content G repo (world s) path data"
    and "head_files fs path = Missing \<Longrightarrow> head_missing G repo (world s) path"
proof -
  note s = assms [unfolded simulates_def]
  from s show "\<not> m_lock s" "m_repo s = Some repo" "m_virtual s" "omap_ok (m_virtual_tree s)" "ok (world s)" by simp_all
  from s have "case staged_files fs path of Some data \<Rightarrow> staged_content G repo s path data
      | None \<Rightarrow> map_of (m_virtual_tree s) path = None" by blast
  then show "staged_files fs path = Some data \<Longrightarrow> staged_content G repo s path data"
    "staged_files fs path = None \<Longrightarrow> map_of (m_virtual_tree s) path = None" by simp_all
  from s have "case head_files fs path of Content data \<Rightarrow> head_content G repo (world s) path data
      | Missing \<Rightarrow> head_missing G repo (world s) path | Unreadable \<Rightarrow> True" by blast
  then show "head_files fs path = Content data \<Longrightarrow> head_content G repo (world s) path data"
    "head_files fs path = Missing \<Longrightarrow> head_missing G repo (world s) path" by simp_all
qed

lemma simulatesI:
  assumes "\<not> m_lock s" and "m_repo s = Some repo" and "m_virtual s" and "omap_ok (m_virtual_tree s)" and "ok (world s)"
    and "\<And>path. case staged_files fs path of
        Some data \<Rightarrow> staged_content G repo s path data | None \<Rightarrow> map_of (m_virtual_tree s) path = None"
    and "\<And>path. case head_files fs path of
        Content data \<Rightarrow> head_content G repo (world s) path data
      | Missing \<Rightarrow> head_missing G repo (world s) path | Unreadable \<Rightarrow> True"
  shows "simulates G repo ok s fs"
  unfolding simulates_def using assms by blast

lemma deleteFile_path_ok:
  assumes "\<not> m_lock s" and "m_repo s = Some repo" and "run_state (deleteFile G path) s = (rc, t)" and "\<not> rc < 0"
  shows "path_ok path"
proof (rule ccontr)
  assume bad: "\<not> path_ok path"
  obtain d where "run_state (validateRepoPath path) (s\<lparr>m_lock := True\<rparr>) =
      (False, (s\<lparr>m_lock := True\<rparr>)\<lparr>xsink := xsink s @ [Exn ''GIT-PATH-ERROR'' d]\<rparr>)"
    using run_validateRepoPath_bad [OF bad, of "s\<lparr>m_lock := True\<rparr>"] by auto
  with assms show False by (simp add: deleteFile_def run_guarded)
qed

lemma run_deleteFile_virtual:
  assumes "\<not> m_lock s" and "m_repo s = Some repo" and "m_virtual s" and "path_ok path"
  shows "run_state (deleteFile G path) s = (0, s\<lparr>m_virtual_tree := omap_erase path (m_virtual_tree s)\<rparr>)"
  using assms by (simp add: deleteFile_def run_guarded run_validateRepoPath_ok)

section \<open>The simulation\<close>

lemma simulates_write:
  assumes b: "blob_store G repo ok" and s: "simulates G repo ok s fs"
    and run: "run_state (writeFile G path data) s = (rc, t)" and rc: "\<not> rc < 0"
  shows "simulates G repo ok t (spec_call (Write_Call path data) fs)"
proof -
  note D = simulatesD [OF s]
  note p = writeFile_path_ok [OF D(1,2) run rc]
  obtain r w where c: "git_blob_create_from_buffer G (world s) repo data = (r, w)" by (metis surj_pair)
  obtain oid where r: "r = Inr oid" and t: "t = s\<lparr>world := w, m_virtual_tree := omap_put path oid (m_virtual_tree s)\<rparr>"
    using run rc c by (cases r) (auto simp: run_writeFile_virtual [OF D(1-3) p] Let_def run_git_raise_exception_rc)
  have new: "git_blob_lookup G w repo oid = Inr data"
    using blob_store.create_lookup [OF b D(5) c [unfolded r]] .
  have "case staged_files (spec_call (Write_Call path data) fs) q of
      Some d \<Rightarrow> staged_content G repo t q d | None \<Rightarrow> map_of (m_virtual_tree t) q = None" for q
    using D(6,7) [of q] new blob_store.create_keeps_blobs [OF b D(5) c]
    by (auto simp: t staged_content_def split: option.splits)
  moreover have "case head_files (spec_call (Write_Call path data) fs) q of Content d \<Rightarrow> head_content G repo (world t) q d
      | Missing \<Rightarrow> head_missing G repo (world t) q | Unreadable \<Rightarrow> True" for q
    using D(8,9) [of q] head_content_keeps [OF b D(5) c] head_missing_keeps [OF b D(5) c]
    by (simp add: t split: committed_file.split)
  moreover have "\<not> m_lock t" "m_repo t = Some repo" "m_virtual t" "omap_ok (m_virtual_tree t)" "ok (world t)"
    using D(1-4) blob_store.create_ok [OF b D(5) c] by (simp_all add: t)
  ultimately show ?thesis by (intro simulatesI)
qed

lemma simulates_delete:
  assumes s: "simulates G repo ok s fs" and run: "run_state (deleteFile G path) s = (rc, t)" and rc: "\<not> rc < 0"
  shows "simulates G repo ok t (spec_call (Delete_Call path) fs)"
proof -
  note D = simulatesD [OF s]
  have t: "t = s\<lparr>m_virtual_tree := omap_erase path (m_virtual_tree s)\<rparr>"
    using run run_deleteFile_virtual [OF D(1-3) deleteFile_path_ok [OF D(1,2) run rc], of G] by simp
  have "case staged_files (spec_call (Delete_Call path) fs) q of
      Some d \<Rightarrow> staged_content G repo t q d | None \<Rightarrow> map_of (m_virtual_tree t) q = None" for q
    using D(4) D(6,7) [of q] by (auto simp: t staged_content_def split: option.splits)
  moreover have "case head_files (spec_call (Delete_Call path) fs) q of Content d \<Rightarrow> head_content G repo (world t) q d
      | Missing \<Rightarrow> head_missing G repo (world t) q | Unreadable \<Rightarrow> True" for q
    using D(8,9) [of q] by (simp add: t split: committed_file.split)
  moreover have "\<not> m_lock t" "m_repo t = Some repo" "m_virtual t" "omap_ok (m_virtual_tree t)" "ok (world t)"
    using D(1-5) by (simp_all add: t)
  ultimately show ?thesis by (intro simulatesI)
qed

lemma simulates_calls:
  assumes "blob_store G repo ok"
  shows "simulates G repo ok s fs \<Longrightarrow> run_state (file_methods G cs) s = (rc, t) \<Longrightarrow> \<not> rc < 0 \<Longrightarrow>
    simulates G repo ok t (fold spec_call cs fs)"
proof (induction cs arbitrary: s fs)
  case Nil
  then show ?case by simp
next
  case (Cons c cs)
  obtain rc1 u where u: "run_state (file_method G c) s = (rc1, u)" by (metis surj_pair)
  with Cons.prems have ok: "\<not> rc1 < 0" and rest: "run_state (file_methods G cs) u = (rc, t)"
    by (auto split: if_splits)
  have "simulates G repo ok u (spec_call c fs)"
    using simulates_write [OF assms Cons.prems(1) _ ok] simulates_delete [OF Cons.prems(1) _ ok] u by (cases c) auto
  from Cons.IH [OF this rest Cons.prems(3)] show ?case by simp
qed

lemma simulates_read:
  assumes s: "simulates G repo ok s fs" and p: "path_ok path"
  shows "spec_read fs path = Content data \<Longrightarrow> run_state (readFile G path) s = (Some data, s)"
    and "spec_read fs path = Missing \<Longrightarrow> run_state (readFile G path) s = (None, s)"
proof -
  note D = simulatesD [OF s]
  show "run_state (readFile G path) s = (Some data, s)" if "spec_read fs path = Content data"
  proof (cases "staged_files fs path")
    case None
    with that have "head_content G repo (world s) path data" by (intro D(8)) (simp add: spec_read_def)
    then obtain tree e where "head_tree G (world s) repo = Some tree"
        "git_tree_entry_bypath G (world s) repo tree path = Inr e"
        "git_blob_lookup G (world s) repo (git_tree_entry_id e) = Inr data"
      by (auto simp: head_content_def split: option.splits sum.splits)
    with D(7) [OF None] show ?thesis by (simp add: run_readFile_head [OF D(1,2) p])
  next
    case (Some d)
    with that have "staged_content G repo s path data" by (intro D(6)) (simp add: spec_read_def)
    then obtain oid where "map_of (m_virtual_tree s) path = Some oid"
        "git_blob_lookup G (world s) repo oid = Inr data"
      by (auto simp: staged_content_def split: option.splits)
    then show ?thesis by (simp add: run_readFile_staged [OF D(1,2) p])
  qed
  show "run_state (readFile G path) s = (None, s)" if "spec_read fs path = Missing"
  proof -
    have "staged_files fs path = None" "head_files fs path = Missing"
      using that by (auto simp: spec_read_def split: option.splits)
    with D(7) [of path] D(9) [of path] show ?thesis by (simp add: run_readFile_missing [OF D(1,2) p])
  qed
qed

section \<open>Property\<close>

text \<open>C8: refinement. If a virtual object starts in agreement with a specification state (its staged paths
  have their blobs, HEAD has the files and the gaps that the specification says), then after any
  sequence of writes and deletions that succeeded, every path that \<open>validateRepoPath\<close> accepts reads as
  the specification says: \<open>readFile\<close> returns the contents of the last write that was not deleted
  since, otherwise those of HEAD, and nothing, without an exception, where both have nothing;
  reading changes nothing. The relation holds again, so the sequence can be continued.\<close>

theorem files_refine_specification:
  assumes "blob_store G repo ok" and "simulates G repo ok s fs"
    and "run_state (file_methods G calls) s = (rc, t)" and "\<not> rc < 0" and "path_ok path"
  shows "simulates G repo ok t (fold spec_call calls fs) \<and>
    (case spec_read (fold spec_call calls fs) path of
       Content data \<Rightarrow> run_state (readFile G path) t = (Some data, t)
     | Missing \<Rightarrow> run_state (readFile G path) t = (None, t)
     | Unreadable \<Rightarrow> True)"
proof -
  have t: "simulates G repo ok t (fold spec_call calls fs)"
    using simulates_calls [OF assms(1-4)] .
  with simulates_read [OF t assms(5)] show ?thesis by (simp split: committed_file.split)
qed

text \<open>A repository with the file \<open>a\<close> in HEAD: the path \<open>b\<close> is written, \<open>a\<close> is overwritten and the new
  version deleted.\<close>

definition example_calls :: "file_call list" where
  "example_calls = [Write_Call ''b'' [1], Write_Call ''a'' [1, 2, 3, 4], Delete_Call ''a'']"

definition example_files :: file_system where
  "example_files = \<lparr>staged_files = \<lambda>p. None, head_files = (\<lambda>p. Missing)(''a'' := Content [7, 8])\<rparr>"

definition example_state :: "mem_world qgit" where
  "example_state = mem_object_state\<lparr>world := one_commit\<rparr>"

definition wide_hash :: hash where
  "wide_hash type data = of_nat (length data) + 10"

lemma bypath_missing:
  "path \<noteq> ''a'' \<Longrightarrow> mem_bypath w [blob_for ''a'' oid] path = Inl (GitErr GIT_ENOTFOUND None)"
  by (subst mem_bypath.simps)
    (auto simp: entry_named_def blob_for_def split: option.splits dest: str_find_split)

lemma example_simulates: "simulates (mem_api wide_hash 9) 0 mem_ok example_state example_files"
proof (rule simulatesI)
  fix path
  show "case head_files example_files path of
      Content data \<Rightarrow> head_content (mem_api wide_hash 9) 0 (world example_state) path data
    | Missing \<Rightarrow> head_missing (mem_api wide_hash 9) 0 (world example_state) path | Unreadable \<Rightarrow> True"
    using one_commit_content [of wide_hash 9 0]
    by (simp add: example_files_def example_state_def head_missing_def one_commit_head one_commit_head_tree bypath_missing)
qed (simp_all add: example_state_def mem_object_state_def blank_def example_files_def one_commit_ok)

lemma example_runs:
  "\<exists>t. run_state (file_methods (mem_api wide_hash 9) example_calls) example_state = (0, t)"
  by (simp add: example_calls_def example_state_def mem_object_state_def blank_def run_writeFile_virtual
      run_deleteFile_virtual path_ok_def mem_write_fresh one_commit_ids wide_hash_def)

theorem files_refine_specification_witness:
  "\<exists>t. run_state (file_methods (mem_api wide_hash 9) example_calls) example_state = (0, t) \<and>
     run_state (readFile (mem_api wide_hash 9) ''b'') t = (Some [1], t) \<and>
     run_state (readFile (mem_api wide_hash 9) ''c'') t = (None, t)"
proof -
  obtain t where t: "run_state (file_methods (mem_api wide_hash 9) example_calls) example_state = (0, t)"
    using example_runs by blast
  note R = files_refine_specification [OF mem_blobs.blob_store_axioms example_simulates t]
  from R [of "''b''"] R [of "''c''"] t show ?thesis
    by (simp add: example_calls_def example_files_def spec_read_def path_ok_def)
qed

end
