(* ===== verification/File_List.thy ===== *)
theory File_List
  imports Working_Tree
begin

text \<open>
  The listing of the files: the walk of \<open>listFiles\<close> over the tree of HEAD visits every file of it once.
\<close>

section \<open>The paths of a tree\<close>

definition tree_paths :: "(git_oid \<Rightarrow> git_tree_entry list option) \<Rightarrow> git_tree_entry list \<Rightarrow> string \<Rightarrow> string set" where
  "tree_paths look es prefix = entry_path prefix ` dom (tree_file look es)"

definition entry_paths :: "(git_oid \<Rightarrow> git_tree_entry list option) \<Rightarrow> git_tree_entry \<Rightarrow> string \<Rightarrow> string set" where
  "entry_paths look e prefix = entry_path prefix ` dom (entry_file look e)"

lemma tree_paths_Nil [simp]: "tree_paths look [] prefix = {}"
  by (simp add: tree_paths_def)

lemma tree_paths_Cons:
  assumes "entry_named es (git_tree_entry_name e) = None"
  shows "tree_paths look (e # es) prefix = entry_paths look e prefix \<union> tree_paths look es prefix"
    and "entry_paths look e prefix \<inter> tree_paths look es prefix = {}"
proof -
  have "dom (tree_file look (e # es)) = dom (entry_file look e) \<union> dom (tree_file look es)"
    by (auto simp: tree_file_Cons [OF assms] dom_def split: option.splits)
  then show "tree_paths look (e # es) prefix = entry_paths look e prefix \<union> tree_paths look es prefix"
    by (simp add: tree_paths_def entry_paths_def image_Un)
  show "entry_paths look e prefix \<inter> tree_paths look es prefix = {}"
    using tree_file_disjoint [OF assms] by (auto simp: tree_paths_def entry_paths_def)
qed

lemma entry_paths_leaf:
  assumes "git_tree_entry_type e \<noteq> GIT_OBJECT_TREE" and "CHR ''/'' \<notin> set (git_tree_entry_name e)"
  shows "entry_paths look e prefix =
    (if git_tree_entry_type e = GIT_OBJECT_BLOB then {entry_path prefix (git_tree_entry_name e)} else {})"
  using assms by (auto simp: entry_paths_def entry_file_blob entry_file_other split: if_splits)

lemma entry_paths_tree:
  assumes "git_tree_entry_type e = GIT_OBJECT_TREE" and "CHR ''/'' \<notin> set (git_tree_entry_name e)"
    and "git_tree_entry_name e \<noteq> []" and "look (git_tree_entry_id e) = Some sub"
  shows "entry_paths look e prefix = tree_paths look sub (entry_path prefix (git_tree_entry_name e))"
proof -
  have "entry_file look e path = Some oid \<longleftrightarrow> (\<exists>q. path = entry_path (git_tree_entry_name e) q \<and> tree_file look sub q = Some oid)"
    for path oid
    using assms(3) by (auto simp: entry_file_tree [of e look sub, OF assms(1,2,4)] below_Some [symmetric] split: option.split)
  then have "dom (entry_file look e) = entry_path (git_tree_entry_name e) ` dom (tree_file look sub)"
    by (fastforce simp: dom_def)
  moreover have "entry_path prefix (entry_path (git_tree_entry_name e) q) = entry_path (entry_path prefix (git_tree_entry_name e)) q"
    for q using assms(3) by (simp add: entry_path_def)
  ultimately show ?thesis by (simp add: entry_paths_def tree_paths_def image_image)
qed

section \<open>The walk\<close>

text \<open>The walk succeeds and appends the paths of the tree that are not staged, each once.\<close>

definition walks ::
  "('w, 'y) repo_api_scheme \<Rightarrow> git_repository \<Rightarrow> nat \<Rightarrow> git_tree_entry list \<Rightarrow> string \<Rightarrow> 'w qgit \<Rightarrow> bool" where
  "walks G repo n es prefix s \<longleftrightarrow>
     (\<forall>c result. \<exists>c' l. run_state (walk_tree G repo n es prefix c result) s = ((0, c', result @ l), s) \<and>
        distinct l \<and>
        set l = tree_paths (subtree_entries G (world s) repo) es prefix - dom (map_of (m_virtual_tree s)))"

lemma walks_Nil: "walks G repo n [] prefix s"
  by (simp add: walks_def walk_tree.simps)

lemma walks_leaf:
  assumes "never_cancelled G" and "git_tree_entry_type e \<noteq> GIT_OBJECT_TREE" and "wf_entries (e # es)"
    and "walks G repo n es prefix s"
  shows "walks G repo n (e # es) prefix s"
  unfolding walks_def
proof (intro allI)
  fix c result
  let ?look = "subtree_entries G (world s) repo" and ?path = "entry_path prefix (git_tree_entry_name e)"
  let ?here = "if git_tree_entry_type e = GIT_OBJECT_BLOB \<and> map_of (m_virtual_tree s) ?path = None then [?path] else []"
  have wf: "entry_named es (git_tree_entry_name e) = None" "CHR ''/'' \<notin> set (git_tree_entry_name e)"
    using assms(3) by (simp_all add: wf_entries_Cons)
  from assms(4) obtain c' l where l: "run_state (walk_tree G repo n es prefix (Suc c) (result @ ?here)) s =
      ((0, c', (result @ ?here) @ l), s)" "distinct l" "set l = tree_paths ?look es prefix - dom (map_of (m_virtual_tree s))"
    unfolding walks_def by blast
  have here: "set ?here = entry_paths ?look e prefix - dom (map_of (m_virtual_tree s))"
    using entry_paths_leaf [OF assms(2) wf(2)] by auto
  have "run_state (walk_tree G repo n (e # es) prefix c result) s = ((0, c', result @ ?here @ l), s)"
    using l(1) assms(1,2) by (auto simp: walk_tree.simps(2) Let_def split: if_splits)
  moreover have "distinct (?here @ l)" "set (?here @ l) = tree_paths ?look (e # es) prefix - dom (map_of (m_virtual_tree s))"
    using l(2,3) here tree_paths_Cons [OF wf(1), of ?look prefix] by (auto split: if_splits)
  ultimately show "\<exists>c' l. run_state (walk_tree G repo n (e # es) prefix c result) s = ((0, c', result @ l), s) \<and>
      distinct l \<and> set l = tree_paths ?look (e # es) prefix - dom (map_of (m_virtual_tree s))" by blast
qed

lemma walks_tree:
  assumes "never_cancelled G" and "git_tree_entry_type e = GIT_OBJECT_TREE" and "wf_entries (e # es)"
    and "subtree_entries G (world s) repo (git_tree_entry_id e) = Some sub"
    and "walks G repo n sub (entry_path prefix (git_tree_entry_name e)) s" and "walks G repo (Suc n) es prefix s"
  shows "walks G repo (Suc n) (e # es) prefix s"
  unfolding walks_def
proof (intro allI)
  fix c result
  let ?look = "subtree_entries G (world s) repo" and ?path = "entry_path prefix (git_tree_entry_name e)"
  from assms(4) obtain t where t: "git_tree_lookup G (world s) repo (git_tree_entry_id e) = Inr t" "sub = tree_entries t"
    by (auto simp: subtree_entries_def split: sum.splits)
  have wf: "entry_named es (git_tree_entry_name e) = None" "CHR ''/'' \<notin> set (git_tree_entry_name e)" "git_tree_entry_name e \<noteq> []"
    using assms(3) by (simp_all add: wf_entries_Cons)
  from assms(5) obtain c1 l1 where l1: "run_state (walk_tree G repo n sub ?path (Suc c) result) s = ((0, c1, result @ l1), s)"
      "distinct l1" "set l1 = tree_paths ?look sub ?path - dom (map_of (m_virtual_tree s))"
    unfolding walks_def by blast
  from assms(6) obtain c2 l2 where l2: "run_state (walk_tree G repo (Suc n) es prefix c1 (result @ l1)) s = ((0, c2, (result @ l1) @ l2), s)"
      "distinct l2" "set l2 = tree_paths ?look es prefix - dom (map_of (m_virtual_tree s))"
    unfolding walks_def by blast
  have "run_state (walk_tree G repo (Suc n) (e # es) prefix c result) s = ((0, c2, result @ l1 @ l2), s)"
    using l1(1) l2(1) t assms(1,2) by (simp add: walk_tree.simps(2) Let_def)
  moreover have "distinct (l1 @ l2)" "set (l1 @ l2) = tree_paths ?look (e # es) prefix - dom (map_of (m_virtual_tree s))"
    using l1(2,3) l2(2,3) tree_paths_Cons [OF wf(1), of ?look prefix] entry_paths_tree [OF assms(2) wf(2,3), of ?look sub prefix] assms(4)
    by auto
  ultimately show "\<exists>c' l. run_state (walk_tree G repo (Suc n) (e # es) prefix c result) s = ((0, c', result @ l), s) \<and>
      distinct l \<and> set l = tree_paths ?look (e # es) prefix - dom (map_of (m_virtual_tree s))" by blast
qed

lemma walks_complete:
  assumes nc: "never_cancelled G"
    and wf: "\<And>oid sub. subtree_entries G (world s) repo oid = Some sub \<Longrightarrow> wf_entries sub"
  shows "complete_tree (subtree_entries G (world s) repo) n es \<Longrightarrow> wf_entries es \<Longrightarrow> walks G repo n es prefix s"
proof (induction n arbitrary: es prefix)
  case 0
  then show ?case
  proof (induction es)
    case Nil
    then show ?case by (simp add: walks_Nil)
  next
    case (Cons e es)
    then show ?case by (intro walks_leaf [OF nc]) (simp_all add: wf_entries_Cons)
  qed
next
  case (Suc n)
  note deeper = Suc.IH
  from Suc.prems show ?case
  proof (induction es)
    case Nil
    then show ?case by (simp add: walks_Nil)
  next
    case (Cons e es)
    show ?case
    proof (cases "git_tree_entry_type e = GIT_OBJECT_TREE")
      case False
      with Cons show ?thesis by (intro walks_leaf [OF nc]) (simp_all add: wf_entries_Cons)
    next
      case True
      with Cons.prems(1) obtain sub where
        sub: "subtree_entries G (world s) repo (git_tree_entry_id e) = Some sub"
        and csub: "complete_tree (subtree_entries G (world s) repo) n sub"
        by (auto split: option.splits)
      show ?thesis
        using Cons.prems deeper [OF csub wf [OF sub]] sub
        by (intro walks_tree [OF nc True]) (simp_all add: wf_entries_Cons Cons.IH)
    qed
  qed
qed

section \<open>Property\<close>

lemma run_check_loop:
  "never_cancelled G \<Longrightarrow> run_state (for_from (\<lambda>i kv. do {
     cancel \<leftarrow> check_cancel G what;
     ret (if cancel then Some () else None) }) i xs) s = (None, s)"
  by (induction xs arbitrary: i) (simp_all add: run_check_cancel_never)

text \<open>C26: \<open>listFiles\<close> is complete. When nothing is cancelled and the tree of HEAD (if there is one) is in the
  store with its subtrees, no deeper than the stack, \<open>listFiles\<close> changes nothing and returns the
  staged paths together with the paths of the files in HEAD, each exactly once, whatever its two
  arguments are.\<close>

theorem listFiles_complete:
  fixes G :: "('w, 'y) repo_api_scheme" and s :: "'w qgit"
  assumes "never_cancelled G" and "\<not> m_lock s" and "m_repo s = Some repo" and "omap_ok (m_virtual_tree s)"
    and "\<And>oid sub. subtree_entries G (world s) repo oid = Some sub \<Longrightarrow> wf_entries sub"
    and "\<And>tree. head_tree G (world s) repo = Some tree \<Longrightarrow> wf_entries (tree_entries tree) \<and>
      complete_tree (subtree_entries G (world s) repo) (stack_depth G) (tree_entries tree)"
  shows "\<exists>files. run_state (listFiles G pattern recursive) s = (Some files, s) \<and> distinct files \<and>
    set files = dom (map_of (m_virtual_tree s)) \<union>
      (case head_tree G (world s) repo of
         None \<Rightarrow> {}
       | Some tree \<Rightarrow> dom (tree_file (subtree_entries G (world s) repo) (tree_entries tree)))"
proof -
  let ?s = "s\<lparr>m_lock := True\<rparr>" and ?staged = "map fst (m_virtual_tree s)"
  have staged: "distinct ?staged" "set ?staged = dom (map_of (m_virtual_tree s))"
    using omap_ok_distinct [OF assms(4)] by (simp_all add: dom_map_of_conv_image_fst)
  show ?thesis
  proof (cases "head_tree G (world s) repo")
    case None
    then show ?thesis
      using assms(1-3) staged by (intro exI [of _ ?staged]) (simp add: listFiles_def run_guarded run_check_loop)
  next
    case (Some tree)
    have "walks G repo (stack_depth G) (tree_entries tree) [] ?s"
      using walks_complete [OF assms(1), of ?s] assms(5) assms(6) [OF Some] by simp
    then obtain c l where l: "run_state (walk_tree G repo (stack_depth G) (tree_entries tree) [] 0 ?staged) ?s =
        ((0, c, ?staged @ l), ?s)" "distinct l"
        "set l = dom (tree_file (subtree_entries G (world s) repo) (tree_entries tree)) - dom (map_of (m_virtual_tree s))"
      unfolding walks_def tree_paths_def by (fastforce simp: entry_path_def)
    have "run_state (listFiles G pattern recursive) s = (Some (?staged @ l), s)"
      using l(1) Some assms(1-3) by (simp add: listFiles_def run_guarded run_check_loop)
    then show ?thesis
      using staged l(2,3) Some by (intro exI [of _ "?staged @ l"]) auto
  qed
qed

theorem listFiles_complete_witness:
  "\<exists>files. fst (run_state (listFiles (mem_api size_hash 9) None True)
       (mem_object_state\<lparr>world := one_commit, m_virtual_tree := [(''b'', 5)]\<rparr>)) = Some files \<and>
     distinct files \<and> set files = {''a'', ''b''}"
proof -
  let ?s = "mem_object_state\<lparr>world := one_commit, m_virtual_tree := [(''b'', 5)]\<rparr>" and ?G = "mem_api size_hash 9"
  have head: "head_tree ?G (world ?s) 0 = Some \<lparr>git_tree_id = 2, tree_entries = [blob_for ''a'' 1]\<rparr>"
    using one_commit_head_tree by simp
  have s: "\<not> m_lock ?s" "m_repo ?s = Some 0" "omap_ok (m_virtual_tree ?s)" by (simp_all add: mem_object_state_def blank_def)
  have w: "world ?s = one_commit" by simp
  have "\<exists>files. run_state (listFiles ?G None True) ?s = (Some files, ?s) \<and> distinct files \<and>
    set files = dom (map_of (m_virtual_tree ?s)) \<union> (case head_tree ?G (world ?s) 0 of None \<Rightarrow> {}
       | Some tree \<Rightarrow> dom (tree_file (subtree_entries ?G (world ?s) 0) (tree_entries tree)))"
  proof (rule listFiles_complete [OF never_cancelled_mem s], goal_cases)
    case (1 oid sub)
    then show ?case unfolding w by (rule one_commit_wf)
  next
    case (2 tree)
    then show ?case unfolding head by (auto simp: one_commit_complete)
  qed
  then obtain files where "run_state (listFiles ?G None True) ?s = (Some files, ?s)" "distinct files"
    "set files = insert ''b'' (dom (tree_file (subtree_entries ?G (world ?s) 0) [blob_for ''a'' 1]))"
    unfolding head by auto
  moreover have "dom (tree_file look [blob_for ''a'' 1]) = {''a''}" for look
    using tree_paths_Cons [of "[]" "blob_for ''a'' 1" look "[]"] entry_paths_leaf [of "blob_for ''a'' 1" look "[]"]
    by (simp add: tree_paths_def entry_path_def blob_for_def)
  ultimately show ?thesis by (intro exI [of _ files]) (simp add: insert_commute)
qed

end
