(* ===== verification/Commit_Store.thy ===== *)
theory Commit_Store
  imports Working_Tree
begin

text \<open>
  Commits of a virtual repository. The locale \<open>commit_store\<close> extends \<open>tree_store\<close> by what the module
  relies on of libgit2's commits and references: a created commit can be looked up with the tree
  and parents it was given and its message (less leading newlines, \<open>committed_message\<close>), creating it moves the reference it names, and its full id
  resolves to it. Under these laws \<open>commit\<close> records the virtual tree, and a later checkout of the
  commit restores it.
\<close>

locale commit_store = tree_store +
  assumes create_ok: "ok w \<Longrightarrow> git_commit_create G w repo ref a c msg tree ps = (res, w') \<Longrightarrow> ok w'"
    and create_commit: "ok w \<Longrightarrow> git_commit_create G w repo ref a c msg tree ps = (Inr cid, w') \<Longrightarrow>
      \<exists>k. git_commit_lookup G w' repo (Some cid) = Inr k \<and> git_commit_tree_id k = git_tree_id tree \<and>
        git_commit_message k = committed_message msg \<and> git_commit_parent_ids k = map git_commit_id ps"
    and create_extends: "ok w \<Longrightarrow> git_commit_create G w repo ref a c msg tree ps = (res, w') \<Longrightarrow>
      extends (subtree_entries G w repo) (subtree_entries G w' repo)"
    and create_moves: "ok w \<Longrightarrow> git_commit_create G w repo ref a c msg tree ps = (Inr cid, w') \<Longrightarrow>
      (\<And>r t. git_reference_lookup G w repo ref = Inr r \<Longrightarrow> reference_target r \<noteq> Symbolic t) \<Longrightarrow>
      \<exists>r. git_reference_lookup G w' repo ref = Inr r \<and> reference_target r = Direct cid"
    and symbolic_ok: "ok w \<Longrightarrow> git_reference_symbolic_create G w repo n tgt force m = (sres, w') \<Longrightarrow> ok w'"
    and symbolic_objects: "ok w \<Longrightarrow> git_reference_symbolic_create G w repo n tgt force m = (sres, w') \<Longrightarrow>
      subtree_entries G w' repo = subtree_entries G w repo \<and> git_commit_lookup G w' repo = git_commit_lookup G w repo"
    and symbolic_other: "ok w \<Longrightarrow> git_reference_symbolic_create G w repo n tgt force m = (sres, w') \<Longrightarrow> n' \<noteq> n \<Longrightarrow>
      git_reference_lookup G w' repo n' = git_reference_lookup G w repo n'"
    and commit_tree_lookup: "git_commit_tree G w repo k = git_tree_lookup G w repo (git_commit_tree_id k)"
    and tree_lookup_id: "git_tree_lookup G w repo oid = Inr t \<Longrightarrow> git_tree_id t = oid"
    and resolve_id: "ok w \<Longrightarrow> git_commit_lookup G w repo (Some cid) = Inr k \<Longrightarrow>
      \<exists>target peeled. git_revparse_single G w repo (git_oid_tostr G cid) = Inr target \<and>
        git_object_peel_commit G w repo target = Inr peeled \<and> git_object_id peeled = cid"

section \<open>The memory backends\<close>

lemma mem_reference_lookup_abs:
  "mem_reference_lookup w n =
     (case refdb_abs (mw_refdb w) n of
        None \<Rightarrow> Inl (GitErr GIT_ENOTFOUND None)
      | Some t \<Rightarrow> Inr \<lparr>git_reference_name = n, reference_target = t\<rparr>)"
  by (simp add: mem_reference_lookup_def mem_T_def mem_refdb.lookup_contents split: option.split)

lemma mem_ref_write_force:
  assumes "mem_ok w"
  obtains w' where "mem_ref_write w name t True = (Inr \<lparr>git_reference_name = name, reference_target = t\<rparr>, w')"
    and "mem_ok w'" and "mw_odb w' = mw_odb w" and "refdb_abs (mw_refdb w') = (refdb_abs (mw_refdb w))(name \<mapsto> t)"
proof -
  let ?r = "\<lparr>git_reference_name = name, reference_target = t\<rparr>"
  obtain r db where w: "mem_refdb_write (mw_refdb w) ?r True None None = (r, db)" by (metis surj_pair)
  have ok: "refdb_ok (mw_refdb w)" using assms by (simp add: mem_ok_def)
  have "r = Inr () \<and> refdb_abs db = (refdb_abs (mw_refdb w))(name \<mapsto> t)"
    using mem_refdb.write_done [OF ok, of True ?r None None] w by simp
  moreover have "refdb_ok db"
    using mem_refdb.ok_write [OF ok, of ?r True None None] w by simp
  ultimately show thesis
    using w assms by (intro that [of "w\<lparr>mw_refdb := db\<rparr>"]) (simp_all add: mem_ref_write_def mem_ok_def)
qed

lemma mem_read_odb: "mw_odb w' = mw_odb w \<Longrightarrow> mem_read w' type oid = mem_read w type oid"
  by (simp add: mem_read_def)

lemma mem_commit_createE:
  assumes "mem_ok w" and "mem_commit_create H w ref author msg tree ps = (Inr cid, w')"
  obtains w1 where "mem_write H w GIT_OBJECT_COMMIT
      (put_commit (git_tree_id tree, map git_commit_id ps, msg, sig_name author, sig_email author)) = (Inr cid, w1)"
    and "mem_ok w1" and "mem_ok w'" and "mw_odb w' = mw_odb w1"
    and "refdb_abs (mw_refdb w') = (refdb_abs (mw_refdb w))(mem_update_target w ref \<mapsto> Direct cid)"
proof -
  let ?data = "put_commit (git_tree_id tree, map git_commit_id ps, msg, sig_name author, sig_email author)"
  obtain r w1 where w1: "mem_write H w GIT_OBJECT_COMMIT ?data = (r, w1)" by (metis surj_pair)
  have ok1: "mem_ok w1" using mem_write_ok [OF assms(1) w1] .
  from assms(2) w1 have r: "r = Inr cid"
    by (auto simp: mem_commit_create_def Let_def split: if_splits sum.splits prod.splits)
  obtain w2 where w2: "mem_ref_write w1 (mem_update_target w ref) (Direct cid) True =
        (Inr \<lparr>git_reference_name = mem_update_target w ref, reference_target = Direct cid\<rparr>, w2)"
      "mem_ok w2" "mw_odb w2 = mw_odb w1"
      "refdb_abs (mw_refdb w2) = (refdb_abs (mw_refdb w1))(mem_update_target w ref \<mapsto> Direct cid)"
    by (rule mem_ref_write_force [OF ok1])
  have "w' = w2"
    using assms(2) w1 w2(1) by (auto simp: mem_commit_create_def Let_def r split: if_splits)
  with that [of w1] w1 r ok1 w2 mem_write_refdb [OF w1] show thesis by simp
qed

lemma extends_mem_write:
  assumes "mem_ok w" and "mem_write H w GIT_OBJECT_COMMIT data = (r, w')" and "mw_odb w'' = mw_odb w'"
  shows "subtree_entries (mem_api H' depth) w'' repo = subtree_entries (mem_api H' depth) w repo"
  using mem_read_other [OF assms(1,2)] mem_read_odb [OF assms(3)]
  by (simp add: fun_eq_iff subtree_entries_mem)

lemma mem_commit_lookup_odb: "mw_odb w' = mw_odb w \<Longrightarrow> mem_commit_lookup w' oid = mem_commit_lookup w oid"
  by (cases oid) (simp_all add: mem_commit_lookup_def mem_read_def)

lemma mem_create_cases:
  assumes "mem_ok w" and "mem_commit_create H w ref author msg tree ps = (r, w')"
  obtains (stale) "w' = w" | (written) w1 r1 data where "mem_write H w GIT_OBJECT_COMMIT data = (r1, w1)"
    and "mem_ok w'" and "mw_odb w' = mw_odb w1"
proof (cases "w' = w")
  case False
  let ?data = "put_commit (git_tree_id tree, map git_commit_id ps, msg, sig_name author, sig_email author)"
  obtain r1 w1 where w1: "mem_write H w GIT_OBJECT_COMMIT ?data = (r1, w1)" by (metis surj_pair)
  have ok1: "mem_ok w1" using mem_write_ok [OF assms(1) w1] .
  show thesis
  proof (cases r1)
    case (Inl e)
    with False assms(2) w1 have "w' = w1"
      by (auto simp: mem_commit_create_def Let_def split: if_splits sum.splits)
    with w1 ok1 show thesis by (auto intro: written)
  next
    case (Inr cid)
    obtain w2 where w2: "mem_ref_write w1 (mem_update_target w ref) (Direct cid) True =
          (Inr \<lparr>git_reference_name = mem_update_target w ref, reference_target = Direct cid\<rparr>, w2)"
        "mem_ok w2" "mw_odb w2 = mw_odb w1"
      by (rule mem_ref_write_force [OF ok1])
    with False assms(2) w1 Inr have "w' = w2"
      by (auto simp: mem_commit_create_def Let_def split: if_splits sum.splits)
    with w1 w2 show thesis by (auto intro: written)
  qed
qed (rule stale)

lemma mem_ref_write_odb: "mem_ref_write w n t force = (r, w') \<Longrightarrow> mw_odb w' = mw_odb w"
  by (auto simp: mem_ref_write_def Let_def split: prod.splits sum.splits)

lemma mem_ref_write_ok: "mem_ok w \<Longrightarrow> mem_ref_write w n t force = (r, w') \<Longrightarrow> mem_ok w'"
  by (auto simp: mem_ref_write_def mem_ok_def Let_def split: prod.splits sum.splits)
    (metis mem_refdb.ok_write snd_conv)

lemma mem_ref_write_other:
  "mem_ok w \<Longrightarrow> mem_ref_write w n t force = (r, w') \<Longrightarrow> n' \<noteq> n \<Longrightarrow>
   mem_reference_lookup w' n' = mem_reference_lookup w n'"
  using mem_refdb.lookup_write_other [of "mw_refdb w" n' "\<lparr>git_reference_name = n, reference_target = t\<rparr>"
      "\<lambda>p n. 0" force None None]
  by (auto simp: mem_ref_write_def mem_ok_def Let_def mem_reference_lookup_def mem_T_def split: prod.splits sum.splits)

interpretation mem_commits: commit_store "mem_api H depth" repo mem_ok for H depth repo
proof (unfold_locales, goal_cases)
  case (1 w ref a c msg tree ps res w')
  then have "mem_commit_create H w ref a msg tree ps = (res, w')" by simp
  with 1(1) show ?case by (rule mem_create_cases) (simp_all add: 1(1))
next
  case (2 w ref a c msg tree ps cid w')
  then have "mem_commit_create H w ref a msg tree ps = (Inr cid, w')" by simp
  with 2(1) obtain w1 where w1: "mem_write H w GIT_OBJECT_COMMIT
      (put_commit (git_tree_id tree, map git_commit_id ps, msg, sig_name a, sig_email a)) = (Inr cid, w1)"
      "mw_odb w' = mw_odb w1"
    by (rule mem_commit_createE)
  from mem_write_read [OF 2(1) w1(1)] show ?case
    by (simp add: mem_commit_lookup_def mem_read_odb [OF w1(2)] commit_text.get_put_end Let_def)
next
  case (3 w ref a c msg tree ps res w')
  then have c: "mem_commit_create H w ref a msg tree ps = (res, w')" by simp
  have "subtree_entries (mem_api H depth) w' repo = subtree_entries (mem_api H depth) w repo"
    by (rule mem_create_cases [OF 3(1) c]) (simp, rule extends_mem_write [OF 3(1)])
  then show ?case by simp
next
  case (4 w ref a c msg tree ps cid w')
  have "mem_update_target w ref = ref"
    using 4(3) by (auto simp: mem_update_target_def split: sum.splits ref_target.splits)
  moreover have "mem_commit_create H w ref a msg tree ps = (Inr cid, w')" using 4(2) by simp
  with 4(1) have "refdb_abs (mw_refdb w') = (refdb_abs (mw_refdb w))(mem_update_target w ref \<mapsto> Direct cid)"
    by (rule mem_commit_createE)
  ultimately show ?case by (simp add: mem_reference_lookup_abs)
next
  case (5 w n tgt force m sres w')
  then show ?case by (simp add: mem_ref_write_ok)
next
  case (6 w n tgt force m sres w')
  then have "mw_odb w' = mw_odb w" by (simp add: mem_ref_write_odb)
  then show ?case
    by (simp add: fun_eq_iff subtree_entries_mem mem_read_odb [of w' w] mem_commit_lookup_odb [of w' w])
next
  case (7 w n tgt force m sres w' n')
  then show ?case by (simp add: mem_ref_write_other)
next
  case (8 w k)
  then show ?case by simp
next
  case (9 w oid t)
  then show ?case by (auto simp: mem_tree_lookup_def split: sum.splits option.splits list.splits if_splits)
next
  case (10 w cid k)
  then have "mem_object w (Some cid) = Inr \<lparr>git_object_id = cid, git_object_type = GIT_OBJECT_COMMIT\<rparr>"
    by (auto simp: mem_commit_lookup_def mem_object_def mem_read_def split: sum.splits if_splits)
  then show ?case
    by (simp add: mem_revparse_def length_hex_of_oid GIT_OID_SHA1_HEXSIZE_def oid_of_hex_of_oid)
qed

section \<open>What a commit stores\<close>

lemma run_overrideSignature:
  obtains sig' where "run_state (overrideSignatureFromConfig G repo sig) s = (sig', s)"
proof (cases "run_state (overrideSignatureFromConfig G repo sig) s")
  case (Pair sig' t)
  moreover from this have "t = s"
    by (auto simp: overrideSignatureFromConfig_def split: if_splits option.splits sum.splits)
  ultimately show thesis using that by blast
qed

lemma on_ok_Some:
  "run_state (on_ok err ctx None r k) s = (Some v, t) \<Longrightarrow> \<exists>a. r = Inr a \<and> run_state (k a) s = (Some v, t)"
  by (cases r) (auto simp: on_ok_Inl run_git_raise_exception_rc)

context commit_store
begin

text \<open>The state after the tree is built: \<open>w1\<close> is the world then, \<open>tree\<close> the tree, and the commit is created
  in \<open>w1\<close>.\<close>

lemma run_commit_virtual:
  fixes s :: "'a qgit"
  assumes nc: "never_cancelled G" and ok: "ok (world s)" and vt: "omap_ok (m_virtual_tree s)"
    and run: "run_state (commit_virtual G repo message) s = (Some commit_id, t)"
  obtains w1 tree cid w2 sig where "ok w1" and "refs_view G repo w1 = refs_view G repo (world s)"
    and "tree_file (look w1) (tree_entries tree) = map_of (committed (m_virtual_tree s))"
    and "complete_tree (look w1) (stack_depth G) (tree_entries tree)" and "wf_entries (tree_entries tree)"
    and "git_tree_lookup G w1 repo (git_tree_id tree) = Inr tree"
    and "git_commit_create G w1 repo (ref_to_update G (world s) repo (find_parent G (world s) repo \<noteq> None)) sig sig
        message tree (case find_parent G (world s) repo of Some p \<Rightarrow> [p] | None \<Rightarrow> []) = (Inr cid, w2)"
    and "commit_id = git_oid_tostr G cid"
    and "t = s\<lparr>world := (if find_parent G (world s) repo \<noteq> None then w2
        else snd (git_reference_symbolic_create G w2 repo ''HEAD'' ''refs/heads/main'' True (Some ''initial commit'')))\<rparr>"
proof -
  have ne: "m_virtual_tree s \<noteq> []" using run by (auto simp: commit_virtual_def)
  obtain r s1 where b: "run_state (buildTreeFromVirtualTree G repo) s = (r, s1)" by (metis surj_pair)
  with run ne obtain oid where r: "r = Some oid" by (cases r) (auto simp: commit_virtual_def)
  obtain es where es: "look (world s1) oid = Some es" "ok (world s1)" "s1 = s\<lparr>world := world s1\<rparr>"
      "refs_view G repo (world s1) = refs_view G repo (world s)"
      "tree_file (look (world s1)) es = map_of (committed (m_virtual_tree s))"
      "complete_tree (look (world s1)) (stack_depth G) es" "wf_entries es"
    by (rule build_then_populate [OF nc ok vt b [unfolded r]])
  from es(1) obtain tree where tree: "git_tree_lookup G (world s1) repo oid = Inr tree" "es = tree_entries tree"
    by (auto simp: subtree_entries_def split: sum.splits)
  note view = find_parent_view [OF es(4)] ref_to_update_view [OF es(4)]
  let ?parent = "find_parent G (world s) repo"
  obtain sig where sig: "git_signature_now G (world s1) ''Virtual User'' ''virtual@example.com'' = Inr sig"
    using run ne b r tree by (auto simp: commit_virtual_def dest!: on_ok_Some)
  obtain sig' where sig': "run_state (overrideSignatureFromConfig G repo sig) s1 = (sig', s1)"
    by (rule run_overrideSignature)
  obtain r2 w2 where c: "git_commit_create G (world s1) repo (ref_to_update G (world s) repo (?parent \<noteq> None))
      sig' sig' message tree (case ?parent of Some p \<Rightarrow> [p] | None \<Rightarrow> []) = (r2, w2)" by (metis surj_pair)
  have "\<exists>cid. r2 = Inr cid \<and> commit_id = git_oid_tostr G cid \<and> t = s1\<lparr>world := (if ?parent \<noteq> None then w2
      else snd (git_reference_symbolic_create G w2 repo ''HEAD'' ''refs/heads/main'' True (Some ''initial commit'')))\<rparr>"
    using run ne b r tree sig sig' c
    by (auto simp: commit_virtual_def view Let_def dest!: on_ok_Some split: if_splits)
  then obtain cid where "r2 = Inr cid" "commit_id = git_oid_tostr G cid" "t = s1\<lparr>world := (if ?parent \<noteq> None then w2
      else snd (git_reference_symbolic_create G w2 repo ''HEAD'' ''refs/heads/main'' True (Some ''initial commit'')))\<rparr>"
    by blast
  moreover have "s1\<lparr>world := w\<rparr> = s\<lparr>world := w\<rparr>" for w by (subst es(3)) simp
  ultimately show thesis
    using c es(2,4-7) tree tree_lookup_id [OF tree(1)] by (intro that [of "world s1" tree]) auto
qed

text \<open>What the world holds afterwards. The reference that the commit moves is not symbolic.\<close>

lemma commit_stores:
  fixes s :: "'a qgit"
  assumes nc: "never_cancelled G" and ok: "ok (world s)" and vt: "omap_ok (m_virtual_tree s)"
    and run: "run_state (commit_virtual G repo message) s = (Some commit_id, t)"
  defines "ref \<equiv> ref_to_update G (world s) repo (find_parent G (world s) repo \<noteq> None)"
  obtains cid k tree where "ok (world t)" and "t = s\<lparr>world := world t\<rparr>" and "commit_id = git_oid_tostr G cid"
    and "git_commit_lookup G (world t) repo (Some cid) = Inr k" and "git_commit_message k = committed_message message"
    and "git_commit_parent_ids k = (case find_parent G (world s) repo of Some p \<Rightarrow> [git_commit_id p] | None \<Rightarrow> [])"
    and "git_commit_tree G (world t) repo k = Inr tree" and "wf_entries (tree_entries tree)"
    and "complete_tree (look (world t)) (stack_depth G) (tree_entries tree)"
    and "tree_file (look (world t)) (tree_entries tree) = map_of (committed (m_virtual_tree s))"
    and "(\<And>r tg. git_reference_lookup G (world s) repo ref = Inr r \<Longrightarrow> reference_target r \<noteq> Symbolic tg) \<Longrightarrow>
      \<exists>r. git_reference_lookup G (world t) repo ref = Inr r \<and> reference_target r = Direct cid"
proof -
  let ?parent = "find_parent G (world s) repo" and ?ref = "ref"
  obtain w1 tree cid w2 sig where w1: "ok w1" "refs_view G repo w1 = refs_view G repo (world s)"
      "tree_file (look w1) (tree_entries tree) = map_of (committed (m_virtual_tree s))"
      "complete_tree (look w1) (stack_depth G) (tree_entries tree)" "wf_entries (tree_entries tree)"
      "git_tree_lookup G w1 repo (git_tree_id tree) = Inr tree"
    and c: "git_commit_create G w1 repo ref sig sig
        message tree (case ?parent of Some p \<Rightarrow> [p] | None \<Rightarrow> []) = (Inr cid, w2)"
    and id: "commit_id = git_oid_tostr G cid"
    and t: "t = s\<lparr>world := (if ?parent \<noteq> None then w2
        else snd (git_reference_symbolic_create G w2 repo ''HEAD'' ''refs/heads/main'' True (Some ''initial commit'')))\<rparr>"
    unfolding ref_def by (rule run_commit_virtual [OF nc ok vt run])
  have ok2: "ok w2" using create_ok [OF w1(1) c] .
  obtain sr w3 where w3: "git_reference_symbolic_create G w2 repo ''HEAD'' ''refs/heads/main'' True (Some ''initial commit'') = (sr, w3)"
    by (metis surj_pair)
  have wt: "world t = (if ?parent \<noteq> None then w2 else w3)" using t w3 by simp
  have same: "look (world t) = look w2" "git_commit_lookup G (world t) repo = git_commit_lookup G w2 repo" "ok (world t)"
    using symbolic_objects [OF ok2 w3] symbolic_ok [OF ok2 w3] ok2 by (simp_all add: wt)
  obtain k where k: "git_commit_lookup G w2 repo (Some cid) = Inr k" "git_commit_tree_id k = git_tree_id tree"
      "git_commit_message k = committed_message message" "git_commit_parent_ids k = map git_commit_id (case ?parent of Some p \<Rightarrow> [p] | None \<Rightarrow> [])"
    using create_commit [OF w1(1) c] by blast
  have ext: "extends (look w1) (look (world t))" using create_extends [OF w1(1) c] by (simp add: same)
  moreover have "look w1 (git_tree_id tree) = Some (tree_entries tree)" using w1(6) by (simp add: subtree_entries_def)
  ultimately have "look (world t) (git_commit_tree_id k) = Some (tree_entries tree)" by (simp add: extends_def k(2))
  then obtain tree' where tree': "git_commit_tree G (world t) repo k = Inr tree'" "tree_entries tree' = tree_entries tree"
    by (auto simp: commit_tree_lookup subtree_entries_def split: sum.splits)
  have "t = s\<lparr>world := world t\<rparr>" by (simp add: t)
  moreover have "tree_file (look (world t)) (tree_entries tree') = map_of (committed (m_virtual_tree s))"
    using tree_file_extends [OF ext w1(4)] w1(3) tree'(2) by (simp add: fun_eq_iff)
  moreover have "\<exists>r. git_reference_lookup G (world t) repo ?ref = Inr r \<and> reference_target r = Direct cid"
    if direct: "\<And>r tg. git_reference_lookup G (world s) repo ?ref = Inr r \<Longrightarrow> reference_target r \<noteq> Symbolic tg"
  proof -
    have "git_reference_lookup G w1 repo = git_reference_lookup G (world s) repo"
      using w1(2) by (simp add: refs_view_def)
    with create_moves [OF w1(1) c] direct
    obtain r where "git_reference_lookup G w2 repo ?ref = Inr r" "reference_target r = Direct cid" by auto
    moreover have "git_reference_lookup G (world t) repo ?ref = git_reference_lookup G w2 repo ?ref"
      using symbolic_other [OF ok2 w3, of "''refs/heads/main''"]
      by (cases ?parent) (simp_all add: wt ref_def ref_to_update_def)
    ultimately show ?thesis by auto
  qed
  ultimately show thesis
    using tree' k id same w1(5) complete_extends [OF ext w1(4)]
    by (intro that [of cid k tree']) (simp_all split: option.split)
qed

end

text \<open>The same for the method \<open>commit\<close> of an open, idle, virtual object.\<close>

lemma commit_method_stores:
  fixes G :: "('w, 'y) repo_api_scheme" and s :: "'w qgit"
  assumes cs: "commit_store G repo ok" and nc: "never_cancelled G" and ok: "ok (world s)" and vt: "omap_ok (m_virtual_tree s)"
    and idle: "\<not> m_lock s" "m_repo s = Some repo" "m_virtual s"
    and run: "run_state (commit G message) s = (Some commit_id, t)"
  obtains cid k tree where "ok (world t)" and "t = s\<lparr>world := world t\<rparr>" and "commit_id = git_oid_tostr G cid"
    and "git_commit_lookup G (world t) repo (Some cid) = Inr k" and "git_commit_message k = committed_message message"
    and "git_commit_parent_ids k = (case find_parent G (world s) repo of Some p \<Rightarrow> [git_commit_id p] | None \<Rightarrow> [])"
    and "git_commit_tree G (world t) repo k = Inr tree" and "wf_entries (tree_entries tree)"
    and "complete_tree (subtree_entries G (world t) repo) (stack_depth G) (tree_entries tree)"
    and "tree_file (subtree_entries G (world t) repo) (tree_entries tree) = map_of (committed (m_virtual_tree s))"
    and "(\<And>r tg. git_reference_lookup G (world s) repo
          (ref_to_update G (world s) repo (find_parent G (world s) repo \<noteq> None)) = Inr r \<Longrightarrow> reference_target r \<noteq> Symbolic tg) \<Longrightarrow>
      \<exists>r. git_reference_lookup G (world t) repo
          (ref_to_update G (world s) repo (find_parent G (world s) repo \<noteq> None)) = Inr r \<and> reference_target r = Direct cid"
proof -
  obtain t' where t': "run_state (commit_virtual G repo message) (s\<lparr>m_lock := True\<rparr>) = (Some commit_id, t')"
      "t = t'\<lparr>m_lock := False\<rparr>"
    using idle run by (auto simp: commit_def run_guarded split: prod.splits)
  have pre: "ok (world (s\<lparr>m_lock := True\<rparr>))" "omap_ok (m_virtual_tree (s\<lparr>m_lock := True\<rparr>))"
    using ok vt by simp_all
  have wt: "world t = world t'" by (simp add: t'(2))
  have unlocked: "t = s\<lparr>world := world t\<rparr>" if r: "t' = s\<lparr>m_lock := True, world := world t'\<rparr>"
  proof -
    obtain w where "t' = s\<lparr>m_lock := True, world := w\<rparr>" using r by blast
    with idle(1) t'(2) show ?thesis by simp
  qed
  show thesis
  proof (rule commit_store.commit_stores [OF cs nc pre t'(1)], goal_cases)
    case (1 cid k tree)
    note b = unlocked [OF 1(2)]
    show thesis
    proof (rule that [OF _ b 1(3)])
      assume d: "\<And>r tg. git_reference_lookup G (world s) repo
          (ref_to_update G (world s) repo (find_parent G (world s) repo \<noteq> None)) = Inr r \<Longrightarrow> reference_target r \<noteq> Symbolic tg"
      show "\<exists>r. git_reference_lookup G (world t) repo
          (ref_to_update G (world s) repo (find_parent G (world s) repo \<noteq> None)) = Inr r \<and> reference_target r = Direct cid"
        using 1(11) d by (simp add: wt)
    qed (use 1 in \<open>simp_all add: wt\<close>)
  qed
qed

lemma unshadowed_committed:
  "filter (\<lambda>(p, oid). \<not> (\<exists>q \<in> fst ` set vt. starts_with (p @ ''/'') q)) vt = committed vt"
  by (simp add: committed_def shadowed_def split_def)

section \<open>Properties\<close>

text \<open>C3: \<open>commit\<close> in a virtual repository. When it returns an id, the store has a commit under that id
  with the given message (as libgit2 returns it, \<open>committed_message\<close>), with the commit of HEAD before the call as its only parent (none when
  HEAD had none), and with a tree whose files are exactly the staged paths with their blobs, less
  those that are directories of other paths. The reference that HEAD named (or \<open>refs/heads/main\<close> for a
  first commit) now points to it. Of the object itself nothing changes: the staged paths stay.\<close>

theorem commit_records_virtual_tree:
  fixes G :: "('w, 'y) repo_api_scheme" and s :: "'w qgit"
  assumes "commit_store G repo ok" and "never_cancelled G" and "ok (world s)" and "omap_ok (m_virtual_tree s)"
    and "\<not> m_lock s" and "m_repo s = Some repo" and "m_virtual s"
    and "run_state (commit G message) s = (Some commit_id, t)"
    and "ref = ref_to_update G (world s) repo (find_parent G (world s) repo \<noteq> None)"
    and "\<And>r tg. git_reference_lookup G (world s) repo ref = Inr r \<Longrightarrow> reference_target r \<noteq> Symbolic tg"
  shows "t = s\<lparr>world := world t\<rparr> \<and> ok (world t) \<and>
    (\<exists>cid k tree r. commit_id = git_oid_tostr G cid \<and>
      git_commit_lookup G (world t) repo (Some cid) = Inr k \<and> git_commit_message k = committed_message message \<and>
      git_commit_parent_ids k = (case find_parent G (world s) repo of Some p \<Rightarrow> [git_commit_id p] | None \<Rightarrow> []) \<and>
      git_commit_tree G (world t) repo k = Inr tree \<and>
      tree_file (subtree_entries G (world t) repo) (tree_entries tree) =
        map_of (filter (\<lambda>(p, oid). \<not> (\<exists>q \<in> fst ` set (m_virtual_tree s). starts_with (p @ ''/'') q)) (m_virtual_tree s)) \<and>
      git_reference_lookup G (world t) repo ref = Inr r \<and> reference_target r = Direct cid)"
proof -
  obtain cid k tree where k: "ok (world t)" "t = s\<lparr>world := world t\<rparr>" "commit_id = git_oid_tostr G cid"
      "git_commit_lookup G (world t) repo (Some cid) = Inr k" "git_commit_message k = committed_message message"
      "git_commit_parent_ids k = (case find_parent G (world s) repo of Some p \<Rightarrow> [git_commit_id p] | None \<Rightarrow> [])"
      "git_commit_tree G (world t) repo k = Inr tree"
      "tree_file (subtree_entries G (world t) repo) (tree_entries tree) = map_of (committed (m_virtual_tree s))"
    and moved: "\<exists>r. git_reference_lookup G (world t) repo ref = Inr r \<and> reference_target r = Direct cid"
    using assms(9,10) by (auto intro: commit_method_stores [OF assms(1-8)])
  show ?thesis
    unfolding unshadowed_committed using k moved by blast
qed

text \<open>C4: round trip through the repository. After \<open>commit\<close> of a virtual object returned an id, \<open>checkout\<close>
  of that id (by the same object or another one on the same repository, whatever it has staged by
  then) succeeds without an exception and leaves exactly the committed paths with their blobs staged.\<close>

theorem commit_checkout_roundtrip:
  fixes G :: "('w, 'y) repo_api_scheme" and s u :: "'w qgit"
  assumes "commit_store G repo ok" and "never_cancelled G" and "ok (world s)" and "omap_ok (m_virtual_tree s)"
    and "\<not> m_lock s" and "m_repo s = Some repo" and "m_virtual s"
    and "run_state (commit G message) s = (Some commit_id, t)"
    and "world u = world t" and "\<not> m_lock u" and "m_repo u = Some repo" and "m_virtual u"
  shows "\<exists>w. run_state (checkout G commit_id) u =
    (0, u\<lparr>m_virtual_tree := filter (\<lambda>(p, oid). \<not> (\<exists>q \<in> fst ` set (m_virtual_tree s). starts_with (p @ ''/'') q))
        (m_virtual_tree s), world := w\<rparr>)"
proof -
  obtain cid k tree where k: "ok (world t)" "commit_id = git_oid_tostr G cid"
      "git_commit_lookup G (world t) repo (Some cid) = Inr k"
      "git_commit_tree G (world t) repo k = Inr tree" "wf_entries (tree_entries tree)"
      "complete_tree (subtree_entries G (world t) repo) (stack_depth G) (tree_entries tree)"
      "tree_file (subtree_entries G (world t) repo) (tree_entries tree) = map_of (committed (m_virtual_tree s))"
    by (rule commit_method_stores [OF assms(1-8)])
  obtain target peeled where o: "git_revparse_single G (world t) repo commit_id = Inr target"
      "git_object_peel_commit G (world t) repo target = Inr peeled" "git_object_id peeled = cid"
    using commit_store.resolve_id [OF assms(1) k(1,3)] k(2) by blast
  have ts: "tree_store G repo ok" using assms(1) by (rule commit_store.axioms)
  have "\<exists>vt w. run_state (checkout G commit_id) u = (0, u\<lparr>m_virtual_tree := vt, world := w\<rparr>) \<and>
      omap_ok vt \<and> map_of vt = map_of (committed (m_virtual_tree s))"
    using run_checkout_virtual [OF assms(2,10-12), of commit_id target peeled k tree] o k assms(9)
      tree_store.lookup_wf [OF ts k(1)] by auto
  then obtain vt w where c: "run_state (checkout G commit_id) u = (0, u\<lparr>m_virtual_tree := vt, world := w\<rparr>)"
      and vt: "omap_ok vt" "map_of vt = map_of (committed (m_virtual_tree s))"
    by blast
  have "vt = committed (m_virtual_tree s)"
    using vt assms(4) by (intro omap_eqI) (simp_all add: committed_def omap_ok_filter)
  with c show ?thesis unfolding unshadowed_committed by blast
qed

text \<open>A first commit, with ids that tell types and sizes apart.\<close>

definition typed_hash :: hash where
  "typed_hash type data = of_nat (10 * length data + tag_of_type type)"

definition staged_state :: "mem_world qgit" where
  "staged_state = mem_object_state\<lparr>m_virtual_tree := [(''d'', 1), (''d/x'', 2)]\<rparr>"

lemma length_put_commit [simp]:
  "length (put_commit (tree, ps, msg, name, email)) =
     85 + length ps * 82 + 2 * length msg + 2 * length name + 2 * length email"
proof -
  have "length (concat (map put_oid ps)) = length ps * 81" by (induction ps) simp_all
  then show ?thesis by (simp add: put_commit_def put_pair_def put_list_def)
qed

lemma mem_empty_lookup [simp]:
  "mem_reference_lookup mem_empty n = Inl (GitErr GIT_ENOTFOUND None)"
  "mem_reference_lookup (mem_empty\<lparr>mw_odb := odb\<rparr>) n = Inl (GitErr GIT_ENOTFOUND None)"
  by (simp_all add: mem_reference_lookup_abs mem_empty_def)

lemma mem_signature: "git_signature_now (mem_api H depth) w name email = Inr \<lparr>sig_name = name, sig_email = email, sig_when = 0\<rparr>"
  by (simp add: mem_api_def)

lemma mem_empty_ids [simp]: "odb_abs mem_odb_T (mw_odb mem_empty) = Map.empty"
  by (simp add: mem_empty_def fun_eq_iff)

lemma staged_commits:
  "\<exists>commit_id t. run_state (commit (mem_api typed_hash 9) ''first'') staged_state = (Some commit_id, t)"
proof -
  have g: "grouped (m_virtual_tree staged_state) (DirEntry [] []) =
      DirEntry [(''d'', 1)] [(''d'', DirEntry [(''x'', 2)] [])]"
    by (simp add: staged_state_def grouped_def dir_insert.simps)
  show ?thesis
    apply (simp add: staged_state_def mem_object_state_def blank_def commit_def run_guarded commit_virtual_def)
    apply (simp add: buildTreeFromVirtualTree_def run_group_paths g [unfolded staged_state_def mem_object_state_def blank_def, simplified] buildTree.simps build_subdirs.simps
        mem_tree_insert_def mem_tree_write_def wf_entries_def mem_write_fresh 
        typed_hash_def tag_of_type_def type_of_mode_def)
    apply (simp add: find_parent_def ref_to_update_def mem_head_def
      mem_tree_lookup_def mem_read_def odb_read_abs tree.get_put_end wf_entries_def
      overrideSignatureFromConfig_def mem_commit_create_def mem_update_target_def tag_of_type_def
      mem_signature Let_def mem_write_fresh typed_hash_def mem_ref_write_def mem_refdb_write_def)
    done
qed

lemma staged_ok: "mem_ok (world staged_state)" "omap_ok (m_virtual_tree staged_state)" "\<not> m_lock staged_state"
    "m_repo staged_state = Some 0" "m_virtual staged_state"
  by (simp_all add: staged_state_def mem_object_state_def blank_def list_less_def lexord_def)

lemma staged_world: "world staged_state = mem_empty"
  by (simp add: staged_state_def mem_object_state_def blank_def)

lemma staged_head:
  "find_parent (mem_api H depth) mem_empty 0 = None"
  "ref_to_update (mem_api H depth) mem_empty 0 False = ''refs/heads/main''"
  by (simp_all add: find_parent_def ref_to_update_def mem_head_def)

theorem commit_records_virtual_tree_witness:
  "\<exists>cid k w. mem_commit_lookup w (Some cid) = Inr k \<and> git_commit_message k = ''first'' \<and> git_commit_parent_ids k = [] \<and>
     (\<exists>r. mem_reference_lookup w ''refs/heads/main'' = Inr r \<and> reference_target r = Direct cid)"
proof -
  obtain commit_id t where run: "run_state (commit (mem_api typed_hash 9) ''first'') staged_state = (Some commit_id, t)"
    using staged_commits by blast
  from commit_records_virtual_tree [OF mem_commits.commit_store_axioms never_cancelled_mem staged_ok run refl]
  show ?thesis
    by (auto simp: staged_head staged_world committed_message_def)
qed

theorem commit_checkout_roundtrip_witness:
  "\<exists>commit_id t w. run_state (commit (mem_api typed_hash 9) ''first'') staged_state = (Some commit_id, t) \<and>
     run_state (checkout (mem_api typed_hash 9) commit_id) (mem_object_state\<lparr>m_virtual_tree := [(''junk'', 7)], world := world t\<rparr>) =
       (0, mem_object_state\<lparr>m_virtual_tree := [(''d/x'', 2)], world := w\<rparr>)"
proof -
  obtain commit_id t where run: "run_state (commit (mem_api typed_hash 9) ''first'') staged_state = (Some commit_id, t)"
    using staged_commits by blast
  from commit_checkout_roundtrip [OF mem_commits.commit_store_axioms never_cancelled_mem staged_ok run,
      of "mem_object_state\<lparr>m_virtual_tree := [(''junk'', 7)], world := world t\<rparr>"] run
  show ?thesis by (auto simp: staged_state_def mem_object_state_def blank_def)
qed

section \<open>Status\<close>

lemma set_key_value_fresh: "k \<notin> fst ` set h \<Longrightarrow> set_key_value k v h = h @ [(k, v)]"
  by (induction k v h rule: set_key_value.induct) auto

lemma run_status_virtual:
  "never_cancelled G \<Longrightarrow> distinct (map fst kvs) \<Longrightarrow> fst ` set kvs \<inter> fst ` set result = {} \<Longrightarrow>
   run_state (status_virtual G c kvs result) s = (Some (result @ map (\<lambda>kv. (fst kv, GIT_STATUS_INDEX_NEW)) kvs), s)"
proof (induction kvs arbitrary: c result)
  case Nil
  then show ?case by simp
next
  case (Cons kv kvs)
  then have "set_key_value (fst kv) GIT_STATUS_INDEX_NEW result = result @ [(fst kv, GIT_STATUS_INDEX_NEW)]"
    by (intro set_key_value_fresh) auto
  with Cons show ?case by auto
qed

lemma run_getStatus:
  assumes "never_cancelled G" and "\<not> m_lock s" and "m_repo s = Some repo" and "m_virtual s" and "omap_ok (m_virtual_tree s)"
  shows "run_state (getStatus G) s = (Some (map (\<lambda>kv. (fst kv, GIT_STATUS_INDEX_NEW)) (m_virtual_tree s)), s)"
  using assms omap_ok_distinct [OF assms(5)] by (simp add: getStatus_def run_guarded run_status_virtual)

text \<open>The status of a virtual repository. Every staged path is reported as new in the index, in the
  order of the paths and nothing else, and a commit does not change that: after \<open>commit\<close> returned an
  id, the committed paths are all reported as new again.\<close>

lemma status_survives_commit:
  fixes G :: "('w, 'y) repo_api_scheme" and s :: "'w qgit"
  assumes "commit_store G repo ok" and "never_cancelled G" and "ok (world s)" and "omap_ok (m_virtual_tree s)"
    and "\<not> m_lock s" and "m_repo s = Some repo" and "m_virtual s"
    and "run_state (commit G message) s = (Some commit_id, t)"
  shows "run_state (getStatus G) s = (Some (map (\<lambda>kv. (fst kv, GIT_STATUS_INDEX_NEW)) (m_virtual_tree s)), s) \<and>
    run_state (getStatus G) t = (Some (map (\<lambda>kv. (fst kv, GIT_STATUS_INDEX_NEW)) (m_virtual_tree s)), t)"
proof -
  obtain w where t: "t = s\<lparr>world := w\<rparr>" by (rule commit_method_stores [OF assms(1-8)]) blast
  have t': "\<not> m_lock t" "m_repo t = Some repo" "m_virtual t" "omap_ok (m_virtual_tree t)" "m_virtual_tree t = m_virtual_tree s"
    using assms(4-7) by (simp_all add: t)
  show ?thesis
    using run_getStatus [OF assms(2,5-7,4)] run_getStatus [OF assms(2) t'(1-4)] t'(5) by simp
qed

end
