(* ===== verification/Bounds.thy ===== *)
theory Bounds
  imports Commit_Store Memory_Api
begin

text \<open>
  Bounds: how deep a virtual tree may nest before \<open>commit\<close> runs out of stack, and how many entries
  \<open>log\<close> returns.
\<close>

section \<open>Stack\<close>

text \<open>The directories of a path, and what fits in \<open>n\<close> nested calls of \<open>buildTree\<close>.\<close>

definition nesting :: "string \<Rightarrow> nat" where
  "nesting path = length (filter (\<lambda>c. c = CHR ''/'') path)"

lemma nesting_append: "nesting (a @ CHR ''/'' # b) = nesting a + Suc (nesting b)"
  by (simp add: nesting_def)

primrec fits :: "nat \<Rightarrow> dir_entry \<Rightarrow> bool" where
  "fits 0 d = (subdirs d = [])"
| "fits (Suc n) d = list_all (\<lambda>nd. fits n (snd nd)) (subdirs d)"

lemma fits_empty [simp]: "fits n (DirEntry [] [])"
  by (cases n) simp_all

lemma list_all_omap_put: "list_all P m \<Longrightarrow> P (k, v) \<Longrightarrow> list_all P (omap_put k v m)"
  using set_omap_put [of k v m] by (auto simp: list_all_iff)

lemma fits_insert: "nesting path \<le> n \<Longrightarrow> fits n d \<Longrightarrow> fits n (dir_insert path oid d)"
proof (induction path oid d arbitrary: n rule: dir_insert.induct)
  case (1 path oid current)
  show ?case
  proof (cases "str_find CHR ''/'' path")
    case None
    with 1 show ?thesis by (cases n) (simp_all add: dir_insert.simps [of path])
  next
    case (Some i)
    have split: "path = take i path @ CHR ''/'' # drop (Suc i) path" using str_find_split [OF Some] by blast
    have "nesting path = nesting (take i path) + Suc (nesting (drop (Suc i) path))"
      using arg_cong [OF split, of nesting] nesting_append by (rule trans)
    with 1(2) obtain m where n: "n = Suc m" and m: "nesting (drop (Suc i) path) \<le> m" by (cases n) auto
    let ?next = "case map_of (subdirs current) (take i path) of Some e \<Rightarrow> e | None \<Rightarrow> DirEntry [] []"
    have "fits m ?next"
      using 1(3) by (auto simp: n list_all_iff split: option.split dest!: map_of_SomeD)
    with 1(1) [OF Some refl refl m] 1(3) Some show ?thesis
      by (simp add: n dir_insert.simps [of path] list_all_omap_put Let_def)
  qed
qed

lemma fits_grouped:
  "\<forall>kv \<in> set kvs. nesting (fst kv) \<le> n \<Longrightarrow> fits n d \<Longrightarrow> fits n (grouped kvs d)"
  by (induction kvs arbitrary: d) (simp_all add: grouped_def fits_insert)

text \<open>The flag and the virtual tree, which building does not change.\<close>

definition steady :: "bool \<Rightarrow> git_oid strmap \<Rightarrow> 'w qgit \<Rightarrow> bool" where
  "steady b vt s \<longleftrightarrow> stack_overflow s = b \<and> m_virtual_tree s = vt"

interpretation stack: qgit_frame "steady b vt" for b vt
  by unfold_locales (simp_all add: steady_def)

text \<open>\<open>buildTree\<close> sets the flag only where \<open>fits\<close> fails.\<close>

lemma stack_insert_blobs: "keeps (steady b vt) (insert_blobs G repo bs builder)"
  by (induction bs arbitrary: builder) (auto intro!: keeps_rules stack.keeps_session)

lemma stack_build_subdirs:
  assumes "\<And>d. n \<noteq> 0 \<Longrightarrow> fits (n - 1) d \<Longrightarrow> keeps (steady b vt) (buildTree G repo (n - 1) d)"
  shows "list_all (\<lambda>nd. n \<noteq> 0 \<and> fits (n - 1) (snd nd)) ds \<Longrightarrow>
    keeps (steady b vt) (build_subdirs G repo n ds builder)"
proof (induction ds arbitrary: builder)
  case Nil
  then show ?case by (simp add: build_subdirs.simps keeps_return)
next
  case (Cons nd ds)
  obtain name d where nd: "nd = (name, d)" by (cases nd)
  from Cons.prems have n: "n \<noteq> 0" "fits (n - 1) d" by (simp_all add: nd)
  have "keeps (steady b vt) (build_subdirs G repo n ds b')" for b'
    using Cons.prems by (intro Cons.IH) (simp add: list_all_iff)
  then show ?case
    unfolding nd build_subdirs.simps
    by (intro keeps_if keeps_rules stack.keeps_session assms) (use n in simp_all)
qed

lemma stack_buildTree: "fits n d \<Longrightarrow> keeps (steady b vt) (buildTree G repo n d)"
proof (induction n arbitrary: d)
  case 0
  then obtain bs where d: "d = DirEntry bs []" by (cases d) auto
  show ?case
    unfolding d buildTree.simps build_subdirs.simps
    by (intro keeps_rules stack.keeps_session stack_insert_blobs)
next
  case (Suc n)
  obtain bs ds where d: "d = DirEntry bs ds" by (cases d)
  have "keeps (steady b vt) (build_subdirs G repo (Suc n) ds builder)" for builder
    using Suc by (intro stack_build_subdirs) (simp_all add: d)
  then show ?case
    unfolding d buildTree.simps by (intro keeps_rules stack.keeps_session stack_insert_blobs)
qed

lemma stack_group_paths: "keeps (steady b vt) (group_paths G c kvs root)"
  by (induction kvs arbitrary: c root) (auto intro!: keeps_rules stack.keeps_session)

lemma group_paths_grouped:
  "run_state (group_paths G c kvs root) s = (Some d, t) \<Longrightarrow> d = grouped kvs root"
proof (induction kvs arbitrary: c root s)
  case Nil
  then show ?case by (simp add: grouped_def)
next
  case (Cons kv kvs)
  then show ?case by (auto simp: grouped_def split: prod.splits if_splits)
qed

lemma stack_buildTreeFromVirtualTree:
  assumes "\<forall>kv \<in> set vt. nesting (fst kv) \<le> stack_depth G"
  shows "keeps (steady b vt) (buildTreeFromVirtualTree G repo)"
proof (rule keepsI)
  fix s :: "'a qgit"
  assume s: "steady b vt s"
  obtain d s1 where d: "run_state (group_paths G 0 vt (DirEntry [] [])) s = (d, s1)" by (metis surj_pair)
  have s1: "steady b vt s1" using keepsE [OF stack_group_paths d s] .
  show "steady b vt (snd (run_state (buildTreeFromVirtualTree G repo) s))"
  proof (cases d)
    case None
    with d s s1 show ?thesis by (simp add: buildTreeFromVirtualTree_def steady_def)
  next
    case (Some root)
    with d have "root = grouped vt (DirEntry [] [])" by (simp add: group_paths_grouped)
    with assms have "fits (stack_depth G) root" by (simp add: fits_grouped)
    with s1 have "steady b vt (snd (run_state (buildTree G repo (stack_depth G) root) s1))"
      by (metis keepsE prod.collapse stack_buildTree)
    with d s Some show ?thesis by (simp add: buildTreeFromVirtualTree_def steady_def)
  qed
qed

lemma stack_overrideSignature: "keeps (steady b vt) (overrideSignatureFromConfig G repo sig)"
  unfolding overrideSignatureFromConfig_def by (intro keeps_rules stack.keeps_session)

lemma stack_commit:
  assumes "\<forall>kv \<in> set vt. nesting (fst kv) \<le> stack_depth G"
  shows "keeps (steady b vt) (commit_virtual G repo message)"
  unfolding commit_virtual_def Let_def
  by (intro keeps_rules stack.keeps_session stack_buildTreeFromVirtualTree [OF assms] stack_overrideSignature)

text \<open>C37: \<open>commit\<close> recurses once per directory level. In a virtual repository whose staged paths have at
  most \<open>stack_depth\<close> directories each, \<open>commit\<close> does not exhaust the stack, whatever libgit2
  answers; a commit that succeeds or fails leaves the staged paths as they were.\<close>

theorem commit_stack_bound:
  assumes "\<not> m_lock s" and "m_repo s = Some repo" and "m_virtual s"
    and "\<forall>path \<in> fst ` set (m_virtual_tree s). length (filter (\<lambda>c. c = CHR ''/'') path) \<le> stack_depth G"
    and "run_state (commit G message) s = (r, t)"
  shows "stack_overflow t = stack_overflow s \<and> m_virtual_tree t = m_virtual_tree s"
proof -
  obtain t' where t': "run_state (commit_virtual G repo message) (s\<lparr>m_lock := True\<rparr>) = (r, t')" "t = t'\<lparr>m_lock := False\<rparr>"
    using assms(1-3,5) by (auto simp: commit_def run_guarded split: prod.splits)
  have "\<forall>kv \<in> set (m_virtual_tree s). nesting (fst kv) \<le> stack_depth G"
    using assms(4) by (simp add: nesting_def)
  from keepsE [OF stack_commit [OF this] t'(1), of "stack_overflow s"] t'(2) show ?thesis by (simp add: steady_def)
qed

theorem commit_stack_bound_witness:
  "\<exists>commit_id t. run_state (commit (mem_api typed_hash 1) ''first'') staged_state = (commit_id, t) \<and> \<not> stack_overflow t"
proof -
  obtain r t where run: "run_state (commit (mem_api typed_hash 1) ''first'') staged_state = (r, t)" by (metis surj_pair)
  from commit_stack_bound [OF staged_ok(3-5) _ run] run show ?thesis
    by (auto simp: staged_state_def mem_object_state_def blank_def)
qed

section \<open>History\<close>

text \<open>The commits that \<open>log\<close> lists: those that the path filter, if any, selects.\<close>

definition log_selects ::
  "('w, 'y) history_api_scheme \<Rightarrow> 'w \<Rightarrow> git_repository \<Rightarrow> string option \<Rightarrow> git_commit \<Rightarrow> bool" where
  "log_selects G w repo path c = (case given path of Some p \<Rightarrow> touches_path G w repo c p | None \<Rightarrow> True)"

definition log_entry ::
  "('w, 'y) history_api_scheme \<Rightarrow> 'w \<Rightarrow> git_repository \<Rightarrow> git_oid \<Rightarrow> qvalue" where
  "log_entry G w repo oid = QHash (commit_entry G oid (projr (git_commit_lookup G w repo (Some oid))))"

definition log_spec ::
  "('w, 'y) history_api_scheme \<Rightarrow> 'w \<Rightarrow> git_repository \<Rightarrow> int \<Rightarrow> string option \<Rightarrow> git_oid list \<Rightarrow> qvalue list" where
  "log_spec G w repo max_count path oids =
     (let selected = filter (\<lambda>oid. log_selects G w repo path (projr (git_commit_lookup G w repo (Some oid)))) oids
      in map (log_entry G w repo) (if max_count > 0 then take (nat max_count) selected else selected))"

lemma log_spec_Cons:
  "git_commit_lookup G w repo (Some oid) = Inr c \<Longrightarrow> log_spec G w repo m path (oid # oids) =
     (if log_selects G w repo path c
      then log_entry G w repo oid # (if m = 1 then [] else log_spec G w repo (if m > 0 then m - 1 else m) path oids)
      else log_spec G w repo m path oids)"
  by (cases "nat m") (auto simp: log_spec_def Let_def nat_diff_distrib)

lemma run_log_loop_step:
  assumes "never_cancelled G" and "git_commit_lookup G (world s) repo (Some oid) = Inr c"
    and "\<not> (max_count > 0 \<and> count + 1 > max_count)"
  shows "run_state (log_loop G repo max_count path (oid # oids) count result) s =
    (if log_selects G (world s) repo path c
     then run_state (log_loop G repo max_count path oids (count + 1) (result @ [log_entry G (world s) repo oid])) s
     else run_state (log_loop G repo max_count path oids count result) s)"
  using assms by (auto simp: log_selects_def log_entry_def)

lemma run_log_loop:
  assumes "never_cancelled G" and "world s = w"
  shows "\<forall>oid \<in> set oids. \<exists>c. git_commit_lookup G w repo (Some oid) = Inr c \<Longrightarrow> 0 \<le> count \<Longrightarrow>
    (max_count > 0 \<longrightarrow> count \<le> max_count) \<Longrightarrow>
    run_state (log_loop G repo max_count path oids count result) s =
      (Some (result @ (if max_count > 0 \<and> max_count = count then []
         else log_spec G w repo (if max_count > 0 then max_count - count else max_count) path oids)), s)"
proof (induction oids arbitrary: count result)
  case Nil
  then show ?case by (simp add: log_spec_def)
next
  case (Cons oid oids)
  then obtain c where c: "git_commit_lookup G w repo (Some oid) = Inr c" by auto
  show ?case
  proof (cases "max_count > 0 \<and> count + 1 > max_count")
    case True
    with Cons.prems assms(1) show ?thesis by simp
  next
    case False
    have "git_commit_lookup G (world s) repo (Some oid) = Inr c" using c assms(2) by simp
    note step = run_log_loop_step [OF assms(1) this False, of path oids result]
    show ?thesis
      using Cons.IH [of "count + 1" "result @ [log_entry G w repo oid]"] Cons.IH [of count result] Cons.prems False
      unfolding step log_spec_Cons [OF c] assms(2) by (auto simp: algebra_simps)
  qed
qed

text \<open>C36: \<open>log\<close> equals its specification. When the revision walk over HEAD gives the ids \<open>oids\<close>, each of a
  commit, and nothing is cancelled, \<open>log\<close> returns the entries of the commits that the path filter
  selects, in the order of the walk, the first \<open>max_count\<close> of them when \<open>max_count\<close> is positive and
  all otherwise, and changes nothing. So a positive \<open>max_count\<close> bounds the length of the result.\<close>

theorem log_lists_selected:
  assumes "never_cancelled G" and "\<not> m_lock s" and "m_repo s = Some repo"
    and "git_revwalk_new G (world s) repo = Inr walker" and "git_revwalk_push_head G (world s) walker = Inr u"
    and "git_revwalk G (world s) walker = oids"
    and "\<forall>oid \<in> set oids. \<exists>c. git_commit_lookup G (world s) repo (Some oid) = Inr c"
  shows "run_state (log G max_count path) s = (Some (log_spec G (world s) repo max_count path oids), s) \<and>
    (0 < max_count \<longrightarrow> length (log_spec G (world s) repo max_count path oids) \<le> nat max_count)"
proof -
  have "run_state (log_loop G repo max_count path oids 0 []) (s\<lparr>m_lock := True\<rparr>) =
      (Some (log_spec G (world s) repo max_count path oids), s\<lparr>m_lock := True\<rparr>)"
    using run_log_loop [where w = "world s" and s = "s\<lparr>m_lock := True\<rparr>" and G = G and count = 0 and result = "[]"]
      assms(1,7) by simp
  then have "run_state (log G max_count path) s = (Some (log_spec G (world s) repo max_count path oids), s)"
    using assms(2-6) by (simp add: log_def run_guarded)
  then show ?thesis by (simp add: log_spec_def Let_def)
qed

definition walk_api :: "mem_world history_api" where
  "walk_api = (mem_history_api size_hash 9)\<lparr>git_revwalk_new := \<lambda>w repo. Inr 0, git_revwalk_push_head := \<lambda>w walker. Inr (),
     git_revwalk := \<lambda>w walker. [3, 3]\<rparr>"

lemma walk_api_simps [simp]:
  "git_revwalk_new walk_api w repo = Inr 0" "git_revwalk_push_head walk_api w 0 = Inr ()" "git_revwalk walk_api w 0 = [3, 3]"
  "git_commit_lookup walk_api w repo = mem_commit_lookup w"
  by (simp_all add: walk_api_def mem_full_defs mem_history_api_def)

theorem log_lists_selected_witness:
  "\<exists>es. fst (run_state (log walk_api 1 None) (mem_object_state\<lparr>world := one_commit\<rparr>)) = Some es \<and> length es = 1"
proof -
  have "never_cancelled walk_api"
    by (simp add: never_cancelled_def walk_api_def mem_full_defs)
  from log_lists_selected [OF this, where s = "mem_object_state\<lparr>world := one_commit\<rparr>" and max_count = 1 and path = None] show ?thesis
    by (simp add: mem_object_state_def blank_def one_commit_lookup log_spec_def log_selects_def Let_def given_def)
qed

end
