(* ===== verification/Migration_Copy.thy ===== *)
theory Migration_Copy
  imports Memory_Api Commit_Store
begin

text \<open>
  Completeness of the migration to disk: a migration that succeeds has copied every object of the
  in-memory repository. \<open>object_copy\<close> states what the code relies on: object databases only grow and
  are addressed by content, and the repository on disk has a database of its own.
\<close>

section \<open>The contract\<close>

text \<open>From \<open>w\<close> to \<open>w'\<close> no object got lost, no repository changed its database, and the database \<open>src\<close> is as
  it was.\<close>

definition preserved ::
  "('w, 'y) remote_api_scheme \<Rightarrow> git_odb \<Rightarrow> ('w \<Rightarrow> bool) \<Rightarrow> 'w \<Rightarrow> 'w \<Rightarrow> bool" where
  "preserved G src ok w w' \<longleftrightarrow> (ok w \<longrightarrow> ok w') \<and>
     git_odb_read G w' src = git_odb_read G w src \<and> git_odb_foreach G w' src = git_odb_foreach G w src \<and>
     (\<forall>r odb. git_repository_odb G w r = Inr odb \<longrightarrow> git_repository_odb G w' r = Inr odb) \<and>
     (ok w \<longrightarrow> (\<forall>odb oid x. git_odb_read G w odb oid = Inr x \<longrightarrow> git_odb_read G w' odb oid = Inr x))"

lemma preserved_refl: "preserved G src ok w w"
  by (simp add: preserved_def)

lemma preserved_trans: "preserved G src ok w1 w2 \<Longrightarrow> preserved G src ok w2 w3 \<Longrightarrow> preserved G src ok w1 w3"
  by (auto simp: preserved_def)

locale object_copy =
  fixes G :: "('w, 'y) remote_api_scheme" and repo :: git_repository and src :: git_odb and ok :: "'w \<Rightarrow> bool"
  assumes own_odb: "git_repository_odb G w repo = Inr odb \<Longrightarrow> odb = src"
    and other_odb: "git_repository_odb G w r = Inr odb \<Longrightarrow> r \<noteq> repo \<Longrightarrow> odb \<noteq> src"
    and init_other: "git_repository_init G w path bare = (Inr r, w') \<Longrightarrow> r \<noteq> repo"
    and write_read: "ok w \<Longrightarrow> git_odb_read G w src oid = Inr (data, type) \<Longrightarrow> dst \<noteq> src \<Longrightarrow>
      git_odb_write G w dst data type = (Inr oid', w') \<Longrightarrow> git_odb_read G w' dst oid = Inr (data, type)"
    and write_keeps: "dst \<noteq> src \<Longrightarrow> preserved G src ok w (snd (git_odb_write G w dst data type))"
    and mkdtemp_keeps: "preserved G src ok w (snd (os_mkdtemp G w template))"
    and init_keeps: "preserved G src ok w (snd (git_repository_init G w path bare))"
    and cancel_keeps: "preserved G src ok w (snd (qore_check_cancel G w what))"
    and symbolic_keeps: "preserved G src ok w (snd (git_reference_symbolic_create G w r name target force msg))"
    and reference_keeps: "preserved G src ok w (snd (git_reference_create G w r name oid force msg))"
    and config_keeps: "preserved G src ok w (snd (git_config_set_string G w config key val))"
    and index_keeps: "preserved G src ok w (git_repository_set_index G w r index)"
    and free_odb: "r \<noteq> repo \<Longrightarrow> git_repository_odb G (git_repository_free G w repo) r = git_repository_odb G w r"
    and free_reads: "odb \<noteq> src \<Longrightarrow> git_odb_read G (git_repository_free G w repo) odb = git_odb_read G w odb"
begin

definition grown :: "'w \<Rightarrow> 'w qgit \<Rightarrow> bool" where
  "grown w s \<longleftrightarrow> preserved G src ok w (world s)"

lemma grown_quiet: "keeps (grown w) (query f)" "keeps (grown w) exception_raised" "keeps (grown w) (raiseException err desc)"
  by (simp_all add: keeps_def grown_def)

lemma grown_effect: "(\<And>v. preserved G src ok v (snd (f v))) \<Longrightarrow> keeps (grown w) (effect f)"
  by (auto simp: keeps_def grown_def split_beta intro: preserved_trans)

lemma grown_effect_unit: "(\<And>v. preserved G src ok v (f v)) \<Longrightarrow> keeps (grown w) (effect_unit f)"
  by (auto simp: keeps_def grown_def intro: preserved_trans)

lemma grown_cancelled: "keeps (grown w) (cancelled_when b G what)"
  unfolding cancelled_when_def check_cancel_def check_passes_def
  by (intro keeps_rules grown_quiet grown_effect cancel_keeps)

lemmas grown_steps = grown_quiet grown_effect grown_effect_unit grown_cancelled symbolic_keeps reference_keeps
  config_keeps index_keeps

lemma grown_copy_reference: "keeps (grown w) (copy_reference G r disk_repo name)"
  unfolding copy_reference_def
  by (intro keeps_rules grown_quiet) (auto intro!: keeps_rules grown_steps split: ref_target.split)

lemma grown_copy_references: "keeps (grown w) (copy_references G r disk_repo)"
  unfolding copy_references_def by (intro keeps_rules grown_steps grown_copy_reference)

lemma grown_copy_config: "keeps (grown w) (copy_config G disk_repo)"
  unfolding copy_config_def by (intro keeps_rules grown_steps)

text \<open>The copy of the objects: each one it was given is in both databases afterwards.\<close>

definition in_both :: "git_odb \<Rightarrow> 'w \<Rightarrow> git_oid \<Rightarrow> bool" where
  "in_both dst w oid \<longleftrightarrow> (\<exists>x. git_odb_read G w src oid = Inr x \<and> git_odb_read G w dst oid = Inr x)"

lemma in_both_preserved: "in_both dst w oid \<Longrightarrow> preserved G src ok w w' \<Longrightarrow> ok w \<Longrightarrow> in_both dst w' oid"
  by (auto simp: in_both_def preserved_def)

lemma run_copy_object:
  fixes s t :: "'w qgit"
  assumes "ok (world s)" and "dst \<noteq> src" and "run_state (copy_object G src dst i oid) s = (None, t)"
  shows "preserved G src ok (world s) (world t) \<and> in_both dst (world t) oid"
proof -
  obtain c s1 where c: "run_state (cancelled_when (Suc i mod 100 = 0) G ''git migrate'') s = (c, s1)" by (metis surj_pair)
  have g1: "preserved G src ok (world s) (world s1)"
    using keepsE [OF grown_cancelled c, of "world s"] by (simp add: grown_def preserved_refl)
  obtain data type where r: "git_odb_read G (world s1) src oid = Inr (data, type)"
    using assms(3) c by (auto simp: copy_object_def split: if_splits sum.splits)
  obtain res w' where res: "git_odb_write G (world s1) dst data type = (res, w')" by (metis surj_pair)
  then obtain oid' where w: "git_odb_write G (world s1) dst data type = (Inr oid', w')" and t: "t = s1\<lparr>world := w'\<rparr>"
    using assms(3) c r by (auto simp: copy_object_def split: if_splits sum.splits)
  have g2: "preserved G src ok (world s1) w'" using write_keeps [OF assms(2), of "world s1" data type] w by simp
  have "ok (world s1)" using g1 assms(1) by (simp add: preserved_def)
  with write_read [OF _ r assms(2) w] r g2 have "in_both dst w' oid" by (auto simp: in_both_def preserved_def)
  with preserved_trans [OF g1 g2] show ?thesis by (simp add: t)
qed

lemma run_copy_loop:
  fixes s t :: "'w qgit"
  assumes "dst \<noteq> src"
  shows "run_state (for_from (copy_object G src dst) i oids) s = (None, t) \<Longrightarrow> ok (world s) \<Longrightarrow>
    preserved G src ok (world s) (world t) \<and> (\<forall>oid \<in> set oids. in_both dst (world t) oid)"
proof (induction oids arbitrary: i s)
  case Nil
  then show ?case by (simp add: preserved_refl)
next
  case (Cons oid oids)
  obtain r s1 where r: "run_state (copy_object G src dst i oid) s = (r, s1)" by (metis surj_pair)
  with Cons.prems(1) have "r = None" and rest: "run_state (for_from (copy_object G src dst) (Suc i) oids) s1 = (None, t)"
    by (auto split: option.splits)
  with r run_copy_object [OF Cons.prems(2) assms]
  have one: "preserved G src ok (world s) (world s1)" "in_both dst (world s1) oid" by blast+
  then have ok1: "ok (world s1)" using Cons.prems(2) by (simp add: preserved_def)
  from Cons.IH [OF rest ok1] have "preserved G src ok (world s1) (world t)" "\<forall>oid \<in> set oids. in_both dst (world t) oid"
    by blast+
  then show ?case
    using one ok1 preserved_trans [OF one(1)] in_both_preserved [OF one(2)] by simp
qed

lemma run_copy_objects:
  fixes s t :: "'w qgit"
  assumes "ok (world s)" and "dst \<noteq> src" and "run_state (copy_objects G src dst oids) s = (True, t)"
  shows "preserved G src ok (world s) (world t)" and "\<forall>oid \<in> set oids. in_both dst (world t) oid"
  using run_copy_loop [OF assms(2), of 0 oids s t] assms(1,3)
  by (auto simp: copy_objects_def split: prod.splits)

text \<open>All steps up to the swap.\<close>

lemma run_migrate_contents:
  fixes s t :: "'w qgit"
  assumes "ok (world s)" and "disk_repo \<noteq> repo" and "run_state (migrate_contents G repo disk_repo) s = (True, t)"
  obtains dst where "dst \<noteq> src" and "git_repository_odb G (world t) disk_repo = Inr dst" and "ok (world t)"
    and "preserved G src ok (world s) (world t)"
    and "\<forall>oid \<in> set (fst (git_odb_foreach G (world s) src)). in_both dst (world t) oid"
proof -
  obtain src' dst where odb: "git_repository_odb G (world s) repo = Inr src'" "git_repository_odb G (world s) disk_repo = Inr dst"
    using assms(3) by (cases "git_repository_odb G (world s) repo"; cases "git_repository_odb G (world s) disk_repo")
      (auto simp: migrate_contents_def split: prod.splits)
  have src': "src' = src" using own_odb [OF odb(1)] .
  have dst: "dst \<noteq> src" using other_odb [OF odb(2) assms(2)] .
  obtain oids final where f: "git_odb_foreach G (world s) src = (oids, final)" by (metis surj_pair)
  obtain copied s1 where c: "run_state (copy_objects G src dst oids) s = (copied, s1)" by (metis surj_pair)
  obtain okr s2 where r: "run_state (copy_references G repo disk_repo) s1 = (okr, s2)" by (metis surj_pair)
  obtain u s3 where h: "run_state (copy_reference G repo disk_repo ''HEAD'') s2 = (u, s3)" by (metis surj_pair)
  obtain u' s4 where cf: "run_state (copy_config G disk_repo) s3 = (u', s4)" by (metis surj_pair)
  have "copied" and t: "t = s4\<lparr>world := git_repository_set_index G (world s4) disk_repo (m_index s4)\<rparr>"
    using assms(3) odb src' f c r h cf by (auto simp: migrate_contents_def split: if_splits prod.splits)
  note copy = run_copy_objects [OF assms(1) dst c [unfolded \<open>copied\<close> [THEN eqTrueI]]]
  have "grown (world s1) s1" by (simp add: grown_def preserved_refl)
  from keepsE [OF grown_copy_references r this] have "grown (world s1) s2" .
  from keepsE [OF grown_copy_reference h this] have "grown (world s1) s3" .
  from keepsE [OF grown_copy_config cf this] have "preserved G src ok (world s1) (world t)"
    using index_keeps by (auto simp: t grown_def intro: preserved_trans)
  moreover have "ok (world s1)" using copy(1) assms(1) by (simp add: preserved_def)
  ultimately show thesis
    using copy dst odb(2) f assms(1) by (intro that [of dst]) (auto simp: preserved_def in_both_def)
qed

lemma run_migrateToDisk_done:
  fixes s t :: "'w qgit"
  assumes "ok (world s)" and "m_in_memory s" and "run_state (migrateToDisk G repo) s = (0, t)"
  obtains disk_repo dst w where "m_repo t = Some disk_repo" and "disk_repo \<noteq> repo" and "dst \<noteq> src"
    and "git_repository_odb G (world t) disk_repo = Inr dst" and "world t = git_repository_free G w repo"
    and "preserved G src ok (world s) w"
    and "\<forall>oid \<in> set (fst (git_odb_foreach G (world s) src)).
      \<exists>x. git_odb_read G (world s) src oid = Inr x \<and> git_odb_read G (world t) dst oid = Inr x"
proof -
  obtain dir w1 where d: "os_mkdtemp G (world s) (temp_template (os_getenv G (world s) ''TMPDIR'')) = (dir, w1)"
    by (metis surj_pair)
  with assms(2,3) obtain tmpdir where "dir = Inr tmpdir" by (cases dir) (auto simp: migrateToDisk_def)
  note d = d [unfolded this]
  obtain rc w2 where i: "git_repository_init G w1 tmpdir True = (rc, w2)" by (metis surj_pair)
  with assms(2,3) d obtain disk_repo where "rc = Inr disk_repo"
    by (cases rc) (auto simp: migrateToDisk_def split: prod.splits)
  note i = i [unfolded this]
  have ne: "disk_repo \<noteq> repo" using init_other [OF i] .
  obtain b s2 where c: "run_state (migrate_contents G repo disk_repo) (s\<lparr>world := w2\<rparr>) = (b, s2)" by (metis surj_pair)
  have "b" and t: "t = s2\<lparr>world := git_repository_free G (world s2) repo, m_repo := Some disk_repo, m_path := tmpdir,
      m_in_memory := False, m_tempdir_created := True, git_tempdirs := omap_put tmpdir () (git_tempdirs s2)\<rparr>"
    using assms(2,3) d i c by (auto simp: migrateToDisk_def migrate_swap_def split: if_splits prod.splits)
  have g: "preserved G src ok (world s) w2"
    using mkdtemp_keeps [of "world s"] init_keeps [of w1] d i by (metis preserved_trans snd_conv)
  then have ok2: "ok (world (s\<lparr>world := w2\<rparr>))" using assms(1) by (simp add: preserved_def)
  obtain dst where dst: "dst \<noteq> src" "git_repository_odb G (world s2) disk_repo = Inr dst" "ok (world s2)"
      "preserved G src ok w2 (world s2)"
      "\<forall>oid \<in> set (fst (git_odb_foreach G w2 src)). in_both dst (world s2) oid"
    using run_migrate_contents [OF ok2 ne c [unfolded \<open>b\<close> [THEN eqTrueI]]] by auto
  have g2: "preserved G src ok (world s) (world s2)" using preserved_trans [OF g dst(4)] .
  have "git_odb_foreach G w2 src = git_odb_foreach G (world s) src" using g by (simp add: preserved_def)
  moreover have "git_odb_read G (world s2) src = git_odb_read G (world s) src" using g2 by (simp add: preserved_def)
  ultimately have "\<forall>oid \<in> set (fst (git_odb_foreach G (world s) src)).
      \<exists>x. git_odb_read G (world s) src oid = Inr x \<and> git_odb_read G (world t) dst oid = Inr x"
    using dst(5) free_reads [OF dst(1)] by (simp add: t in_both_def)
  with ne dst(1,2) g2 free_odb [OF ne] show thesis by (intro that [of disk_repo dst "world s2"]) (simp_all add: t)
qed

end

section \<open>Instance\<close>

text \<open>The in-memory database to migrate holds two blobs; the store of \<open>Memory_Store\<close> plays the disk.\<close>

definition odb_object :: "memory_odb \<Rightarrow> git_oid \<Rightarrow> git_err + (bytes \<times> git_object_t)" where
  "odb_object odb oid =
     (case mem_odb_read mem_odb_T odb oid of
        Inl e \<Rightarrow> Inl (GitErr e None)
      | Inr (data, len, type) \<Rightarrow> Inr (data, type))"

definition migration_source :: memory_odb where
  "migration_source =
     snd (mem_odb_write mem_odb_T (snd (mem_odb_write mem_odb_T qore_git_memory_odb_new
       1 [7] 1 GIT_OBJECT_BLOB)) 2 [7, 8] 2 GIT_OBJECT_BLOB)"

definition migration_api :: "mem_world merge_api" where
  "migration_api = (mem_merge_api size_hash 9)\<lparr>
     os_mkdtemp := \<lambda>w template. (Inr ''/tmp/qore-git-virt-a'', w),
     git_repository_init := \<lambda>w path bare. (Inr 1, w),
     git_repository_odb := \<lambda>w r. Inr (if r = 0 then 0 else 1),
     git_odb_foreach := \<lambda>w odb. ([1, 2], None),
     git_odb_read := \<lambda>w odb. odb_object (if odb = 0 then migration_source else mw_odb w),
     git_odb_write := \<lambda>w odb data type. mem_write size_hash w type data\<rparr>"

lemma migration_api_simps [simp]:
  "os_mkdtemp migration_api w template = (Inr ''/tmp/qore-git-virt-a'', w)"
  "git_repository_init migration_api w path bare = (Inr 1, w)"
  "git_repository_odb migration_api w r = Inr (if r = 0 then 0 else 1)"
  "git_odb_foreach migration_api w odb = ([1, 2], None)"
  "git_odb_read migration_api w odb = odb_object (if odb = 0 then migration_source else mw_odb w)"
  "git_odb_write migration_api w odb data type = mem_write size_hash w type data"
  "git_repository_free migration_api w r = w"
  "git_repository_set_index migration_api w r index = w"
  "git_config_set_string migration_api w config key val = (Inl unsupported, w)"
  "git_reference_create migration_api w r name oid force msg = mem_ref_write w name (Direct oid) force"
  "git_reference_symbolic_create migration_api w r name target force msg = mem_ref_write w name (Symbolic target) force"
  "qore_check_cancel migration_api w what = (None, w)"
  by (simp_all add: migration_api_def mem_full_defs)

lemma source_object:
  "odb_object migration_source oid = Inr (data, type) \<longleftrightarrow>
     type = GIT_OBJECT_BLOB \<and> (oid = 1 \<and> data = [7] \<or> oid = 2 \<and> data = [7, 8])"
  by (auto simp: odb_object_def migration_source_def odb_read_abs)

lemma mem_write_object:
  "mem_ok w \<Longrightarrow> mem_write H w type data = (Inr oid, w') \<Longrightarrow> odb_object (mw_odb w') (H type data) = Inr (data, type)"
  by (auto simp: mem_write_def odb_object_def mem_ok_def Let_def mem_laws split: sum.splits if_splits prod.splits)

lemma mem_write_keeps_object:
  assumes "mem_ok w" and "mem_write H w type data = (r, w')" and "odb_object (mw_odb w) oid = Inr x"
  shows "odb_object (mw_odb w') oid = Inr x"
proof (cases "mem_odb_read mem_odb_T (mw_odb w) (H type data)")
  case (Inr y)
  with assms show ?thesis by (cases y) (auto simp: mem_write_def Let_def split: if_splits)
next
  case (Inl rc)
  with assms(3) have "oid \<noteq> H type data" by (auto simp: odb_object_def)
  with Inl assms show ?thesis
    by (auto simp: mem_write_def odb_object_def mem_ok_def Let_def mem_laws split: sum.splits prod.splits)
qed

lemma migration_write_preserved: "preserved migration_api 0 mem_ok w (snd (mem_write size_hash w type data))"
proof -
  obtain r w' where w: "mem_write size_hash w type data = (r, w')" by (metis surj_pair)
  then show ?thesis
    using mem_write_ok [OF _ w] mem_write_keeps_object [OF _ w] by (auto simp: preserved_def)
qed

lemma migration_ref_preserved: "preserved migration_api 0 mem_ok w (snd (mem_ref_write w name target force))"
proof -
  obtain r w' where w: "mem_ref_write w name target force = (r, w')" by (metis surj_pair)
  then show ?thesis
    using mem_ref_write_ok [OF _ w] mem_ref_write_odb [OF w] by (auto simp: preserved_def)
qed

interpretation migration: object_copy migration_api 0 0 mem_ok
proof (unfold_locales, goal_cases)
  case (4 w oid data type dst oid' w')
  then have "data = [7] \<and> oid = 1 \<or> data = [7, 8] \<and> oid = 2" and "type = GIT_OBJECT_BLOB"
    by (auto simp: source_object)
  then have "size_hash type data = oid" by (auto simp: size_hash_def)
  with 4 mem_write_object [of w size_hash type data oid' w'] show ?case by simp
next
  case (5 dst w data type)
  then show ?case using migration_write_preserved by simp
next
  case (9 w r name target force msg)
  then show ?case using migration_ref_preserved by simp
next
  case (10 w r name oid force msg)
  then show ?case using migration_ref_preserved by simp
qed (auto simp: preserved_refl split: if_splits)

lemma migration_succeeds:
  assumes "m_in_memory s" and "world s = mem_empty" and "m_mem_config s = []" and "xsink s = []"
  shows "\<exists>w. run_state (migrateToDisk migration_api 0) s = (0, s\<lparr>world := w, m_repo := Some 1,
    m_path := ''/tmp/qore-git-virt-a'', m_in_memory := False, m_tempdir_created := True,
    git_tempdirs := omap_put ''/tmp/qore-git-virt-a'' () (git_tempdirs s)\<rparr>)"
proof -
  have read: "odb_object migration_source 1 = Inr ([7], GIT_OBJECT_BLOB)"
    "odb_object migration_source 2 = Inr ([7, 8], GIT_OBJECT_BLOB)" by (simp_all add: source_object)
  obtain w1 where w1: "mem_write size_hash mem_empty GIT_OBJECT_BLOB [7] = (Inr 1, w1)" "mw_refdb w1 = mw_refdb mem_empty"
    "odb_abs mem_odb_T (mw_odb w1) 2 = None"
    by (simp add: mem_write_fresh size_hash_def)
  obtain w2 where w2: "mem_write size_hash w1 GIT_OBJECT_BLOB [7, 8] = (Inr 2, w2)" "mw_refdb w2 = mw_refdb mem_empty"
    using w1(2,3) by (simp add: mem_write_fresh size_hash_def)
  have refs: "git_reference_list migration_api w2 r = Inr []" for r
    using w2(2) by (simp add: migration_api_def mem_full_defs drain_names_eq mem_refdb_iterator_def mem_empty_def
        qore_git_memory_refdb_new_def)
  have head: "git_reference_lookup migration_api w2 0 ''HEAD'' = Inl (GitErr GIT_ENOTFOUND None)"
    using w2(2) mem_empty_lookup(1) [of "''HEAD''"]
    by (simp add: migration_api_def mem_full_defs mem_reference_lookup_def)
  show ?thesis
    using read w1(1) w2(1) refs head assms
    by (cases s) (simp add: migrateToDisk_def migrate_contents_def copy_objects_def copy_object_def
        copy_references_def copy_reference_def copy_config_def migrate_swap_def cancelled_when_def)
qed


section \<open>Property\<close>

text \<open>C13: no object is lost by a migration. When \<open>migrateToDisk\<close> succeeds on an in-memory repository, the object
  holds another repository with an object database of its own, and every object that the
  enumeration of the in-memory database lists can be read from it with the same type and contents.\<close>

theorem migrateToDisk_copies_objects:
  fixes s t :: "'w qgit"
  assumes "object_copy G repo src ok" and "ok (world s)" and "m_in_memory s"
    and "run_state (migrateToDisk G repo) s = (0, t)"
  shows "\<exists>disk_repo dst. m_repo t = Some disk_repo \<and> disk_repo \<noteq> repo \<and> dst \<noteq> src \<and> \<not> m_in_memory t \<and>
    git_repository_odb G (world t) disk_repo = Inr dst \<and>
    (\<forall>oid \<in> set (fst (git_odb_foreach G (world s) src)).
      \<exists>data type. git_odb_read G (world s) src oid = Inr (data, type) \<and> git_odb_read G (world t) dst oid = Inr (data, type))"
proof -
  have "\<not> m_in_memory t"
    using assms(3,4)
    by (auto simp: migrateToDisk_def migrate_swap_def split: sum.splits prod.splits if_splits)
  then show ?thesis
    by (rule_tac object_copy.run_migrateToDisk_done [OF assms(1) assms(2-4)]) auto
qed

theorem migrateToDisk_copies_objects_witness:
  "\<exists>t. run_state (migrateToDisk migration_api 0) mem_object_state = (0, t) \<and> \<not> m_in_memory t \<and>
     git_odb_read migration_api (world t) 1 2 = Inr ([7, 8], GIT_OBJECT_BLOB)"
proof -
  obtain t where run: "run_state (migrateToDisk migration_api 0) mem_object_state = (0, t)"
    using migration_succeeds [of mem_object_state] by (auto simp: mem_object_state_def blank_def)
  have "mem_ok (world mem_object_state)" "m_in_memory mem_object_state" by (simp_all add: mem_object_state_def blank_def)
  from migrateToDisk_copies_objects [OF migration.object_copy_axioms this run]
  show ?thesis using run by (auto simp: source_object split: if_splits)
qed

end
