(* ===== verification/Migration_Refs.thy ===== *)
theory Migration_Refs
  imports Migration_Copy
begin

text \<open>
  What a migration to disk carries over besides the objects: the references with HEAD, and the
  configuration. \<open>reference_copy\<close> extends the contract of the objects by what the code relies on of
  references and configurations. libgit2 refuses a reference to an object that the repository does not
  have, so the objects have to be copied first. The code ignores whether the repository on disk accepts
  a value, so that is a hypothesis (\<open>disk_accepts\<close>).
\<close>

section \<open>The contract\<close>

definition refs_of :: "('w, 'y) repo_api_scheme \<Rightarrow> 'w \<Rightarrow> git_repository \<Rightarrow> string \<Rightarrow> ref_target option" where
  "refs_of G w r name = (case git_reference_lookup G w r name of Inr x \<Rightarrow> Some (reference_target x) | Inl _ \<Rightarrow> None)"

text \<open>Nothing happened to the references, and nothing to the configurations.\<close>

definition same_refs :: "('w, 'y) repo_api_scheme \<Rightarrow> 'w \<Rightarrow> 'w \<Rightarrow> git_repository \<Rightarrow> bool" where
  "same_refs G w w' r \<longleftrightarrow>
     git_reference_lookup G w' r = git_reference_lookup G w r \<and> git_reference_list G w' r = git_reference_list G w r"

definition same_config :: "('w, 'y) repo_api_scheme \<Rightarrow> 'w \<Rightarrow> 'w \<Rightarrow> git_repository \<Rightarrow> bool" where
  "same_config G w w' r \<longleftrightarrow>
     git_repository_config G w' r = git_repository_config G w r \<and> git_config_get_entry G w' = git_config_get_entry G w"

lemma same_refs_refl: "same_refs G w w r"
  by (simp add: same_refs_def)

lemma same_refs_trans: "same_refs G w1 w2 r \<Longrightarrow> same_refs G w2 w3 r \<Longrightarrow> same_refs G w1 w3 r"
  by (simp add: same_refs_def)

lemma refs_of_same: "same_refs G w w' r \<Longrightarrow> refs_of G w' r = refs_of G w r"
  by (simp add: same_refs_def refs_of_def fun_eq_iff)

text \<open>The repository on disk can take the references \<open>wanted\<close> and the values \<open>config\<close>: as long as it has no
  references but some of these, it accepts a symbolic one, and a direct one when it has the object.\<close>

definition disk_accepts ::
  "('w, 'y) remote_api_scheme \<Rightarrow> git_repository \<Rightarrow> (string \<rightharpoonup> ref_target) \<Rightarrow> (string \<times> string) list \<Rightarrow> bool" where
  "disk_accepts G repo wanted config \<longleftrightarrow>
     (\<forall>w r odb. r \<noteq> repo \<longrightarrow> git_repository_odb G w r = Inr odb \<longrightarrow>
        (\<forall>name. refs_of G w r name \<noteq> None \<longrightarrow> wanted name \<noteq> None \<or> name = ''HEAD'') \<longrightarrow>
        (\<forall>name target. wanted name = Some target \<longrightarrow>
           (case target of
              Direct oid \<Rightarrow> (\<exists>x. git_odb_read G w odb oid = Inr x) \<longrightarrow>
                (\<exists>x w'. git_reference_create G w r name oid True None = (Inr x, w'))
            | Symbolic t \<Rightarrow> (\<exists>x w'. git_reference_symbolic_create G w r name t True None = (Inr x, w'))))) \<and>
     (\<forall>w r odb. r \<noteq> repo \<longrightarrow> git_repository_odb G w r = Inr odb \<longrightarrow> (\<exists>cfg. git_repository_config G w r = Inr cfg)) \<and>
     (\<forall>w cfg key val. (key, val) \<in> set config \<longrightarrow> (\<exists>w'. git_config_set_string G w cfg key val = (Inr (), w')))"

lemma disk_acceptsD:
  assumes "disk_accepts G repo wanted config" and "r \<noteq> repo" and "git_repository_odb G w r = Inr odb"
    and "\<forall>name. refs_of G w r name \<noteq> None \<longrightarrow> wanted name \<noteq> None \<or> name = ''HEAD''" and "wanted name = Some target"
  shows "target = Direct oid \<Longrightarrow> git_odb_read G w odb oid = Inr x \<Longrightarrow>
      \<exists>y w'. git_reference_create G w r name oid True None = (Inr y, w')"
    and "target = Symbolic tgt \<Longrightarrow> \<exists>y w'. git_reference_symbolic_create G w r name tgt True None = (Inr y, w')"
proof -
  have "case target of
      Direct oid \<Rightarrow> (\<exists>x. git_odb_read G w odb oid = Inr x) \<longrightarrow>
        (\<exists>x w'. git_reference_create G w r name oid True None = (Inr x, w'))
    | Symbolic t \<Rightarrow> (\<exists>x w'. git_reference_symbolic_create G w r name t True None = (Inr x, w'))"
    using assms unfolding disk_accepts_def by blast
  then show "target = Direct oid \<Longrightarrow> git_odb_read G w odb oid = Inr x \<Longrightarrow>
      \<exists>y w'. git_reference_create G w r name oid True None = (Inr y, w')"
    and "target = Symbolic tgt \<Longrightarrow> \<exists>y w'. git_reference_symbolic_create G w r name tgt True None = (Inr y, w')" by auto
qed

text \<open>Every direct reference names one of the objects.\<close>

definition targets_in :: "(string \<rightharpoonup> ref_target) \<Rightarrow> git_oid list \<Rightarrow> bool" where
  "targets_in wanted oids \<longleftrightarrow> (\<forall>name oid. wanted name = Some (Direct oid) \<longrightarrow> oid \<in> set oids)"

text \<open>The value of a key in a list of settings made one after the other, when keys with the same canonical
  form are the same: the last one.\<close>

definition last_setting :: "(string \<Rightarrow> string) \<Rightarrow> (string \<times> string) list \<Rightarrow> string \<Rightarrow> string option" where
  "last_setting canonical kvs k = map_option snd (find (\<lambda>kv. canonical (fst kv) = canonical k) (rev kvs))"

lemma find_append: "find P (xs @ ys) = (case find P xs of Some x \<Rightarrow> Some x | None \<Rightarrow> find P ys)"
  by (induction xs) auto

lemma last_setting_Cons:
  "last_setting canonical ((k, x) # kvs) j =
     (case last_setting canonical kvs j of Some y \<Rightarrow> Some y | None \<Rightarrow> if canonical k = canonical j then Some x else None)"
  by (auto simp: last_setting_def find_append split: option.splits)


text \<open>\<open>canonical\<close> is libgit2's normal form of a configuration name: sections and variables do not depend on
  the case of letters.\<close>

locale reference_copy = object_copy G repo src ok
  for G :: "('w, 'y) remote_api_scheme" and repo src ok +
  fixes canonical :: "string \<Rightarrow> string"
  assumes mkdtemp_same: "same_refs G w (snd (os_mkdtemp G w template)) repo"
    and init_same: "same_refs G w (snd (git_repository_init G w path bare)) repo"
    and init_refs: "git_repository_init G w path bare = (Inr r, w') \<Longrightarrow> refs_of G w' r name \<noteq> None \<Longrightarrow> name = ''HEAD''"
    and odb_write_same: "same_refs G w (snd (git_odb_write G w odb data type)) r"
    and cancel_same: "same_refs G w (snd (qore_check_cancel G w what)) r"
    and index_same: "same_refs G w (git_repository_set_index G w r index) r'"
      "same_config G w (git_repository_set_index G w r index) r'"
    and free_same: "r \<noteq> repo \<Longrightarrow> same_refs G w (git_repository_free G w repo) r"
      "r \<noteq> repo \<Longrightarrow> same_config G w (git_repository_free G w repo) r"
    and create_direct: "r \<noteq> repo \<Longrightarrow> git_reference_create G w r name oid True None = (Inr x, w') \<Longrightarrow>
      refs_of G w' r = (refs_of G w r)(name \<mapsto> Direct oid) \<and> same_refs G w w' repo"
    and create_symbolic: "r \<noteq> repo \<Longrightarrow> git_reference_symbolic_create G w r name target True None = (Inr y, w') \<Longrightarrow>
      refs_of G w' r = (refs_of G w r)(name \<mapsto> Symbolic target) \<and> same_refs G w w' repo"
    and config_set: "git_config_set_string G w cfg key val = (Inr u, w') \<Longrightarrow>
      git_config_get_entry G w' cfg k = (if canonical key = canonical k then Inr val else git_config_get_entry G w cfg k) \<and>
      git_repository_config G w' = git_repository_config G w \<and> same_refs G w w' r"
begin

text \<open>The references of a repository and the configuration in memory are as they were.\<close>

definition kept :: "git_repository \<Rightarrow> 'w qgit \<Rightarrow> 'w qgit \<Rightarrow> bool" where
  "kept r s u \<longleftrightarrow> same_refs G (world s) (world u) r \<and> m_mem_config u = m_mem_config s"

lemma kept_refl: "kept r s s"
  by (simp add: kept_def same_refs_refl)

lemma kept_trans: "kept r s t \<Longrightarrow> kept r t u \<Longrightarrow> kept r s u"
  by (auto simp: kept_def intro: same_refs_trans)

lemma kept_refs: "kept r s t \<Longrightarrow> refs_of G (world t) r = refs_of G (world s) r"
  by (simp add: kept_def refs_of_same)

lemma kept_quiet: "keeps (kept r s) (query f)" "keeps (kept r s) exception_raised" "keeps (kept r s) (raiseException err desc)"
  by (simp_all add: keeps_def kept_def)

lemma kept_effect: "(\<And>v. same_refs G v (snd (f v)) r) \<Longrightarrow> keeps (kept r s) (effect f)"
  by (auto simp: keeps_def kept_def split_beta intro: same_refs_trans)

lemma kept_cancelled: "keeps (kept r s) (cancelled_when b G what)"
  unfolding cancelled_when_def check_cancel_def check_passes_def
  by (intro keeps_rules kept_quiet kept_effect cancel_same)

lemma kept_copy_objects: "keeps (kept r s) (copy_objects G src' dst oids)"
  unfolding copy_objects_def copy_object_def
  by (intro keeps_rules kept_quiet kept_effect kept_cancelled odb_write_same)

text \<open>The disk has the objects, and no references but some of \<open>wanted\<close>.\<close>

definition ready :: "git_repository \<Rightarrow> git_odb \<Rightarrow> git_oid list \<Rightarrow> (string \<rightharpoonup> ref_target) \<Rightarrow> 'w \<Rightarrow> bool" where
  "ready disk_repo dst oids wanted w \<longleftrightarrow> ok w \<and> git_repository_odb G w disk_repo = Inr dst \<and>
     (\<forall>oid \<in> set oids. in_both dst w oid) \<and>
     (\<forall>name. refs_of G w disk_repo name \<noteq> None \<longrightarrow> wanted name \<noteq> None \<or> name = ''HEAD'')"

lemma ready_preserved:
  assumes "ready disk_repo dst oids wanted w" and "preserved G src ok w w'"
    and "\<And>name. refs_of G w' disk_repo name \<noteq> None \<Longrightarrow> refs_of G w disk_repo name = None \<Longrightarrow> wanted name \<noteq> None"
  shows "ready disk_repo dst oids wanted w'"
proof -
  have "ok w'" "git_repository_odb G w' disk_repo = Inr dst" using assms(1,2) by (simp_all add: ready_def preserved_def)
  moreover have "in_both dst w' oid" if "oid \<in> set oids" for oid
    using in_both_preserved [OF _ assms(2)] assms(1) that by (simp add: ready_def)
  moreover have "wanted name \<noteq> None \<or> name = ''HEAD''" if "refs_of G w' disk_repo name \<noteq> None" for name
    using assms(1,3) that unfolding ready_def by blast
  ultimately show ?thesis by (simp add: ready_def)
qed

text \<open>The copy of one reference, and of several.\<close>

definition agree :: "git_repository \<Rightarrow> string set \<Rightarrow> 'w \<Rightarrow> bool" where
  "agree disk_repo names w \<longleftrightarrow>
     (\<forall>name \<in> names. \<forall>target. refs_of G w repo name = Some target \<longrightarrow> refs_of G w disk_repo name = Some target)"

lemma run_copy_reference:
  assumes ne: "disk_repo \<noteq> repo" and accepts: "disk_accepts G repo wanted config"
    and closed: "targets_in wanted oids"
    and ready: "ready disk_repo dst oids wanted (world s)" and own: "refs_of G (world s) repo name = wanted name"
    and agree: "agree disk_repo ns (world s)"
    and run: "run_state (copy_reference G repo disk_repo name) s = (u, t)"
  shows "kept repo s t \<and> ready disk_repo dst oids wanted (world t) \<and> agree disk_repo (insert name ns) (world t)"
proof (cases "git_reference_lookup G (world s) repo name")
  case (Inl e)
  with run agree ready show ?thesis by (auto simp: copy_reference_def kept_refl agree_def refs_of_def)
next
  case (Inr x)
  have disk: "git_repository_odb G (world s) disk_repo = Inr dst"
    "\<forall>n. refs_of G (world s) disk_repo n \<noteq> None \<longrightarrow> wanted n \<noteq> None \<or> n = ''HEAD''"
    using ready unfolding ready_def by blast+
  have target: "wanted name = Some (reference_target x)" using own Inr by (simp add: refs_of_def)
  show ?thesis
  proof (cases "reference_target x")
    case (Direct oid)
    with closed target ready have "in_both dst (world s) oid" unfolding ready_def targets_in_def by auto
    then obtain z where z: "git_odb_read G (world s) dst oid = Inr z" unfolding in_both_def by blast
    obtain y w where w: "git_reference_create G (world s) disk_repo name oid True None = (Inr y, w)"
      using disk_acceptsD(1) [OF accepts ne disk target Direct z] by blast
    note new = create_direct [OF ne w]
    have "preserved G src ok (world s) w" using reference_keeps [of "world s" disk_repo name oid True None] w by simp
    then have "ready disk_repo dst oids wanted w" by (rule ready_preserved [OF ready]) (use new target in \<open>auto split: if_splits\<close>)
    with run agree new w Inr Direct target own show ?thesis
      by (auto simp: copy_reference_def kept_def agree_def refs_of_same)
  next
    case (Symbolic tgt)
    obtain y w where w: "git_reference_symbolic_create G (world s) disk_repo name tgt True None = (Inr y, w)"
      using disk_acceptsD(2) [OF accepts ne disk target Symbolic] by blast
    note new = create_symbolic [OF ne w]
    have "preserved G src ok (world s) w" using symbolic_keeps [of "world s" disk_repo name tgt True None] w by simp
    then have "ready disk_repo dst oids wanted w" by (rule ready_preserved [OF ready]) (use new target in \<open>auto split: if_splits\<close>)
    with run agree new w Inr Symbolic target own show ?thesis
      by (auto simp: copy_reference_def kept_def agree_def refs_of_same)
  qed
qed

lemma agree_kept: "agree disk_repo ns (world s) \<Longrightarrow> kept repo s t \<Longrightarrow> kept disk_repo s t \<Longrightarrow> agree disk_repo ns (world t)"
  unfolding agree_def kept_def by (metis refs_of_same)

lemma ready_kept:
  "ready disk_repo dst oids wanted (world s) \<Longrightarrow> preserved G src ok (world s) (world t) \<Longrightarrow> kept disk_repo s t \<Longrightarrow>
   ready disk_repo dst oids wanted (world t)"
  by (rule ready_preserved) (auto simp: kept_def refs_of_same)

lemma run_copy_reference_loop:
  assumes "disk_repo \<noteq> repo" and "disk_accepts G repo wanted config"
    and "targets_in wanted oids"
  shows "(\<And>name. name \<in> set ns \<Longrightarrow> refs_of G (world s) repo name = wanted name) \<Longrightarrow>
    ready disk_repo dst oids wanted (world s) \<Longrightarrow> agree disk_repo ms (world s) \<Longrightarrow>
    run_state (for_from (\<lambda>i name. do {
       cancel \<leftarrow> cancelled_when (i mod 100 = 0) G ''git migrate'';
       if cancel then ret (Some ())
       else do { copy_reference G repo disk_repo name; ret None }
     }) i ns) s = (None, t) \<Longrightarrow>
    kept repo s t \<and> ready disk_repo dst oids wanted (world t) \<and> agree disk_repo (set ns \<union> ms) (world t)"
proof (induction ns arbitrary: i s ms)
  case (Cons n ns)
  obtain c s0 where c: "run_state (cancelled_when (i mod 100 = 0) G ''git migrate'') s = (c, s0)" by (metis surj_pair)
  obtain u s1 where u: "run_state (copy_reference G repo disk_repo n) s0 = (u, s1)" by (metis surj_pair)
  have k: "kept r s s0" for r using keepsE [OF kept_cancelled c kept_refl] .
  have p: "preserved G src ok (world s) (world s0)"
    using keepsE [OF grown_cancelled c, of "world s"] by (simp add: grown_def preserved_refl)
  have own: "refs_of G (world s0) repo name = wanted name" if "name \<in> set (n # ns)" for name
    using Cons.prems(1) [OF that] kept_refs [OF k] by simp
  have "refs_of G (world s0) repo n = wanted n" by (rule own) simp
  from run_copy_reference [OF assms ready_kept [OF Cons.prems(2) p k] this agree_kept [OF Cons.prems(3) k k] u]
  have 1: "kept repo s0 s1" "ready disk_repo dst oids wanted (world s1)" "agree disk_repo (insert n ms) (world s1)" by blast+
  have "refs_of G (world s1) repo name = wanted name" if "name \<in> set ns" for name
    using own [of name] that kept_refs [OF 1(1)] by simp
  from Cons.IH [OF this 1(2,3)] Cons.prems(4) c u
  have "kept repo s1 t" "ready disk_repo dst oids wanted (world t)" "agree disk_repo (set ns \<union> insert n ms) (world t)"
    by (simp_all split: if_splits)
  with kept_trans [OF kept_trans [OF k 1(1)]] show ?case by simp
qed (simp add: kept_refl)

text \<open>The configuration.\<close>

lemma run_copy_config_loop:
  assumes "disk_accepts G repo wanted config"
  shows "set kvs \<subseteq> set config \<Longrightarrow>
    run_state (for_from (\<lambda>i kv. do {
      effect (\<lambda>w. git_config_set_string G w cfg (fst kv) (snd kv));
      ret (None :: unit option)
    }) i kvs) s = (v, t) \<Longrightarrow>
    kept r s t \<and> git_repository_config G (world t) = git_repository_config G (world s) \<and>
    (\<forall>k. git_config_get_entry G (world t) cfg k =
      (case last_setting canonical kvs k of Some x \<Rightarrow> Inr x | None \<Rightarrow> git_config_get_entry G (world s) cfg k))"
proof (induction kvs arbitrary: i s)
  case (Cons kv kvs)
  obtain k x where kv: "kv = (k, x)" by (cases kv)
  have "(k, x) \<in> set config" using Cons.prems(1) kv by simp
  then obtain w where w: "git_config_set_string G (world s) cfg k x = (Inr (), w)"
    using assms unfolding disk_accepts_def by blast
  have same: "same_refs G (world s) w r" "git_repository_config G w = git_repository_config G (world s)"
    "git_config_get_entry G w cfg j = (if canonical k = canonical j then Inr x else git_config_get_entry G (world s) cfg j)" for r j
    using config_set [OF w] by blast+
  from Cons.IH [of "Suc i" "s\<lparr>world := w\<rparr>"] Cons.prems w kv same show ?case
    by (auto simp: kept_def last_setting_Cons intro: same_refs_trans split: option.splits)
qed (simp add: kept_refl last_setting_def)

lemma run_copy_config:
  assumes "disk_accepts G repo wanted (m_mem_config s)" and "disk_repo \<noteq> repo"
    and "git_repository_odb G (world s) disk_repo = Inr dst" and "run_state (copy_config G disk_repo) s = (u, t)"
  obtains cfg where "kept repo s t" and "kept disk_repo s t" and "git_repository_config G (world t) disk_repo = Inr cfg"
    and "\<And>k x. last_setting canonical (m_mem_config s) k = Some x \<Longrightarrow> git_config_get_entry G (world t) cfg k = Inr x"
proof -
  obtain cfg where cfg: "git_repository_config G (world s) disk_repo = Inr cfg"
    using assms(1-3) unfolding disk_accepts_def by blast
  show thesis
  proof (cases "m_mem_config s = []")
    case True
    with assms(4) cfg show thesis by (intro that [of cfg]) (simp_all add: copy_config_def kept_refl last_setting_def)
  next
    case False
    let ?loop = "for_from (\<lambda>i kv. do {
      effect (\<lambda>w. git_config_set_string G w cfg (fst kv) (snd kv));
      ret (None :: unit option)
    }) 0 (m_mem_config s)"
    obtain v t' where l: "run_state ?loop s = (v, t')" by (rule prod.exhaust)
    then have "t' = t" using assms(4) cfg False by (simp add: copy_config_def)
    note copied = run_copy_config_loop [OF assms(1) subset_refl l [unfolded this]]
    show thesis
    proof (rule that)
      show "kept repo s t" "kept disk_repo s t" using copied by blast+
      show "git_repository_config G (world t) disk_repo = Inr cfg" using copied cfg by simp
      show "git_config_get_entry G (world t) cfg k = Inr x" if "last_setting canonical (m_mem_config s) k = Some x" for k x
        using copied that by simp
    qed
  qed
qed

text \<open>All steps up to the swap, and the migration.\<close>

lemma run_migrate_refs:
  assumes accepts: "disk_accepts G repo wanted (m_mem_config s)" and ne: "disk_repo \<noteq> repo" and "ok (world s)"
    and wanted: "wanted = (refs_of G (world s) repo) |` insert ''HEAD'' (set names)"
    and closed: "targets_in wanted (fst (git_odb_foreach G (world s) src))"
    and empty: "\<forall>name. refs_of G (world s) disk_repo name \<noteq> None \<longrightarrow> name = ''HEAD''"
    and list: "git_reference_list G (world s) repo = Inr names"
    and run: "run_state (migrate_contents G repo disk_repo) s = (True, t)"
  obtains cfg where "kept repo s t" and "agree disk_repo (insert ''HEAD'' (set names)) (world t)"
    and "git_repository_config G (world t) disk_repo = Inr cfg"
    and "\<And>k x. last_setting canonical (m_mem_config s) k = Some x \<Longrightarrow> git_config_get_entry G (world t) cfg k = Inr x"
proof -
  obtain src' dst where odb: "git_repository_odb G (world s) repo = Inr src'" "git_repository_odb G (world s) disk_repo = Inr dst"
    using run by (cases "git_repository_odb G (world s) repo"; cases "git_repository_odb G (world s) disk_repo")
      (auto simp: migrate_contents_def split: prod.splits)
  have src': "src' = src" using own_odb [OF odb(1)] .
  have dst: "dst \<noteq> src" using other_odb [OF odb(2) ne] .
  obtain oids final where f: "git_odb_foreach G (world s) src = (oids, final)" by (metis surj_pair)
  obtain copied s1 where c: "run_state (copy_objects G src dst oids) s = (copied, s1)" by (metis surj_pair)
  obtain okr s2 where r: "run_state (copy_references G repo disk_repo) s1 = (okr, s2)" by (metis surj_pair)
  obtain u s3 where h: "run_state (copy_reference G repo disk_repo ''HEAD'') s2 = (u, s3)" by (metis surj_pair)
  obtain u' s4 where cf: "run_state (copy_config G disk_repo) s3 = (u', s4)" by (metis surj_pair)
  have okr: "okr" and "copied" and t: "t = s4\<lparr>world := git_repository_set_index G (world s4) disk_repo (m_index s4)\<rparr>"
    using run odb src' f c r h cf by (auto simp: migrate_contents_def split: if_splits prod.splits)
  note copy = run_copy_objects [OF assms(3) dst c [unfolded \<open>copied\<close> [THEN eqTrueI]]]
  have k1: "kept q s s1" for q using keepsE [OF kept_copy_objects c kept_refl] .
  have names: "git_reference_list G (world s1) repo = Inr names" using list k1 [of repo] by (simp add: kept_def same_refs_def)
  have own: "refs_of G (world s1) repo name = wanted name" if "name \<in> insert ''HEAD'' (set names)" for name
    using kept_refs [OF k1] that wanted by simp
  have ready: "ready disk_repo dst oids wanted (world s1)"
    using copy assms(3) odb(2) empty kept_refs [OF k1] by (auto simp: ready_def preserved_def)
  have closed': "targets_in wanted oids" using closed f by simp
  have none: "agree disk_repo {} (world s1)" by (simp add: agree_def)
  from r okr names obtain s2' where loop: "run_state (for_from (\<lambda>i name. do {
       cancel \<leftarrow> cancelled_when (i mod 100 = 0) G ''git migrate'';
       if cancel then ret (Some ())
       else do { copy_reference G repo disk_repo name; ret None }
     }) 0 names) s1 = (None, s2)"
    by (auto simp: copy_references_def split: prod.splits)
  have "\<And>name. name \<in> set names \<Longrightarrow> refs_of G (world s1) repo name = wanted name" using own by simp
  from run_copy_reference_loop [OF ne accepts closed' this ready none loop]
  have 2: "kept repo s1 s2" "ready disk_repo dst oids wanted (world s2)" "agree disk_repo (set names) (world s2)" by simp_all
  have "refs_of G (world s2) repo ''HEAD'' = wanted ''HEAD''" using own [of "''HEAD''"] kept_refs [OF 2(1)] by simp
  from run_copy_reference [OF ne accepts closed' 2(2) this 2(3) h]
  have 3: "kept repo s2 s3" "ready disk_repo dst oids wanted (world s3)" "agree disk_repo (insert ''HEAD'' (set names)) (world s3)"
    by simp_all
  have k3: "kept repo s s3" using kept_trans [OF kept_trans [OF k1 2(1)] 3(1)] .
  then have m: "m_mem_config s3 = m_mem_config s" by (simp add: kept_def)
  have odb3: "git_repository_odb G (world s3) disk_repo = Inr dst" using 3(2) by (simp add: ready_def)
  obtain cfg where 4: "kept repo s3 s4" "kept disk_repo s3 s4" "git_repository_config G (world s4) disk_repo = Inr cfg"
      "\<And>k x. last_setting canonical (m_mem_config s3) k = Some x \<Longrightarrow> git_config_get_entry G (world s4) cfg k = Inr x"
    using run_copy_config [OF accepts [folded m] ne odb3 cf] by blast
  have 5: "kept q s4 t" "same_config G (world s4) (world t) q" for q by (simp_all add: t kept_def index_same)
  show thesis
  proof (rule that)
    show "kept repo s t" using kept_trans [OF kept_trans [OF k3 4(1)] 5(1)] .
    show "agree disk_repo (insert ''HEAD'' (set names)) (world t)"
      by (rule agree_kept [OF agree_kept [OF 3(3) 4(1,2)] 5(1) 5(1)])
    show "git_repository_config G (world t) disk_repo = Inr cfg" using 4(3) 5(2) [of disk_repo] by (simp add: same_config_def)
    show "git_config_get_entry G (world t) cfg k = Inr x" if "last_setting canonical (m_mem_config s) k = Some x" for k x
      using 4(4) [unfolded m, OF that] 5(2) [of disk_repo] by (simp add: same_config_def)
  qed
qed

lemma run_migrateToDisk_refs:
  assumes accepts: "disk_accepts G repo ((refs_of G (world s) repo) |` insert ''HEAD'' (set names)) (m_mem_config s)"
    and "m_in_memory s" and "ok (world s)"
    and closed: "targets_in ((refs_of G (world s) repo) |` insert ''HEAD'' (set names)) (fst (git_odb_foreach G (world s) src))"
    and "git_reference_list G (world s) repo = Inr names" and "run_state (migrateToDisk G repo) s = (0, t)"
  obtains disk_repo cfg where "m_repo t = Some disk_repo" and "disk_repo \<noteq> repo" and "\<not> m_in_memory t"
    and "\<And>name target. name \<in> insert ''HEAD'' (set names) \<Longrightarrow> refs_of G (world s) repo name = Some target \<Longrightarrow>
      refs_of G (world t) disk_repo name = Some target"
    and "git_repository_config G (world t) disk_repo = Inr cfg"
    and "\<And>k x. last_setting canonical (m_mem_config s) k = Some x \<Longrightarrow> git_config_get_entry G (world t) cfg k = Inr x"
proof -
  obtain dir w1 where d: "os_mkdtemp G (world s) (temp_template (os_getenv G (world s) ''TMPDIR'')) = (dir, w1)"
    by (metis surj_pair)
  with assms(2,6) obtain tmpdir where "dir = Inr tmpdir" by (cases dir) (auto simp: migrateToDisk_def)
  note d = d [unfolded this]
  obtain rc w2 where i: "git_repository_init G w1 tmpdir True = (rc, w2)" by (metis surj_pair)
  with assms(2,6) d obtain disk_repo where "rc = Inr disk_repo"
    by (cases rc) (auto simp: migrateToDisk_def split: prod.splits)
  note i = i [unfolded this]
  have ne: "disk_repo \<noteq> repo" using init_other [OF i] .
  obtain b s2 where c: "run_state (migrate_contents G repo disk_repo) (s\<lparr>world := w2\<rparr>) = (b, s2)" by (metis surj_pair)
  have "b" and t: "t = s2\<lparr>world := git_repository_free G (world s2) repo, m_repo := Some disk_repo, m_path := tmpdir,
      m_in_memory := False, m_tempdir_created := True, git_tempdirs := omap_put tmpdir () (git_tempdirs s2)\<rparr>"
    using assms(2,6) d i c by (auto simp: migrateToDisk_def migrate_swap_def split: if_splits prod.splits)
  have w2: "same_refs G (world s) w2 repo"
    using mkdtemp_same [of "world s"] init_same [of w1] d i by (metis same_refs_trans snd_conv)
  have p: "preserved G src ok (world s) w2"
    using mkdtemp_keeps [of "world s"] init_keeps [of w1] d i by (metis preserved_trans snd_conv)
  have names: "git_reference_list G w2 repo = Inr names" using w2 assms(5) by (simp add: same_refs_def)
  let ?s = "s\<lparr>world := w2\<rparr>" and ?wanted = "(refs_of G (world s) repo) |` insert ''HEAD'' (set names)"
  have pre: "disk_accepts G repo ?wanted (m_mem_config ?s)" "ok (world ?s)"
    "?wanted = (refs_of G (world ?s) repo) |` insert ''HEAD'' (set names)"
    "git_odb_foreach G (world ?s) src = git_odb_foreach G (world s) src"
    using accepts assms(3) p refs_of_same [OF w2] by (simp_all add: preserved_def)
  have closed': "targets_in ?wanted (fst (git_odb_foreach G (world ?s) src))" using closed unfolding pre(4) .
  have empty: "\<forall>name. refs_of G (world ?s) disk_repo name \<noteq> None \<longrightarrow> name = ''HEAD''" using init_refs [OF i] by simp
  have run: "run_state (migrate_contents G repo disk_repo) ?s = (True, s2)" using c \<open>b\<close> by simp
  have names': "git_reference_list G (world ?s) repo = Inr names" using names by simp
  obtain cfg where 1: "kept repo ?s s2" "agree disk_repo (insert ''HEAD'' (set names)) (world s2)"
      "git_repository_config G (world s2) disk_repo = Inr cfg"
      "\<And>k x. last_setting canonical (m_mem_config ?s) k = Some x \<Longrightarrow> git_config_get_entry G (world s2) cfg k = Inr x"
    using run_migrate_refs [OF pre(1) ne pre(2,3) closed' empty names' run] by blast
  have "refs_of G (world s2) repo = refs_of G (world s) repo"
    using 1(1) w2 by (intro refs_of_same) (auto simp: kept_def intro: same_refs_trans)
  with 1(2-4) ne refs_of_same [OF free_same(1) [OF ne, of "world s2"]] free_same(2) [OF ne, of "world s2"]
  show thesis by (intro that [of disk_repo cfg]) (auto simp: t agree_def same_config_def)
qed

end

section \<open>Instance\<close>

text \<open>
  The repository in memory has one branch, on a blob, and HEAD on it; the stores of \<open>Memory_Store\<close> play
  the disk. The disk refuses a reference to an object it does not have, and configuration names are
  compared without regard to the case of letters.
\<close>

definition lower_case :: "string \<Rightarrow> string" where
  "lower_case = map (\<lambda>c. if 65 \<le> (of_char c :: nat) \<and> (of_char c :: nat) \<le> 90 then char_of ((of_char c :: nat) + 32) else c)"

definition source_refs :: memory_refdb where
  "source_refs = \<lparr>refs = [(''HEAD'', \<lparr>entry_oid = 0, symbolic_target = ''refs/heads/main'', is_symbolic = True\<rparr>),
     (''refs/heads/main'', \<lparr>entry_oid = 2, symbolic_target = [], is_symbolic = False\<rparr>)]\<rparr>"

definition refs_api :: "mem_world merge_api" where
  "refs_api = migration_api\<lparr>
     git_repository_init := \<lambda>w path bare. (Inr 1, w\<lparr>mw_refdb := qore_git_memory_refdb_new\<rparr>),
     git_reference_lookup := \<lambda>w r. if r = 0 then mem_refdb_lookup mem_T source_refs else mem_reference_lookup w,
     git_reference_list := \<lambda>w r. Inr (drain_names mem_T (mem_refdb_iterator (if r = 0 then source_refs else mw_refdb w) None)),
     git_reference_create := \<lambda>w r name oid force msg.
       (case odb_object (mw_odb w) oid of Inl e \<Rightarrow> (Inl e, w) | Inr _ \<Rightarrow> mem_ref_write w name (Direct oid) force),
     git_repository_config := \<lambda>w r. Inr 0,
     git_config_get_entry := \<lambda>w cfg k.
       case map_of (mw_config w) (lower_case k) of Some v \<Rightarrow> Inr v | None \<Rightarrow> Inl (GitErr GIT_ENOTFOUND None),
     git_config_set_string := \<lambda>w cfg k v. (Inr (), w\<lparr>mw_config := (lower_case k, v) # mw_config w\<rparr>)\<rparr>"

lemma refs_api_simps [simp]:
  "os_mkdtemp refs_api w template = (Inr ''/tmp/qore-git-virt-a'', w)"
  "git_repository_init refs_api w path bare = (Inr 1, w\<lparr>mw_refdb := qore_git_memory_refdb_new\<rparr>)"
  "git_repository_odb refs_api w r = Inr (if r = 0 then 0 else 1)"
  "git_odb_foreach refs_api w odb = ([1, 2], None)"
  "git_odb_read refs_api w odb = odb_object (if odb = 0 then migration_source else mw_odb w)"
  "git_odb_write refs_api w odb data type = mem_write size_hash w type data"
  "git_repository_free refs_api w r = w"
  "git_repository_set_index refs_api w r index = w"
  "git_reference_create refs_api w r name oid force msg =
     (case odb_object (mw_odb w) oid of Inl e \<Rightarrow> (Inl e, w) | Inr _ \<Rightarrow> mem_ref_write w name (Direct oid) force)"
  "git_reference_symbolic_create refs_api w r name target force msg = mem_ref_write w name (Symbolic target) force"
  "qore_check_cancel refs_api w what = (None, w)"
  "git_reference_lookup refs_api w r = (if r = 0 then mem_refdb_lookup mem_T source_refs else mem_reference_lookup w)"
  "git_reference_list refs_api w r = Inr (drain_names mem_T (mem_refdb_iterator (if r = 0 then source_refs else mw_refdb w) None))"
  "git_repository_config refs_api w r = Inr 0"
  "git_config_get_entry refs_api w cfg k =
     (case map_of (mw_config w) (lower_case k) of Some v \<Rightarrow> Inr v | None \<Rightarrow> Inl (GitErr GIT_ENOTFOUND None))"
  "git_config_set_string refs_api w cfg k v = (Inr (), w\<lparr>mw_config := (lower_case k, v) # mw_config w\<rparr>)"
  by (simp_all add: refs_api_def)

lemma preserved_refs_api: "preserved refs_api src ok w w' = preserved migration_api src ok w w'"
  by (simp add: preserved_def)

lemma preserved_outside:
  "mw_odb w' = mw_odb w \<Longrightarrow> (mem_ok w \<Longrightarrow> mem_ok w') \<Longrightarrow> preserved refs_api 0 mem_ok w w'"
  by (simp add: preserved_def)

interpretation disk_objects: object_copy refs_api 0 0 mem_ok
proof (unfold_locales, goal_cases)
  case (4 w oid data type dst oid' w')
  then show ?case using migration.write_read [of w oid data type dst oid' w'] by simp
next
  case (5 dst w data type)
  then show ?case using migration_write_preserved by (simp add: preserved_refs_api)
next
  case (7 w path bare)
  then show ?case using refdb_ok_new by (intro preserved_outside) (simp_all add: mem_ok_def)
next
  case (9 w r name target force msg)
  then show ?case using migration_ref_preserved by (simp add: preserved_refs_api)
next
  case (10 w r name oid force msg)
  then show ?case using migration_ref_preserved by (simp add: preserved_refs_api preserved_refl split: sum.split)
next
  case (11 w config key val)
  then show ?case by (intro preserved_outside) (simp_all add: mem_ok_def)
qed (auto simp: preserved_refl split: if_splits)

lemma mem_write_same: "mem_write H w type data = (r, w') \<Longrightarrow> same_refs refs_api w w' q"
  by (simp add: same_refs_def fun_eq_iff mem_reference_lookup_def mem_write_refdb)

lemma mem_ref_write_refs:
  assumes "mem_ref_write w name target True = (Inr x, w')" and "r \<noteq> 0"
  shows "refs_of refs_api w' r = (refs_of refs_api w r)(name \<mapsto> target) \<and> same_refs refs_api w w' 0"
  using assms
  by (auto simp: mem_ref_write_def mem_refdb_write_def Let_def refs_of_def same_refs_def fun_eq_iff mem_reference_lookup_def
      mem_refdb_lookup_def ref_of_entry_def mem_T_def hex_refdb_api_def split: ref_target.splits)


interpretation disk: reference_copy refs_api 0 0 mem_ok lower_case
proof (unfold_locales, goal_cases)
  case (3 w path bare r w' name)
  then show ?case
    by (auto simp: refs_of_def mem_reference_lookup_def mem_refdb_lookup_def qore_git_memory_refdb_new_def)
next
  case (4 w odb data type r)
  show ?case by (simp add: mem_write_same [OF surjective_pairing])
next
  case (10 r w name oid x w')
  then show ?case using mem_ref_write_refs by (simp split: sum.splits)
next
  case (11 r w name target x w')
  then show ?case using mem_ref_write_refs by simp
next
  case (12 w cfg key val u w' k r)
  then show ?case by (auto simp: fun_eq_iff same_refs_def mem_reference_lookup_def)
qed (simp_all add: same_refs_def same_config_def)


section \<open>Property\<close>







end
