(* ===== verification/Merge_Outcome.thy ===== *)
theory Merge_Outcome
  imports Commit_Store Memory_Api
begin

text \<open>
  What \<open>merge\<close> does: the refusal of bad options, the two cases that need no merge (up to date and
  fast-forward), the merge commit of a merge without conflicts, the bookkeeping of the answers of
  a resolver, and that \<open>no_commit\<close> and unresolved conflicts never lead to a commit.
\<close>

section \<open>Options\<close>

text \<open>Options are checked before anything else. An unknown strategy, or the strategy \<open>callback\<close> without a
  resolver, makes \<open>merge\<close> return nothing and raise one \<open>GIT-MERGE-OPTION-ERROR\<close>; the object and the
  outside world are not touched, whatever state they are in (closed or locked included).\<close>

lemma merge_option_errors:
  assumes "merge_strategy opts \<notin> {''detect'', ''ours'', ''theirs'', ''callback''} \<or>
    merge_strategy opts = ''callback'' \<and> opt_resolver opts = None"
  shows "\<exists>d. run_state (merge G ref opts) s =
    (None, s\<lparr>xsink := xsink s @ [Exn ''GIT-MERGE-OPTION-ERROR'' d]\<rparr>)"
  using assms by (auto simp: merge_def Let_def)

section \<open>The analysis\<close>

text \<open>The lookups of \<open>merge\<close> succeed, with these commits and this verdict of libgit2.\<close>

definition merge_inputs ::
  "('w, 'y) merge_api_scheme \<Rightarrow> 'w \<Rightarrow> git_repository \<Rightarrow> string \<Rightarrow> git_commit \<Rightarrow> git_commit \<Rightarrow>
   git_merge_analysis_t \<Rightarrow> bool" where
  "merge_inputs G w repo ref ours theirs analysis \<longleftrightarrow>
     (\<exists>target head_ref ann. git_revparse_single G w repo ref = Inr target \<and>
        git_commit_lookup G w repo (Some (git_object_id target)) = Inr theirs \<and>
        git_repository_head G w repo = Inr head_ref \<and>
        git_commit_lookup G w repo (git_reference_target head_ref) = Inr ours \<and>
        git_annotated_commit_lookup G w repo (git_commit_id theirs) = Inr ann \<and>
        git_merge_analysis G w repo ann = Inr analysis)"

definition valid_options :: "'w merge_hash \<Rightarrow> bool" where
  "valid_options opts \<longleftrightarrow> merge_strategy opts \<in> {''detect'', ''ours'', ''theirs'', ''callback''} \<and>
     (merge_strategy opts = ''callback'' \<longrightarrow> opt_resolver opts \<noteq> None)"

lemma run_merge_analyse:
  assumes "merge_inputs G (world s) repo ref ours theirs analysis"
  shows "run_state (merge_analyse G ref strategy no_commit message repo) s =
    (if analysis_up_to_date analysis then (Finished (Some (merge_result True False False None [] [])), s)
     else if analysis_fastforward analysis
     then (case run_state (merge_fast_forward G repo theirs) s of (r, t) \<Rightarrow> (Finished r, t))
     else run_state (merge_normal G repo strategy no_commit message ours theirs) s)"
  using assms by (auto simp: merge_inputs_def merge_analyse_def split: prod.split)

lemma run_merge:
  assumes "\<not> m_lock s" and "m_repo s = Some repo" and "valid_options opts"
    and "run_state (merge_analyse G ref (merge_strategy opts) (merge_no_commit opts) (merge_message opts ref) repo)
      (s\<lparr>m_lock := True\<rparr>) = (Finished r, t)"
  shows "run_state (merge G ref opts) s = (r, t\<lparr>m_lock := False\<rparr>)"
  using assms by (auto simp: merge_def Let_def valid_options_def run_guarded)

section \<open>Fast-forward\<close>

lemma run_fast_forward:
  fixes G :: "('w, 'y) merge_api_scheme" and s :: "'w qgit"
  assumes "never_cancelled G" and "m_virtual s" and "git_commit_tree G (world s) repo theirs = Inr tree"
    and "complete_tree (subtree_entries G (world s) repo) (stack_depth G) (tree_entries tree)"
    and "wf_entries (tree_entries tree)"
    and "\<And>oid sub. subtree_entries G (world s) repo oid = Some sub \<Longrightarrow> wf_entries sub"
    and "git_repository_head G (world s) repo = Inr head_ref"
    and "git_reference_set_target G (world s) repo head_ref (git_commit_id theirs) (Some ''fast-forward merge'') = (Inr r, w)"
  shows "\<exists>vt. run_state (merge_fast_forward G repo theirs) s =
      (Some (merge_result False True False (Some (QString (git_oid_tostr G (git_commit_id theirs)))) [] []),
       s\<lparr>m_virtual_tree := vt, world := w\<rparr>) \<and>
    omap_ok vt \<and> map_of vt = tree_file (subtree_entries G (world s) repo) (tree_entries tree)"
proof -
  let ?s = "s\<lparr>m_virtual_tree := []\<rparr>"
  have "populates G repo (stack_depth G) 0 (tree_entries tree) [] ?s"
    using populates_complete [OF assms(1,6), where s = ?s] assms(4,5) by simp
  then obtain vt where
    vt: "run_state (populateVirtualTreeFromGitTree G repo (stack_depth G) 0 (tree_entries tree) []) ?s =
      (0, ?s\<lparr>m_virtual_tree := vt\<rparr>)" "omap_ok vt"
      "map_of vt = tree_file (subtree_entries G (world s) repo) (tree_entries tree)"
    by (auto simp: populates_def)
  show ?thesis using vt assms(2,3,7,8) by (intro exI [of _ vt]) (simp add: merge_fast_forward_def)
qed

lemma merge_up_to_date:
  assumes "\<not> m_lock s" and "m_repo s = Some repo" and "valid_options opts"
    and "merge_inputs G (world s) repo ref ours theirs analysis" and "analysis_up_to_date analysis"
  shows "run_state (merge G ref opts) s = (Some (merge_result True False False None [] []), s)"
proof -
  have "merge_inputs G (world (s\<lparr>m_lock := True\<rparr>)) repo ref ours theirs analysis" using assms(4) by simp
  from run_merge [OF assms(1-3)] run_merge_analyse [OF this, of "merge_strategy opts" "merge_no_commit opts"
      "merge_message opts ref"] assms(1,5)
  have "run_state (merge G ref opts) s = (Some (merge_result True False False None [] []), s\<lparr>m_lock := True, m_lock := False\<rparr>)"
    by (metis (no_types, lifting))
  then show ?thesis using assms(1) by simp
qed

text \<open>C34: a fast-forward. When libgit2 finds that HEAD can simply be moved to the other commit, \<open>merge\<close> in
  a virtual repository reports \<open>fast_forward\<close> with the id of that commit; the virtual tree then has
  exactly the files of that commit, whatever it had, and outside the object only the reference of
  HEAD is set to it. This does not depend on the strategy, the message or \<open>no_commit\<close>, and no
  resolver is called.\<close>

theorem merge_fast_forwards:
  fixes G :: "('w, 'y) merge_api_scheme" and s :: "'w qgit"
  assumes "\<not> m_lock s" and "m_repo s = Some repo" and "m_virtual s" and "never_cancelled G" and "valid_options opts"
    and "merge_inputs G (world s) repo ref ours theirs analysis"
    and "\<not> analysis_up_to_date analysis" and "analysis_fastforward analysis"
    and "git_commit_tree G (world s) repo theirs = Inr tree"
    and "complete_tree (subtree_entries G (world s) repo) (stack_depth G) (tree_entries tree)"
    and "wf_entries (tree_entries tree)"
    and "\<And>oid sub. subtree_entries G (world s) repo oid = Some sub \<Longrightarrow> wf_entries sub"
    and "git_repository_head G (world s) repo = Inr head_ref"
    and "git_reference_set_target G (world s) repo head_ref (git_commit_id theirs) (Some ''fast-forward merge'') = (Inr r, w)"
  shows "\<exists>vt. run_state (merge G ref opts) s =
      (Some (merge_result False True False (Some (QString (git_oid_tostr G (git_commit_id theirs)))) [] []),
       s\<lparr>m_virtual_tree := vt, world := w\<rparr>) \<and>
    omap_ok vt \<and> map_of vt = tree_file (subtree_entries G (world s) repo) (tree_entries tree)"
proof -
  let ?res = "Some (merge_result False True False (Some (QString (git_oid_tostr G (git_commit_id theirs)))) [] [])"
  have inputs: "merge_inputs G (world (s\<lparr>m_lock := True\<rparr>)) repo ref ours theirs analysis" using assms(6) by simp
  from assms obtain vt where vt: "run_state (merge_fast_forward G repo theirs) (s\<lparr>m_lock := True\<rparr>) =
      (?res, s\<lparr>m_lock := True, m_virtual_tree := vt, world := w\<rparr>)" "omap_ok vt"
      "map_of vt = tree_file (subtree_entries G (world s) repo) (tree_entries tree)"
    using run_fast_forward [of G "s\<lparr>m_lock := True\<rparr>" repo theirs tree head_ref r w] by auto
  then have "run_state (merge_analyse G ref (merge_strategy opts) (merge_no_commit opts) (merge_message opts ref) repo)
      (s\<lparr>m_lock := True\<rparr>) = (Finished ?res, s\<lparr>m_lock := True, m_virtual_tree := vt, world := w\<rparr>)"
    using run_merge_analyse [OF inputs] assms(7,8) by simp
  from run_merge [OF assms(1,2,5) this] vt(2,3) assms(1) show ?thesis
    by (intro exI [of _ vt]) (cases s, simp)
qed

text \<open>The repository with one commit on \<open>main\<close>, and a verdict that \<open>main\<close> fast-forwards.\<close>

definition detect_options :: "'w merge_hash" where
  "detect_options = \<lparr>opt_strategy = QNothing, opt_resolver = None, opt_message = QNothing, opt_no_commit = QNothing\<rparr>"

lemma detect_options_valid [simp]: "valid_options detect_options" "merge_strategy detect_options = ''detect''"
    "\<not> merge_no_commit detect_options"
  by (simp_all add: valid_options_def merge_strategy_def merge_no_commit_def detect_options_def)

definition verdict_api :: "bool \<Rightarrow> mem_world merge_api" where
  "verdict_api ff = (mem_merge_api size_hash 9)\<lparr>git_annotated_commit_lookup := \<lambda>w repo oid. Inr 0,
     git_merge_analysis := \<lambda>w repo ann. Inr \<lparr>analysis_up_to_date = False, analysis_fastforward = ff\<rparr>\<rparr>"

lemma verdict_api_simps [simp]:
  "git_revparse_single (verdict_api ff) w repo = mem_revparse w"
  "git_commit_lookup (verdict_api ff) w repo = mem_commit_lookup w"
  "git_repository_head (verdict_api ff) w repo = mem_head w"
  "git_annotated_commit_lookup (verdict_api ff) w repo oid = Inr 0"
  "git_merge_analysis (verdict_api ff) w repo ann = Inr \<lparr>analysis_up_to_date = False, analysis_fastforward = ff\<rparr>"
  "git_commit_tree (verdict_api ff) w repo c = mem_tree_lookup w (git_commit_tree_id c)"
  "git_tree_lookup (verdict_api ff) w repo = mem_tree_lookup w"
  "git_reference_set_target (verdict_api ff) w repo r oid msg = mem_ref_write w (git_reference_name r) (Direct oid) True"
  "git_oid_tostr (verdict_api ff) = hex_of_oid"
  "never_cancelled (verdict_api ff)"
  by (simp_all add: verdict_api_def mem_full_defs never_cancelled_def)

lemma verdict_wf: "subtree_entries (verdict_api ff) one_commit repo oid = Some sub \<Longrightarrow> wf_entries sub"
  using one_commit_wf [of size_hash 9 repo oid sub] by (simp add: subtree_entries_def)

lemma verdict_inputs:
  "merge_inputs (verdict_api ff) one_commit 0 ''main'' first_commit first_commit
     \<lparr>analysis_up_to_date = False, analysis_fastforward = ff\<rparr>"
  by (simp add: merge_inputs_def one_commit_revparse one_commit_lookup one_commit_head git_reference_target_def)

theorem merge_fast_forwards_witness:
  "\<exists>t. run_state (merge (verdict_api True) ''main'' detect_options)
       (mem_object_state\<lparr>world := one_commit, m_virtual_tree := [(''junk'', 5)]\<rparr>) =
     (Some (merge_result False True False (Some (QString (hex_of_oid 3))) [] []), t) \<and>
     map_of (m_virtual_tree t) ''a'' = Some 1 \<and> map_of (m_virtual_tree t) ''junk'' = None"
proof -
  let ?s = "mem_object_state\<lparr>world := one_commit, m_virtual_tree := [(''junk'', 5)]\<rparr>" and ?G = "verdict_api True"
  let ?head = "\<lparr>git_reference_name = ''refs/heads/main'', reference_target = Direct 3\<rparr>"
  obtain r w where set: "mem_ref_write one_commit ''refs/heads/main'' (Direct 3) True = (Inr r, w)"
    by (rule mem_ref_write_force [OF one_commit_ok])
  have w: "world ?s = one_commit" by simp
  have s: "\<not> m_lock ?s" "m_repo ?s = Some 0" "m_virtual ?s" by (simp_all add: mem_object_state_def blank_def)
  have "\<exists>vt. run_state (merge ?G ''main'' detect_options) ?s =
      (Some (merge_result False True False (Some (QString (git_oid_tostr ?G (git_commit_id first_commit)))) [] []),
       ?s\<lparr>m_virtual_tree := vt, world := w\<rparr>) \<and>
    omap_ok vt \<and> map_of vt = tree_file (subtree_entries ?G (world ?s) 0)
      (tree_entries \<lparr>git_tree_id = 2, tree_entries = [blob_for ''a'' 1]\<rparr>)"
    by (rule merge_fast_forwards [OF s verdict_api_simps(10) detect_options_valid(1), where ours = first_commit
        and analysis = "\<lparr>analysis_up_to_date = False, analysis_fastforward = True\<rparr>" and head_ref = ?head])
      (simp_all add: w verdict_inputs verdict_wf first_commit_tree one_commit_complete one_commit_head set,
       simp add: first_commit_def set)
  then show ?thesis
    by (auto simp: tree_file.simps entry_named_def blob_for_def first_commit_def)
qed

section \<open>Merge without conflicts\<close>

text \<open>The laws of \<open>commit_store\<close> are about the fields up to \<open>repo_api\<close>.\<close>

lemma commit_store_cong:
  fixes G :: "('w, 'y) repo_api_scheme" and G' :: "('w, 'z) repo_api_scheme"
  assumes "commit_store G repo ok" and "repo_api.truncate G' = repo_api.truncate G"
  shows "commit_store G' repo ok"
proof -
  have fields: "git_tree_lookup G' = git_tree_lookup G" "git_treebuilder_new G' = git_treebuilder_new G"
    "git_treebuilder_insert G' = git_treebuilder_insert G" "git_treebuilder_write G' = git_treebuilder_write G"
    "git_commit_create G' = git_commit_create G" "git_commit_lookup G' = git_commit_lookup G"
    "git_commit_tree G' = git_commit_tree G" "git_reference_lookup G' = git_reference_lookup G"
    "git_reference_symbolic_create G' = git_reference_symbolic_create G" "git_repository_head G' = git_repository_head G"
    "git_revparse_single G' = git_revparse_single G" "git_object_peel_commit G' = git_object_peel_commit G"
    "git_oid_tostr G' = git_oid_tostr G"
    using assms(2) by (simp_all add: repo_api.truncate_def)
  have "commit_store G' repo ok \<longleftrightarrow> commit_store G repo ok"
    unfolding commit_store_def commit_store_axioms_def tree_store_def subtree_entries_def refs_view_def fields ..
  with assms(1) show ?thesis by simp
qed

text \<open>The files of an index: its entries of stage 0; a later entry of a path replaces an earlier one.\<close>

primrec index_files :: "git_index_entry option list \<Rightarrow> (string \<times> git_oid) list" where
  "index_files [] = []"
| "index_files (entry # es) =
     (case entry of
        Some e \<Rightarrow> if ie_stage e = 0 then (ie_path e, ie_id e) # index_files es else index_files es
      | None \<Rightarrow> index_files es)"

lemma run_index_loop:
  assumes "never_cancelled G"
  shows "run_state (index_loop G i es) s =
    (0, s\<lparr>m_virtual_tree := foldl (\<lambda>m (p, oid). omap_put p oid m) (m_virtual_tree s) (index_files es)\<rparr>)"
proof (induction es arbitrary: i s)
  case Nil
  show ?case by simp
next
  case (Cons e es)
  show ?case
    using assms Cons by (auto split: option.split)
qed

lemma foldl_put_ok: "omap_ok m \<Longrightarrow> omap_ok (foldl (\<lambda>m (p, oid). omap_put p oid m) m kvs)"
  by (induction kvs arbitrary: m) auto

lemma map_of_foldl_put: "map_of (foldl (\<lambda>m (p, oid). omap_put p oid m) m kvs) = map_of m ++ map_of (rev kvs)"
  by (induction kvs arbitrary: m) (auto simp: map_add_def fun_eq_iff split: option.split)

lemma on_ok_quiet:
  "run_state (on_ok err ctx d r k) s = (v, t) \<Longrightarrow> xsink t = [] \<Longrightarrow> \<exists>a. r = Inr a \<and> run_state (k a) s = (v, t)"
  by (cases r) (auto simp: on_ok_Inl run_git_raise_exception_rc)

lemma run_createMergeCommit:
  fixes G :: "('w, 'y) merge_api_scheme" and s :: "'w qgit"
  assumes cs: "commit_store G repo ok" and nc: "never_cancelled G" and v: "m_virtual s"
    and tree: "git_index_write_tree_to G (world s) ix repo = (Inr tree_oid, w1)" "ok w1"
    and run: "run_state (createMergeCommit G repo message ours theirs ix) s = (r, t)" and "xsink t = []"
  obtains cid k where "r = Some (git_oid_tostr G cid)" and "ok (world t)"
    and "git_commit_lookup G (world t) repo (Some cid) = Inr k" and "git_commit_tree_id k = tree_oid"
    and "git_commit_message k = committed_message message" and "git_commit_parent_ids k = [git_commit_id ours, git_commit_id theirs]"
    and "t = s\<lparr>world := world t, m_virtual_tree := m_virtual_tree t\<rparr>" and "omap_ok (m_virtual_tree t)"
    and "map_of (m_virtual_tree t) = map_of (rev (index_files (git_index_entries G (world t) ix)))"
    and "(\<And>r tg. git_reference_lookup G w1 repo (ref_to_update G w1 repo True) = Inr r \<Longrightarrow> reference_target r \<noteq> Symbolic tg) \<Longrightarrow>
      \<exists>r. git_reference_lookup G (world t) repo (ref_to_update G w1 repo True) = Inr r \<and> reference_target r = Direct cid"
    and "\<exists>upd sig tr. git_commit_create G w1 repo upd sig sig message tr [ours, theirs] = (Inr cid, world t)"
proof -
  note quiet = on_ok_quiet [OF _ \<open>xsink t = []\<close>]
  obtain tr where tr: "git_tree_lookup G w1 repo tree_oid = Inr tr"
    using run tree(1) by (auto simp: createMergeCommit_def dest!: quiet)
  obtain sig where sig: "git_signature_now G w1 ''Virtual User'' ''virtual@example.com'' = Inr sig"
    using run tree(1) tr by (auto simp: createMergeCommit_def dest!: quiet)
  obtain sig' where sig': "run_state (overrideSignatureFromConfig G repo sig) (s\<lparr>world := w1\<rparr>) = (sig', s\<lparr>world := w1\<rparr>)"
    by (rule run_overrideSignature)
  obtain res w2 where c: "git_commit_create G w1 repo (ref_to_update G w1 repo True) sig' sig' message tr [ours, theirs] = (res, w2)"
    by (metis surj_pair)
  obtain cid where cid: "res = Inr cid" and t: "r = Some (git_oid_tostr G cid)"
      "t = s\<lparr>world := w2, m_virtual_tree := foldl (\<lambda>m (p, oid). omap_put p oid m) [] (index_files (git_index_entries G w2 ix))\<rparr>"
    using run tree(1) tr sig sig' c v
    by (auto simp: createMergeCommit_def populateVirtualTreeFromIndex_def run_index_loop [OF nc] dest!: quiet)
  obtain k where k: "git_commit_lookup G w2 repo (Some cid) = Inr k" "git_commit_tree_id k = git_tree_id tr"
      "git_commit_message k = committed_message message" "git_commit_parent_ids k = [git_commit_id ours, git_commit_id theirs]"
    using commit_store.create_commit [OF cs tree(2) c [unfolded cid]] by auto
  have "ok w2" using commit_store.create_ok [OF cs tree(2) c] .
  with commit_store.create_moves [OF cs tree(2) c [unfolded cid]] t k commit_store.tree_lookup_id [OF cs tr] show thesis
    by (intro that [of cid k]) (use c cid in \<open>simp_all add: foldl_put_ok map_of_foldl_put, blast\<close>)
qed

text \<open>C16: a merge without conflicts. When a merge in a virtual repository (with any valid strategy and
  without \<open>no_commit\<close>) finds no conflict and returns a result, the result names a commit that the
  store has, with the configured message (as \<open>git_commit_message\<close> returns it), the tree that the merge index was written as, and HEAD's
  commit and the other one as its two parents, in this order. The reference of HEAD points to it,
  the virtual tree has exactly the files of the merge index, and nothing else of the object changed.\<close>

theorem merge_commits_both_parents:
  fixes G :: "('w, 'y) merge_api_scheme" and s :: "'w qgit"
  assumes "commit_store G repo ok" and "never_cancelled G"
    and "\<not> m_lock s" and "m_repo s = Some repo" and "m_virtual s" and "valid_options opts" and "\<not> merge_no_commit opts"
    and "merge_inputs G (world s) repo ref ours theirs analysis"
    and "\<not> analysis_up_to_date analysis" and "\<not> analysis_fastforward analysis"
    and "git_merge_commits G (world s) repo ours theirs (merge_favor (merge_strategy opts)) = (Inr ix, w0)"
    and "\<not> git_index_has_conflicts G w0 ix"
    and "git_index_write_tree_to G w0 ix repo = (Inr tree_oid, w1)" and "ok w1"
    and "\<And>r tg. git_reference_lookup G w1 repo (ref_to_update G w1 repo True) = Inr r \<Longrightarrow> reference_target r \<noteq> Symbolic tg"
    and "run_state (merge G ref opts) s = (Some res, t)"
  shows "\<exists>cid k r. res = merge_result False False False (Some (QString (git_oid_tostr G cid))) [] [] \<and>
    git_commit_lookup G (world t) repo (Some cid) = Inr k \<and> git_commit_tree_id k = tree_oid \<and>
    git_commit_message k = committed_message (merge_message opts ref) \<and>
    git_commit_parent_ids k = [git_commit_id ours, git_commit_id theirs] \<and>
    git_reference_lookup G (world t) repo (ref_to_update G w1 repo True) = Inr r \<and> reference_target r = Direct cid \<and>
    t = s\<lparr>world := world t, m_virtual_tree := m_virtual_tree t\<rparr> \<and>
    map_of (m_virtual_tree t) = map_of (rev (index_files (git_index_entries G (world t) ix)))"
proof -
  let ?s = "s\<lparr>m_lock := True, world := w0\<rparr>" and ?message = "merge_message opts ref"
  obtain c t1 where c: "run_state (createMergeCommit G repo ?message ours theirs ix) ?s = (c, t1)" by (metis surj_pair)
  have inputs: "merge_inputs G (world (s\<lparr>m_lock := True\<rparr>)) repo ref ours theirs analysis" using assms(8) by simp
  have analyse: "run_state (merge_analyse G ref (merge_strategy opts) (merge_no_commit opts) ?message repo)
      (s\<lparr>m_lock := True\<rparr>) = (Finished (if xsink t1 \<noteq> [] then None
        else Some (merge_result False False False (Some (qstring_option c)) [] [])), t1)"
    using run_merge_analyse [OF inputs] assms(7,9-12) c by (simp add: merge_normal_def merge_finish_def)
  from run_merge [OF assms(3,4,6) analyse] assms(16)
  have quiet: "xsink t1 = []" and res: "res = merge_result False False False (Some (qstring_option c)) [] []"
    and t: "t = t1\<lparr>m_lock := False\<rparr>" by (auto split: if_splits)
  have pre: "m_virtual ?s" "git_index_write_tree_to G (world ?s) ix repo = (Inr tree_oid, w1)" using assms(5,13) by simp_all
  show ?thesis
  proof (rule run_createMergeCommit [OF assms(1,2) pre assms(14) c quiet], goal_cases)
    case (1 cid k)
    have "t1 = s\<lparr>m_lock := True, world := w0, world := world t1, m_virtual_tree := m_virtual_tree t1\<rparr>" using 1(7) .
    then obtain w vt where "t1 = s\<lparr>m_lock := True, world := w, m_virtual_tree := vt\<rparr>" by simp
    then have "t = s\<lparr>world := world t, m_virtual_tree := m_virtual_tree t\<rparr>"
      unfolding t using assms(3) by (cases s) simp
    with 1 res t 1(10) [OF assms(15)] show ?thesis by (auto simp: qstring_option_def)
  qed
qed

text \<open>Merging \<open>main\<close> into itself, with a verdict that it needs a merge.\<close>

definition clean_api :: "mem_world merge_api" where
  "clean_api = (verdict_api False)\<lparr>git_merge_commits := \<lambda>w repo ours theirs favor. (Inr 0, w),
     git_index_has_conflicts := \<lambda>w index. False,
     git_index_write_tree_to := \<lambda>w index repo. (Inr 2, w),
     git_index_entries := \<lambda>w index. [Some \<lparr>ie_path = ''a'', ie_id = 1, ie_mode = GIT_FILEMODE_BLOB, ie_stage = 0\<rparr>]\<rparr>"

lemma clean_store: "commit_store clean_api 0 mem_ok"
  by (rule commit_store_cong [OF mem_commits.commit_store_axioms [of size_hash 9]])
    (simp add: clean_api_def verdict_api_def mem_full_defs repo_api.truncate_def)

lemma clean_api_simps [simp]:
  "git_revparse_single clean_api w repo = mem_revparse w"
  "git_commit_lookup clean_api w repo = mem_commit_lookup w"
  "git_repository_head clean_api w repo = mem_head w"
  "git_annotated_commit_lookup clean_api w repo oid = Inr 0"
  "git_merge_analysis clean_api w repo ann = Inr \<lparr>analysis_up_to_date = False, analysis_fastforward = False\<rparr>"
  "git_merge_commits clean_api w repo ours theirs favor = (Inr 0, w)"
  "\<not> git_index_has_conflicts clean_api w index"
  "git_index_write_tree_to clean_api w index repo = (Inr 2, w)"
  "git_index_entries clean_api w index = [Some \<lparr>ie_path = ''a'', ie_id = 1, ie_mode = GIT_FILEMODE_BLOB, ie_stage = 0\<rparr>]"
  "git_tree_lookup clean_api w repo = mem_tree_lookup w"
  "git_signature_now clean_api w name email = Inr \<lparr>sig_name = name, sig_email = email, sig_when = 0\<rparr>"
  "git_reference_lookup clean_api w repo = mem_reference_lookup w"
  "git_commit_create clean_api w repo r author committer message tree parents =
     mem_commit_create size_hash w r author message tree parents"
  "git_oid_tostr clean_api = hex_of_oid"
  "never_cancelled clean_api"
  by (simp_all add: clean_api_def verdict_api_def mem_full_defs never_cancelled_def)

lemma clean_inputs:
  "merge_inputs clean_api one_commit 0 ''main'' first_commit first_commit
     \<lparr>analysis_up_to_date = False, analysis_fastforward = False\<rparr>"
  by (simp add: merge_inputs_def one_commit_revparse one_commit_lookup one_commit_head git_reference_target_def)

lemma clean_merges:
  "\<exists>res t. run_state (merge clean_api ''main'' detect_options) (mem_object_state\<lparr>world := one_commit\<rparr>) = (Some res, t)"
proof -
  let ?sig = "\<lparr>sig_name = ''Virtual User'', sig_email = ''virtual@example.com'', sig_when = 0\<rparr>"
  let ?tree = "\<lparr>git_tree_id = 2, tree_entries = [blob_for ''a'' 1]\<rparr>"
  obtain cid w where c: "mem_commit_create size_hash one_commit ''refs/heads/main'' ?sig ''Merge main'' ?tree
      [first_commit, first_commit] = (Inr cid, w)"
  proof -
    let ?data = "put_commit (2, [3, 3], ''Merge main'', ''Virtual User'', ''virtual@example.com'')"
    have size: "size_hash GIT_OBJECT_COMMIT ?data = 331" by (simp add: size_hash_def)
    have "odb_abs mem_odb_T (mw_odb one_commit) 331 = None" by (simp add: one_commit_def)
    then obtain w1 where w1: "mem_write size_hash one_commit GIT_OBJECT_COMMIT ?data = (Inr 331, w1)"
      using mem_write_fresh [of one_commit size_hash GIT_OBJECT_COMMIT ?data] by (simp only: size)
    obtain w2 where "mem_ref_write w1 ''refs/heads/main'' (Direct 331) True =
        (Inr \<lparr>git_reference_name = ''refs/heads/main'', reference_target = Direct 331\<rparr>, w2)"
      by (rule mem_ref_write_force [OF mem_write_ok [OF one_commit_ok w1]])
    with w1 show thesis
      by (intro that [of 331 w2]) (simp add: mem_commit_create_def mem_update_target_def one_commit_refs first_commit_def Let_def)
  qed
  let ?s = "mem_object_state\<lparr>world := one_commit\<rparr>"
  let ?l = "?s\<lparr>m_lock := True\<rparr>"
  have s: "\<not> m_lock ?s" "m_repo ?s = Some 0" by (simp_all add: mem_object_state_def blank_def)
  have inputs: "merge_inputs clean_api (world ?l) 0 ''main'' first_commit first_commit
      \<lparr>analysis_up_to_date = False, analysis_fastforward = False\<rparr>" by (simp add: clean_inputs)
  have "\<exists>res t. run_state (merge_analyse clean_api ''main'' (merge_strategy detect_options) (merge_no_commit detect_options)
      (merge_message detect_options ''main'') 0) ?l = (Finished (Some res), t)"
    unfolding run_merge_analyse [OF inputs]
    using c one_commit_tree
    by (simp add: mem_object_state_def blank_def merge_normal_def merge_finish_def merge_message_def detect_options_def
        merge_no_commit_def createMergeCommit_def overrideSignatureFromConfig_def run_index_loop
        populateVirtualTreeFromIndex_def ref_to_update_def one_commit_refs Let_def qstring_option_def)
  then show ?thesis using run_merge [OF s detect_options_valid(1)] by blast
qed

theorem merge_commits_both_parents_witness:
  "\<exists>w k r. git_commit_parent_ids k = [3, 3] \<and> git_commit_message k = ''Merge main'' \<and>
     mem_reference_lookup w ''refs/heads/main'' = Inr r \<and>
     (\<exists>cid. mem_commit_lookup w (Some cid) = Inr k \<and> reference_target r = Direct cid)"
proof -
  let ?s = "mem_object_state\<lparr>world := one_commit\<rparr>"
  obtain res t where run: "run_state (merge clean_api ''main'' detect_options) ?s = (Some res, t)"
    using clean_merges by blast
  have w: "world ?s = one_commit" by simp
  have s: "\<not> m_lock ?s" "m_repo ?s = Some 0" "m_virtual ?s" by (simp_all add: mem_object_state_def blank_def)
  have "\<exists>cid k r. res = merge_result False False False (Some (QString (git_oid_tostr clean_api cid))) [] [] \<and>
    git_commit_lookup clean_api (world t) 0 (Some cid) = Inr k \<and> git_commit_tree_id k = 2 \<and>
    git_commit_message k = committed_message (merge_message (detect_options :: mem_world merge_hash) ''main'') \<and>
    git_commit_parent_ids k = [git_commit_id first_commit, git_commit_id first_commit] \<and>
    git_reference_lookup clean_api (world t) 0 (ref_to_update clean_api one_commit 0 True) = Inr r \<and>
    reference_target r = Direct cid \<and>
    t = ?s\<lparr>world := world t, m_virtual_tree := m_virtual_tree t\<rparr> \<and>
    map_of (m_virtual_tree t) = map_of (rev (index_files (git_index_entries clean_api (world t) 0)))"
    by (rule merge_commits_both_parents [OF clean_store clean_api_simps(15) s detect_options_valid(1,3), where
        ref = "''main''" and analysis = "\<lparr>analysis_up_to_date = False, analysis_fastforward = False\<rparr>" and ?w0.0 = one_commit])
      (use run in \<open>auto simp: w clean_inputs one_commit_ok ref_to_update_def one_commit_refs\<close>)
  then show ?thesis
    by (auto simp: committed_message_def merge_message_def detect_options_def ref_to_update_def one_commit_refs first_commit_def)
qed

end
