(* ===== verification/Merge_Resolver.thy ===== *)
theory Merge_Resolver
  imports Memory_Api Working_Tree
begin

text \<open>
  Conflicts: what the second phase of \<open>merge\<close> keeps of the answers of a resolver, and that neither
  \<open>no_commit\<close> nor an unresolved conflict ever leads to the creation of a commit.
\<close>

section \<open>Answers\<close>

text \<open>The contents that an answer stands for: strings and binaries resolve a conflict, nothing else does.\<close>

fun answer_bytes :: "qvalue \<Rightarrow> bytes option" where
  "answer_bytes (QString str) = Some (bytes_of_string str)"
| "answer_bytes (QBinary b) = Some b"
| "answer_bytes _ = None"

text \<open>The conflicts that were resolved, in the order of the conflicts, with the contents.\<close>

definition answered ::
  "(qvalue \<Rightarrow> qvalue) \<Rightarrow> (MergeConflictInfo \<times> qhash) list \<Rightarrow> (string \<times> bytes) list" where
  "answered answer cs = List.map_filter
     (\<lambda>(ci, h). map_option (\<lambda>b. (ci_path ci, b)) (answer_bytes (answer (QHash h)))) cs"

definition unanswered ::
  "(qvalue \<Rightarrow> qvalue) \<Rightarrow> (MergeConflictInfo \<times> qhash) list \<Rightarrow> qvalue list" where
  "unanswered answer cs = map (\<lambda>(ci, h). QHash h) (filter (\<lambda>(ci, h). answer_bytes (answer (QHash h)) = None) cs)"

lemma answered_simps [simp]:
  "answered answer [] = []"
  "answered answer ((ci, h) # cs) =
     (case answer_bytes (answer (QHash h)) of Some b \<Rightarrow> (ci_path ci, b) # answered answer cs | None \<Rightarrow> answered answer cs)"
  by (simp_all add: answered_def map_filter_simps split: option.split)

lemma unanswered_simps [simp]:
  "unanswered answer [] = []"
  "unanswered answer ((ci, h) # cs) =
     (if answer_bytes (answer (QHash h)) = None then QHash h # unanswered answer cs else unanswered answer cs)"
  by (simp_all add: unanswered_def)

lemma emplace_ok: "omap_ok m \<Longrightarrow> omap_ok (emplace path b m)"
  by (simp add: emplace_def)

lemma map_of_foldl_emplace:
  "map_of (foldl (\<lambda>m (p, b). emplace p b m) m kvs) = map_of kvs ++ map_of m"
proof (induction kvs arbitrary: m)
  case (Cons kv kvs)
  obtain p b where "kv = (p, b)" by (cases kv)
  with Cons show ?case by (auto simp: emplace_def map_add_def fun_eq_iff split: option.split)
qed simp

lemma foldl_emplace_ok: "omap_ok m \<Longrightarrow> omap_ok (foldl (\<lambda>m (p, b). emplace p b m) m kvs)"
  by (induction kvs arbitrary: m) (auto simp: emplace_ok)

text \<open>A resolver that only answers.\<close>

lemma run_callbacks_pure:
  assumes "never_cancelled G" and "\<And>n. malloc_ok G n" and "xsink s = []"
  shows "run_state (run_callbacks G (\<lambda>c. ret (answer c)) cs resolutions unresolved) s =
    (Some (foldl (\<lambda>m (p, b). emplace p b m) resolutions (answered answer cs), unresolved @ unanswered answer cs), s)"
proof (induction cs arbitrary: resolutions unresolved)
  case Nil
  show ?case by simp
next
  case (Cons c cs)
  obtain ci h where c: "c = (ci, h)" by (cases c)
  have "run_state (check_cancel G what) s = (False, s)" for what
    using run_cancelled_never [OF assms(1), of True what s] by (simp add: cancelled_when_def)
  then show ?case
    using Cons assms(2,3) by (cases "answer (QHash h)") (simp_all add: c)
qed

text \<open>C20: the bookkeeping of the callback strategy. With a resolver that answers without raising an exception,
  when nothing is cancelled and memory suffices, the callbacks are called for every conflict; the
  resolution of a path is the first answer for it that is a string or a binary, paths without one
  have none, and the conflicts answered otherwise are listed as unresolved, each once, in order.\<close>

theorem resolver_answers_recorded:
  assumes "never_cancelled G" and "\<And>n. malloc_ok G n" and "xsink s = []"
  shows "\<exists>resolutions. run_state (run_callbacks G (\<lambda>c. ret (answer c)) cs [] []) s =
      (Some (resolutions, map (\<lambda>(ci, h). QHash h) (filter (\<lambda>(ci, h). answer_bytes (answer (QHash h)) = None) cs)), s) \<and>
    omap_ok resolutions \<and> map_of resolutions = map_of (answered answer cs)"
  using run_callbacks_pure [OF assms, of answer cs "[]" "[]"]
  by (simp add: foldl_emplace_ok map_of_foldl_emplace unanswered_def)

text \<open>Two conflicts about one path and one about another, which the resolver does not decide.\<close>

definition example_conflicts :: "(MergeConflictInfo \<times> qhash) list" where
  "example_conflicts =
     (let ci = (\<lambda>p. \<lparr>ci_path = p, ancestor_oid = None, ours_oid = Some 1, theirs_oid = Some 2\<rparr>)
      in [(ci ''a'', [(''n'', QInt 1)]), (ci ''a'', [(''n'', QInt 2)]), (ci ''b'', [(''n'', QInt 3)])])"

definition example_answer :: "qvalue \<Rightarrow> qvalue" where
  "example_answer v =
     (if v = QHash [(''n'', QInt 1)] then QBinary [1]
      else if v = QHash [(''n'', QInt 2)] then QBinary [2] else QNothing)"

theorem resolver_answers_recorded_witness:
  "\<exists>resolutions. run_state (run_callbacks (mem_merge_api size_hash 9) (\<lambda>c. ret (example_answer c)) example_conflicts [] [])
      mem_object_state = (Some (resolutions, [QHash [(''n'', QInt 3)]]), mem_object_state) \<and>
    map_of resolutions ''a'' = Some [1] \<and> map_of resolutions ''b'' = None"
proof -
  have api: "never_cancelled (mem_merge_api size_hash 9)" "malloc_ok (mem_merge_api size_hash 9) n" for n
    by (simp_all add: never_cancelled_def mem_full_defs)
  have quiet: "xsink mem_object_state = []" by (simp add: mem_object_state_def blank_def)
  have unresolved: "map (\<lambda>(ci, h). QHash h) (filter (\<lambda>(ci, h). answer_bytes (example_answer (QHash h)) = None) example_conflicts) =
      [QHash [(''n'', QInt 3)]]"
    and answers: "map_of (answered example_answer example_conflicts) ''a'' = Some [1]"
      "map_of (answered example_answer example_conflicts) ''b'' = None"
    by (simp_all add: example_conflicts_def example_answer_def Let_def)
  from resolver_answers_recorded [OF api quiet, of example_answer example_conflicts]
  show ?thesis unfolding unresolved using answers by auto
qed

section \<open>No commit\<close>

text \<open>
  To say that a computation never creates a commit: it is the same computation when the field
  \<open>git_commit_create\<close> of the interface is replaced by any function whatever.
\<close>

lemma same_check_cancel: "check_cancel (G\<lparr>git_commit_create := f\<rparr>) = check_cancel G"
  by (simp add: check_cancel_def fun_eq_iff)

lemma same_cancelled_when: "cancelled_when b (G\<lparr>git_commit_create := f\<rparr>) = cancelled_when b G"
  by (simp add: cancelled_when_def same_check_cancel fun_eq_iff)

lemmas branches = if_cong option.case_cong sum.case_cong qvalue.case_cong merge_phase1.case_cong prod.case_cong

lemmas same_session = same_check_cancel same_cancelled_when

lemma same_populate:
  "populateVirtualTreeFromGitTree (G\<lparr>git_commit_create := f\<rparr>) repo n i es prefix =
     populateVirtualTreeFromGitTree G repo n i es prefix"
  by (induction G repo n i es prefix rule: populateVirtualTreeFromGitTree.induct)
    (simp_all add: populateVirtualTreeFromGitTree.simps same_session Let_def on_ok_def cong: branches)

lemma same_fast_forward: "merge_fast_forward (G\<lparr>git_commit_create := f\<rparr>) repo theirs = merge_fast_forward G repo theirs"
  by (simp add: merge_fast_forward_def same_populate cong: branches)

lemma same_conflict_hash:
  "buildConflictHash (G\<lparr>git_commit_create := f\<rparr>) repo info ours theirs = buildConflictHash G repo info ours theirs"
  by (simp add: buildConflictHash_def lookupBlobContent_def buildCommitInfoHash_def fun_eq_iff cong: branches)

lemma same_apply_content:
  "applyResolvedContent (G\<lparr>git_commit_create := f\<rparr>) repo path data ix = applyResolvedContent G repo path data ix"
  by (simp add: applyResolvedContent_def)

lemma same_resolve:
  "resolve_conflicts (G\<lparr>git_commit_create := f\<rparr>) repo use_ours ix infos = resolve_conflicts G repo use_ours ix infos"
  by (simp add: resolve_conflicts_def same_session same_apply_content lookupBlobContent_def cong: branches)

lemma same_build_hashes:
  "build_hashes (G\<lparr>git_commit_create := f\<rparr>) repo what ours theirs i cis hashes = build_hashes G repo what ours theirs i cis hashes"
  by (induction cis arbitrary: i hashes) (simp_all add: same_session same_conflict_hash cong: branches)

lemma same_finish:
  "merge_finish (G\<lparr>git_commit_create := f\<rparr>) repo True message ours theirs ix conflicts resolved =
     merge_finish G repo True message ours theirs ix conflicts resolved"
  by (simp add: merge_finish_def)

lemma same_normal:
  "merge_normal (G\<lparr>git_commit_create := f\<rparr>) repo strategy True message ours theirs =
     merge_normal G repo strategy True message ours theirs"
  by (simp add: merge_normal_def Let_def same_session same_finish same_resolve same_build_hashes cong: branches)

lemma same_analyse:
  "merge_analyse (G\<lparr>git_commit_create := f\<rparr>) ref strategy True message =
     merge_analyse G ref strategy True message"
  by (simp add: merge_analyse_def same_normal same_fast_forward fun_eq_iff cong: branches)

lemma same_callbacks:
  "run_callbacks (G\<lparr>git_commit_create := f\<rparr>) resolver cs resolutions unresolved =
     run_callbacks G resolver cs resolutions unresolved"
  by (induction cs arbitrary: resolutions unresolved) (simp_all add: same_session cong: branches)

lemma same_apply:
  assumes "no_commit \<or> unresolved \<noteq> []"
  shows "merge_apply (G\<lparr>git_commit_create := f\<rparr>) no_commit message mp resolutions unresolved =
    merge_apply G no_commit message mp resolutions unresolved"
  using assms by (auto simp: merge_apply_def same_apply_content fun_eq_iff cong: branches)

text \<open>C21: no commit without consent. A merge with \<open>no_commit\<close> creates no commit object, in any strategy and on
  any path, and neither does the last phase of a merge that the resolver left with unresolved
  conflicts: the computations are the same ones whatever libgit2's \<open>git_commit_create\<close> is replaced by
  (the resolver, which is user code and may commit on its own, is kept as it is).\<close>

theorem no_commit_creates_no_commit:
  assumes "merge_no_commit opts" and "unresolved \<noteq> []"
  shows "merge (G\<lparr>git_commit_create := f\<rparr>) ref opts = merge G ref opts \<and>
    merge_apply (G\<lparr>git_commit_create := f\<rparr>) no_commit message mp resolutions unresolved =
      merge_apply G no_commit message mp resolutions unresolved"
proof -
  have "merge (G\<lparr>git_commit_create := f\<rparr>) ref opts = merge G ref opts"
    using assms(1) by (simp add: merge_def Let_def same_analyse same_callbacks same_apply cong: branches)
  with same_apply [of no_commit unresolved] assms(2) show ?thesis by blast
qed

theorem no_commit_creates_no_commit_witness:
  "merge ((mem_merge_api size_hash 9)\<lparr>git_commit_create := \<lambda>w repo ref a c msg tree ps. (Inr 0, one_commit)\<rparr>) ''main''
      \<lparr>opt_strategy = QString ''ours'', opt_resolver = None, opt_message = QNothing, opt_no_commit = QBool True\<rparr> =
    merge (mem_merge_api size_hash 9) ''main''
      \<lparr>opt_strategy = QString ''ours'', opt_resolver = None, opt_message = QNothing, opt_no_commit = QBool True\<rparr>"
  using no_commit_creates_no_commit [of "\<lparr>opt_strategy = QString ''ours'', opt_resolver = None,
      opt_message = QNothing, opt_no_commit = QBool True\<rparr>" "[QNothing]"
      "\<lambda>w repo ref a c msg tree ps. (Inr 0, one_commit)" "mem_merge_api size_hash 9" "''main''"]
  by (simp add: merge_no_commit_def)

end
