(* ===== verification/Merge_Index.thy ===== *)
theory Merge_Index
  imports Merge_Outcome Merge_Resolver
begin

text \<open>
  Merges with conflicts: what the strategies and the resolver leave in the merge index, and from there in
  the commit and the virtual tree. \<open>conflict_index\<close> states what the code relies on of libgit2's
  index.
\<close>

section \<open>The contract\<close>

text \<open>The paths with an entry of a stage that is not 0, and the files: the entries of stage 0.\<close>

definition conflicted :: "git_index_entry option list \<Rightarrow> string set" where
  "conflicted es = {ie_path e |e. Some e \<in> set es \<and> ie_stage e \<noteq> 0}"

definition files_of :: "git_index_entry option list \<Rightarrow> (string \<rightharpoonup> git_oid)" where
  "files_of es = map_of (rev (index_files es))"

text \<open>No path has both a file and a conflict: the index that a merge produces.\<close>

definition conflicts_unmerged :: "git_index_entry option list \<Rightarrow> bool" where
  "conflicts_unmerged es \<longleftrightarrow> (\<forall>path \<in> conflicted es. files_of es path = None)"

text \<open>No blob is lost.\<close>

definition blobs_kept :: "('w, 'y) object_api_scheme \<Rightarrow> git_repository \<Rightarrow> 'w \<Rightarrow> 'w \<Rightarrow> bool" where
  "blobs_kept G repo w w' \<longleftrightarrow>
     (\<forall>oid data. git_blob_lookup G w repo oid = Inr data \<longrightarrow> git_blob_lookup G w' repo oid = Inr data)"

lemma blobs_kept_refl: "blobs_kept G repo w w"
  by (simp add: blobs_kept_def)

lemma blobs_kept_trans: "blobs_kept G repo w1 w2 \<Longrightarrow> blobs_kept G repo w2 w3 \<Longrightarrow> blobs_kept G repo w1 w3"
  by (simp add: blobs_kept_def)

text \<open>What the strategies ours and theirs put in the place of a conflict.\<close>

definition side_oid :: "bool \<Rightarrow> MergeConflictInfo \<Rightarrow> git_oid option" where
  "side_oid use_ours ci = (if use_ours then ours_oid ci else theirs_oid ci)"

locale conflict_index =
  fixes G :: "('w, 'y) merge_api_scheme" and repo :: git_repository and ix :: git_index and ok :: "'w \<Rightarrow> bool"
  assumes blob_create: "ok w \<Longrightarrow> git_blob_create_from_buffer G w repo data = (r, w') \<Longrightarrow>
      ok w' \<and> blobs_kept G repo w w' \<and> git_index_entries G w' ix = git_index_entries G w ix"
    and blob_created: "ok w \<Longrightarrow> git_blob_create_from_buffer G w repo data = (Inr oid, w') \<Longrightarrow>
      git_blob_lookup G w' repo oid = Inr data"
    and conflict_remove: "ok w \<Longrightarrow> git_index_conflict_remove G w ix path = (rm, w') \<Longrightarrow>
      ok w' \<and> blobs_kept G repo w w' \<and> files_of (git_index_entries G w' ix) = files_of (git_index_entries G w ix)"
    and conflict_removed: "ok w \<Longrightarrow> git_index_conflict_remove G w ix path = (rm, w') \<Longrightarrow>
      conflicted (git_index_entries G w' ix) = conflicted (git_index_entries G w ix) - {path}"
    and index_add: "ok w \<Longrightarrow> ie_stage e = 0 \<Longrightarrow> git_index_add G w ix e = (Inr u, w') \<Longrightarrow>
      ok w' \<and> blobs_kept G repo w w' \<and>
      files_of (git_index_entries G w' ix) = (files_of (git_index_entries G w ix))(ie_path e \<mapsto> ie_id e) \<and>
      conflicted (git_index_entries G w' ix) = conflicted (git_index_entries G w ix)"
    and conflicts_listed: "ok w \<Longrightarrow> git_index_conflicts G w ix = Inr cs \<Longrightarrow>
      distinct (map (ci_path \<circ> conflict_info) cs) \<and>
      set (map (ci_path \<circ> conflict_info) cs) = conflicted (git_index_entries G w ix)"
    and write_tree: "ok w \<Longrightarrow> git_index_write_tree_to G w ix repo = (tree, w') \<Longrightarrow>
      ok w' \<and> blobs_kept G repo w w' \<and> git_index_entries G w' ix = git_index_entries G w ix"
    and commit_create: "ok w \<Longrightarrow> git_commit_create G w repo upd author committer message t parents = (cres, w') \<Longrightarrow>
      blobs_kept G repo w w' \<and> git_index_entries G w' ix = git_index_entries G w ix"
begin

section \<open>Resolving paths\<close>

text \<open>A path got its contents in the index, or (without contents) its file is as before.\<close>

definition path_done :: "'w \<Rightarrow> 'w \<Rightarrow> string \<Rightarrow> bytes option \<Rightarrow> bool" where
  "path_done w w' path v \<longleftrightarrow>
     (case v of
        None \<Rightarrow> files_of (git_index_entries G w' ix) path = files_of (git_index_entries G w ix) path
      | Some data \<Rightarrow> \<exists>oid. files_of (git_index_entries G w' ix) path = Some oid \<and> git_blob_lookup G w' repo oid = Inr data)"

text \<open>From \<open>w\<close> to \<open>w'\<close> every listed path was done and lost its conflict; the other files are as before.\<close>

definition resolved :: "(string \<times> bytes option) list \<Rightarrow> 'w \<Rightarrow> 'w \<Rightarrow> bool" where
  "resolved kvs w w' \<longleftrightarrow> ok w' \<and> blobs_kept G repo w w' \<and>
     conflicted (git_index_entries G w' ix) = conflicted (git_index_entries G w ix) - set (map fst kvs) \<and>
     (\<forall>path. path \<notin> set (map fst kvs) \<longrightarrow>
        files_of (git_index_entries G w' ix) path = files_of (git_index_entries G w ix) path) \<and>
     (\<forall>(path, v) \<in> set kvs. path_done w w' path v)"

lemma resolved_Nil: "ok w \<Longrightarrow> resolved [] w w"
  by (simp add: resolved_def blobs_kept_refl)

lemma path_done_before:
  "path_done w1 w' path v \<Longrightarrow> files_of (git_index_entries G w1 ix) path = files_of (git_index_entries G w ix) path \<Longrightarrow>
   path_done w w' path v"
  by (simp add: path_done_def split: option.splits)

lemma path_done_after:
  "path_done w w1 path v \<Longrightarrow> files_of (git_index_entries G w' ix) path = files_of (git_index_entries G w1 ix) path \<Longrightarrow>
   blobs_kept G repo w1 w' \<Longrightarrow> path_done w w' path v"
  by (auto simp: path_done_def blobs_kept_def split: option.splits)

lemma resolvedD:
  assumes "resolved kvs w w'"
  shows "ok w'" and "blobs_kept G repo w w'"
    and "conflicted (git_index_entries G w' ix) = conflicted (git_index_entries G w ix) - set (map fst kvs)"
    and "path \<notin> set (map fst kvs) \<Longrightarrow>
      files_of (git_index_entries G w' ix) path = files_of (git_index_entries G w ix) path"
    and "(path, v) \<in> set kvs \<Longrightarrow> path_done w w' path v"
  using assms unfolding resolved_def by blast+

lemma resolved_Cons:
  assumes 1: "resolved [(path, v)] w w1" and 2: "resolved kvs w1 w'" and new: "path \<notin> set (map fst kvs)"
  shows "resolved ((path, v) # kvs) w w'"
proof -
  have "path_done w w' path v"
    by (rule path_done_after [OF resolvedD(5) [OF 1] resolvedD(4) [OF 2 new] resolvedD(2) [OF 2]]) simp
  moreover have "path_done w w' q u" if "(q, u) \<in> set kvs" for q u
  proof (rule path_done_before [OF resolvedD(5) [OF 2 that] resolvedD(4) [OF 1]])
    show "q \<notin> set (map fst [(path, v)])" using new that by (auto simp: image_iff)
  qed
  moreover have "files_of (git_index_entries G w' ix) q = files_of (git_index_entries G w ix) q"
    if "q \<notin> set (map fst ((path, v) # kvs))" for q
    using resolvedD(4) [OF 1, of q] resolvedD(4) [OF 2, of q] that by simp
  moreover have "conflicted (git_index_entries G w' ix) = conflicted (git_index_entries G w ix) - set (map fst ((path, v) # kvs))"
    unfolding resolvedD(3) [OF 2] resolvedD(3) [OF 1] by auto
  ultimately show ?thesis
    using resolvedD(1) [OF 2] blobs_kept_trans [OF resolvedD(2) [OF 1] resolvedD(2) [OF 2]]
    unfolding resolved_def by auto
qed

lemma run_applyResolvedContent:
  assumes "ok (world s)" and "run_state (applyResolvedContent G repo path data ix) s = (rc, t)" and "\<not> rc < 0"
  shows "\<exists>w. t = s\<lparr>world := w\<rparr> \<and> resolved [(path, Some data)] (world s) w"
proof -
  obtain r w1 where w1: "git_blob_create_from_buffer G (world s) repo data = (r, w1)" by (metis surj_pair)
  obtain oid where r: "r = Inr oid" using assms(2,3) w1 by (cases r) (auto simp: applyResolvedContent_def on_ok_Inl run_git_raise_exception_rc)
  obtain r2 w2 where w2: "git_index_conflict_remove G w1 ix path = (r2, w2)" by (metis surj_pair)
  let ?e = "\<lparr>ie_path = path, ie_id = oid, ie_mode = GIT_FILEMODE_BLOB, ie_stage = 0\<rparr>"
  obtain r3 w3 where w3: "git_index_add G w2 ix ?e = (r3, w3)" by (metis surj_pair)
  obtain u where r3: "r3 = Inr u"
    using assms(2,3) w1 w2 w3 r by (cases r3) (auto simp: applyResolvedContent_def on_ok_Inl run_git_raise_exception_rc)
  have t: "t = s\<lparr>world := w3\<rparr>" using assms(2) w1 w2 w3 r r3 by (simp add: applyResolvedContent_def)
  note 1 = blob_create [OF assms(1) w1] blob_created [OF assms(1) w1 [unfolded r]]
  note 2 = conflict_remove [OF _ w2] conflict_removed [OF _ w2]
  note 3 = index_add [OF _ _ w3 [unfolded r3]]
  from 1 2 3 have "resolved [(path, Some data)] (world s) w3"
    unfolding resolved_def path_done_def by (auto simp: blobs_kept_def)
  with t show ?thesis by blast
qed

lemma run_conflict_remove:
  "ok (world s) \<Longrightarrow> git_index_conflict_remove G (world s) ix path = (r, w) \<Longrightarrow> resolved [(path, None)] (world s) w"
  using conflict_remove [of "world s" path r w] conflict_removed [of "world s" path r w] by (simp add: resolved_def path_done_def)

text \<open>A loop whose body resolves one path (with contents that \<open>Q\<close> tells) resolves them all.\<close>

definition resolves_one ::
  "('b \<Rightarrow> string) \<Rightarrow> ('w \<Rightarrow> 'b \<Rightarrow> bytes option \<Rightarrow> bool) \<Rightarrow> (nat \<Rightarrow> 'b \<Rightarrow> ('w, 'c option) qmethod) \<Rightarrow> bool" where
  "resolves_one p Q f \<longleftrightarrow> (\<forall>i x s t. ok (world s) \<longrightarrow> run_state (f i x) s = (None, t) \<longrightarrow>
     (\<exists>v w. t = s\<lparr>world := w\<rparr> \<and> resolved [(p x, v)] (world s) w \<and> Q (world s) x v))"

definition kept_backwards :: "('w \<Rightarrow> 'b \<Rightarrow> bytes option \<Rightarrow> bool) \<Rightarrow> bool" where
  "kept_backwards Q \<longleftrightarrow> (\<forall>w w' x v. blobs_kept G repo w w' \<longrightarrow> Q w' x v \<longrightarrow> Q w x v)"

lemma run_resolving_loop:
  assumes "resolves_one p Q f" and "kept_backwards Q"
    and "distinct (map p xs)" and "ok (world s)" and "run_state (for_from f i xs) s = (None, t)"
  shows "\<exists>vs w. t = s\<lparr>world := w\<rparr> \<and> list_all2 (Q (world s)) xs vs \<and> resolved (zip (map p xs) vs) (world s) w"
  using assms(3-5)
proof (induction xs arbitrary: i s)
  case Nil
  then show ?case by (intro exI [of _ "[]"] exI [of _ "world s"]) (simp add: resolved_Nil)
next
  case (Cons x xs)
  obtain r u where u: "run_state (f i x) s = (r, u)" by (metis surj_pair)
  have r: "r = None" and rest: "run_state (for_from f (Suc i) xs) u = (None, t)"
    using Cons.prems(3) u by (cases r; simp)+
  obtain v w1 where 1: "u = s\<lparr>world := w1\<rparr>" "resolved [(p x, v)] (world s) w1" "Q (world s) x v"
    using assms(1) Cons.prems(2) u unfolding r resolves_one_def by blast
  have ok1: "ok (world u)" using 1(1) resolvedD(1) [OF 1(2)] by simp
  obtain vs w where 2: "t = u\<lparr>world := w\<rparr>" "list_all2 (Q (world u)) xs vs" "resolved (zip (map p xs) vs) (world u) w"
    using Cons.IH [OF _ ok1 rest] Cons.prems(1) by auto
  have "blobs_kept G repo (world s) (world u)" using 1(1) resolvedD(2) [OF 1(2)] by simp
  then have "Q (world s) y v'" if "Q (world u) y v'" for y v' using assms(2) that unfolding kept_backwards_def by blast
  then have all: "list_all2 (Q (world s)) (x # xs) (v # vs)" using 1(3) 2(2) by (auto elim: list_all2_mono)
  have "p x \<notin> set (map fst (zip (map p xs) vs))" using Cons.prems(1) by (auto dest: set_zip_leftD)
  moreover have "resolved (zip (map p xs) vs) w1 w" using 1(1) 2(3) by simp
  ultimately have "resolved ((p x, v) # zip (map p xs) vs) (world s) w" by (intro resolved_Cons [OF 1(2)])
  with all 1(1) 2(1) show ?case by (intro exI [of _ "v # vs"] exI [of _ w]) simp
qed

section \<open>The loops of merge\<close>

text \<open>The contents with which a side resolves a conflict.\<close>

definition side_content :: "bool \<Rightarrow> 'w \<Rightarrow> MergeConflictInfo \<Rightarrow> bytes option \<Rightarrow> bool" where
  "side_content use_ours w ci v \<longleftrightarrow>
     (case side_oid use_ours ci of
        None \<Rightarrow> v = None
      | Some oid \<Rightarrow> \<exists>data. v = Some data \<and> (\<forall>d. git_blob_lookup G w repo oid = Inr d \<longrightarrow> data = d))"

lemma kept_side_content: "kept_backwards (side_content use_ours)"
  by (auto simp: kept_backwards_def side_content_def blobs_kept_def split: option.splits)

lemma lookupBlob_quiet:
  assumes "run_state (lookupBlobContent G repo (Some oid)) s = (r, t)" and "xsink t = []"
  shows "t = s \<and> (\<exists>data. r = Some data \<and> git_blob_lookup G (world s) repo oid = Inr data)"
  using assms
  by (cases "git_blob_lookup G (world s) repo oid")
    (auto simp: lookupBlobContent_def on_ok_Inl run_git_raise_exception_rc split: if_splits)

lemma resolve_one:
  assumes "never_cancelled G"
  shows "resolves_one ci_path (side_content use_ours) (\<lambda>i ci. do {
       cancel \<leftarrow> cancelled_when (Suc i mod 10 = 0) G ''git merge resolve'';
       if cancel then ret (Some ()) else
       (case (if use_ours then ours_oid ci else theirs_oid ci) of
          Some content_oid \<Rightarrow> do {
            blob \<leftarrow> lookupBlobContent G repo (Some content_oid);
            raised \<leftarrow> exception_raised;
            if raised then ret (Some ()) else
            (case blob of
               None \<Rightarrow> ret None
             | Some b \<Rightarrow> do {
                 rc \<leftarrow> applyResolvedContent G repo (ci_path ci) b ix;
                 ret (if rc < 0 then Some () else None)
               })
          }
        | None \<Rightarrow> do {
            effect (\<lambda>w. git_index_conflict_remove G w ix (ci_path ci));
            ret None
          })
     })"
  unfolding resolves_one_def side_oid_def [symmetric]
proof (intro allI impI, goal_cases)
  case (1 i ci s t)
  show ?case
  proof (cases "side_oid use_ours ci")
    case None
    with 1(2) assms have "t = s\<lparr>world := snd (git_index_conflict_remove G (world s) ix (ci_path ci))\<rparr>" by simp
    with run_conflict_remove [OF 1(1), of "ci_path ci"] None show ?thesis
      by (intro exI [of _ None]) (simp add: side_content_def, metis surjective_pairing)
  next
    case (Some oid)
    obtain blob u where b: "run_state (lookupBlobContent G repo (Some oid)) s = (blob, u)" by (metis surj_pair)
    with 1(2) assms Some have "xsink u = []" by (auto split: if_splits)
    with lookupBlob_quiet [OF b] obtain data where u: "u = s" "blob = Some data"
        "git_blob_lookup G (world s) repo oid = Inr data" by blast
    obtain rc v where a: "run_state (applyResolvedContent G repo (ci_path ci) data ix) s = (rc, v)" by (metis surj_pair)
    with 1(2) assms Some b u \<open>xsink u = []\<close> have "\<not> rc < 0" "t = v" by (auto split: if_splits)
    with run_applyResolvedContent [OF 1(1) a] u(3) Some show ?thesis by (auto simp: side_content_def)
  qed
qed

lemma run_resolve_conflicts:
  assumes "never_cancelled G" and "ok (world s)" and "distinct (map ci_path infos)"
    and "run_state (resolve_conflicts G repo use_ours ix infos) s = (True, t)"
  shows "\<exists>vs w. t = s\<lparr>world := w\<rparr> \<and> list_all2 (side_content use_ours (world s)) infos vs \<and>
    resolved (zip (map ci_path infos) vs) (world s) w"
  using assms(4) run_resolving_loop [OF resolve_one [OF assms(1)] kept_side_content assms(3,2), where i = 0]
  by (auto simp: resolve_conflicts_def split: prod.splits)

text \<open>The answers of the resolver.\<close>

lemma apply_one:
  "resolves_one fst (\<lambda>w kv v. v = Some (snd kv)) (\<lambda>i kv. do {
     rc \<leftarrow> applyResolvedContent G repo (fst kv) (snd kv) ix;
     ret (if rc < 0 then Some () else None)
   })"
  unfolding resolves_one_def
proof (intro allI impI, goal_cases)
  case (1 i kv s t)
  obtain rc v where a: "run_state (applyResolvedContent G repo (fst kv) (snd kv) ix) s = (rc, v)" by (metis surj_pair)
  with 1(2) have "\<not> rc < 0" "t = v" by (auto split: if_splits)
  with run_applyResolvedContent [OF 1(1) a] show ?case by auto
qed

lemma run_apply_answers:
  assumes "ok (world s)" and "distinct (map fst kvs)"
    and "run_state (for_from (\<lambda>i kv. do {
       rc \<leftarrow> applyResolvedContent G repo (fst kv) (snd kv) ix;
       ret (if rc < 0 then Some () else None)
     }) 0 kvs) s = (None, t)"
  shows "\<exists>w. t = s\<lparr>world := w\<rparr> \<and> resolved (map (apsnd Some) kvs) (world s) w"
proof -
  have "kept_backwards (\<lambda>w kv v. v = Some (snd kv))" by (simp add: kept_backwards_def)
  from run_resolving_loop [OF apply_one this assms(2,1,3)] obtain vs w where
    1: "t = s\<lparr>world := w\<rparr>" "list_all2 (\<lambda>kv v. v = Some (snd kv)) kvs vs" "resolved (zip (map fst kvs) vs) (world s) w"
    by blast
  have "zip (map fst kvs) vs = map (apsnd Some) kvs"
    using 1(2) by (induction kvs vs rule: list_all2_induct) (auto simp: apsnd_def map_prod_def)
  with 1 show ?thesis by auto
qed

section \<open>The merge commit\<close>

lemma run_createMergeCommit_index:
  assumes cs: "commit_store G repo store_ok" "\<And>w. ok w \<Longrightarrow> store_ok w" and nc: "never_cancelled G" and "m_virtual s" and "ok (world s)"
    and run: "run_state (createMergeCommit G repo message ours theirs ix) s = (r, t)" and "xsink t = []"
  shows "\<exists>cid k. r = Some (git_oid_tostr G cid) \<and> git_commit_lookup G (world t) repo (Some cid) = Inr k \<and>
    git_commit_message k = committed_message message \<and> git_commit_parent_ids k = [git_commit_id ours, git_commit_id theirs] \<and>
    t = s\<lparr>world := world t, m_virtual_tree := m_virtual_tree t\<rparr> \<and> blobs_kept G repo (world s) (world t) \<and>
    git_index_entries G (world t) ix = git_index_entries G (world s) ix \<and>
    map_of (m_virtual_tree t) = files_of (git_index_entries G (world s) ix)"
proof -
  obtain tree w1 where w: "git_index_write_tree_to G (world s) ix repo = (tree, w1)" by (metis surj_pair)
  then obtain tree_oid where tree: "tree = Inr tree_oid"
    using run by (auto simp: createMergeCommit_def dest!: on_ok_quiet [OF _ assms(7)])
  from write_tree [OF assms(5) w] have 1: "ok w1" "blobs_kept G repo (world s) w1"
      "git_index_entries G w1 ix = git_index_entries G (world s) ix" by simp_all
  show ?thesis
  proof (rule run_createMergeCommit [OF cs(1) nc assms(4) w [unfolded tree] cs(2) [OF 1(1)] run assms(7)], goal_cases)
    case (1 cid k)
    then obtain upd sig tr where c: "git_commit_create G w1 repo upd sig sig message tr [ours, theirs] = (Inr cid, world t)"
      by blast
    from commit_create [OF \<open>ok w1\<close> c] 1 \<open>blobs_kept G repo (world s) w1\<close>
        \<open>git_index_entries G w1 ix = git_index_entries G (world s) ix\<close> show ?case
      by (intro exI [of _ cid] exI [of _ k]) (auto simp: files_of_def intro: blobs_kept_trans)
  qed
qed

text \<open>What the merged index has at a path with contents, seen from the state after the commit.\<close>

lemma content_staged:
  assumes "path_done w w' path (Some data)" and "blobs_kept G repo w' w''"
  shows "\<exists>oid. files_of (git_index_entries G w' ix) path = Some oid \<and> git_blob_lookup G w'' repo oid = Inr data"
  using assms by (auto simp: path_done_def blobs_kept_def)

text \<open>Once every conflict is resolved with a side and the index is committed, the virtual tree has the side.\<close>

lemma sides_committed:
  assumes unmerged: "conflicts_unmerged (git_index_entries G w0 ix)" and paths: "ci_path ` set infos = conflicted (git_index_entries G w0 ix)"
    and sides: "list_all2 (side_content use_ours w0) infos vs" and all: "resolved (zip (map ci_path infos) vs) w0 w"
    and kept: "blobs_kept G repo w (world t)" and same: "git_index_entries G (world t) ix = git_index_entries G w ix"
    and vt: "map_of (m_virtual_tree t) = files_of (git_index_entries G w ix)"
  shows "ci \<in> set infos \<Longrightarrow> (case side_oid use_ours ci of
      None \<Rightarrow> map_of (m_virtual_tree t) (ci_path ci) = None
    | Some oid \<Rightarrow> \<forall>data. git_blob_lookup G w0 repo oid = Inr data \<longrightarrow> staged_content G repo t (ci_path ci) data)"
    and "path \<notin> ci_path ` set infos \<Longrightarrow> map_of (m_virtual_tree t) path = files_of (git_index_entries G w0 ix) path"
    and "conflicted (git_index_entries G (world t) ix) = {}"
proof -
  have len: "length vs = length infos" using list_all2_lengthD [OF sides] by simp
  show "path \<notin> ci_path ` set infos \<Longrightarrow> map_of (m_virtual_tree t) path = files_of (git_index_entries G w0 ix) path"
    using resolvedD(4) [OF all, of path] len by (auto simp: vt dest!: set_zip_leftD)
  show "conflicted (git_index_entries G (world t) ix) = {}"
    using paths len by (simp add: same resolvedD(3) [OF all])
  assume ci: "ci \<in> set infos"
  obtain i where i: "i < length infos" "ci = infos ! i" using ci by (metis in_set_conv_nth)
  have side: "side_content use_ours w0 ci (vs ! i)" using list_all2_nthD [OF sides i(1)] i(2) by simp
  have "(ci_path ci, vs ! i) \<in> set (zip (map ci_path infos) vs)" using i len by (auto simp: in_set_zip intro!: exI [of _ i])
  note path_done = resolvedD(5) [OF all this]
  show "case side_oid use_ours ci of
      None \<Rightarrow> map_of (m_virtual_tree t) (ci_path ci) = None
    | Some oid \<Rightarrow> \<forall>data. git_blob_lookup G w0 repo oid = Inr data \<longrightarrow> staged_content G repo t (ci_path ci) data"
  proof (cases "side_oid use_ours ci")
    case None
    then have v: "vs ! i = None" using side by (simp add: side_content_def)
    have "ci_path ci \<in> conflicted (git_index_entries G w0 ix)" using paths ci by blast
    with unmerged path_done None show ?thesis by (simp add: conflicts_unmerged_def v path_done_def vt)
  next
    case (Some oid)
    have "staged_content G repo t (ci_path ci) data" if "git_blob_lookup G w0 repo oid = Inr data" for data
    proof -
      have v: "vs ! i = Some data" using side Some that by (auto simp: side_content_def)
      from content_staged [OF path_done [unfolded v] kept] show ?thesis by (auto simp: staged_content_def vt)
    qed
    with Some show ?thesis by simp
  qed
qed

end

lemma conflict_index_cong:
  assumes "conflict_index G repo ix fit"
    and "git_blob_lookup G' = git_blob_lookup G" and "git_blob_create_from_buffer G' = git_blob_create_from_buffer G"
    and "git_index_entries G' = git_index_entries G" and "git_index_conflicts G' = git_index_conflicts G"
    and "git_index_conflict_remove G' = git_index_conflict_remove G" and "git_index_add G' = git_index_add G"
    and "git_index_write_tree_to G' = git_index_write_tree_to G" and "git_commit_create G' = git_commit_create G"
  shows "conflict_index G' repo ix fit"
  using assms(1) unfolding conflict_index_def blobs_kept_def assms(2-9) .

end
