(* ===== verification/Memory_Index.thy ===== *)
theory Memory_Index
  imports Merge_Index
begin

text \<open>
  The merge index of \<open>Memory_Api\<close> meets the contract of \<open>Merge_Index\<close>, and a repository whose merge has one
  conflict: what the witnesses of the theorems about conflicts run on.
\<close>

section \<open>The memory index\<close>

text \<open>The stages are those of git.\<close>

definition index_ok :: "(string \<times> nat \<times> git_oid) list \<Rightarrow> bool" where
  "index_ok es \<longleftrightarrow> (\<forall>(p, st, x) \<in> set es. st \<le> 3)"

definition mem_fit :: "mem_world \<Rightarrow> bool" where
  "mem_fit w \<longleftrightarrow> mem_ok w \<and> index_ok (mw_index w)"

lemma mem_fit_ok: "mem_fit w \<Longrightarrow> mem_ok w"
  by (simp add: mem_fit_def)

lemma index_ok_filter: "index_ok es \<Longrightarrow> index_ok (filter P es)"
  unfolding index_ok_def by fastforce

lemma index_ok_add: "index_ok es \<Longrightarrow> index_ok (filter P es @ [(path, 0, oid)])"
  unfolding index_ok_def by fastforce

lemma mem_files:
  "files_of (mem_index_entries w) =
     map_of (rev (map (\<lambda>(p, st, oid). (p, oid)) (filter (\<lambda>(p, st, oid). st = 0) (mw_index w))))"
proof -
  have "index_files (map (\<lambda>(path, stage, oid).
       Some \<lparr>ie_path = path, ie_id = oid, ie_mode = GIT_FILEMODE_BLOB, ie_stage = stage\<rparr>) es) =
     map (\<lambda>(p, st, oid). (p, oid)) (filter (\<lambda>(p, st, oid). st = 0) es)" for es
    by (induction es) auto
  then show ?thesis by (simp add: files_of_def mem_index_entries_def)
qed

lemma mem_conflicted: "conflicted (mem_index_entries w) = {p. \<exists>st oid. (p, st, oid) \<in> set (mw_index w) \<and> st \<noteq> 0}"
  by (force simp: conflicted_def mem_index_entries_def)

lemma mem_conflict_paths_set: "set (mem_conflict_paths w) = conflicted (mem_index_entries w)"
  by (force simp: mem_conflicted mem_conflict_paths_def)

lemma stage0_except:
  "(map_of (rev (map (\<lambda>(p, st, y). (p, y)) (filter (\<lambda>x. (case x of (p, stage, oid) \<Rightarrow> p = path \<longrightarrow> 0 < stage) \<and>
      (case x of (p, st, oid) \<Rightarrow> st = 0)) es))))(path \<mapsto> v) =
   (map_of (rev (map (\<lambda>(p, st, y). (p, y)) (filter (\<lambda>(p, st, oid). st = 0) es))))(path \<mapsto> v)"
proof (induction es rule: rev_induct)
  case (snoc e es)
  then show ?case by (cases e) (auto simp: fun_eq_iff map_add_def split: if_splits)
qed simp

lemma mem_index_at_path: "mem_index_at w p n = Some e \<Longrightarrow> ie_path e = p"
  by (auto simp: mem_index_at_def find_Some_iff)

lemma mem_index_at_None: "mem_index_at w p n = None \<longleftrightarrow> (\<forall>oid. (p, n, oid) \<notin> set (mw_index w))"
  by (auto simp: mem_index_at_def find_None_iff)

lemma mem_conflict_path:
  assumes "index_ok (mw_index w)" and "p \<in> set (mem_conflict_paths w)"
  shows "ci_path (conflict_info (mem_index_at w p 1, mem_index_at w p 2, mem_index_at w p 3)) = p"
proof -
  obtain st oid where e: "(p, st, oid) \<in> set (mw_index w)" "st \<noteq> 0" using assms(2) by (auto simp: mem_conflict_paths_set mem_conflicted)
  with assms(1) have "st \<le> 3" by (fastforce simp: index_ok_def)
  with e(2) have "st \<in> {1, 2, 3}" by auto
  with e(1) have "mem_index_at w p 1 \<noteq> None \<or> mem_index_at w p 2 \<noteq> None \<or> mem_index_at w p 3 \<noteq> None"
    by (auto simp: mem_index_at_None)
  then show ?thesis by (auto simp: conflict_info_def mem_index_at_path split: option.splits)
qed

lemma mem_write_index: "mem_write H w type data = (r, w') \<Longrightarrow> mw_index w' = mw_index w"
  by (auto simp: mem_write_def Let_def split: sum.splits if_splits)

lemma mem_commit_create_index: "mem_commit_create H w ref a msg tree ps = (r, w') \<Longrightarrow> mw_index w' = mw_index w"
  by (auto simp: mem_commit_create_def mem_ref_write_def Let_def mem_write_index
      dest!: mem_write_index split: if_splits sum.splits prod.splits)

lemma mem_index_api [simp]:
  "git_blob_lookup (mem_merge_api H depth) w repo = mem_read w GIT_OBJECT_BLOB"
  "git_index_entries (mem_merge_api H depth) w ix = mem_index_entries w"
  "git_index_conflicts (mem_merge_api H depth) w ix =
     Inr (map (\<lambda>p. (mem_index_at w p 1, mem_index_at w p 2, mem_index_at w p 3)) (mem_conflict_paths w))"
  "git_index_conflict_remove (mem_merge_api H depth) w ix path = (Inr (), mem_conflict_remove path w)"
  "git_index_add (mem_merge_api H depth) w ix e = (Inr (), mem_index_add w e)"
  "git_index_write_tree_to (mem_merge_api H depth) w ix repo = mem_index_write_tree H w"
  "git_commit_create (mem_merge_api H depth) w repo ref author committer message tree parents =
     mem_commit_create H w ref author message tree parents"
  by (simp_all add: mem_full_defs)

lemma blobs_kept_mem:
  "blobs_kept (mem_merge_api H depth) repo w w' \<longleftrightarrow>
     (\<forall>oid data. mem_read w GIT_OBJECT_BLOB oid = Inr data \<longrightarrow> mem_read w' GIT_OBJECT_BLOB oid = Inr data)"
  by (simp add: blobs_kept_def)

interpretation mem_index: conflict_index "mem_merge_api H depth" repo ix mem_fit for H depth repo ix
proof (unfold_locales, goal_cases)
  case (1 w data r w')
  then show ?case
    using mem_write_keeps [of w H GIT_OBJECT_BLOB data r w']
    by (auto simp: mem_fit_def blobs_kept_mem mem_index_entries_def mem_write_index dest: mem_write_ok)
next
  case (2 w data oid w')
  then show ?case by (auto simp: mem_fit_def dest: mem_write_read)
next
  case (3 w path rm w')
  then have w': "w' = mem_conflict_remove path w" and fit: "mem_fit w" by simp_all
  have "filter (\<lambda>(p, st, oid). st = 0) (mw_index w') = filter (\<lambda>(p, st, oid). st = 0) (mw_index w)"
    unfolding w' mem_conflict_remove_def by (auto intro: filter_cong)
  then have "files_of (mem_index_entries w') = files_of (mem_index_entries w)" by (simp only: mem_files)
  with fit show ?case
    by (auto simp: w' mem_fit_def blobs_kept_mem mem_read_def mem_ok_def mem_conflict_remove_def index_ok_filter)
next
  case (4 w path rm w')
  then show ?case by (fastforce simp: mem_conflicted mem_conflict_remove_def)
next
  case (5 w e u w')
  then have w': "w' = mem_index_add w e" and fit: "mem_fit w" and st: "ie_stage e = 0" by simp_all
  have "conflicted (mem_index_entries w') = conflicted (mem_index_entries w)"
    using st unfolding w' by (fastforce simp: mem_conflicted mem_index_add_def)
  with fit st show ?case
    by (auto simp: w' mem_fit_def blobs_kept_mem mem_read_def mem_ok_def mem_index_add_def index_ok_add mem_files
        stage0_except)
next
  case (6 w cs)
  then have "map (ci_path \<circ> conflict_info) cs = mem_conflict_paths w"
    by (auto simp: mem_fit_def mem_conflict_path [unfolded One_nat_def] intro!: map_idI)
  then show ?case by (simp add: mem_conflict_paths_set) (simp add: mem_conflict_paths_def)
next
  case (7 w tree w')
  then have "mem_index_write_tree H w = (tree, w')" by simp
  then consider "w' = w" | data r where "mem_write H w GIT_OBJECT_TREE data = (r, w')"
    by (auto simp: mem_index_write_tree_def mem_tree_write_def split: sum.splits if_splits)
  then show ?case
  proof cases
    case 1
    with 7(1) show ?thesis by (simp add: blobs_kept_refl)
  next
    case 2
    with 7(1) mem_write_keeps [of w H GIT_OBJECT_TREE data r w'] show ?thesis
      by (auto simp: mem_fit_def blobs_kept_mem mem_index_entries_def mem_write_index dest: mem_write_ok)
  qed
next
  case (8 w upd author committer message t parents cres w')
  then have c: "mem_commit_create H w upd author message t parents = (cres, w')" by simp
  have ok: "mem_ok w" using 8(1) by (simp add: mem_fit_def)
  from ok c have "blobs_kept (mem_merge_api H depth) repo w w'"
  proof (cases rule: mem_create_cases)
    case (written w1 r1 data)
    with mem_write_keeps [OF ok written(1)] show ?thesis by (simp add: blobs_kept_mem mem_read_odb [OF written(3)])
  qed (simp add: blobs_kept_refl)
  with c show ?case by (simp add: mem_index_entries_def mem_commit_create_index)
qed

section \<open>A merge with a conflict\<close>

text \<open>Both sides have the file of the first commit in the ancestor; theirs deleted it.\<close>

definition conflict_world :: mem_world where
  "conflict_world = one_commit\<lparr>mw_index := [(''a'', 1, 1), (''a'', 2, 1), (''b'', 0, 1)]\<rparr>"

definition conflict_api :: "mem_world merge_api" where
  "conflict_api = (mem_merge_api typed_hash 9)\<lparr>git_annotated_commit_lookup := \<lambda>w repo oid. Inr 0,
     git_merge_analysis := \<lambda>w repo ann. Inr \<lparr>analysis_up_to_date = False, analysis_fastforward = False\<rparr>,
     git_merge_commits := \<lambda>w repo ours theirs favor. (Inr 0, conflict_world)\<rparr>"

lemma conflict_api_simps [simp]:
  "git_revparse_single conflict_api w repo = mem_revparse w"
  "git_commit_lookup conflict_api w repo = mem_commit_lookup w"
  "git_repository_head conflict_api w repo = mem_head w"
  "git_annotated_commit_lookup conflict_api w repo oid = Inr 0"
  "git_merge_analysis conflict_api w repo ann = Inr \<lparr>analysis_up_to_date = False, analysis_fastforward = False\<rparr>"
  "git_merge_commits conflict_api w repo ours theirs favor = (Inr 0, conflict_world)"
  "git_index_has_conflicts conflict_api w ix \<longleftrightarrow> mem_conflict_paths w \<noteq> []"
  "git_index_conflicts conflict_api w ix =
     Inr (map (\<lambda>p. (mem_index_at w p 1, mem_index_at w p 2, mem_index_at w p 3)) (mem_conflict_paths w))"
  "git_index_conflict_remove conflict_api w ix path = (Inr (), mem_conflict_remove path w)"
  "git_index_add conflict_api w ix e = (Inr (), mem_index_add w e)"
  "git_index_entries conflict_api w ix = mem_index_entries w"
  "git_index_write_tree_to conflict_api w ix repo = mem_index_write_tree typed_hash w"
  "git_blob_lookup conflict_api w repo = mem_read w GIT_OBJECT_BLOB"
  "git_blob_create_from_buffer conflict_api w repo = mem_write typed_hash w GIT_OBJECT_BLOB"
  "git_tree_lookup conflict_api w repo = mem_tree_lookup w"
  "git_signature_now conflict_api w name email = Inr \<lparr>sig_name = name, sig_email = email, sig_when = 0\<rparr>"
  "git_reference_lookup conflict_api w repo = mem_reference_lookup w"
  "git_commit_create conflict_api w repo r author committer message tree parents =
     mem_commit_create typed_hash w r author message tree parents"
  "git_oid_tostr conflict_api = hex_of_oid"
  "malloc_ok conflict_api n"
  "never_cancelled conflict_api"
  by (simp_all add: conflict_api_def mem_full_defs never_cancelled_def)

lemma conflict_store: "commit_store conflict_api 0 mem_ok"
  by (rule commit_store_cong [OF mem_commits.commit_store_axioms [of typed_hash 9]])
    (simp add: conflict_api_def mem_full_defs repo_api.truncate_def)

lemma conflict_api_index: "conflict_index conflict_api 0 0 mem_fit"
  by (rule conflict_index_cong [OF mem_index.conflict_index_axioms [of typed_hash 9]])
    (simp_all add: conflict_api_def)

lemma conflict_inputs:
  "merge_inputs conflict_api one_commit 0 ''main'' first_commit first_commit
     \<lparr>analysis_up_to_date = False, analysis_fastforward = False\<rparr>"
  by (simp add: merge_inputs_def one_commit_revparse one_commit_lookup one_commit_head git_reference_target_def)

lemma conflict_world_simps [simp]:
  "mem_fit conflict_world" "conflicts_unmerged (mem_index_entries conflict_world)" "mem_conflict_paths conflict_world = [''a'']"
  "mem_read conflict_world GIT_OBJECT_BLOB 1 = Inr [7, 8]"
  "mem_reference_lookup conflict_world n = mem_reference_lookup one_commit n"
  "mw_odb conflict_world = mw_odb one_commit"
  "mw_refdb conflict_world = mw_refdb one_commit"
  "mw_index conflict_world = [(''a'', 1, 1), (''a'', 2, 1), (''b'', 0, 1)]"
  using one_commit_ok one_commit_read(1)
  by (simp_all add: conflict_world_def conflicts_unmerged_def mem_conflicted mem_files mem_fit_def mem_ok_def index_ok_def mem_conflict_paths_def mem_read_def
      mem_reference_lookup_def)

lemma conflict_of_a:
  "conflict_info (mem_index_at conflict_world ''a'' (Suc 0), mem_index_at conflict_world ''a'' 2,
     mem_index_at conflict_world ''a'' 3) =
   \<lparr>ci_path = ''a'', ancestor_oid = Some 1, ours_oid = Some 1, theirs_oid = None\<rparr>"
  by (simp add: conflict_info_def mem_index_at_def)

text \<open>The world once the conflict is resolved with two bytes.\<close>

definition resolved_world :: "bytes \<Rightarrow> mem_world \<Rightarrow> bool" where
  "resolved_world data w \<longleftrightarrow> mem_ok w \<and> mw_index w = [(''b'', 0, 1), (''a'', 0, 22)] \<and> mw_refdb w = mw_refdb one_commit \<and>
     odb_abs mem_odb_T (mw_odb w) =
       (odb_abs mem_odb_T (mw_odb one_commit))(22 \<mapsto> \<lparr>odb_data = data, odb_type = GIT_OBJECT_BLOB\<rparr>)"

lemma content_applied:
  assumes "length data = 2"
  shows "\<exists>w. run_state (applyResolvedContent conflict_api 0 ''a'' data 0) (mem_object_state\<lparr>m_lock := True, world := conflict_world\<rparr>) =
    (0, mem_object_state\<lparr>m_lock := True, world := w\<rparr>) \<and> resolved_world data w"
  using one_commit_ok assms
  by (simp add: applyResolvedContent_def resolved_world_def mem_object_state_def blank_def mem_write_fresh one_commit_ids
      typed_hash_def tag_of_type_def mem_index_add_def mem_conflict_remove_def mem_ok_def)

lemma resolution_commits:
  assumes "resolved_world data w"
  shows "\<exists>c t. run_state (createMergeCommit conflict_api 0 ''Merge main'' first_commit first_commit 0)
    (mem_object_state\<lparr>m_lock := True, world := w\<rparr>) = (Some c, t) \<and> xsink t = []"
proof -
  note w = assms [unfolded resolved_world_def]
  let ?es = "[blob_for ''a'' 22, blob_for ''b'' 1]"
  have b: "mem_index_tree (mw_index w) [] = Inr ?es"
    by (simp add: w mem_tree_insert_def blob_for_def type_of_mode_def)
  have tw: "wf_entries ?es" by (simp add: wf_entries_def blob_for_def)
  let ?tid = "typed_hash GIT_OBJECT_TREE (put_tree ?es)"
  let ?sig = "\<lparr>sig_name = ''Virtual User'', sig_email = ''virtual@example.com'', sig_when = 0\<rparr>"
  let ?data = "put_commit (?tid, [3, 3], ''Merge main'', ''Virtual User'', ''virtual@example.com'')"
  let ?tree = "\<lparr>git_tree_id = ?tid, tree_entries = ?es\<rparr>"
  have tid: "?tid \<notin> {1, 2, 3, 22}" by (simp add: typed_hash_def tag_of_type_def blob_for_def)
  have cid: "typed_hash GIT_OBJECT_COMMIT ?data \<notin> {1, 2, 3, 22, ?tid}"
    by (simp add: typed_hash_def tag_of_type_def blob_for_def)
  have new: "odb_abs mem_odb_T (mw_odb w) ?tid = None" using tid by (auto simp: w one_commit_ids)
  obtain w1 where w1: "mem_write typed_hash w GIT_OBJECT_TREE (put_tree ?es) = (Inr ?tid, w1)"
      and abs: "odb_abs mem_odb_T (mw_odb w1) = (odb_abs mem_odb_T (mw_odb w))(?tid \<mapsto> \<lparr>odb_data = put_tree ?es, odb_type = GIT_OBJECT_TREE\<rparr>)"
    by (rule mem_write_new [of w typed_hash GIT_OBJECT_TREE, OF new])
  have refs: "mem_reference_lookup w n = mem_reference_lookup one_commit n"
      "mem_reference_lookup w1 n = mem_reference_lookup one_commit n" for n
    by (simp_all add: mem_reference_lookup_def mem_write_refdb [OF w1] w)
  have tree: "mem_tree_lookup w1 ?tid = Inr ?tree"
    using mem_write_read [OF conjunct1 [OF w] w1] by (simp add: mem_tree_lookup_def tree.get_put_end wf_entries_def blob_for_def)
  have new: "odb_abs mem_odb_T (mw_odb w1) (typed_hash GIT_OBJECT_COMMIT ?data) = None"
    using cid by (auto simp: abs w one_commit_ids)
  obtain w2 where w2: "mem_write typed_hash w1 GIT_OBJECT_COMMIT ?data = (Inr (typed_hash GIT_OBJECT_COMMIT ?data), w2)"
    by (rule mem_write_new [of w1 typed_hash GIT_OBJECT_COMMIT, OF new])
  obtain w3 where "mem_ref_write w2 ''refs/heads/main'' (Direct (typed_hash GIT_OBJECT_COMMIT ?data)) True =
        (Inr \<lparr>git_reference_name = ''refs/heads/main'', reference_target = Direct (typed_hash GIT_OBJECT_COMMIT ?data)\<rparr>, w3)"
    by (rule mem_ref_write_force [OF mem_write_ok [OF mem_write_ok [OF conjunct1 [OF w] w1] w2]])
  then have c: "mem_commit_create typed_hash w1 ''refs/heads/main'' ?sig ''Merge main'' ?tree [first_commit, first_commit] =
     (Inr (typed_hash GIT_OBJECT_COMMIT ?data), w3)"
    using w2 by (simp add: mem_commit_create_def mem_update_target_def refs one_commit_refs first_commit_def Let_def)
  show ?thesis
   using c w1 tree tw by (simp add: createMergeCommit_def mem_object_state_def blank_def mem_index_write_tree_def b mem_tree_write_def 
    ref_to_update_def refs one_commit_refs overrideSignatureFromConfig_def
    populateVirtualTreeFromIndex_def run_index_loop)
qed

end
