(* ===== verification/Merge_Strategies.thy ===== *)
theory Merge_Strategies
  imports Memory_Index
begin

text \<open>The strategies ours and theirs: what a merge commits that resolves its conflicts with one side.\<close>

lemma run_conflict_loop:
  "never_cancelled G \<Longrightarrow> run_state (for_from (\<lambda>i c. do {
       cancel \<leftarrow> cancelled_when (Suc i mod 100 = 0) G ''git merge'';
       ret (if cancel then Some () else None)
     }) i cs) s = (None, s)"
  by (induction cs arbitrary: i) simp_all

text \<open>C17: the strategies ours and theirs. A merge with conflicts in a virtual repository that returns a result
  under one of them (where no conflicting path also has a merged entry) has resolved every conflict with that side: each conflicting path that the side
  has now is staged with exactly the contents of the side, each one that the side deleted is not
  staged, and all other files are those of the merge index. No conflict is left, the result lists all
  conflicting paths as resolved, and names a commit in the store with the configured message
  (as \<open>git_commit_message\<close> returns it) and
  both parents; nothing else of the object changed.\<close>

theorem strategies_take_one_side:
  fixes G :: "('w, 'y) merge_api_scheme" and s :: "'w qgit"
  assumes "commit_store G repo ok" and "conflict_index G repo ix fit" and "\<And>w. fit w \<Longrightarrow> ok w" and "never_cancelled G"
    and "\<not> m_lock s" and "m_repo s = Some repo" and "m_virtual s"
    and "merge_strategy opts = (if use_ours then ''ours'' else ''theirs'')" and "\<not> merge_no_commit opts"
    and "merge_inputs G (world s) repo ref ours theirs analysis"
    and "\<not> analysis_up_to_date analysis" and "\<not> analysis_fastforward analysis"
    and "git_merge_commits G (world s) repo ours theirs (merge_favor (merge_strategy opts)) = (Inr ix, w0)" and "fit w0"
    and "conflicts_unmerged (git_index_entries G w0 ix)"
    and "git_index_has_conflicts G w0 ix" and "git_index_conflicts G w0 ix = Inr cs"
    and "run_state (merge G ref opts) s = (Some res, t)"
  shows "\<exists>cid k.
    res = merge_result False False True (Some (QString (git_oid_tostr G cid))) [] (map (ci_path \<circ> conflict_info) cs) \<and>
    git_commit_lookup G (world t) repo (Some cid) = Inr k \<and> git_commit_message k = committed_message (merge_message opts ref) \<and>
    git_commit_parent_ids k = [git_commit_id ours, git_commit_id theirs] \<and>
    t = s\<lparr>world := world t, m_virtual_tree := m_virtual_tree t\<rparr> \<and>
    conflicted (git_index_entries G (world t) ix) = {} \<and>
    (\<forall>ci \<in> conflict_info ` set cs. case side_oid use_ours ci of
       None \<Rightarrow> map_of (m_virtual_tree t) (ci_path ci) = None
     | Some oid \<Rightarrow> \<forall>data. git_blob_lookup G w0 repo oid = Inr data \<longrightarrow>
         staged_content G repo t (ci_path ci) data) \<and>
    (\<forall>path. path \<notin> ci_path ` conflict_info ` set cs \<longrightarrow>
       map_of (m_virtual_tree t) path = files_of (git_index_entries G w0 ix) path)"
proof -
  let ?infos = "map conflict_info cs" and ?message = "merge_message opts ref" and ?s = "s\<lparr>m_lock := True, world := w0\<rparr>"
  note ix = assms(2)
  have strategy: "merge_strategy opts \<in> {''ours'', ''theirs''}" "(merge_strategy opts = ''ours'') = use_ours"
    using assms(8) by auto
  have valid: "valid_options opts" using strategy(1) by (auto simp: valid_options_def)
  obtain all u where r: "run_state (resolve_conflicts G repo use_ours ix ?infos) ?s = (all, u)" by (metis surj_pair)
  obtain c v where c: "run_state (createMergeCommit G repo ?message ours theirs ix) u = (c, v)" by (metis surj_pair)
  have inputs: "merge_inputs G (world (s\<lparr>m_lock := True\<rparr>)) repo ref ours theirs analysis" using assms(10) by simp
  have analyse: "run_state (merge_analyse G ref (merge_strategy opts) (merge_no_commit opts) ?message repo)
      (s\<lparr>m_lock := True\<rparr>) =
      (if all then (Finished (if xsink v \<noteq> [] then None
         else Some (merge_result False False True (Some (qstring_option c)) [] (map ci_path ?infos))), v)
       else (Finished None, u))"
    using run_merge_analyse [OF inputs] assms(9,11-13,16,17) r c strategy
    by (auto simp: merge_normal_def Let_def run_conflict_loop [OF assms(4)] merge_finish_def)
  let ?res = "merge_result False False True (Some (qstring_option c)) [] (map ci_path ?infos)"
  let ?r = "if all \<and> xsink v = [] then Some ?res else None" and ?t = "if all then v else u"
  from analyse have "run_state (merge_analyse G ref (merge_strategy opts) (merge_no_commit opts) ?message repo)
      (s\<lparr>m_lock := True\<rparr>) = (Finished ?r, ?t)" by simp
  from run_merge [OF assms(5,6) valid this] assms(18) have "?r = Some res" "t = ?t\<lparr>m_lock := False\<rparr>" by simp_all
  then have fin: "all" "xsink v = []" "t = v\<lparr>m_lock := False\<rparr>" "res = ?res" by (simp_all split: if_splits)
  have listed: "distinct (map ci_path ?infos)" "ci_path ` set ?infos = conflicted (git_index_entries G w0 ix)"
    using conflict_index.conflicts_listed [OF ix assms(14,17)] by (simp_all add: image_image)
  obtain vs w where u: "u = ?s\<lparr>world := w\<rparr>"
    and sides: "list_all2 (conflict_index.side_content G repo use_ours w0) ?infos vs"
    and resolved: "conflict_index.resolved G repo ix fit (zip (map ci_path ?infos) vs) w0 w"
    using conflict_index.run_resolve_conflicts [OF ix assms(4) _ listed(1), of ?s use_ours u] assms(14) r fin(1) by auto
  obtain cid k where commit: "c = Some (git_oid_tostr G cid)" "git_commit_lookup G (world v) repo (Some cid) = Inr k"
      "git_commit_message k = committed_message ?message" "git_commit_parent_ids k = [git_commit_id ours, git_commit_id theirs]"
      "v = u\<lparr>world := world v, m_virtual_tree := m_virtual_tree v\<rparr>" "blobs_kept G repo w (world v)"
      "git_index_entries G (world v) ix = git_index_entries G w ix"
      "map_of (m_virtual_tree v) = files_of (git_index_entries G w ix)"
    using conflict_index.run_createMergeCommit_index [OF ix assms(1,3,4) _ _ c fin(2)] assms(7) conflict_index.resolvedD(1) [OF ix resolved]
    by (auto simp: u)
  have t: "t = s\<lparr>world := world t, m_virtual_tree := m_virtual_tree t\<rparr>"
    using commit(5) assms(5) unfolding fin(3) u by (cases s, cases v) simp
  have vt: "map_of (m_virtual_tree t) = files_of (git_index_entries G w ix)" "world t = world v"
    using commit(8) by (simp_all add: fin(3))
  note sides = conflict_index.sides_committed [OF ix assms(15) listed(2) sides resolved
      commit(6,7) [folded vt(2)] vt(1)]
  from commit(1-4) sides t fin(4) show ?thesis
    by (intro exI [of _ cid] exI [of _ k]) (simp add: vt(2) qstring_option_def image_image)
qed

definition ours_options :: "'w merge_hash" where
  "ours_options = detect_options\<lparr>opt_strategy := QString ''ours''\<rparr>"

lemma ours_options_simps [simp]: "valid_options ours_options" "merge_strategy ours_options = ''ours''"
    "\<not> merge_no_commit ours_options" "merge_message ours_options ref = ''Merge '' @ ref"
  by (simp_all add: valid_options_def merge_strategy_def merge_no_commit_def merge_message_def ours_options_def detect_options_def)

lemma ours_merges:
  "\<exists>res t. run_state (merge conflict_api ''main'' ours_options) (mem_object_state\<lparr>world := one_commit\<rparr>) = (Some res, t)"
proof -
  let ?s = "mem_object_state\<lparr>world := one_commit\<rparr>"
  let ?l = "?s\<lparr>m_lock := True\<rparr>"
  have s: "\<not> m_lock ?s" "m_repo ?s = Some 0" by (simp_all add: mem_object_state_def blank_def)
  have inputs: "merge_inputs conflict_api (world ?l) 0 ''main'' first_commit first_commit
      \<lparr>analysis_up_to_date = False, analysis_fastforward = False\<rparr>" by (simp add: conflict_inputs)
  obtain w where r: "run_state (applyResolvedContent conflict_api 0 ''a'' [7, 8] 0)
      (mem_object_state\<lparr>m_lock := True, world := conflict_world\<rparr>) = (0, mem_object_state\<lparr>m_lock := True, world := w\<rparr>)"
    and w: "resolved_world [7, 8] w" using content_applied [of "[7, 8]"] by auto
  have quiet: "xsink mem_object_state = []" by (simp add: mem_object_state_def blank_def)
  obtain c t where "run_state (createMergeCommit conflict_api 0 ''Merge main'' first_commit first_commit 0)
      (mem_object_state\<lparr>m_lock := True, world := w\<rparr>) = (Some c, t)" "xsink t = []"
    using resolution_commits [OF w] by blast
  then have "\<exists>res t. run_state (merge_analyse conflict_api ''main'' (merge_strategy ours_options) (merge_no_commit ours_options)
      (merge_message ours_options ''main'') 0) ?l = (Finished (Some res), t)"
    unfolding run_merge_analyse [OF inputs]
    using r quiet by (simp add: merge_normal_def Let_def run_conflict_loop conflict_of_a merge_finish_def
        resolve_conflicts_def lookupBlobContent_def)
  then show ?thesis using run_merge [OF s ours_options_simps(1)] by blast
qed

theorem strategies_take_one_side_witness:
  "\<exists>t. staged_content conflict_api 0 t ''a'' [7, 8] \<and> map_of (m_virtual_tree t) ''b'' = Some 1 \<and>
     conflicted (git_index_entries conflict_api (world t) 0) = {}"
proof -
  let ?s = "mem_object_state\<lparr>world := one_commit\<rparr>"
  obtain res t where run: "run_state (merge conflict_api ''main'' ours_options) ?s = (Some res, t)"
    using ours_merges by blast
  have w: "world ?s = one_commit" by simp
  have s: "\<not> m_lock ?s" "m_repo ?s = Some 0" "m_virtual ?s" by (simp_all add: mem_object_state_def blank_def)
  have b: "files_of (git_index_entries conflict_api conflict_world 0) ''b'' = Some 1"
    by (simp add: mem_files)
  let ?cs = "[(mem_index_at conflict_world ''a'' 1, mem_index_at conflict_world ''a'' 2, mem_index_at conflict_world ''a'' 3)]"
  have "\<exists>cid k.
    res = merge_result False False True (Some (QString (git_oid_tostr conflict_api cid))) [] (map (ci_path \<circ> conflict_info) ?cs) \<and>
    git_commit_lookup conflict_api (world t) 0 (Some cid) = Inr k \<and>
    git_commit_message k = committed_message (merge_message (ours_options :: mem_world merge_hash) ''main'') \<and>
    git_commit_parent_ids k = [git_commit_id first_commit, git_commit_id first_commit] \<and>
    t = ?s\<lparr>world := world t, m_virtual_tree := m_virtual_tree t\<rparr> \<and>
    conflicted (git_index_entries conflict_api (world t) 0) = {} \<and>
    (\<forall>ci \<in> conflict_info ` set ?cs. case side_oid True ci of
       None \<Rightarrow> map_of (m_virtual_tree t) (ci_path ci) = None
     | Some oid \<Rightarrow> \<forall>data. git_blob_lookup conflict_api conflict_world 0 oid = Inr data \<longrightarrow>
         staged_content conflict_api 0 t (ci_path ci) data) \<and>
    (\<forall>path. path \<notin> ci_path ` conflict_info ` set ?cs \<longrightarrow>
       map_of (m_virtual_tree t) path = files_of (git_index_entries conflict_api conflict_world 0) path)"
    by (rule strategies_take_one_side [OF conflict_store conflict_api_index mem_fit_ok conflict_api_simps(21) s, where
        ref = "''main''" and analysis = "\<lparr>analysis_up_to_date = False, analysis_fastforward = False\<rparr>"])
      (use run in \<open>auto simp: w conflict_inputs\<close>)
  then show ?thesis using b by (auto simp: conflict_of_a side_oid_def)
qed

end
