(* ===== verification/Merge_Conflicts.thy ===== *)
theory Merge_Conflicts
  imports Merge_Strategies
begin

text \<open>
  The strategies detect and callback on a merge with conflicts: what is reported to the caller or handed
  to the resolver, and what a merge records whose resolver decides every conflict.
\<close>

section \<open>The hash of a conflict\<close>

text \<open>The contents of a side, when it has an id and its blob can be read, and the hash that the caller or the resolver gets.\<close>

definition blob_of :: "('w, 'y) object_api_scheme \<Rightarrow> 'w \<Rightarrow> git_repository \<Rightarrow> git_oid option \<Rightarrow> bytes option" where
  "blob_of G w repo oid =
     (case oid of None \<Rightarrow> None | Some oid \<Rightarrow> (case git_blob_lookup G w repo oid of Inr data \<Rightarrow> Some data | Inl _ \<Rightarrow> None))"

definition conflict_hash ::
  "('w, 'y) merge_api_scheme \<Rightarrow> 'w \<Rightarrow> git_repository \<Rightarrow> git_commit \<Rightarrow> git_commit \<Rightarrow> MergeConflictInfo \<Rightarrow> qhash" where
  "conflict_hash G w repo ours theirs ci =
     [(''path'', QString (ci_path ci))] @
     content_entries ''ancestor'' (blob_of G w repo (ancestor_oid ci)) @
     content_entries ''ours'' (blob_of G w repo (ours_oid ci)) @
     content_entries ''theirs'' (blob_of G w repo (theirs_oid ci)) @
     [(''ours_commit'', QHash (buildCommitInfoHash G ours)), (''theirs_commit'', QHash (buildCommitInfoHash G theirs))]"

text \<open>The blobs of a conflict can be read.\<close>

definition readable_sides :: "('w, 'y) object_api_scheme \<Rightarrow> 'w \<Rightarrow> git_repository \<Rightarrow> MergeConflictInfo \<Rightarrow> bool" where
  "readable_sides G w repo ci \<longleftrightarrow>
     (\<forall>oid. Some oid \<in> {ancestor_oid ci, ours_oid ci, theirs_oid ci} \<longrightarrow> (\<exists>data. git_blob_lookup G w repo oid = Inr data))"

lemma run_lookupBlobContent:
  assumes "\<And>n. malloc_ok G n" and "\<And>x. oid = Some x \<Longrightarrow> \<exists>data. git_blob_lookup G (world s) repo x = Inr data"
  shows "run_state (lookupBlobContent G repo oid) s = (blob_of G (world s) repo oid, s)"
proof (cases oid)
  case (Some x)
  with assms(2) obtain data where "git_blob_lookup G (world s) repo x = Inr data" by blast
  with Some assms(1) show ?thesis by (simp add: lookupBlobContent_def blob_of_def)
qed (simp add: lookupBlobContent_def blob_of_def)

lemma run_buildConflictHash:
  assumes "\<And>n. malloc_ok G n" and "xsink s = []" and "readable_sides G (world s) repo ci"
  shows "run_state (buildConflictHash G repo ci ours theirs) s = (Some (conflict_hash G (world s) repo ours theirs ci), s)"
proof -
  have "run_state (lookupBlobContent G repo x) s = (blob_of G (world s) repo x, s)"
    if "x \<in> {ancestor_oid ci, ours_oid ci, theirs_oid ci}" for x
    using assms(3) that by (intro run_lookupBlobContent [OF assms(1)]) (auto simp: readable_sides_def)
  then show ?thesis using assms(2) by (simp add: buildConflictHash_def conflict_hash_def)
qed

lemma run_build_hashes:
  assumes "never_cancelled G" and "\<And>n. malloc_ok G n" and "xsink s = []"
    and "\<And>ci. ci \<in> set cis \<Longrightarrow> readable_sides G (world s) repo ci"
  shows "run_state (build_hashes G repo what ours theirs i cis hs) s =
    (Some (hs @ map (conflict_hash G (world s) repo ours theirs) cis), s)"
  using assms(4)
proof (induction cis arbitrary: i hs)
  case (Cons ci cis)
  then show ?case by (simp add: run_buildConflictHash [OF assms(2,3)] assms(1,3))
qed simp

section \<open>Detection\<close>

text \<open>C19: the strategy detect. When libgit2 finds conflicts and their blobs can be read, the merge reports
  every conflict, in the order of libgit2's iterator, with the path, the contents of each side that
  exists, as string and as binary, and both commits, and nothing else: nothing is resolved or
  committed, and the object stays as it was.\<close>

theorem detect_reports_conflicts:
  fixes G :: "('w, 'y) merge_api_scheme" and s :: "'w qgit"
  assumes "never_cancelled G" and "\<And>n. malloc_ok G n" and "\<not> m_lock s" and "m_repo s = Some repo" and "xsink s = []"
    and "merge_strategy opts = ''detect''"
    and "merge_inputs G (world s) repo ref ours theirs analysis"
    and "\<not> analysis_up_to_date analysis" and "\<not> analysis_fastforward analysis"
    and "git_merge_commits G (world s) repo ours theirs GIT_MERGE_FILE_FAVOR_NORMAL = (Inr ix, w0)"
    and "git_index_has_conflicts G w0 ix" and "git_index_conflicts G w0 ix = Inr cs"
    and "\<And>c. c \<in> set cs \<Longrightarrow> readable_sides G w0 repo (conflict_info c)"
  shows "run_state (merge G ref opts) s =
    (Some (merge_result False False True None
       (map (\<lambda>c. QHash (conflict_hash G w0 repo ours theirs (conflict_info c))) cs) []), s\<lparr>world := w0\<rparr>)"
proof -
  have valid: "valid_options opts" using assms(6) by (simp add: valid_options_def)
  have inputs: "merge_inputs G (world (s\<lparr>m_lock := True\<rparr>)) repo ref ours theirs analysis" using assms(7) by simp
  have hashes: "run_state (build_hashes G repo what ours theirs 0 (map conflict_info cs) []) (s\<lparr>m_lock := True, world := w0\<rparr>) =
      (Some (map (conflict_hash G w0 repo ours theirs) (map conflict_info cs)), s\<lparr>m_lock := True, world := w0\<rparr>)" for what
    using assms(13) by (subst run_build_hashes [OF assms(1,2)]) (auto simp: assms(5))
  have "run_state (merge_analyse G ref (merge_strategy opts) (merge_no_commit opts) (merge_message opts ref) repo)
      (s\<lparr>m_lock := True\<rparr>) = (Finished (Some (merge_result False False True None
        (map (\<lambda>c. QHash (conflict_hash G w0 repo ours theirs (conflict_info c))) cs) [])), s\<lparr>m_lock := True, world := w0\<rparr>)"
    using run_merge_analyse [OF inputs] assms(6,8-12)
    by (simp add: merge_normal_def merge_favor_def Let_def run_conflict_loop [OF assms(1)] hashes comp_def)
  from run_merge [OF assms(3,4) valid this] show ?thesis using assms(3) by (cases s) simp
qed

theorem detect_reports_conflicts_witness:
  "run_state (merge conflict_api ''main'' detect_options) (mem_object_state\<lparr>world := one_commit\<rparr>) =
     (Some (merge_result False False True None [QHash
        [(''path'', QString ''a''),
         (''ancestor_content_string'', QString (string_of_bytes [7, 8])), (''ancestor_content'', QBinary [7, 8]),
         (''ours_content_string'', QString (string_of_bytes [7, 8])), (''ours_content'', QBinary [7, 8]),
         (''ours_commit'', QHash (buildCommitInfoHash conflict_api first_commit)),
         (''theirs_commit'', QHash (buildCommitInfoHash conflict_api first_commit))]] []),
      mem_object_state\<lparr>world := conflict_world\<rparr>)"
proof -
  let ?s = "mem_object_state\<lparr>world := one_commit\<rparr>"
  let ?cs = "[(mem_index_at conflict_world ''a'' 1, mem_index_at conflict_world ''a'' 2, mem_index_at conflict_world ''a'' 3)]"
  have s: "\<not> m_lock ?s" "m_repo ?s = Some 0" "xsink ?s = []" by (simp_all add: mem_object_state_def blank_def)
  have "run_state (merge conflict_api ''main'' detect_options) ?s =
    (Some (merge_result False False True None
       (map (\<lambda>c. QHash (conflict_hash conflict_api conflict_world 0 first_commit first_commit (conflict_info c))) ?cs) []),
     ?s\<lparr>world := conflict_world\<rparr>)"
    by (rule detect_reports_conflicts [OF conflict_api_simps(21,20) s, where
        analysis = "\<lparr>analysis_up_to_date = False, analysis_fastforward = False\<rparr>" and ix = 0])
      (simp_all add: conflict_inputs conflict_of_a readable_sides_def)
  then show ?thesis
    by (simp add: conflict_of_a conflict_hash_def content_entries_def blob_of_def)
qed

section \<open>The callback\<close>

lemma run_merge_callback:
  assumes "\<not> m_lock s" and "m_repo s = Some repo" and "merge_strategy opts = ''callback''" and "opt_resolver opts = Some resolver"
    and "run_state (merge_analyse G ref ''callback'' (merge_no_commit opts) (merge_message opts ref) repo)
      (s\<lparr>m_lock := True\<rparr>) = (NeedsCallback mp, t)"
    and "run_state (run_callbacks G resolver (zip (mp_infos mp) (mp_hashes mp)) [] []) (t\<lparr>m_lock := False\<rparr>) =
      (Some (resolutions, unresolved), u)"
  shows "run_state (merge G ref opts) s =
    run_state (guarded None (merge_apply G (merge_no_commit opts) (merge_message opts ref) mp resolutions unresolved)) u"
  using assms by (simp add: merge_def Let_def run_guarded)

text \<open>The last phase, when no conflict is unresolved and a result comes.\<close>

lemma run_merge_apply_complete:
  assumes "\<not> m_lock s" and "m_repo s = Some repo"
    and "run_state (guarded None (merge_apply G False message mp kvs [])) s = (Some res, t)"
  obtains u c v where "run_state (for_from (\<lambda>i kv. do {
       rc \<leftarrow> applyResolvedContent G repo (fst kv) (snd kv) (mp_index mp);
       ret (if rc < 0 then Some () else None)
     }) 0 kvs) (s\<lparr>m_lock := True\<rparr>) = (None, u)"
    and "run_state (createMergeCommit G repo message (mp_ours mp) (mp_theirs mp) (mp_index mp)) u = (c, v)"
    and "xsink v = []" and "t = v\<lparr>m_lock := False\<rparr>"
    and "res = merge_result False False True (Some (qstring_option c)) [] (map fst kvs)"
proof -
  obtain failed u where u: "run_state (for_from (\<lambda>i kv. do {
       rc \<leftarrow> applyResolvedContent G repo (fst kv) (snd kv) (mp_index mp);
       ret (if rc < 0 then Some () else None)
     }) 0 kvs) (s\<lparr>m_lock := True\<rparr>) = (failed, u)" by (rule prod.exhaust)
  obtain c v where c: "run_state (createMergeCommit G repo message (mp_ours mp) (mp_theirs mp) (mp_index mp)) u = (c, v)"
    by (rule prod.exhaust)
  have "failed = None" using assms u by (cases failed) (simp_all add: run_guarded merge_apply_def)
  with assms u c show thesis by (intro that [of u c v]) (auto simp: run_guarded merge_apply_def split: if_splits)
qed

text \<open>A resolver that answers for every conflict leaves none unresolved, and one answer for each path.\<close>

lemma all_answered:
  assumes "\<forall>ci \<in> set cis. answer_bytes (answer (QHash (f ci))) \<noteq> None"
  shows "unanswered answer (zip cis (map f cis)) = []"
    and "answered answer (zip cis (map f cis)) = map (\<lambda>ci. (ci_path ci, the (answer_bytes (answer (QHash (f ci)))))) cis"
  using assms by (induction cis) auto

text \<open>Up to the last phase.\<close>

lemma run_merge_answered:
  fixes G :: "('w, 'y) merge_api_scheme" and s :: "'w qgit"
  assumes "never_cancelled G" and "\<And>n. malloc_ok G n" and "\<not> m_lock s" and "m_repo s = Some repo" and "xsink s = []"
    and "merge_strategy opts = ''callback''" and "opt_resolver opts = Some (\<lambda>c. ret (answer c))"
    and "merge_inputs G (world s) repo ref ours theirs analysis"
    and "\<not> analysis_up_to_date analysis" and "\<not> analysis_fastforward analysis"
    and "git_merge_commits G (world s) repo ours theirs GIT_MERGE_FILE_FAVOR_NORMAL = (Inr ix, w0)"
    and "git_index_has_conflicts G w0 ix" and "git_index_conflicts G w0 ix = Inr cs"
    and infos: "infos = map conflict_info cs" and hashes: "hashes = map (conflict_hash G w0 repo ours theirs) infos"
    and "\<forall>ci \<in> set infos. readable_sides G w0 repo ci"
    and "\<forall>ci \<in> set infos. answer_bytes (answer (QHash (conflict_hash G w0 repo ours theirs ci))) \<noteq> None"
  shows "run_state (merge G ref opts) s =
    run_state (guarded None (merge_apply G (merge_no_commit opts) (merge_message opts ref)
      \<lparr>mp_infos = infos, mp_hashes = hashes, mp_index = ix, mp_ours = ours, mp_theirs = theirs\<rparr>
      (foldl (\<lambda>m (p, b). emplace p b m) []
        (map (\<lambda>ci. (ci_path ci, the (answer_bytes (answer (QHash (conflict_hash G w0 repo ours theirs ci)))))) infos)) []))
      (s\<lparr>world := w0\<rparr>)"
proof -
  let ?mp = "\<lparr>mp_infos = infos, mp_hashes = hashes, mp_index = ix, mp_ours = ours, mp_theirs = theirs\<rparr>"
  have inputs: "merge_inputs G (world (s\<lparr>m_lock := True\<rparr>)) repo ref ours theirs analysis" using assms(8) by simp
  have built: "run_state (build_hashes G repo what ours theirs 0 infos []) (s\<lparr>m_lock := True, world := w0\<rparr>) =
      (Some hashes, s\<lparr>m_lock := True, world := w0\<rparr>)" for what
    using assms(16) by (subst run_build_hashes [OF assms(1,2)]) (auto simp: assms(5) hashes)
  have analyse: "run_state (merge_analyse G ref ''callback'' (merge_no_commit opts) (merge_message opts ref) repo)
      (s\<lparr>m_lock := True\<rparr>) = (NeedsCallback ?mp, s\<lparr>m_lock := True, world := w0\<rparr>)"
    using run_merge_analyse [OF inputs] assms(9-13)
    by (simp add: merge_normal_def merge_favor_def Let_def run_conflict_loop [OF assms(1)] infos [symmetric] built)
  have unlocked: "s\<lparr>m_lock := True, world := w0\<rparr>\<lparr>m_lock := False\<rparr> = s\<lparr>world := w0\<rparr>" using assms(3) by (cases s) simp
  have quiet: "xsink (s\<lparr>world := w0\<rparr>) = []" using assms(5) by simp
  show ?thesis
    by (rule run_merge_callback [OF assms(3,4,6,7) analyse])
      (simp only: unlocked run_callbacks_pure [OF assms(1,2) quiet] hashes all_answered [OF assms(17)]
        merge_pending.select_convs append_Nil)
qed

context conflict_index
begin

lemma answers_committed:
  assumes "ok w0" and "ci_path ` set infos = conflicted (git_index_entries G w0 ix)" and "distinct (map ci_path infos)"
    and "resolved (map (apsnd Some) kvs) w0 w" and "map_of kvs = map_of (map (\<lambda>ci. (ci_path ci, f ci)) infos)"
    and kept: "blobs_kept G repo w (world t)" and same: "git_index_entries G (world t) ix = git_index_entries G w ix"
    and vt: "map_of (m_virtual_tree t) = files_of (git_index_entries G w ix)"
  shows "ci \<in> set infos \<Longrightarrow> staged_content G repo t (ci_path ci) (f ci)"
    and "path \<notin> ci_path ` set infos \<Longrightarrow> map_of (m_virtual_tree t) path = files_of (git_index_entries G w0 ix) path"
    and "conflicted (git_index_entries G (world t) ix) = {}"
proof -
  have "fst ` set kvs = dom (map_of kvs)" by (simp add: dom_map_of_conv_image_fst)
  also have "\<dots> = ci_path ` set infos" unfolding assms(5) by (simp add: dom_map_of_conv_image_fst image_image)
  finally have keys: "fst ` set kvs = ci_path ` set infos" .
  then have keys': "set (map fst (map (apsnd Some) kvs)) = ci_path ` set infos" by (simp add: image_image)
  show "path \<notin> ci_path ` set infos \<Longrightarrow> map_of (m_virtual_tree t) path = files_of (git_index_entries G w0 ix) path"
    using resolvedD(4) [OF assms(4), of path] keys' by (simp add: vt)
  show "conflicted (git_index_entries G (world t) ix) = {}"
    unfolding same resolvedD(3) [OF assms(4)] keys' assms(2) by simp
  assume "ci \<in> set infos"
  then have "map_of kvs (ci_path ci) = Some (f ci)"
    using assms(3) unfolding assms(5) by (intro map_of_is_SomeI) (auto simp: comp_def)
  then have "(ci_path ci, Some (f ci)) \<in> set (map (apsnd Some) kvs)"
    using map_of_SomeD by force
  from content_staged [OF resolvedD(5) [OF assms(4) this] kept]
  show "staged_content G repo t (ci_path ci) (f ci)" by (auto simp: staged_content_def vt)
qed

end

text \<open>C18: the strategy callback. A merge with conflicts in a virtual repository, with a resolver that answers
  every conflict with a string or a binary and raises nothing, calls it with the hash of each
  conflict; when it returns a result, every conflicting path is staged with exactly the bytes of its
  answer, all other files are those of the merge index, no conflict is left or reported, the
  conflicting paths are listed as resolved, and the result names a commit in the store with the
  configured message (as \<open>git_commit_message\<close> returns it) and both parents; nothing else of the object changed.\<close>

theorem callback_answers_committed:
  fixes G :: "('w, 'y) merge_api_scheme" and s :: "'w qgit"
  assumes "commit_store G repo ok" and "conflict_index G repo ix fit" and "\<And>w. fit w \<Longrightarrow> ok w" and "never_cancelled G"
    and "\<And>n. malloc_ok G n" and "\<not> m_lock s" and "m_repo s = Some repo" and "m_virtual s" and "xsink s = []"
    and "merge_strategy opts = ''callback''" and "opt_resolver opts = Some (\<lambda>c. ret (answer c))" and "\<not> merge_no_commit opts"
    and "merge_inputs G (world s) repo ref ours theirs analysis"
    and "\<not> analysis_up_to_date analysis" and "\<not> analysis_fastforward analysis"
    and "git_merge_commits G (world s) repo ours theirs GIT_MERGE_FILE_FAVOR_NORMAL = (Inr ix, w0)" and "fit w0"
    and "git_index_has_conflicts G w0 ix" and "git_index_conflicts G w0 ix = Inr cs"
    and "\<And>c. c \<in> set cs \<Longrightarrow> readable_sides G w0 repo (conflict_info c)"
    and "\<And>c. c \<in> set cs \<Longrightarrow>
      answer_bytes (answer (QHash (conflict_hash G w0 repo ours theirs (conflict_info c)))) = Some (data c)"
    and "run_state (merge G ref opts) s = (Some res, t)"
  shows "\<exists>cid k paths.
    res = merge_result False False True (Some (QString (git_oid_tostr G cid))) [] paths \<and>
    set paths = (\<lambda>c. ci_path (conflict_info c)) ` set cs \<and>
    git_commit_lookup G (world t) repo (Some cid) = Inr k \<and> git_commit_message k = committed_message (merge_message opts ref) \<and>
    git_commit_parent_ids k = [git_commit_id ours, git_commit_id theirs] \<and>
    t = s\<lparr>world := world t, m_virtual_tree := m_virtual_tree t\<rparr> \<and>
    conflicted (git_index_entries G (world t) ix) = {} \<and>
    (\<forall>c \<in> set cs. staged_content G repo t (ci_path (conflict_info c)) (data c)) \<and>
    (\<forall>path. path \<notin> set paths \<longrightarrow> map_of (m_virtual_tree t) path = files_of (git_index_entries G w0 ix) path)"
proof -
  let ?infos = "map conflict_info cs" and ?h = "conflict_hash G w0 repo ours theirs" and ?message = "merge_message opts ref"
  let ?f = "\<lambda>ci. the (answer_bytes (answer (QHash (?h ci))))"
  let ?mp = "\<lparr>mp_infos = ?infos, mp_hashes = map ?h ?infos, mp_index = ix, mp_ours = ours, mp_theirs = theirs\<rparr>"
  let ?kvs = "foldl (\<lambda>m (p, b). emplace p b m) [] (map (\<lambda>ci. (ci_path ci, ?f ci)) ?infos)"
  note ix = assms(2)
  have conflicts: "\<forall>ci \<in> set ?infos. readable_sides G w0 repo ci"
    "\<forall>ci \<in> set ?infos. answer_bytes (answer (QHash (?h ci))) \<noteq> None" using assms(20,21) by auto
  have kvs: "map_of ?kvs = map_of (map (\<lambda>ci. (ci_path ci, ?f ci)) ?infos)" "distinct (map fst ?kvs)"
    using foldl_emplace_ok [of "[]"] by (simp_all add: map_of_foldl_emplace omap_ok_distinct)
  have applied: "run_state (guarded None (merge_apply G False ?message ?mp ?kvs [])) (s\<lparr>world := w0\<rparr>) = (Some res, t)"
    using run_merge_answered [OF assms(4-7,9-11,13-16,18,19) refl refl conflicts] assms(12,22) by simp
  have s0: "\<not> m_lock (s\<lparr>world := w0\<rparr>)" "m_repo (s\<lparr>world := w0\<rparr>) = Some repo" using assms(6,7) by simp_all
  obtain u c v where u: "run_state (for_from (\<lambda>i kv. do {
       rc \<leftarrow> applyResolvedContent G repo (fst kv) (snd kv) ix;
       ret (if rc < 0 then Some () else None)
     }) 0 ?kvs) (s\<lparr>world := w0, m_lock := True\<rparr>) = (None, u)"
    and c: "run_state (createMergeCommit G repo ?message ours theirs ix) u = (c, v)"
    and fin: "xsink v = []" "t = v\<lparr>m_lock := False\<rparr>" "res = merge_result False False True (Some (qstring_option c)) [] (map fst ?kvs)"
    by (rule run_merge_apply_complete [OF s0 applied, unfolded merge_pending.select_convs])
  have listed: "distinct (map ci_path ?infos)" "ci_path ` set ?infos = conflicted (git_index_entries G w0 ix)"
    using conflict_index.conflicts_listed [OF ix assms(17,19)] by (simp_all add: image_image)
  obtain w where w: "u = s\<lparr>world := w0, m_lock := True\<rparr>\<lparr>world := w\<rparr>"
      "conflict_index.resolved G repo ix fit (map (apsnd Some) ?kvs) w0 w"
    using conflict_index.run_apply_answers [OF ix _ kvs(2) u] assms(17) by auto
  obtain cid k where commit: "c = Some (git_oid_tostr G cid)" "git_commit_lookup G (world v) repo (Some cid) = Inr k"
      "git_commit_message k = committed_message ?message" "git_commit_parent_ids k = [git_commit_id ours, git_commit_id theirs]"
      "v = u\<lparr>world := world v, m_virtual_tree := m_virtual_tree v\<rparr>" "blobs_kept G repo w (world v)"
      "git_index_entries G (world v) ix = git_index_entries G w ix"
      "map_of (m_virtual_tree v) = files_of (git_index_entries G w ix)"
    using conflict_index.run_createMergeCommit_index [OF ix assms(1,3,4) _ _ c fin(1)] assms(8)
      conflict_index.resolvedD(1) [OF ix w(2)] by (auto simp: w(1))
  have t: "t = s\<lparr>world := world t, m_virtual_tree := m_virtual_tree t\<rparr>"
    using commit(5) assms(6) unfolding fin(2) w(1) by (cases s, cases v) simp
  have vt: "map_of (m_virtual_tree t) = files_of (git_index_entries G w ix)" "world t = world v"
    using commit(8) by (simp_all add: fin(2))
  note staged = conflict_index.answers_committed [OF ix assms(17) listed(2,1) w(2) kvs(1)
      commit(6,7) [folded vt(2)] vt(1)]
  have paths: "set (map fst ?kvs) = (\<lambda>c. ci_path (conflict_info c)) ` set cs"
    using arg_cong [OF kvs(1), of dom] by (simp add: dom_map_of_conv_image_fst image_image)
  have "\<forall>c \<in> set cs. staged_content G repo t (ci_path (conflict_info c)) (data c)"
    using staged(1) assms(21) by fastforce
  moreover have "\<forall>path. path \<notin> set (map fst ?kvs) \<longrightarrow> map_of (m_virtual_tree t) path = files_of (git_index_entries G w0 ix) path"
    unfolding paths using staged(2) by (simp add: image_image)
  ultimately show ?thesis
    using commit(1-4) staged(3) t fin(3) paths
    by (intro exI [of _ cid] exI [of _ k] exI [of _ "map fst ?kvs"]) (simp add: vt(2) qstring_option_def)
qed

text \<open>A resolver that answers with contents of its own.\<close>

definition new_contents :: "qvalue \<Rightarrow> qvalue" where
  "new_contents conflict = QBinary [9, 9]"

definition callback_options :: "'w merge_hash" where
  "callback_options = detect_options\<lparr>opt_strategy := QString ''callback'', opt_resolver := Some (\<lambda>c. ret (new_contents c))\<rparr>"

lemma callback_options_simps [simp]:
  "merge_strategy callback_options = ''callback''" "opt_resolver callback_options = Some (\<lambda>c. ret (new_contents c))"
  "\<not> merge_no_commit callback_options" "merge_message callback_options ref = ''Merge '' @ ref"
  by (simp_all add: merge_strategy_def merge_no_commit_def merge_message_def callback_options_def detect_options_def)

lemma callback_merges:
  "\<exists>res t. run_state (merge conflict_api ''main'' callback_options) (mem_object_state\<lparr>world := one_commit\<rparr>) = (Some res, t)"
proof -
  let ?s = "mem_object_state\<lparr>world := one_commit\<rparr>"
  let ?infos = "[\<lparr>ci_path = ''a'', ancestor_oid = Some 1, ours_oid = Some 1, theirs_oid = None\<rparr>]"
  let ?hs = "map (conflict_hash conflict_api conflict_world 0 first_commit first_commit) ?infos"
  let ?mp = "\<lparr>mp_infos = ?infos, mp_hashes = ?hs, mp_index = 0, mp_ours = first_commit, mp_theirs = first_commit\<rparr>"
  have s: "\<not> m_lock ?s" "m_repo ?s = Some 0" by (simp_all add: mem_object_state_def blank_def)
  have quiet: "xsink mem_object_state = []" by (simp add: mem_object_state_def blank_def)
  have unlock: "mem_object_state\<lparr>m_lock := True, world := w, m_lock := False\<rparr> = mem_object_state\<lparr>world := w\<rparr>"
      "mem_object_state\<lparr>world := w, m_lock := True\<rparr> = mem_object_state\<lparr>m_lock := True, world := w\<rparr>" for w
    by (simp_all add: mem_object_state_def blank_def)
  have inputs: "merge_inputs conflict_api (world (?s\<lparr>m_lock := True\<rparr>)) 0 ''main'' first_commit first_commit
      \<lparr>analysis_up_to_date = False, analysis_fastforward = False\<rparr>" by (simp add: conflict_inputs)
  have "run_state (build_hashes conflict_api 0 ''git merge callback build'' first_commit first_commit 0 ?infos [])
      (mem_object_state\<lparr>m_lock := True, world := conflict_world\<rparr>) = (Some ?hs, mem_object_state\<lparr>m_lock := True, world := conflict_world\<rparr>)"
    by (subst run_build_hashes) (simp_all add: quiet readable_sides_def)
  then have analyse: "run_state (merge_analyse conflict_api ''main'' ''callback'' (merge_no_commit callback_options)
      (merge_message callback_options ''main'') 0) (?s\<lparr>m_lock := True\<rparr>) =
      (NeedsCallback ?mp, mem_object_state\<lparr>m_lock := True, world := conflict_world\<rparr>)"
    using run_merge_analyse [OF inputs] by (simp add: merge_normal_def Let_def run_conflict_loop conflict_of_a)
  have callbacks: "run_state (run_callbacks conflict_api (\<lambda>c. ret (new_contents c)) (zip (mp_infos ?mp) (mp_hashes ?mp)) [] [])
      (mem_object_state\<lparr>m_lock := True, world := conflict_world\<rparr>\<lparr>m_lock := False\<rparr>) =
      (Some ([(''a'', [9, 9])], []), mem_object_state\<lparr>world := conflict_world\<rparr>)"
    by (subst run_callbacks_pure) (simp_all add: unlock(1) quiet new_contents_def emplace_def)
  obtain w where r: "run_state (applyResolvedContent conflict_api 0 ''a'' [9, 9] 0)
      (mem_object_state\<lparr>m_lock := True, world := conflict_world\<rparr>) = (0, mem_object_state\<lparr>m_lock := True, world := w\<rparr>)"
    and w: "resolved_world [9, 9] w" using content_applied [of "[9, 9]"] by auto
  obtain c t where "run_state (createMergeCommit conflict_api 0 ''Merge main'' first_commit first_commit 0)
      (mem_object_state\<lparr>m_lock := True, world := w\<rparr>) = (Some c, t)" "xsink t = []"
    using resolution_commits [OF w] by blast
  moreover have "\<not> m_lock (mem_object_state\<lparr>world := conflict_world\<rparr>)" "m_repo (mem_object_state\<lparr>world := conflict_world\<rparr>) = Some 0"
    by (simp_all add: mem_object_state_def blank_def)
  ultimately have "\<exists>res t. run_state (guarded None (merge_apply conflict_api False ''Merge main'' ?mp [(''a'', [9, 9])] []))
      (mem_object_state\<lparr>world := conflict_world\<rparr>) = (Some res, t)"
    using r by (simp add: run_guarded merge_apply_def unlock)
  then show ?thesis
    using run_merge_callback [OF s callback_options_simps(1,2) analyse callbacks] by simp
qed

theorem callback_answers_committed_witness:
  "\<exists>t. staged_content conflict_api 0 t ''a'' [9, 9] \<and> map_of (m_virtual_tree t) ''b'' = Some 1"
proof -
  let ?s = "mem_object_state\<lparr>world := one_commit\<rparr>"
  let ?cs = "[(mem_index_at conflict_world ''a'' 1, mem_index_at conflict_world ''a'' 2, mem_index_at conflict_world ''a'' 3)]"
  obtain res t where run: "run_state (merge conflict_api ''main'' callback_options) ?s = (Some res, t)"
    using callback_merges by blast
  have w: "world ?s = one_commit" by simp
  have s: "\<not> m_lock ?s" "m_repo ?s = Some 0" "m_virtual ?s" "xsink ?s = []" by (simp_all add: mem_object_state_def blank_def)
  have "\<exists>cid k paths.
    res = merge_result False False True (Some (QString (git_oid_tostr conflict_api cid))) [] paths \<and>
    set paths = (\<lambda>c. ci_path (conflict_info c)) ` set ?cs \<and>
    git_commit_lookup conflict_api (world t) 0 (Some cid) = Inr k \<and>
    git_commit_message k = committed_message (merge_message (callback_options :: mem_world merge_hash) ''main'') \<and>
    git_commit_parent_ids k = [git_commit_id first_commit, git_commit_id first_commit] \<and>
    t = ?s\<lparr>world := world t, m_virtual_tree := m_virtual_tree t\<rparr> \<and>
    conflicted (git_index_entries conflict_api (world t) 0) = {} \<and>
    (\<forall>c \<in> set ?cs. staged_content conflict_api 0 t (ci_path (conflict_info c)) ((\<lambda>c. [9, 9]) c)) \<and>
    (\<forall>path. path \<notin> set paths \<longrightarrow>
       map_of (m_virtual_tree t) path = files_of (git_index_entries conflict_api conflict_world 0) path)"
    by (rule callback_answers_committed [OF conflict_store conflict_api_index mem_fit_ok conflict_api_simps(21,20) s, where
        ref = "''main''" and analysis = "\<lparr>analysis_up_to_date = False, analysis_fastforward = False\<rparr>" and answer = new_contents])
      (use run in \<open>auto simp: conflict_inputs conflict_of_a readable_sides_def new_contents_def\<close>)
  then obtain paths where "set paths = {''a''}" "staged_content conflict_api 0 t ''a'' [9, 9]"
    "\<forall>path. path \<notin> set paths \<longrightarrow> map_of (m_virtual_tree t) path = files_of (git_index_entries conflict_api conflict_world 0) path"
    by (elim exE conjE) (simp add: conflict_of_a)
  moreover have "files_of (git_index_entries conflict_api conflict_world 0) ''b'' = Some 1" by (simp add: mem_files)
  ultimately show ?thesis by (intro exI [of _ t]) simp
qed

end
