(* ===== verification/Closed_Object.thy ===== *)
theory Closed_Object
  imports Merge_Outcome
begin

text \<open>
  An object whose repository handle is gone (the destructor ran while a caller still holds the object,
  or its constructor failed): every method refuses to work.
\<close>

text \<open>The values that stand for failure: nothing, a negative status, false.\<close>

definition failure_value :: "qvalue \<Rightarrow> bool" where
  "failure_value v \<longleftrightarrow> v = QNothing \<or> v = QInt (- 1) \<or> v = QBool False"

text \<open>C38: a closed object. When the repository handle is null and the lock is free, no method calls anything of
  libgit2 or changes anything but the sink of exceptions. \<open>isVirtual\<close>, which does not need the handle,
  returns its member without an exception; every other method returns its failure value and raises
  exactly one exception, \<open>GIT-REPOSITORY-ERROR\<close>, except that \<open>merge\<close> looks at its options first and
  reports bad ones with \<open>GIT-MERGE-OPTION-ERROR\<close>.\<close>

theorem closed_object_refuses:
  assumes "\<not> m_lock s" and "m_repo s = None"
  shows "\<exists>v xs. run_state (perform G op) s = (v, s\<lparr>xsink := xsink s @ xs\<rparr>) \<and>
    (case op of
       OpIsVirtual \<Rightarrow> v = QBool (m_virtual s) \<and> xs = []
     | OpMerge ref opts \<Rightarrow> failure_value v \<and>
         (if valid_options opts then xs = [Exn ''GIT-REPOSITORY-ERROR'' ''repository has been closed'']
          else \<exists>desc. xs = [Exn ''GIT-MERGE-OPTION-ERROR'' desc])
     | _ \<Rightarrow> failure_value v \<and> xs = [Exn ''GIT-REPOSITORY-ERROR'' ''repository has been closed''])"
proof -
  note closed = run_guarded_closed [OF assms]
  have "run_state (merge G ref opts) s =
      (None, s\<lparr>xsink := xsink s @ [Exn ''GIT-REPOSITORY-ERROR'' ''repository has been closed'']\<rparr>)"
    if "valid_options opts" for ref opts
    using that by (auto simp: closed merge_def Let_def valid_options_def)
  note good = this
  have bad: "\<exists>desc. run_state (merge G ref opts) s = (None, s\<lparr>xsink := xsink s @ [Exn ''GIT-MERGE-OPTION-ERROR'' desc]\<rparr>)"
    if "\<not> valid_options opts" for ref opts
    using that by (auto simp: merge_def Let_def valid_options_def)
  show ?thesis
  proof (cases "\<exists>ref opts. op = OpMerge ref opts")
    case True
    then obtain ref opts where op: "op = OpMerge ref opts" by blast
    show ?thesis
    proof (cases "valid_options opts")
      case True
      with good [OF this, of ref] show ?thesis
        by (intro exI [of _ QNothing] exI [of _ "[Exn ''GIT-REPOSITORY-ERROR'' ''repository has been closed'']"])
          (simp add: op failure_value_def as_value_def qoption_def)
    next
      case False
      from bad [OF this, of ref] obtain desc where
        "run_state (merge G ref opts) s = (None, s\<lparr>xsink := xsink s @ [Exn ''GIT-MERGE-OPTION-ERROR'' desc]\<rparr>)" by blast
      with False show ?thesis
        by (intro exI [of _ QNothing] exI [of _ "[Exn ''GIT-MERGE-OPTION-ERROR'' desc]"])
          (simp add: op failure_value_def as_value_def qoption_def)
    qed
  next
    case False
    with assms show ?thesis
      by (cases op) (auto simp: closed as_value_def failure_value_def qoption_def getPath_def getWorkdir_def isBare_def
        isEmpty_def isVirtual_def configSet_def configGet_def addToIndex_def removeFromIndex_def readFile_def readFileString_def
        writeFile_def writeFileString_def deleteFile_def fileExists_def listFiles_def commit_def headCommitId_def
        getStatus_def createBranch_def deleteBranch_def checkout_def listBranches_def currentBranch_def createTag_def
        deleteTag_def listTags_def diff_def diffPatch_def diffStats_def log_def lookupCommit_def getState_def blame_def
        stash_def stashPop_def stashList_def addRemote_def removeRemote_def fetch_def push_def pull_def)
  qed
qed

theorem closed_object_refuses_witness:
  "\<exists>v. failure_value v \<and> run_state (perform (mem_merge_api size_hash 9) (OpPull None detect_options)) (blank mem_empty) =
    (v, (blank mem_empty)\<lparr>xsink := [Exn ''GIT-REPOSITORY-ERROR'' ''repository has been closed'']\<rparr>)"
  using closed_object_refuses [of "blank mem_empty" "mem_merge_api size_hash 9" "OpPull None detect_options"]
  by (auto simp: blank_def simp del: perform.simps)

end
