(* ===== verification/Branch_Store.thy ===== *)
theory Branch_Store
  imports Commit_Store
begin

text \<open>
  Branches: a branch that \<open>createBranch\<close> made can be checked out, is then the current one, and its files
  are those of the commit it was made from. \<open>branch_store\<close> states what the code relies on in libgit2's
  branches; the in-memory backends provide it.
\<close>

text \<open>A name that \<open>git_revparse_single\<close> can only take for the branch: it is no object id, and no reference that
  comes before \<open>refs/heads/name\<close> in the order of resolution has it.\<close>

definition unambiguous :: "('w, 'y) repo_api_scheme \<Rightarrow> git_repository \<Rightarrow> 'w \<Rightarrow> string \<Rightarrow> bool" where
  "unambiguous G repo w name \<longleftrightarrow> length name \<noteq> GIT_OID_SHA1_HEXSIZE \<and>
     list_all (\<lambda>prefix. case git_reference_lookup G w repo (prefix @ name) of Inl _ \<Rightarrow> True | Inr _ \<Rightarrow> False)
       [[], ''refs/'', ''refs/tags/'']"

locale branch_store = commit_store +
  assumes branch_ok: "ok w \<Longrightarrow> git_branch_create G w repo name c force = (bres, w') \<Longrightarrow> ok w'"
    and branch_objects: "ok w \<Longrightarrow> git_branch_create G w repo name c force = (bres, w') \<Longrightarrow>
      subtree_entries G w' repo = subtree_entries G w repo \<and> git_commit_lookup G w' repo = git_commit_lookup G w repo"
    and branch_created: "ok w \<Longrightarrow> git_branch_create G w repo name c force = (Inr r, w') \<Longrightarrow>
      \<exists>r'. git_reference_lookup G w' repo (''refs/heads/'' @ name) = Inr r' \<and> reference_target r' = Direct (git_commit_id c)"
    and branch_other: "ok w \<Longrightarrow> git_branch_create G w repo name c force = (bres, w') \<Longrightarrow> n \<noteq> ''refs/heads/'' @ name \<Longrightarrow>
      git_reference_lookup G w' repo n = git_reference_lookup G w repo n"
    and branch_named: "git_reference_lookup G w repo (''refs/heads/'' @ name) = Inr r \<Longrightarrow>
      git_reference_is_branch G r \<and> git_branch_name G r = Inr (Some name)"
    and branch_resolves: "ok w \<Longrightarrow> unambiguous G repo w name \<Longrightarrow>
      git_reference_lookup G w repo (''refs/heads/'' @ name) = Inr r \<Longrightarrow> reference_target r = Direct cid \<Longrightarrow>
      git_commit_lookup G w repo (Some cid) = Inr k \<Longrightarrow>
      \<exists>target peeled. git_revparse_single G w repo name = Inr target \<and>
        git_object_peel_commit G w repo target = Inr peeled \<and> git_object_id peeled = cid"
    and symbolic_head: "ok w \<Longrightarrow> git_reference_symbolic_create G w repo ''HEAD'' n force m = (Inr r, w') \<Longrightarrow>
      git_reference_lookup G w repo n = Inr r' \<Longrightarrow> reference_target r' = Direct cid \<Longrightarrow> n \<noteq> ''HEAD'' \<Longrightarrow>
      git_repository_head G w' repo = Inr r'"
    and commit_id: "git_commit_lookup G w repo (Some cid) = Inr k \<Longrightarrow> git_commit_id k = cid"

section \<open>The memory backends\<close>

lemma mem_lookup_name: "mem_reference_lookup w n = Inr r \<Longrightarrow> git_reference_name r = n"
  by (auto simp: mem_reference_lookup_abs split: option.splits)

lemma mem_ref_write_done:
  assumes "mem_ok w" and "mem_ref_write w n t force = (Inr r, w')"
  shows "refdb_abs (mw_refdb w') = (refdb_abs (mw_refdb w))(n \<mapsto> t)"
proof -
  let ?ref = "\<lparr>git_reference_name = n, reference_target = t\<rparr>"
  obtain w'' where w'': "mem_refdb_write (mw_refdb w) ?ref force None None = (Inr (), w'')" "mw_refdb w' = w''"
    using assms(2) by (auto simp: mem_ref_write_def Let_def split: prod.splits sum.splits)
  moreover have "force \<or> refdb_abs (mw_refdb w) n = None"
    using w''(1) mem_refdb.write_exists [of force "mw_refdb w" ?ref None None] by (cases force; cases "refdb_abs (mw_refdb w) n") auto
  ultimately show ?thesis
    using mem_refdb.write_done [of "mw_refdb w" force ?ref None None] assms(1) by (simp add: mem_ok_def)
qed

lemma mem_branch_resolves:
  assumes "length name \<noteq> 40" and "mem_reference_lookup w name = Inl e1" and "mem_reference_lookup w (''refs/'' @ name) = Inl e2"
    and "mem_reference_lookup w (''refs/tags/'' @ name) = Inl e3"
    and "mem_reference_lookup w (''refs/heads/'' @ name) = Inr r" and "reference_target r = Direct cid"
  shows "mem_revparse w name = Inr \<lparr>git_object_id = cid, git_object_type = GIT_OBJECT_COMMIT\<rparr>"
  using assms by (simp add: mem_revparse_def mem_revparse_name_def)

lemma mem_api_branch_simps [simp]:
  "git_branch_create (mem_api H depth) w repo name c force = mem_ref_write w (''refs/heads/'' @ name) (Direct (git_commit_id c)) force"
  "git_reference_is_branch (mem_api H depth) r = starts_with ''refs/heads/'' (git_reference_name r)"
  "git_branch_name (mem_api H depth) r =
     Inr (if starts_with ''refs/heads/'' (git_reference_name r) then Some (drop 11 (git_reference_name r)) else None)"
  by (simp_all add: mem_api_def)

interpretation mem_branches: branch_store "mem_api H depth" repo mem_ok for H depth repo
proof (unfold_locales, goal_cases)
  case (1 w name c force bres w')
  then show ?case by (simp add: mem_ref_write_ok)
next
  case (2 w name c force bres w')
  then have "mw_odb w' = mw_odb w" by (simp add: mem_ref_write_odb)
  then show ?case
    by (simp add: fun_eq_iff subtree_entries_mem mem_read_odb [of w' w] mem_commit_lookup_odb [of w' w])
next
  case (3 w name c force r w')
  then show ?case by (simp add: mem_reference_lookup_abs mem_ref_write_done)
next
  case (4 w name c force bres w' n)
  then show ?case by (simp add: mem_ref_write_other)
next
  case (5 w name r)
  then have "git_reference_name r = ''refs/heads/'' @ name" using mem_lookup_name by simp
  then show ?case by (simp add: starts_with_iff)
next
  case (6 w name r cid k)
  then show ?case
    by (auto simp: unambiguous_def GIT_OID_SHA1_HEXSIZE_def mem_branch_resolves split: sum.splits)
next
  case (7 w n force m r w' r')
  then have "refdb_abs (mw_refdb w') = (refdb_abs (mw_refdb w))(''HEAD'' \<mapsto> Symbolic n)"
    by (simp add: mem_ref_write_done)
  with 7 show ?case by (simp add: mem_head_def mem_reference_lookup_abs)
next
  case (8 w cid k)
  then show ?case by (auto simp: mem_commit_lookup_def Let_def split: sum.splits option.splits prod.splits list.splits if_splits)
qed

section \<open>Property\<close>

lemma run_createBranch_head:
  assumes "\<not> m_lock s" and "m_repo s = Some repo"
    and "git_repository_head G (world s) repo = Inr head_ref"
    and "git_commit_lookup G (world s) repo (git_reference_target head_ref) = Inr k"
    and "run_state (createBranch G name None) s = (0, t)"
  obtains r w where "git_branch_create G (world s) repo name k False = (Inr r, w)" and "t = s\<lparr>world := w\<rparr>"
proof -
  obtain res w where c: "git_branch_create G (world s) repo name k False = (res, w)" by (metis surj_pair)
  with assms obtain r where "res = Inr r" "t = s\<lparr>m_lock := True, world := w, m_lock := False\<rparr>"
    by (cases res) (auto simp: createBranch_def run_guarded given_def on_ok_Inl run_git_raise_exception_rc)
  with c assms(1) that show thesis by (cases s) auto
qed

lemma unambiguous_other:
  assumes "\<And>n. n \<noteq> ''refs/heads/'' @ name \<Longrightarrow> git_reference_lookup G w' repo n = git_reference_lookup G w repo n"
  shows "unambiguous G repo w' name \<longleftrightarrow> unambiguous G repo w name"
proof -
  have "name \<noteq> ''refs/heads/'' @ name" "''refs/'' @ name \<noteq> ''refs/heads/'' @ name" by (auto dest: arg_cong [where f = length])
  then show ?thesis using assms by (simp add: unambiguous_def)
qed

text \<open>C35: the life of a branch. After \<open>createBranch\<close> of a name from HEAD in a virtual repository, where no tag or
  other reference has the same name, \<open>checkout\<close> of the name succeeds, provided libgit2 can move HEAD
  (the code does not look at the result of that): exactly the files of HEAD's commit are staged,
  whatever was staged before, and \<open>currentBranch\<close> returns the name.\<close>

theorem created_branch_checks_out:
  fixes G :: "('w, 'y) repo_api_scheme" and s t :: "'w qgit"
  assumes "branch_store G repo ok" and "never_cancelled G" and "ok (world s)"
    and "\<not> m_lock s" and "m_repo s = Some repo" and "m_virtual s" and "unambiguous G repo (world s) name"
    and "git_repository_head G (world s) repo = Inr head_ref"
    and "git_reference_target head_ref = Some cid" and "git_commit_lookup G (world s) repo (Some cid) = Inr k"
    and "git_commit_tree G (world s) repo k = Inr tree"
    and "complete_tree (subtree_entries G (world s) repo) (stack_depth G) (tree_entries tree)"
    and "run_state (createBranch G name None) s = (0, t)"
    and "git_reference_symbolic_create G (world t) repo ''HEAD'' (''refs/heads/'' @ name) True (Some ''checkout'') = (Inr r, w)"
  shows "\<exists>vt. run_state (checkout G name) t = (0, s\<lparr>m_virtual_tree := vt, world := w\<rparr>) \<and>
    map_of vt = tree_file (subtree_entries G (world s) repo) (tree_entries tree) \<and>
    run_state (currentBranch G) (s\<lparr>m_virtual_tree := vt, world := w\<rparr>) =
      (Some name, s\<lparr>m_virtual_tree := vt, world := w\<rparr>)"
proof -
  have cs: "commit_store G repo ok" and ts: "tree_store G repo ok"
    using assms(1) by (simp_all add: branch_store.axioms(1) commit_store.axioms(1))
  have head: "git_commit_lookup G (world s) repo (git_reference_target head_ref) = Inr k" using assms(9,10) by simp
  obtain br w1 where b: "git_branch_create G (world s) repo name k False = (Inr br, w1)" and t: "t = s\<lparr>world := w1\<rparr>"
    by (rule run_createBranch_head [OF assms(4,5,8) head assms(13)])
  note laws = branch_store.branch_objects [OF assms(1,3) b] branch_store.branch_other [OF assms(1,3) b]
  have ok1: "ok w1" using branch_store.branch_ok [OF assms(1,3) b] .
  obtain r' where r': "git_reference_lookup G w1 repo (''refs/heads/'' @ name) = Inr r'" "reference_target r' = Direct cid"
    using branch_store.branch_created [OF assms(1,3) b] branch_store.commit_id [OF assms(1,10)] by auto
  have "unambiguous G repo w1 name" using unambiguous_other [of name G w1 repo "world s"] laws(2) assms(7) by blast
  from branch_store.branch_resolves [OF assms(1) ok1 this r'] laws(1) assms(10)
  obtain target peeled where o: "git_revparse_single G w1 repo name = Inr target"
      "git_object_peel_commit G w1 repo target = Inr peeled" "git_object_id peeled = cid" by metis
  have wf: "subtree_entries G w1 repo oid = Some sub \<Longrightarrow> wf_entries sub" for oid sub
    using tree_store.lookup_wf [OF ts ok1] .
  have "subtree_entries G (world s) repo (git_commit_tree_id k) = Some (tree_entries tree)"
    using assms(11) by (simp add: commit_store.commit_tree_lookup [OF cs] subtree_entries_def)
  then have look: "subtree_entries G w1 repo (git_commit_tree_id k) = Some (tree_entries tree)" using laws(1) by simp
  then obtain tree' where tree': "git_commit_tree G w1 repo k = Inr tree'" "tree_entries tree' = tree_entries tree"
    by (auto simp: commit_store.commit_tree_lookup [OF cs] subtree_entries_def split: sum.splits)
  have idle: "\<not> m_lock t" "m_repo t = Some repo" "m_virtual t" using assms(4-6) by (simp_all add: t)
  have "\<exists>vt. run_state (checkout G name) t = (0, t\<lparr>m_virtual_tree := vt, world := w\<rparr>) \<and>
      omap_ok vt \<and> map_of vt = tree_file (subtree_entries G (world t) repo) (tree_entries tree')"
    using run_checkout_virtual [OF assms(2) idle, of name target peeled k tree'] o r' tree' laws(1) wf look assms(10,12,14)
    by (simp add: t)
  then obtain vt where vt: "run_state (checkout G name) t = (0, s\<lparr>m_virtual_tree := vt, world := w\<rparr>)"
      "map_of vt = tree_file (subtree_entries G (world s) repo) (tree_entries tree)"
    using laws(1) tree'(2) by (auto simp: t)
  have "git_repository_head G w repo = Inr r'"
    using branch_store.symbolic_head [OF assms(1) ok1 _ r'] assms(14) by (simp add: t)
  with branch_store.branch_named [OF assms(1) r'(1)]
  have "run_state (currentBranch G) (s\<lparr>m_virtual_tree := vt, world := w\<rparr>) = (Some name, s\<lparr>m_virtual_tree := vt, world := w\<rparr>)"
    using assms(4,5) by (cases s) (simp add: currentBranch_def run_guarded)
  with vt show ?thesis by blast
qed

lemma one_commit_no_ref:
  "n \<noteq> ''HEAD'' \<Longrightarrow> n \<noteq> ''refs/heads/main'' \<Longrightarrow> mem_reference_lookup one_commit n = Inl (GitErr GIT_ENOTFOUND None)"
  by (simp add: mem_reference_lookup_def one_commit_def mem_refdb_lookup_def)

lemma one_commit_branch:
  "\<exists>w. run_state (createBranch (mem_api size_hash 9) ''dev'' None) (mem_object_state\<lparr>world := one_commit\<rparr>) =
     (0, mem_object_state\<lparr>world := w\<rparr>) \<and> mem_ok w"
proof -
  have "refdb_abs (mw_refdb one_commit) ''refs/heads/dev'' = None"
    using one_commit_no_ref [of "''refs/heads/dev''"] by (simp add: mem_reference_lookup_abs split: option.splits)
  then have "mem_refdb_write (mw_refdb one_commit) r False None None = mem_refdb_write (mw_refdb one_commit) r True None None"
    if "git_reference_name r = ''refs/heads/dev''" for r
    using that by (simp add: mem_refdb_write_def refdb_abs_def split: option.splits)
  then have "mem_ref_write one_commit ''refs/heads/dev'' (Direct 3) False = mem_ref_write one_commit ''refs/heads/dev'' (Direct 3) True"
    by (simp add: mem_ref_write_def)
  then obtain r w where "mem_ref_write one_commit ''refs/heads/dev'' (Direct 3) False = (Inr r, w)" "mem_ok w"
    by (metis mem_ref_write_force [OF one_commit_ok])
  then show ?thesis
    by (simp add: createBranch_def run_guarded mem_object_state_def blank_def given_def one_commit_head
        git_reference_target_def one_commit_lookup first_commit_def)
qed

theorem created_branch_checks_out_witness:
  "\<exists>t vt w. run_state (createBranch (mem_api size_hash 9) ''dev'' None) (mem_object_state\<lparr>world := one_commit\<rparr>) = (0, t) \<and>
     run_state (checkout (mem_api size_hash 9) ''dev'') t = (0, mem_object_state\<lparr>m_virtual_tree := vt, world := w\<rparr>) \<and>
     map_of vt ''a'' = Some 1 \<and>
     fst (run_state (currentBranch (mem_api size_hash 9)) (mem_object_state\<lparr>m_virtual_tree := vt, world := w\<rparr>)) = Some ''dev''"
proof -
  let ?G = "mem_api size_hash 9" and ?s = "mem_object_state\<lparr>world := one_commit\<rparr>"
  let ?head = "\<lparr>git_reference_name = ''refs/heads/main'', reference_target = Direct 3\<rparr>"
  obtain w1 where run: "run_state (createBranch ?G ''dev'' None) ?s = (0, mem_object_state\<lparr>world := w1\<rparr>)" "mem_ok w1"
    using one_commit_branch by blast
  obtain w where sym: "mem_ref_write w1 ''HEAD'' (Symbolic ''refs/heads/dev'') True =
      (Inr \<lparr>git_reference_name = ''HEAD'', reference_target = Symbolic ''refs/heads/dev''\<rparr>, w)"
    by (rule mem_ref_write_force [OF run(2)])
  have s: "mem_ok (world ?s)" "\<not> m_lock ?s" "m_repo ?s = Some 0" "m_virtual ?s" "unambiguous ?G 0 (world ?s) ''dev''"
    by (simp_all add: mem_object_state_def blank_def one_commit_ok unambiguous_def GIT_OID_SHA1_HEXSIZE_def one_commit_no_ref)
  have "\<exists>vt. run_state (checkout ?G ''dev'') (mem_object_state\<lparr>world := w1\<rparr>) = (0, ?s\<lparr>m_virtual_tree := vt, world := w\<rparr>) \<and>
    map_of vt = tree_file (subtree_entries ?G (world ?s) 0) (tree_entries \<lparr>git_tree_id = 2, tree_entries = [blob_for ''a'' 1]\<rparr>) \<and>
    run_state (currentBranch ?G) (?s\<lparr>m_virtual_tree := vt, world := w\<rparr>) = (Some ''dev'', ?s\<lparr>m_virtual_tree := vt, world := w\<rparr>)"
    by (rule created_branch_checks_out [OF mem_branches.branch_store_axioms never_cancelled_mem s, where head_ref = ?head
        and cid = 3 and k = first_commit])
      (use run sym in \<open>simp_all add: one_commit_head git_reference_target_def one_commit_lookup first_commit_tree one_commit_complete\<close>)
  then obtain vt where "run_state (checkout ?G ''dev'') (mem_object_state\<lparr>world := w1\<rparr>) =
      (0, mem_object_state\<lparr>m_virtual_tree := vt, world := w\<rparr>)"
    "map_of vt = tree_file (subtree_entries ?G one_commit 0) [blob_for ''a'' 1]"
    "run_state (currentBranch ?G) (mem_object_state\<lparr>m_virtual_tree := vt, world := w\<rparr>) =
      (Some ''dev'', mem_object_state\<lparr>m_virtual_tree := vt, world := w\<rparr>)" by auto
  moreover from this(2) have "map_of vt ''a'' = Some 1" by (simp add: tree_file.simps entry_named_def blob_for_def)
  ultimately show ?thesis
    using run(1) by (intro exI [of _ "mem_object_state\<lparr>world := w1\<rparr>"] exI [of _ vt] exI [of _ w]) simp
qed

end
