(* ===== verification/Commit_Queries.thy ===== *)
theory Commit_Queries
  imports Branch_Store History
begin

text \<open>
  A commit seen by the queries that follow it: HEAD, the commit under its id, the parent of the next
  commit, and the other references. \<open>head_store\<close> adds to the contract of branches how HEAD resolves.
\<close>

locale head_store = branch_store +
  assumes create_other: "ok w \<Longrightarrow> git_commit_create G w repo ref a c msg tree ps = (cres, w') \<Longrightarrow>
      (\<And>r tg. git_reference_lookup G w repo ref = Inr r \<Longrightarrow> reference_target r \<noteq> Symbolic tg) \<Longrightarrow> n \<noteq> ref \<Longrightarrow>
      git_reference_lookup G w' repo n = git_reference_lookup G w repo n"
    and head_stored: "git_repository_head G w repo = Inr r \<Longrightarrow> \<exists>h. git_reference_lookup G w repo ''HEAD'' = Inr h"
    and head_resolves: "git_reference_lookup G w repo ''HEAD'' = Inr h \<Longrightarrow>
      (case reference_target h of
         Direct _ \<Rightarrow> git_repository_head G w repo = Inr h
       | Symbolic n \<Rightarrow> (\<forall>r oid. git_reference_lookup G w repo n = Inr r \<longrightarrow> reference_target r = Direct oid \<longrightarrow>
           git_repository_head G w repo = Inr r))"
    and head_forced: "ok w \<Longrightarrow> git_reference_symbolic_create G w repo ''HEAD'' n True m = (sres, w') \<Longrightarrow>
      \<exists>h. git_reference_lookup G w' repo ''HEAD'' = Inr h \<and> reference_target h = Symbolic n"
begin

lemma head_direct:
  assumes "git_reference_lookup G w repo ''HEAD'' = Inr h" and "git_reference_lookup G w repo n = Inr r"
    and "reference_target r = Direct oid" and "n = ''HEAD'' \<or> reference_target h = Symbolic n"
  shows "git_repository_head G w repo = Inr r"
  using head_resolves [OF assms(1)] assms by (cases "reference_target h") auto

lemma commit_virtual_head:
  fixes s :: "'a qgit"
  assumes nc: "never_cancelled G" and ok: "ok (world s)" and vt: "omap_ok (m_virtual_tree s)"
    and run: "run_state (commit_virtual G repo message) s = (Some commit_id, t)"
    and ref: "ref = ref_to_update G (world s) repo (find_parent G (world s) repo \<noteq> None)"
    and direct: "\<And>r tg. git_reference_lookup G (world s) repo ref = Inr r \<Longrightarrow> reference_target r \<noteq> Symbolic tg"
  obtains cid k r where "commit_id = git_oid_tostr G cid" and "ok (world t)" and "t = s\<lparr>world := world t\<rparr>"
    and "git_commit_lookup G (world t) repo (Some cid) = Inr k" and "git_commit_message k = committed_message message"
    and "git_commit_parent_ids k = (case find_parent G (world s) repo of Some p \<Rightarrow> [git_commit_id p] | None \<Rightarrow> [])"
    and "git_repository_head G (world t) repo = Inr r" and "reference_target r = Direct cid"
    and "\<And>n. n \<noteq> ref \<Longrightarrow> n \<noteq> ''HEAD'' \<or> find_parent G (world s) repo \<noteq> None \<Longrightarrow>
      git_reference_lookup G (world t) repo n = git_reference_lookup G (world s) repo n"
    and "find_parent G (world s) repo = None \<Longrightarrow>
      \<exists>h. git_reference_lookup G (world t) repo ''HEAD'' = Inr h \<and> reference_target h = Symbolic ''refs/heads/main''"
proof -
  let ?parent = "find_parent G (world s) repo"
  obtain w1 tree cid w2 sig where w1: "ok w1" "refs_view G repo w1 = refs_view G repo (world s)"
    and c: "git_commit_create G w1 repo ref sig sig message tree (case ?parent of Some p \<Rightarrow> [p] | None \<Rightarrow> []) = (Inr cid, w2)"
    and id: "commit_id = git_oid_tostr G cid"
    and t: "t = s\<lparr>world := (if ?parent \<noteq> None then w2
        else snd (git_reference_symbolic_create G w2 repo ''HEAD'' ''refs/heads/main'' True (Some ''initial commit'')))\<rparr>"
    unfolding ref by (rule run_commit_virtual [OF nc ok vt run])
  have view: "git_reference_lookup G w1 repo = git_reference_lookup G (world s) repo"
      "git_repository_head G w1 repo = git_repository_head G (world s) repo" using w1(2) by (simp_all add: refs_view_def)
  have direct1: "\<And>r tg. git_reference_lookup G w1 repo ref = Inr r \<Longrightarrow> reference_target r \<noteq> Symbolic tg"
    using direct by (simp add: view)
  have ok2: "ok w2" using create_ok [OF w1(1) c] .
  obtain sr w3 where w3: "git_reference_symbolic_create G w2 repo ''HEAD'' ''refs/heads/main'' True (Some ''initial commit'') = (sr, w3)"
    by (metis surj_pair)
  have wt: "world t = (if ?parent \<noteq> None then w2 else w3)" using t w3 by simp
  have look: "git_commit_lookup G (world t) repo = git_commit_lookup G w2 repo" and okt: "ok (world t)"
    using symbolic_objects [OF ok2 w3] symbolic_ok [OF ok2 w3] ok2 by (simp_all add: wt)
  obtain r where r: "git_reference_lookup G w2 repo ref = Inr r" "reference_target r = Direct cid"
    using create_moves [OF w1(1) c direct1] by blast
  have "git_repository_head G (world t) repo = Inr r"
  proof (cases ?parent)
    case None
    then have "ref = ''refs/heads/main''" by (simp add: ref ref_to_update_def)
    then have "git_reference_lookup G w3 repo ''refs/heads/main'' = Inr r"
      using symbolic_other [OF ok2 w3, of "''refs/heads/main''"] r(1) by simp
    with head_forced [OF ok2 w3] head_direct r(2) None show ?thesis by (auto simp: wt)
  next
    case (Some p)
    then obtain r0 where "git_repository_head G (world s) repo = Inr r0" by (auto simp: find_parent_def split: sum.splits)
    with head_stored obtain h where h: "git_reference_lookup G (world s) repo ''HEAD'' = Inr h" by blast
    then have "if reference_target h = Symbolic ref then True else ref = ''HEAD''"
      using Some by (cases "reference_target h") (simp_all add: ref ref_to_update_def)
    then have at: "ref = ''HEAD'' \<or> reference_target h = Symbolic ref \<and> ref \<noteq> ''HEAD''" using direct h by (auto split: if_splits)
    then obtain h' where "git_reference_lookup G w2 repo ''HEAD'' = Inr h'" "ref = ''HEAD'' \<or> reference_target h' = Symbolic ref"
      using create_other [OF w1(1) c direct1, of "''HEAD''"] h r(1) by (auto simp: view)
    with head_direct r Some show ?thesis by (simp add: wt)
  qed
  moreover have "git_reference_lookup G (world t) repo n = git_reference_lookup G (world s) repo n"
    if "n \<noteq> ref" "n \<noteq> ''HEAD'' \<or> ?parent \<noteq> None" for n
    using create_other [OF w1(1) c direct1 that(1)] symbolic_other [OF ok2 w3, of n] that(2)
    by (cases ?parent) (simp_all add: wt view)
  moreover obtain k where "git_commit_lookup G w2 repo (Some cid) = Inr k" "git_commit_message k = committed_message message"
      "git_commit_parent_ids k = map git_commit_id (case ?parent of Some p \<Rightarrow> [p] | None \<Rightarrow> [])"
    using create_commit [OF w1(1) c] by blast
  moreover have "t = s\<lparr>world := world t\<rparr>" by (simp add: t)
  moreover have "\<exists>h. git_reference_lookup G (world t) repo ''HEAD'' = Inr h \<and> reference_target h = Symbolic ''refs/heads/main''"
    if "?parent = None" using head_forced [OF ok2 w3] that by (simp add: wt)
  ultimately show thesis
    using id okt r(2) by (intro that [of cid k r]) (simp_all add: look split: option.split)
qed

end

lemma mem_commit_create_other:
  assumes "mem_ok w" and "mem_commit_create H w ref a msg tree ps = (cres, w')" and "n \<noteq> mem_update_target w ref"
  shows "mem_reference_lookup w' n = mem_reference_lookup w n"
proof -
  let ?data = "put_commit (git_tree_id tree, map git_commit_id ps, msg, sig_name a, sig_email a)"
  obtain r1 w1 where w1: "mem_write H w GIT_OBJECT_COMMIT ?data = (r1, w1)" by (metis surj_pair)
  have same: "mem_reference_lookup w1 n = mem_reference_lookup w n"
    using mem_write_refdb [OF w1] by (simp add: mem_reference_lookup_def)
  have "mem_reference_lookup w2 n = mem_reference_lookup w1 n"
    if "mem_ref_write w1 (mem_update_target w ref) t True = (r2, w2)" for r2 w2 t
    using mem_ref_write_other [OF mem_write_ok [OF assms(1) w1] that assms(3)] .
  with assms(2) w1 same show ?thesis
    by (auto simp: mem_commit_create_def Let_def split: if_splits sum.splits prod.splits)
qed

interpretation mem_heads: head_store "mem_api H depth" repo mem_ok for H depth repo
proof (unfold_locales, goal_cases)
  case (1 w ref a c msg tree ps cres w' n)
  then have "mem_commit_create H w ref a msg tree ps = (cres, w')" by simp
  moreover have "mem_update_target w ref = ref"
    using 1(3) by (auto simp: mem_update_target_def split: sum.splits ref_target.splits)
  ultimately show ?case using 1(1,4) by (simp add: mem_commit_create_other)
next
  case (2 w r)
  then show ?case by (auto simp: mem_head_def split: sum.splits)
next
  case (3 w h)
  then show ?case by (auto simp: mem_head_def split: ref_target.split)
next
  case (4 w n m sres w')
  obtain w2 where "mem_ref_write w ''HEAD'' (Symbolic n) True =
      (Inr \<lparr>git_reference_name = ''HEAD'', reference_target = Symbolic n\<rparr>, w2)"
    "refdb_abs (mw_refdb w2) = (refdb_abs (mw_refdb w))(''HEAD'' \<mapsto> Symbolic n)"
    by (rule mem_ref_write_force [OF 4(1)])
  with 4(2) show ?case by (auto simp: mem_reference_lookup_abs)
qed

section \<open>Property\<close>

text \<open>C5: a commit and the queries after it. When \<open>commit\<close> of a virtual object returns an id, \<open>headCommitId\<close>
  returns that id and \<open>lookupCommit\<close> of it the commit with the message (without the leading
  newlines that libgit2 drops) and the parent; the next commit
  has it as its parent. No reference but the one HEAD stands for is touched (for a first commit also
  HEAD itself): other branches and tags keep their commits.\<close>

theorem commit_becomes_head:
  fixes G :: "('w, 'y) repo_api_scheme" and s :: "'w qgit"
  assumes "head_store G repo ok" and "never_cancelled G" and "ok (world s)" and "omap_ok (m_virtual_tree s)"
    and "\<not> m_lock s" and "m_repo s = Some repo" and "m_virtual s"
    and "run_state (commit G message) s = (Some commit_id, t)"
    and "ref = ref_to_update G (world s) repo (find_parent G (world s) repo \<noteq> None)"
    and "\<And>r tg. git_reference_lookup G (world s) repo ref = Inr r \<Longrightarrow> reference_target r \<noteq> Symbolic tg"
  shows "run_state (headCommitId G) t = (Some commit_id, t) \<and>
    (\<exists>k. run_state (lookupCommit G commit_id) t = (Some (commit_entry G (git_commit_id k) k), t) \<and>
      commit_id = git_oid_tostr G (git_commit_id k) \<and> git_commit_message k = committed_message message \<and>
      git_commit_parent_ids k = (case find_parent G (world s) repo of Some p \<Rightarrow> [git_commit_id p] | None \<Rightarrow> []) \<and>
      find_parent G (world t) repo = Some k) \<and>
    (\<forall>n. n \<noteq> ref \<longrightarrow> n \<noteq> ''HEAD'' \<or> find_parent G (world s) repo \<noteq> None \<longrightarrow>
      git_reference_lookup G (world t) repo n = git_reference_lookup G (world s) repo n)"
proof -
  have bs: "branch_store G repo ok" using assms(1) by (rule head_store.axioms(1))
  have cs: "commit_store G repo ok" using bs by (rule branch_store.axioms(1))
  obtain t' where t': "run_state (commit_virtual G repo message) (s\<lparr>m_lock := True\<rparr>) = (Some commit_id, t')"
      "t = t'\<lparr>m_lock := False\<rparr>"
    using assms(5-8) by (auto simp: commit_def run_guarded split: prod.splits)
  have pre: "ok (world (s\<lparr>m_lock := True\<rparr>))" "omap_ok (m_virtual_tree (s\<lparr>m_lock := True\<rparr>))" using assms(3,4) by simp_all
  show ?thesis
  proof (rule head_store.commit_virtual_head [OF assms(1,2) pre t'(1), of ref], goal_cases)
    case 1
    show ?case using assms(9) by simp
  next
    case (2 r tg)
    then show ?case using assms(10) by simp
  next
    case (3 cid k r)
    have id: "git_commit_id k = cid" using branch_store.commit_id [OF bs 3(4)] .
    have idle: "\<not> m_lock t" "m_repo t = Some repo" "t\<lparr>m_lock := True, m_lock := False\<rparr> = t" "world t = world t'"
      using arg_cong [OF 3(3), of m_repo] assms(6) by (simp_all add: t'(2))
    from commit_store.resolve_id [OF cs 3(2,4)] obtain target peeled where
      o: "git_revparse_single G (world t') repo (git_oid_tostr G cid) = Inr target"
        "git_object_peel_commit G (world t') repo target = Inr peeled" "git_object_id peeled = cid" by blast
    have "run_state (headCommitId G) t = (Some commit_id, t)"
      using 3(1,7,8) idle by (simp add: headCommitId_def run_guarded git_reference_target_def)
    moreover have "run_state (lookupCommit G commit_id) t = (Some (commit_entry G (git_commit_id k) k), t)"
      using 3(1,4) o idle by (simp add: lookupCommit_def run_guarded)
    moreover have "find_parent G (world t) repo = Some k"
      using 3(4,7,8) idle(4) by (simp add: find_parent_def git_reference_target_def)
    ultimately show ?case
      using 3(1,5,6,9) id idle(4) by (intro conjI exI [of _ k]) simp_all
  qed
qed

theorem commit_becomes_head_witness:
  "\<exists>commit_id t k. run_state (commit (mem_api typed_hash 9) ''first'') staged_state = (Some commit_id, t) \<and>
     run_state (headCommitId (mem_api typed_hash 9)) t = (Some commit_id, t) \<and>
     run_state (lookupCommit (mem_api typed_hash 9) commit_id) t = (Some (commit_entry (mem_api typed_hash 9) (git_commit_id k) k), t) \<and>
     git_commit_message k = ''first'' \<and> git_commit_parent_ids k = [] \<and>
     find_parent (mem_api typed_hash 9) (world t) 0 = Some k"
proof -
  obtain commit_id t where run: "run_state (commit (mem_api typed_hash 9) ''first'') staged_state = (Some commit_id, t)"
    using staged_commits by blast
  from commit_becomes_head [OF mem_heads.head_store_axioms never_cancelled_mem staged_ok run refl] run
  show ?thesis by (auto simp: staged_head staged_world committed_message_def)
qed

end
