(* ===== verification/Store_Growth.thy ===== *)
theory Store_Growth
  imports Commit_Queries
begin

text \<open>
  The whole store of a virtual repository: \<open>snapshot_store\<close> joins the contracts of blobs, trees, commits,
  branches and HEAD, and adds that no operation loses an object. Under it the methods only let the
  store grow.
\<close>

text \<open>From \<open>w\<close> to \<open>w'\<close> no blob, tree or commit is lost.\<close>

definition grows :: "('w, 'y) repo_api_scheme \<Rightarrow> git_repository \<Rightarrow> 'w \<Rightarrow> 'w \<Rightarrow> bool" where
  "grows G repo w w' \<longleftrightarrow>
     (\<forall>oid data. git_blob_lookup G w repo oid = Inr data \<longrightarrow> git_blob_lookup G w' repo oid = Inr data) \<and>
     (\<forall>cid k. git_commit_lookup G w repo cid = Inr k \<longrightarrow> git_commit_lookup G w' repo cid = Inr k) \<and>
     extends (subtree_entries G w repo) (subtree_entries G w' repo)"

lemma grows_refl: "grows G repo w w"
  by (simp add: grows_def)

lemma grows_trans: "grows G repo w1 w2 \<Longrightarrow> grows G repo w2 w3 \<Longrightarrow> grows G repo w1 w3"
  by (auto simp: grows_def intro: extends_trans)

locale snapshot_store = head_store G repo ok + blobs: blob_store G repo ok
  for G :: "('w, 'y) repo_api_scheme" and repo and ok +
  assumes blob_refs: "ok w \<Longrightarrow> git_blob_create_from_buffer G w repo data = (bres, w') \<Longrightarrow>
      git_reference_lookup G w' repo = git_reference_lookup G w repo"
    and blob_trees: "ok w \<Longrightarrow> git_blob_create_from_buffer G w repo data = (bres, w') \<Longrightarrow>
      extends (subtree_entries G w repo) (subtree_entries G w' repo)"
    and tree_blobs: "ok w \<Longrightarrow> git_treebuilder_write G w repo b = (tres, w') \<Longrightarrow>
      git_blob_lookup G w repo oid = Inr data \<Longrightarrow> git_blob_lookup G w' repo oid = Inr data"
    and commit_blobs: "ok w \<Longrightarrow> git_commit_create G w repo ref a c msg tree ps = (cres, w') \<Longrightarrow>
      git_blob_lookup G w repo oid = Inr data \<Longrightarrow> git_blob_lookup G w' repo oid = Inr data"
    and commit_commits: "ok w \<Longrightarrow> git_commit_create G w repo ref a c msg tree ps = (cres, w') \<Longrightarrow>
      git_commit_lookup G w repo cid = Inr k \<Longrightarrow> git_commit_lookup G w' repo cid = Inr k"
    and symbolic_blobs: "ok w \<Longrightarrow> git_reference_symbolic_create G w repo n tgt force m = (sres, w') \<Longrightarrow>
      git_blob_lookup G w' repo = git_blob_lookup G w repo"
    and branch_blobs: "ok w \<Longrightarrow> git_branch_create G w repo name k force = (rres, w') \<Longrightarrow>
      git_blob_lookup G w' repo = git_blob_lookup G w repo"
begin

definition grown :: "'w \<Rightarrow> 'w qgit \<Rightarrow> bool" where
  "grown w s \<longleftrightarrow> ok (world s) \<and> grows G repo w (world s)"

lemma grows_blob: "ok w \<Longrightarrow> git_blob_create_from_buffer G w repo data = (bres, w') \<Longrightarrow> grows G repo w w'"
  using blobs.create_keeps_blobs blobs.create_keeps_commits blob_trees unfolding grows_def by blast

lemma grows_tree: "ok w \<Longrightarrow> git_treebuilder_write G w repo b = (tres, w') \<Longrightarrow> grows G repo w w'"
  using tree_blobs write_extends write_refs unfolding grows_def refs_view_def by (metis prod.inject)

lemma grows_commit: "ok w \<Longrightarrow> git_commit_create G w repo ref a c msg tree ps = (cres, w') \<Longrightarrow> grows G repo w w'"
  unfolding grows_def by (auto intro: commit_blobs commit_commits create_extends)

lemma grows_symbolic: "ok w \<Longrightarrow> git_reference_symbolic_create G w repo n tgt force m = (sres, w') \<Longrightarrow> grows G repo w w'"
  using symbolic_blobs symbolic_objects by (simp add: grows_def)

lemma grows_branch: "ok w \<Longrightarrow> git_branch_create G w repo name k force = (rres, w') \<Longrightarrow> grows G repo w w'"
  using branch_blobs branch_objects by (simp add: grows_def)

lemma grown_quiet: "keeps (grown w) (query f)" "keeps (grown w) (raiseException err desc)"
    "keeps (grown w) (modify (\<lambda>s. s\<lparr>stack_overflow := True\<rparr>))"
  by (simp_all add: keeps_def grown_def)

lemma grown_on_ok: "(\<And>a. res = Inr a \<Longrightarrow> keeps (grown w) (k a)) \<Longrightarrow> keeps (grown w) (on_ok err ctx r res k)"
  unfolding on_ok_def git_raise_exception_rc_def by (intro keeps_rules grown_quiet) auto

lemma grown_effect:
  "(\<And>v r v'. ok v \<Longrightarrow> f v = (r, v') \<Longrightarrow> ok v' \<and> grows G repo v v') \<Longrightarrow> keeps (grown w) (effect f)"
  by (auto simp: keeps_def grown_def split_beta intro: grows_trans) (metis grows_trans surjective_pairing)+

lemma grown_cancelled: "never_cancelled G \<Longrightarrow> keeps (grown w) (cancelled_when b G what)"
  by (simp add: keeps_def)

lemma grown_insert_blobs: "keeps (grown w) (insert_blobs G repo bs builder)"
  by (induction bs arbitrary: builder) (auto intro!: keeps_rules grown_quiet grown_on_ok)

lemma grown_build_subdirs:
  assumes "\<And>d. n \<noteq> 0 \<Longrightarrow> keeps (grown w) (buildTree G repo (n - 1) d)"
  shows "keeps (grown w) (build_subdirs G repo n ds builder)"
proof (induction ds arbitrary: builder)
  case Nil
  then show ?case by (simp add: build_subdirs.simps keeps_return)
next
  case (Cons d ds)
  obtain name dir where d: "d = (name, dir)" by (cases d)
  show ?case
    unfolding d build_subdirs.simps by (intro keeps_rules grown_quiet grown_on_ok assms Cons)
qed

lemma grown_buildTree: "keeps (grown w) (buildTree G repo n d)"
proof (induction n arbitrary: d)
  case 0
  show ?case
    by (cases d) (simp add: buildTree.simps,
      intro keeps_rules grown_quiet grown_on_ok grown_insert_blobs grown_build_subdirs grown_effect; auto intro: write_ok grows_tree)
next
  case (Suc n)
  show ?case
    by (cases d) (simp add: buildTree.simps,
      intro keeps_rules grown_quiet grown_on_ok grown_insert_blobs grown_build_subdirs grown_effect; auto intro: write_ok grows_tree Suc)
qed

lemma grown_overrideSignature: "keeps (grown w) (overrideSignatureFromConfig G repo sig)"
  unfolding overrideSignatureFromConfig_def by (intro keeps_rules grown_quiet)

lemma grown_commit_virtual:
  assumes "never_cancelled G"
  shows "keeps (grown w) (commit_virtual G repo message)"
proof -
  have group: "keeps (grown w) (group_paths G c kvs root)" for c kvs root
    by (induction kvs arbitrary: c root) (auto intro!: keeps_rules grown_cancelled assms)
  show ?thesis
    unfolding commit_virtual_def buildTreeFromVirtualTree_def Let_def
    by (intro keeps_rules grown_quiet grown_on_ok grown_buildTree group grown_overrideSignature grown_effect conjI;
      auto intro: create_ok grows_commit symbolic_ok grows_symbolic)
qed

end

text \<open>The memory backends.\<close>

interpretation mem_snapshots: snapshot_store "mem_api H depth" repo mem_ok for H depth repo
proof (unfold_locales, goal_cases)
  case (1 w data bres w')
  then show ?case by (simp add: fun_eq_iff mem_reference_lookup_def mem_write_refdb)
next
  case (2 w data bres w')
  then have "mem_write H w GIT_OBJECT_BLOB data = (bres, w')" by simp
  from mem_read_other [OF 2(1) this, of GIT_OBJECT_TREE]
  have "subtree_entries (mem_api H depth) w' repo = subtree_entries (mem_api H depth) w repo"
    by (simp add: fun_eq_iff subtree_entries_mem)
  then show ?case by simp
next
  case (3 w b tres w' oid data)
  then show ?case by (auto simp: mem_tree_write_def intro: mem_write_keeps split: if_splits)
next
  case (4 w ref a c msg tree ps cres w' oid data)
  then have c: "mem_commit_create H w ref a msg tree ps = (cres, w')" by simp
  from 4(1) c show ?case
  proof (cases rule: mem_create_cases)
    case stale
    with 4(3) show ?thesis by simp
  next
    case (written w1 r1 d)
    from mem_write_keeps [OF 4(1) written(1)] 4(3) show ?thesis by (simp add: mem_read_odb [OF written(3)])
  qed
next
  case (5 w ref a c msg tree ps cres w' cid k)
  then have c: "mem_commit_create H w ref a msg tree ps = (cres, w')" by simp
  from 5(1) c show ?case
  proof (cases rule: mem_create_cases)
    case stale
    with 5(3) show ?thesis by simp
  next
    case (written w1 r1 d)
    from mem_commit_keeps [OF 5(1) written(1)] 5(3) show ?thesis by (simp add: mem_commit_lookup_odb [OF written(3)])
  qed
next
  case (6 w n tgt force m sres w')
  then have "mw_odb w' = mw_odb w" by (simp add: mem_ref_write_odb)
  from mem_read_odb [OF this] show ?case by (simp add: fun_eq_iff)
next
  case (7 w name k force rres w')
  then have "mw_odb w' = mw_odb w" by (simp add: mem_ref_write_odb)
  from mem_read_odb [OF this] show ?case by (simp add: fun_eq_iff)
qed

end
