(* ===== verification/Repository_Spec.thy ===== *)
theory Repository_Spec
  imports Store_Growth File_Refinement
begin

text \<open>
  A virtual repository as an abstract one: branches are snapshots, maps from paths to contents; one of
  them is the current one; and there is a staging area. The specification knows nothing of ids, blobs,
  trees, commits or references. Any sequence of writes, deletions, commits, new branches and checkouts
  on the object is simulated by the same sequence on the specification.
\<close>

section \<open>The specification\<close>

type_synonym snapshot = "string \<Rightarrow> bytes option"

record git_spec =
  tips :: "string \<Rightarrow> snapshot option"
  current :: "string option"
  staging :: snapshot

datatype git_call =
    Put_Call string bytes | Remove_Call string | Commit_Call string | Branch_Call string | Checkout_Call string

text \<open>A path that is a directory of another path is not in a snapshot.\<close>

definition snapshot_of :: "snapshot \<Rightarrow> snapshot" where
  "snapshot_of files = (\<lambda>p. if \<exists>q. files q \<noteq> None \<and> starts_with (p @ ''/'') q then None else files p)"

definition commit_branch :: "git_spec \<Rightarrow> string" where
  "commit_branch a = (case current a of Some b \<Rightarrow> b | None \<Rightarrow> ''main'')"

fun spec_step :: "git_call \<Rightarrow> git_spec \<Rightarrow> git_spec" where
  "spec_step (Put_Call path data) a = a\<lparr>staging := (staging a)(path \<mapsto> data)\<rparr>"
| "spec_step (Remove_Call path) a = a\<lparr>staging := (staging a)(path := None)\<rparr>"
| "spec_step (Commit_Call message) a =
     a\<lparr>tips := (tips a)(commit_branch a \<mapsto> snapshot_of (staging a)), current := Some (commit_branch a)\<rparr>"
| "spec_step (Branch_Call name) a =
     (case current a of Some b \<Rightarrow> a\<lparr>tips := (tips a)(name := tips a b)\<rparr> | None \<Rightarrow> a)"
| "spec_step (Checkout_Call name) a =
     (case tips a name of Some files \<Rightarrow> a\<lparr>staging := files, current := Some name\<rparr> | None \<Rightarrow> a)"

text \<open>A name that can only be taken for a branch in a repository whose references are HEAD and branches. Only
  branches that exist are checked out.\<close>

definition branch_name_ok :: "string \<Rightarrow> bool" where
  "branch_name_ok name \<longleftrightarrow> name \<noteq> ''HEAD'' \<and> length name \<noteq> GIT_OID_SHA1_HEXSIZE \<and>
     \<not> starts_with ''heads/'' name \<and> \<not> starts_with ''refs/heads/'' name"

fun step_allowed :: "git_call \<Rightarrow> git_spec \<Rightarrow> bool" where
  "step_allowed (Checkout_Call name) a \<longleftrightarrow> tips a name \<noteq> None \<and> branch_name_ok name"
| "step_allowed _ a \<longleftrightarrow> True"

primrec steps_allowed :: "git_call list \<Rightarrow> git_spec \<Rightarrow> bool" where
  "steps_allowed [] a \<longleftrightarrow> True"
| "steps_allowed (c # cs) a \<longleftrightarrow> step_allowed c a \<and> steps_allowed cs (spec_step c a)"

section \<open>The implementation\<close>

fun git_method :: "('w, 'y) repo_api_scheme \<Rightarrow> git_call \<Rightarrow> ('w, int) qmethod" where
  "git_method G (Put_Call path data) = writeFile G path data"
| "git_method G (Remove_Call path) = deleteFile G path"
| "git_method G (Commit_Call message) = do { r \<leftarrow> commit G message; ret (if r = None then - 1 else 0) }"
| "git_method G (Branch_Call name) = createBranch G name None"
| "git_method G (Checkout_Call name) = checkout G name"

text \<open>A sequence of calls, up to the first that fails.\<close>

primrec git_methods :: "('w, 'y) repo_api_scheme \<Rightarrow> git_call list \<Rightarrow> ('w, int) qmethod" where
  "git_methods G [] = ret 0"
| "git_methods G (c # cs) = do { rc \<leftarrow> git_method G c; if rc < 0 then ret rc else git_methods G cs }"

text \<open>The reference of a branch.\<close>

definition branch_ref :: "string \<Rightarrow> string" where
  "branch_ref b = ''refs/heads/'' @ b"

lemma branch_ref_simps [simp]: "branch_ref b = branch_ref c \<longleftrightarrow> b = c" "branch_ref b \<noteq> ''HEAD''" "''HEAD'' \<noteq> branch_ref b"
    "starts_with ''refs/heads/'' (branch_ref b)"
  by (simp_all add: branch_ref_def starts_with_iff)

text \<open>A commit has the files of a snapshot, and the tip of a branch does.\<close>

definition commit_holds ::
  "('w, 'y) repo_api_scheme \<Rightarrow> git_repository \<Rightarrow> 'w \<Rightarrow> git_oid \<Rightarrow> snapshot \<Rightarrow> bool" where
  "commit_holds G repo w cid files \<longleftrightarrow>
     (\<exists>k es. git_commit_lookup G w repo (Some cid) = Inr k \<and> subtree_entries G w repo (git_commit_tree_id k) = Some es \<and>
        complete_tree (subtree_entries G w repo) (stack_depth G) es \<and>
        (\<forall>p. case files p of
            Some data \<Rightarrow> (\<exists>oid. tree_file (subtree_entries G w repo) es p = Some oid \<and> git_blob_lookup G w repo oid = Inr data)
          | None \<Rightarrow> tree_file (subtree_entries G w repo) es p = None))"

definition tip_holds ::
  "('w, 'y) repo_api_scheme \<Rightarrow> git_repository \<Rightarrow> 'w \<Rightarrow> string \<Rightarrow> snapshot \<Rightarrow> bool" where
  "tip_holds G repo w b files \<longleftrightarrow>
     (\<exists>r cid. git_reference_lookup G w repo (branch_ref b) = Inr r \<and> reference_target r = Direct cid \<and>
        commit_holds G repo w cid files)"

text \<open>HEAD and the branches.\<close>

definition refs_represent :: "('w, 'y) repo_api_scheme \<Rightarrow> git_repository \<Rightarrow> 'w \<Rightarrow> git_spec \<Rightarrow> bool" where
  "refs_represent G repo w a \<longleftrightarrow>
     (\<forall>b. case tips a b of
         Some files \<Rightarrow> tip_holds G repo w b files
       | None \<Rightarrow> (\<exists>e. git_reference_lookup G w repo (branch_ref b) = Inl e)) \<and>
     (case current a of
         Some b \<Rightarrow> tips a b \<noteq> None \<and>
           (\<exists>h. git_reference_lookup G w repo ''HEAD'' = Inr h \<and> reference_target h = Symbolic (branch_ref b))
       | None \<Rightarrow> (\<exists>e. git_repository_head G w repo = Inl e \<and> (err_rc e = GIT_EUNBORNBRANCH \<or> err_rc e = GIT_ENOTFOUND))) \<and>
     (\<forall>n r. git_reference_lookup G w repo n = Inr r \<longrightarrow> n = ''HEAD'' \<or> starts_with ''refs/heads/'' n)"

definition represents ::
  "('w, 'y) repo_api_scheme \<Rightarrow> git_repository \<Rightarrow> ('w \<Rightarrow> bool) \<Rightarrow> 'w qgit \<Rightarrow> git_spec \<Rightarrow> bool" where
  "represents G repo ok s a \<longleftrightarrow>
     \<not> m_lock s \<and> m_repo s = Some repo \<and> m_virtual s \<and> omap_ok (m_virtual_tree s) \<and> ok (world s) \<and>
     (\<forall>p. case staging a p of
         Some data \<Rightarrow> staged_content G repo s p data | None \<Rightarrow> map_of (m_virtual_tree s) p = None) \<and>
     refs_represent G repo (world s) a"

section \<open>The simulation\<close>

lemma representsD:
  assumes "represents G repo ok s a"
  shows "\<not> m_lock s" and "m_repo s = Some repo" and "m_virtual s" and "omap_ok (m_virtual_tree s)" and "ok (world s)"
    and "refs_represent G repo (world s) a"
    and "staging a p = Some data \<Longrightarrow> staged_content G repo s p data"
    and "staging a p = None \<Longrightarrow> map_of (m_virtual_tree s) p = None"
proof -
  note s = assms [unfolded represents_def]
  from s show "\<not> m_lock s" "m_repo s = Some repo" "m_virtual s" "omap_ok (m_virtual_tree s)" "ok (world s)"
    "refs_represent G repo (world s) a" by simp_all
  from s have "case staging a p of Some d \<Rightarrow> staged_content G repo s p d | None \<Rightarrow> map_of (m_virtual_tree s) p = None" by blast
  then show "staging a p = Some data \<Longrightarrow> staged_content G repo s p data"
    "staging a p = None \<Longrightarrow> map_of (m_virtual_tree s) p = None" by simp_all
qed

lemma representsI:
  assumes "\<not> m_lock s" and "m_repo s = Some repo" and "m_virtual s" and "omap_ok (m_virtual_tree s)" and "ok (world s)"
    and "\<And>p. case staging a p of
        Some data \<Rightarrow> staged_content G repo s p data | None \<Rightarrow> map_of (m_virtual_tree s) p = None"
    and "refs_represent G repo (world s) a"
  shows "represents G repo ok s a"
  unfolding represents_def using assms by blast

lemma refs_representD:
  assumes "refs_represent G repo w a"
  shows "tips a b = Some files \<Longrightarrow> tip_holds G repo w b files"
    and "tips a b = None \<Longrightarrow> \<exists>e. git_reference_lookup G w repo (branch_ref b) = Inl e"
    and "current a = Some b \<Longrightarrow> tips a b \<noteq> None"
    and "current a = Some b \<Longrightarrow>
      \<exists>h. git_reference_lookup G w repo ''HEAD'' = Inr h \<and> reference_target h = Symbolic (branch_ref b)"
    and "current a = None \<Longrightarrow>
      \<exists>e. git_repository_head G w repo = Inl e \<and> (err_rc e = GIT_EUNBORNBRANCH \<or> err_rc e = GIT_ENOTFOUND)"
    and "git_reference_lookup G w repo n = Inr r \<Longrightarrow> n = ''HEAD'' \<or> starts_with ''refs/heads/'' n"
proof -
  note w = assms [unfolded refs_represent_def]
  from w have "case tips a b of Some files \<Rightarrow> tip_holds G repo w b files
      | None \<Rightarrow> (\<exists>e. git_reference_lookup G w repo (branch_ref b) = Inl e)" by blast
  then show "tips a b = Some files \<Longrightarrow> tip_holds G repo w b files"
    "tips a b = None \<Longrightarrow> \<exists>e. git_reference_lookup G w repo (branch_ref b) = Inl e" by simp_all
qed (use assms in \<open>auto simp: refs_represent_def\<close>)

lemma commit_holds_grows:
  assumes "commit_holds G repo w cid files" and "grows G repo w w'"
  shows "commit_holds G repo w' cid files"
proof -
  obtain k es where 1: "git_commit_lookup G w repo (Some cid) = Inr k"
      "subtree_entries G w repo (git_commit_tree_id k) = Some es" "complete_tree (subtree_entries G w repo) (stack_depth G) es"
      "\<forall>p. case files p of
            Some data \<Rightarrow> (\<exists>oid. tree_file (subtree_entries G w repo) es p = Some oid \<and> git_blob_lookup G w repo oid = Inr data)
          | None \<Rightarrow> tree_file (subtree_entries G w repo) es p = None"
    using assms(1) unfolding commit_holds_def by blast
  have ext: "extends (subtree_entries G w repo) (subtree_entries G w' repo)" using assms(2) by (simp add: grows_def)
  show ?thesis
    unfolding commit_holds_def
  proof (intro exI conjI)
    show "git_commit_lookup G w' repo (Some cid) = Inr k" using 1(1) assms(2) by (simp add: grows_def)
    show "subtree_entries G w' repo (git_commit_tree_id k) = Some es" using 1(2) ext by (simp add: extends_def)
    show "complete_tree (subtree_entries G w' repo) (stack_depth G) es" using complete_extends [OF ext 1(3)] .
    show "\<forall>p. case files p of
            Some data \<Rightarrow> (\<exists>oid. tree_file (subtree_entries G w' repo) es p = Some oid \<and> git_blob_lookup G w' repo oid = Inr data)
          | None \<Rightarrow> tree_file (subtree_entries G w' repo) es p = None"
      using 1(4) assms(2) tree_file_extends [OF ext 1(3)] by (fastforce simp: grows_def split: option.splits)
  qed
qed

lemma tip_holds_grows:
  "tip_holds G repo w b files \<Longrightarrow> grows G repo w w' \<Longrightarrow>
   git_reference_lookup G w' repo (branch_ref b) = git_reference_lookup G w repo (branch_ref b) \<Longrightarrow> tip_holds G repo w' b files"
  unfolding tip_holds_def by (auto intro: commit_holds_grows)

lemma refs_representI:
  assumes "\<And>b files. tips a b = Some files \<Longrightarrow> tip_holds G repo w b files"
    and "\<And>b. tips a b = None \<Longrightarrow> \<exists>e. git_reference_lookup G w repo (branch_ref b) = Inl e"
    and "\<And>b. current a = Some b \<Longrightarrow> tips a b \<noteq> None \<and>
      (\<exists>h. git_reference_lookup G w repo ''HEAD'' = Inr h \<and> reference_target h = Symbolic (branch_ref b))"
    and "current a = None \<Longrightarrow>
      \<exists>e. git_repository_head G w repo = Inl e \<and> (err_rc e = GIT_EUNBORNBRANCH \<or> err_rc e = GIT_ENOTFOUND)"
    and "\<And>n r. git_reference_lookup G w repo n = Inr r \<Longrightarrow> n = ''HEAD'' \<or> starts_with ''refs/heads/'' n"
  shows "refs_represent G repo w a"
  unfolding refs_represent_def using assms by (intro conjI allI; simp split: option.split)

lemma refs_represent_grows:
  assumes "refs_represent G repo w a" and "grows G repo w w'"
    and "git_reference_lookup G w' repo = git_reference_lookup G w repo"
    and "git_repository_head G w' repo = git_repository_head G w repo"
  shows "refs_represent G repo w' a"
proof -
  note D = refs_representD [OF assms(1)]
  show ?thesis
    by (rule refs_representI) (use D assms(3,4) tip_holds_grows [OF _ assms(2)] in simp_all)
qed

text \<open>One branch is moved and HEAD set; the other references stay.\<close>

lemma refs_represent_update:
  assumes "refs_represent G repo w a" and "grows G repo w w'"
    and others: "\<And>n. n \<noteq> branch_ref b \<Longrightarrow> n \<noteq> ''HEAD'' \<Longrightarrow> git_reference_lookup G w' repo n = git_reference_lookup G w repo n"
    and tip: "tip_holds G repo w' b files" and c: "c = b \<or> tips a c \<noteq> None"
    and head: "\<exists>h. git_reference_lookup G w' repo ''HEAD'' = Inr h \<and> reference_target h = Symbolic (branch_ref c)"
  shows "refs_represent G repo w' (a\<lparr>tips := (tips a)(b \<mapsto> files), current := Some c\<rparr>)"
proof -
  note D = refs_representD [OF assms(1)]
  show ?thesis
  proof (rule refs_representI, goal_cases)
    case (1 d files')
    then show ?case using tip tip_holds_grows [OF D(1) assms(2)] others [of "branch_ref d"] by (cases "d = b") simp_all
  next
    case (2 d)
    then show ?case using D(2) [of d] others [of "branch_ref d"] by (cases "d = b") simp_all
  next
    case (3 d)
    then show ?case using c head by auto
  next
    case 4
    then show ?case by simp
  next
    case (5 n r)
    then show ?case using D(6) [of n r] others [of n] by (cases "n = branch_ref b \<or> n = ''HEAD''") auto
  qed
qed

lemma map_of_committed_files:
  "map_of (committed vt) p = (if \<exists>q. map_of vt q \<noteq> None \<and> starts_with (p @ ''/'') q then None else map_of vt p)"
proof -
  have "map_of vt q \<noteq> None \<longleftrightarrow> q \<in> fst ` set vt" for q by (simp add: map_of_eq_None_iff)
  then show ?thesis unfolding map_of_committed shadowed_def Bex_def by simp
qed

lemma refs_represent_staging [simp]: "refs_represent G repo w (a\<lparr>staging := f\<rparr>) = refs_represent G repo w a"
  by (simp add: refs_represent_def cong: option.case_cong)

lemma relock: "\<not> m_lock s \<Longrightarrow> s\<lparr>m_lock := True, world := w\<rparr>\<lparr>m_lock := False\<rparr> = s\<lparr>world := w\<rparr>"
  by (cases s) simp

lemma represents_move:
  assumes s: "represents G repo ok s a" and g: "grows G repo (world s) w" and "ok w"
    and "refs_represent G repo w a'" and "staging a' = staging a"
  shows "represents G repo ok (s\<lparr>world := w\<rparr>) a'"
proof -
  note D = representsD [OF s]
  have "case staging a' p of
      Some d \<Rightarrow> staged_content G repo (s\<lparr>world := w\<rparr>) p d | None \<Rightarrow> map_of (m_virtual_tree (s\<lparr>world := w\<rparr>)) p = None" for p
    using D(7,8) [of p] g by (cases "staging a p") (auto simp: assms(5) staged_content_def grows_def split: option.splits)
  with D(1-4) assms(3,4) show ?thesis by (intro representsI) simp_all
qed

context snapshot_store
begin

lemma put_step:
  assumes s: "represents G repo ok s a" and run: "run_state (writeFile G path data) s = (rc, t)" and rc: "\<not> rc < 0"
  shows "represents G repo ok t (spec_step (Put_Call path data) a)"
proof -
  note D = representsD [OF s]
  note p = writeFile_path_ok [OF D(1,2) run rc]
  obtain r w where c: "git_blob_create_from_buffer G (world s) repo data = (r, w)" by (metis surj_pair)
  obtain oid where r: "r = Inr oid" and t: "t = s\<lparr>world := w, m_virtual_tree := omap_put path oid (m_virtual_tree s)\<rparr>"
    using run rc c by (cases r) (auto simp: run_writeFile_virtual [OF D(1-3) p] Let_def run_git_raise_exception_rc)
  have g: "grows G repo (world s) w" using grows_blob [OF D(5) c] .
  have "refs_represent G repo w a"
    by (rule refs_represent_grows [OF D(6) g blob_refs [OF D(5) c] blobs.create_keeps_head [OF D(5) c]])
  then have "refs_represent G repo (world t) (spec_step (Put_Call path data) a)" by (simp add: t)
  moreover have "case staging (spec_step (Put_Call path data) a) q of
      Some d \<Rightarrow> staged_content G repo t q d | None \<Rightarrow> map_of (m_virtual_tree t) q = None" for q
    using D(7,8) [of q] blobs.create_lookup [OF D(5) c [unfolded r]] g
    by (auto simp: t staged_content_def grows_def split: option.splits)
  ultimately show ?thesis
    using D(1-4) blobs.create_ok [OF D(5) c] by (intro representsI) (simp_all add: t)
qed

lemma remove_step:
  assumes s: "represents G repo ok s a" and run: "run_state (deleteFile G path) s = (rc, t)" and rc: "\<not> rc < 0"
  shows "represents G repo ok t (spec_step (Remove_Call path) a)"
proof -
  note D = representsD [OF s]
  have t: "t = s\<lparr>m_virtual_tree := omap_erase path (m_virtual_tree s)\<rparr>"
    using run run_deleteFile_virtual [OF D(1-3) deleteFile_path_ok [OF D(1,2) run rc], of G] by simp
  have "case staging (spec_step (Remove_Call path) a) q of
      Some d \<Rightarrow> staged_content G repo t q d | None \<Rightarrow> map_of (m_virtual_tree t) q = None" for q
    using D(4) D(7,8) [of q] by (auto simp: t staged_content_def split: option.splits)
  moreover have "refs_represent G repo (world t) (spec_step (Remove_Call path) a)"
    using D(6) by (simp add: t)
  ultimately show ?thesis using D(1-5) by (intro representsI) (simp_all add: t)
qed

lemma head_of_current:
  assumes "refs_represent G repo w a" and "current a = Some b"
  obtains files r cid k where "tips a b = Some files" and "commit_holds G repo w cid files"
    and "git_reference_lookup G w repo (branch_ref b) = Inr r" and "reference_target r = Direct cid"
    and "git_repository_head G w repo = Inr r" and "git_commit_lookup G w repo (Some cid) = Inr k"
    and "find_parent G w repo = Some k"
proof -
  note D = refs_representD [OF assms(1)]
  obtain files where f: "tips a b = Some files" using D(3) [OF assms(2)] by blast
  obtain r cid where t: "git_reference_lookup G w repo (branch_ref b) = Inr r" "reference_target r = Direct cid"
      "commit_holds G repo w cid files"
    using D(1) [OF f] unfolding tip_holds_def by blast
  obtain k where k: "git_commit_lookup G w repo (Some cid) = Inr k" using t(3) unfolding commit_holds_def by blast
  obtain h where "git_reference_lookup G w repo ''HEAD'' = Inr h" "reference_target h = Symbolic (branch_ref b)"
    using D(4) [OF assms(2)] by blast
  with head_direct t have head: "git_repository_head G w repo = Inr r" by blast
  with t k have "find_parent G w repo = Some k" by (simp add: find_parent_def git_reference_target_def)
  with f t k head that show thesis by blast
qed

lemma branch_step:
  assumes s: "represents G repo ok s a" and run: "run_state (createBranch G name None) s = (rc, t)" and rc: "\<not> rc < 0"
  shows "represents G repo ok t (spec_step (Branch_Call name) a)"
proof (cases "current a")
  case None
  note D = representsD [OF s]
  obtain e where "git_repository_head G (world s) repo = Inl e" using refs_representD(5) [OF D(6) None] by blast
  with run rc D(1,2) show ?thesis
    by (auto simp: createBranch_def run_guarded given_def on_ok_Inl run_git_raise_exception_rc)
next
  case (Some b)
  note D = representsD [OF s]
  obtain files r cid k where h: "tips a b = Some files" "commit_holds G repo (world s) cid files"
      "git_repository_head G (world s) repo = Inr r" "reference_target r = Direct cid"
      "git_commit_lookup G (world s) repo (Some cid) = Inr k"
    using head_of_current [OF D(6) Some] by metis
  have target: "git_commit_lookup G (world s) repo (git_reference_target r) = Inr k"
    using h(4,5) by (simp add: git_reference_target_def)
  have "rc = 0"
    using run rc D(1,2) h(3) target
    by (auto simp: createBranch_def run_guarded given_def on_ok_def run_git_raise_exception_rc split: sum.splits prod.splits)
  then obtain br w where c: "git_branch_create G (world s) repo name k False = (Inr br, w)" and t: "t = s\<lparr>world := w\<rparr>"
    using run_createBranch_head [OF D(1,2) h(3) target] run by blast
  have g: "grows G repo (world s) w" using grows_branch [OF D(5) c] .
  note other = branch_other [OF D(5) c, folded branch_ref_def]
  have tip: "tip_holds G repo w name files"
    using branch_created [OF D(5) c, folded branch_ref_def] commit_id [OF h(5)] commit_holds_grows [OF h(2) g]
    by (auto simp: tip_holds_def)
  have head: "\<exists>h. git_reference_lookup G w repo ''HEAD'' = Inr h \<and> reference_target h = Symbolic (branch_ref b)"
    using refs_representD(4) [OF D(6) Some] other [of "''HEAD''"] by simp
  have "refs_represent G repo w (a\<lparr>tips := (tips a)(name \<mapsto> files), current := Some b\<rparr>)"
    by (rule refs_represent_update [OF D(6) g other tip _ head]) (use h(1) in auto)
  then have "represents G repo ok (s\<lparr>world := w\<rparr>) (a\<lparr>tips := (tips a)(name \<mapsto> files), current := Some b\<rparr>)"
    by (intro represents_move [OF s g branch_ok [OF D(5) c]]) simp_all
  moreover have "a\<lparr>tips := (tips a)(name \<mapsto> files), current := Some b\<rparr> = spec_step (Branch_Call name) a"
    using h(1) Some by (cases a) simp
  ultimately show ?thesis by (simp add: t)
qed

lemma commit_ref:
  assumes "refs_represent G repo w a"
  shows "ref_to_update G w repo (find_parent G w repo \<noteq> None) = branch_ref (commit_branch a)"
    and "find_parent G w repo = None \<longleftrightarrow> current a = None"
    and "git_reference_lookup G w repo (branch_ref (commit_branch a)) = Inr r \<Longrightarrow> reference_target r \<noteq> Symbolic tg"
proof -
  note D = refs_representD [OF assms]
  have "ref_to_update G w repo (find_parent G w repo \<noteq> None) = branch_ref (commit_branch a) \<and>
      (find_parent G w repo = None \<longleftrightarrow> current a = None)"
  proof (cases "current a")
    case None
    with D(5) have "find_parent G w repo = None" by (auto simp: find_parent_def)
    with None show ?thesis by (simp add: ref_to_update_def commit_branch_def branch_ref_def)
  next
    case (Some b)
    obtain h where h: "git_reference_lookup G w repo ''HEAD'' = Inr h" "reference_target h = Symbolic (branch_ref b)"
      using D(4) [OF Some] by blast
    obtain k where "find_parent G w repo = Some k" using head_of_current [OF assms Some] by blast
    with h Some show ?thesis by (simp add: ref_to_update_def commit_branch_def)
  qed
  then show "ref_to_update G w repo (find_parent G w repo \<noteq> None) = branch_ref (commit_branch a)"
    "find_parent G w repo = None \<longleftrightarrow> current a = None" by blast+
  show "reference_target r \<noteq> Symbolic tg" if "git_reference_lookup G w repo (branch_ref (commit_branch a)) = Inr r"
    using that D(1,2) [of "commit_branch a"] by (cases "tips a (commit_branch a)") (auto simp: tip_holds_def)
qed

text \<open>What \<open>commit_stores\<close> says of the files of the new commit, over contents.\<close>

lemma committed_snapshot:
  assumes s: "represents G repo ok s a" and g: "grows G repo (world s) w"
  shows "case snapshot_of (staging a) p of
      Some data \<Rightarrow> (\<exists>oid. map_of (committed (m_virtual_tree s)) p = Some oid \<and> git_blob_lookup G w repo oid = Inr data)
    | None \<Rightarrow> map_of (committed (m_virtual_tree s)) p = None"
proof -
  note D = representsD [OF s]
  have staged: "staging a q \<noteq> None \<longleftrightarrow> map_of (m_virtual_tree s) q \<noteq> None" for q
    using D(7,8) [of q] by (cases "staging a q") (auto simp: staged_content_def split: option.splits)
  show ?thesis
  proof (cases "snapshot_of (staging a) p")
    case None
    then have "staging a p = None \<or> (\<exists>q. staging a q \<noteq> None \<and> starts_with (p @ ''/'') q)"
      by (auto simp: snapshot_of_def split: if_splits)
    with staged have "map_of (committed (m_virtual_tree s)) p = None" unfolding map_of_committed_files by metis
    with None show ?thesis by simp
  next
    case (Some data)
    then have "staging a p = Some data" "\<nexists>q. staging a q \<noteq> None \<and> starts_with (p @ ''/'') q"
      by (auto simp: snapshot_of_def split: if_splits)
    then have c: "map_of (committed (m_virtual_tree s)) p = map_of (m_virtual_tree s) p"
      using staged unfolding map_of_committed_files by metis
    with D(7) [OF \<open>staging a p = Some data\<close>] g Some show ?thesis
      by (auto simp: staged_content_def grows_def split: option.splits)
  qed
qed

lemma commit_step:
  assumes nc: "never_cancelled G" and s: "represents G repo ok s a"
    and run: "run_state (commit G message) s = (Some commit_id, t)"
  shows "represents G repo ok t (spec_step (Commit_Call message) a)"
proof -
  note D = representsD [OF s]
  let ?b = "commit_branch a" and ?s = "s\<lparr>m_lock := True\<rparr>"
  obtain t' where t': "run_state (commit_virtual G repo message) ?s = (Some commit_id, t')" "t = t'\<lparr>m_lock := False\<rparr>"
    using D(1-3) run by (auto simp: commit_def run_guarded split: prod.splits)
  have pre: "ok (world ?s)" "omap_ok (m_virtual_tree ?s)" using D(4,5) by simp_all
  note ref = commit_ref [OF D(6)]
  have g: "grows G repo (world s) (world t')"
    using keepsE [OF grown_commit_virtual [OF nc, of "world s" message] t'(1)] D(5) by (simp add: grown_def grows_refl)
  obtain cid k tree r where c: "ok (world t')" "t' = ?s\<lparr>world := world t'\<rparr>"
      "git_commit_lookup G (world t') repo (Some cid) = Inr k" "git_commit_tree G (world t') repo k = Inr tree"
      "complete_tree (subtree_entries G (world t') repo) (stack_depth G) (tree_entries tree)"
      "tree_file (subtree_entries G (world t') repo) (tree_entries tree) = map_of (committed (m_virtual_tree s))"
      "git_reference_lookup G (world t') repo (branch_ref ?b) = Inr r" "reference_target r = Direct cid"
  proof (rule commit_stores [OF nc pre t'(1)], goal_cases)
    case (1 cid k tree)
    from 1(12) ref obtain r where
      "git_reference_lookup G (world t') repo (branch_ref ?b) = Inr r" "reference_target r = Direct cid" by auto
    with 1(2-11) show ?case by (intro 1(1)) simp_all
  qed
  have "subtree_entries G (world t') repo (git_commit_tree_id k) = Some (tree_entries tree)"
    using c(4) by (simp add: commit_tree_lookup subtree_entries_def)
  moreover have "case snapshot_of (staging a) p of
      Some data \<Rightarrow> (\<exists>oid. tree_file (subtree_entries G (world t') repo) (tree_entries tree) p = Some oid \<and>
        git_blob_lookup G (world t') repo oid = Inr data)
    | None \<Rightarrow> tree_file (subtree_entries G (world t') repo) (tree_entries tree) p = None" for p
    using committed_snapshot [OF s g, of p] by (simp only: c(6))
  ultimately have "commit_holds G repo (world t') cid (snapshot_of (staging a))"
    using c(3,5) unfolding commit_holds_def by blast
  with c(7,8) have tip: "tip_holds G repo (world t') ?b (snapshot_of (staging a))" unfolding tip_holds_def by blast
  have refs: "refs_represent G repo (world t')
      (a\<lparr>tips := (tips a)(?b \<mapsto> snapshot_of (staging a)), current := Some ?b\<rparr>)"
  proof (rule commit_virtual_head [OF nc pre t'(1), of "branch_ref ?b"], goal_cases)
    case 1
    show ?case using ref(1) by simp
  next
    case (2 r tg)
    then show ?case using ref(3) by simp
  next
    case (3 cid k r)
    have "\<exists>h. git_reference_lookup G (world t') repo ''HEAD'' = Inr h \<and> reference_target h = Symbolic (branch_ref ?b)"
    proof (cases "current a")
      case None
      with ref(2) 3(10) show ?thesis by (simp add: commit_branch_def branch_ref_def)
    next
      case (Some b)
      with ref(2) 3(9) [of "''HEAD''"] refs_representD(4) [OF D(6) Some] show ?thesis by (simp add: commit_branch_def)
    qed
    with tip show ?case using 3(9) by (intro refs_represent_update [OF D(6) g]) simp_all
  qed
  have "represents G repo ok (s\<lparr>world := world t'\<rparr>) (spec_step (Commit_Call message) a)"
    by (rule represents_move [OF s g c(1)]) (use refs in simp_all)
  moreover have "t = s\<lparr>world := world t'\<rparr>"
    using relock [OF D(1), of "world t'"] unfolding t'(2) c(2) [symmetric] .
  ultimately show ?thesis by simp
qed

text \<open>A branch of the specification can be checked out.\<close>

lemma checkout_represented:
  assumes nc: "never_cancelled G" and s: "represents G repo ok s a"
    and "tips a name = Some files" and name: "branch_name_ok name"
  shows "\<exists>t. run_state (checkout G name) s = (0, t) \<and> represents G repo ok t (spec_step (Checkout_Call name) a)"
proof -
  note D = representsD [OF s]
  note R = refs_representD [OF D(6)]
  obtain r cid where r: "git_reference_lookup G (world s) repo (branch_ref name) = Inr r" "reference_target r = Direct cid"
      "commit_holds G repo (world s) cid files"
    using R(1) [OF assms(3)] unfolding tip_holds_def by blast
  obtain k es where k: "git_commit_lookup G (world s) repo (Some cid) = Inr k"
      "subtree_entries G (world s) repo (git_commit_tree_id k) = Some es"
      "complete_tree (subtree_entries G (world s) repo) (stack_depth G) es"
      "\<And>p. case files p of
            Some data \<Rightarrow> (\<exists>oid. tree_file (subtree_entries G (world s) repo) es p = Some oid \<and> git_blob_lookup G (world s) repo oid = Inr data)
          | None \<Rightarrow> tree_file (subtree_entries G (world s) repo) es p = None"
    using r(3) unfolding commit_holds_def by blast
  obtain tree where tree: "git_commit_tree G (world s) repo k = Inr tree" "tree_entries tree = es"
    using k(2) by (auto simp: commit_tree_lookup subtree_entries_def split: sum.splits)
  have "unambiguous G repo (world s) name"
    using name R(6) [of name] R(6) [of "''refs/'' @ name"] R(6) [of "''refs/tags/'' @ name"]
    by (auto simp: unambiguous_def branch_name_ok_def starts_with_iff split: sum.split)
  from branch_resolves [OF D(5) this r(1) [unfolded branch_ref_def] r(2) k(1)]
  obtain target peeled where o: "git_revparse_single G (world s) repo name = Inr target"
      "git_object_peel_commit G (world s) repo target = Inr peeled" "git_object_id peeled = cid" by blast
  obtain sr w where w: "git_reference_symbolic_create G (world s) repo ''HEAD'' (branch_ref name) True (Some ''checkout'') = (sr, w)"
    by (metis surj_pair)
  obtain vt where vt: "run_state (checkout G name) s = (0, s\<lparr>m_virtual_tree := vt, world := w\<rparr>)" "omap_ok vt"
      "map_of vt = tree_file (subtree_entries G (world s) repo) es"
    using run_checkout_virtual [OF nc D(1-3) o(1,2) _ tree(1)] o(3) k(1,3) lookup_wf [OF D(5)] k(2) tree(2) r(1) w
    by (auto simp: branch_ref_def)
  have g: "grows G repo (world s) w" using grows_symbolic [OF D(5) w] .
  have tip: "tip_holds G repo w name files"
    using R(1) [OF assms(3)] symbolic_other [OF D(5) w, of "branch_ref name"] by (intro tip_holds_grows [OF _ g]) simp_all
  have "refs_represent G repo w (a\<lparr>tips := (tips a)(name \<mapsto> files), current := Some name\<rparr>)"
    by (rule refs_represent_update [OF D(6) g _ tip]) (simp_all add: symbolic_other [OF D(5) w] head_forced [OF D(5) w])
  moreover have "a\<lparr>tips := (tips a)(name \<mapsto> files), current := Some name, staging := files\<rparr> = spec_step (Checkout_Call name) a"
    using assms(3) by (cases a) (simp add: fun_upd_idem)
  ultimately have refs: "refs_represent G repo w (spec_step (Checkout_Call name) a)"
    by (metis refs_represent_staging)
  let ?t = "s\<lparr>m_virtual_tree := vt, world := w\<rparr>"
  have "case staging (spec_step (Checkout_Call name) a) p of
      Some d \<Rightarrow> staged_content G repo ?t p d | None \<Rightarrow> map_of (m_virtual_tree ?t) p = None" for p
    using k(4) [of p] g by (auto simp: assms(3) vt(3) staged_content_def grows_def split: option.splits)
  with D(1-3) vt(2) symbolic_ok [OF D(5) w] refs have "represents G repo ok ?t (spec_step (Checkout_Call name) a)"
    by (intro representsI) (simp_all del: spec_step.simps)
  with vt(1) show ?thesis by blast
qed

lemma represents_step:
  assumes nc: "never_cancelled G" and s: "represents G repo ok s a" and "step_allowed c a"
    and run: "run_state (git_method G c) s = (rc, t)" and rc: "\<not> rc < 0"
  shows "represents G repo ok t (spec_step c a)"
proof (cases c)
  case (Put_Call path data)
  with put_step [OF s _ rc] run show ?thesis by simp
next
  case (Remove_Call path)
  with remove_step [OF s _ rc] run show ?thesis by simp
next
  case (Commit_Call message)
  with run rc obtain commit_id where "run_state (commit G message) s = (Some commit_id, t)"
    by (auto split: prod.splits if_splits)
  with commit_step [OF nc s] Commit_Call show ?thesis by simp
next
  case (Branch_Call name)
  with branch_step [OF s _ rc] run show ?thesis by simp
next
  case (Checkout_Call name)
  with assms(3) obtain files where "tips a name = Some files" "branch_name_ok name" by auto
  from checkout_represented [OF nc s this] run Checkout_Call show ?thesis by auto
qed

lemma represents_steps:
  assumes nc: "never_cancelled G" and "\<not> rc < 0"
  shows "represents G repo ok s a \<Longrightarrow> steps_allowed cs a \<Longrightarrow> run_state (git_methods G cs) s = (rc, t) \<Longrightarrow>
    represents G repo ok t (fold spec_step cs a)"
proof (induction cs arbitrary: s a)
  case Nil
  then show ?case by simp
next
  case (Cons c cs)
  obtain rc1 u where u: "run_state (git_method G c) s = (rc1, u)" by (metis surj_pair)
  with Cons.prems(3) assms(2) have rc1: "\<not> rc1 < 0" "run_state (git_methods G cs) u = (rc, t)"
    by (auto split: if_splits)
  have "represents G repo ok u (spec_step c a)"
    using represents_step [OF nc Cons.prems(1) _ u rc1(1)] Cons.prems(2) by simp
  from Cons.IH [OF this _ rc1(2)] Cons.prems(2) show ?case by simp
qed

lemma represented_file:
  assumes s: "represents G repo ok s a" and "staging a path = Some data" and "path_ok path"
  shows "run_state (readFile G path) s = (Some data, s)"
  using representsD(7) [OF s assms(2)] run_readFile_staged [OF representsD(1,2) [OF s] assms(3)]
  by (auto simp: staged_content_def split: option.splits)

lemma represented_branch:
  assumes s: "represents G repo ok s a"
  shows "run_state (currentBranch G) s = (current a, s)"
proof -
  note D = representsD [OF s]
  have unlock: "s\<lparr>m_lock := True\<rparr>\<lparr>m_lock := False\<rparr> = s" using D(1) by (cases s) simp
  show ?thesis
  proof (cases "current a")
    case None
    with refs_representD(5) [OF D(6)] D(1,2) unlock show ?thesis by (auto simp: currentBranch_def run_guarded)
  next
    case (Some b)
    with head_of_current [OF D(6) Some] obtain r where
      "git_reference_lookup G (world s) repo (branch_ref b) = Inr r" "git_repository_head G (world s) repo = Inr r" by blast
    with branch_named [of "world s" b r, folded branch_ref_def] Some D(1,2) unlock show ?thesis
      by (simp add: currentBranch_def run_guarded)
  qed
qed

end

section \<open>Property\<close>

text \<open>C1: refinement. If a virtual object starts in agreement with a specification state (branches as snapshots of
  files, a current branch, staged files), then after any sequence of writes, deletions, commits, new
  branches and checkouts of existing branches that succeeded it agrees with the specification again: a
  commit makes the current branch (\<open>main\<close> at first) the snapshot of the staged files and touches no
  other branch, a new branch is a copy of the current one, a checkout stages the snapshot of its branch.
  Staged paths read as the specification says, \<open>currentBranch\<close> returns the current branch, and every
  branch of the specification with an unambiguous name can be checked out.\<close>

theorem repository_refines_specification:
  fixes G :: "('w, 'y) repo_api_scheme" and s :: "'w qgit"
  assumes "snapshot_store G repo ok" and "never_cancelled G" and "represents G repo ok s a" and "steps_allowed calls a"
    and "run_state (git_methods G calls) s = (rc, t)" and "\<not> rc < 0"
  shows "represents G repo ok t (fold spec_step calls a) \<and>
    (\<forall>path data. staging (fold spec_step calls a) path = Some data \<longrightarrow> path_ok path \<longrightarrow>
      run_state (readFile G path) t = (Some data, t)) \<and>
    run_state (currentBranch G) t = (current (fold spec_step calls a), t) \<and>
    (\<forall>name. step_allowed (Checkout_Call name) (fold spec_step calls a) \<longrightarrow> fst (run_state (checkout G name) t) = 0)"
proof -
  note t = snapshot_store.represents_steps [OF assms(1,2,6,3,4,5)]
  show ?thesis
  proof (intro conjI allI impI)
    fix name
    assume "step_allowed (Checkout_Call name) (fold spec_step calls a)"
    then obtain files where "tips (fold spec_step calls a) name = Some files" "branch_name_ok name" by auto
    from snapshot_store.checkout_represented [OF assms(1,2) t this] show "fst (run_state (checkout G name) t) = 0" by auto
  qed (use t snapshot_store.represented_file [OF assms(1) t] snapshot_store.represented_branch [OF assms(1) t] in auto)
qed

text \<open>A new repository: a file is written and committed, then deleted, and the checkout of \<open>main\<close> brings it back.\<close>

definition new_repository :: git_spec where
  "new_repository = \<lparr>tips = \<lambda>b. None, current = None, staging = \<lambda>p. None\<rparr>"

definition first_calls :: "git_call list" where
  "first_calls = [Put_Call ''a'' [104, 105], Commit_Call ''first'']"

lemma new_represents: "represents (mem_api H depth) 0 mem_ok mem_object_state new_repository"
  unfolding represents_def refs_represent_def
  by (simp add: new_repository_def mem_object_state_def blank_def mem_head_def)

lemma first_calls_run: "\<exists>t. run_state (git_methods (mem_api typed_hash 9) first_calls) mem_object_state = (0, t)"
proof -
  have g: "grouped [(''a'', oid)] (DirEntry [] []) = DirEntry [(''a'', oid)] []" for oid
    by (simp add: grouped_def dir_insert.simps)
  show ?thesis
    apply (simp add: first_calls_def mem_object_state_def blank_def run_writeFile_virtual path_ok_def mem_write_fresh typed_hash_def
        tag_of_type_def)
    apply (simp add: commit_def run_guarded commit_virtual_def)
    apply (simp add: buildTreeFromVirtualTree_def run_group_paths g buildTree.simps build_subdirs.simps
        mem_tree_insert_def mem_tree_write_def wf_entries_def mem_write_fresh
        typed_hash_def tag_of_type_def type_of_mode_def)
    apply (simp add: find_parent_def ref_to_update_def mem_head_def
      mem_tree_lookup_def mem_read_def odb_read_abs tree.get_put_end wf_entries_def
      overrideSignatureFromConfig_def mem_commit_create_def mem_update_target_def tag_of_type_def
      mem_signature Let_def mem_write_fresh typed_hash_def mem_ref_write_def mem_refdb_write_def)
    done
qed

lemma git_methods_append:
  "run_state (git_methods G xs) s = (rc, t) \<Longrightarrow> \<not> rc < 0 \<Longrightarrow>
   run_state (git_methods G (xs @ [y, z])) s = run_state (git_methods G [y, z]) t"
  by (induction xs arbitrary: s) (auto split: prod.splits if_splits)

theorem repository_refines_specification_witness:
  "\<exists>t. run_state (git_methods (mem_api typed_hash 9) (first_calls @ [Remove_Call ''a'', Checkout_Call ''main''])) mem_object_state = (0, t) \<and>
     run_state (readFile (mem_api typed_hash 9) ''a'') t = (Some [104, 105], t) \<and>
     run_state (currentBranch (mem_api typed_hash 9)) t = (Some ''main'', t)"
proof -
  let ?G = "mem_api typed_hash 9" and ?calls = "first_calls @ [Remove_Call ''a'', Checkout_Call ''main'']"
  obtain t1 where t1: "run_state (git_methods ?G first_calls) mem_object_state = (0, t1)" using first_calls_run by blast
  have "steps_allowed first_calls new_repository" by (simp add: first_calls_def)
  with mem_snapshots.represents_steps [OF never_cancelled_mem _ new_represents _ t1]
  have r1: "represents ?G 0 mem_ok t1 (fold spec_step first_calls new_repository)" by simp
  note D = representsD [OF r1]
  let ?t2 = "t1\<lparr>m_virtual_tree := omap_erase ''a'' (m_virtual_tree t1)\<rparr>"
  have t2: "run_state (deleteFile ?G ''a'') t1 = (0, ?t2)"
    using run_deleteFile_virtual [OF D(1-3), of "''a''" ?G] by (simp add: path_ok_def)
  from mem_snapshots.remove_step [OF r1 t2] 
  have r2: "represents ?G 0 mem_ok ?t2 (spec_step (Remove_Call ''a'') (fold spec_step first_calls new_repository))" by simp
  have main: "tips (spec_step (Remove_Call ''a'') (fold spec_step first_calls new_repository)) ''main'' = Some [''a'' \<mapsto> [104, 105]]"
    by (simp add: first_calls_def new_repository_def commit_branch_def snapshot_of_def fun_eq_iff starts_with_iff)
  have name: "branch_name_ok ''main''" by (simp add: branch_name_ok_def starts_with_iff GIT_OID_SHA1_HEXSIZE_def)
  obtain t where t: "run_state (checkout ?G ''main'') ?t2 = (0, t)"
    using mem_snapshots.checkout_represented [OF never_cancelled_mem r2 main name] by blast
  have run: "run_state (git_methods ?G ?calls) mem_object_state = (0, t)"
    using git_methods_append [OF t1] t t2 by simp
  have "steps_allowed ?calls new_repository"
    using main name by (simp add: first_calls_def)
  from repository_refines_specification [OF mem_snapshots.snapshot_store_axioms never_cancelled_mem new_represents this run]
  have "path_ok ''a'' \<longrightarrow> run_state (readFile ?G ''a'') t = (Some [104, 105], t)"
    and "run_state (currentBranch ?G) t = (Some ''main'', t)"
    using main by (simp_all add: first_calls_def new_repository_def commit_branch_def)
  with run show ?thesis by (auto simp: path_ok_def)
qed

end
