(* ===== verification/Iterator_End.thy ===== *)
theory Iterator_End
  imports Memory_RefDB
begin

text \<open>
  The reference iterators come to an end. \<open>iteration\<close> is what a loop \<open>while (next(...) == 0)\<close> needs of
  its iterator; both callbacks of the in-memory iterator provide it.
\<close>

locale iteration =
  fixes advance :: "'i \<Rightarrow> 'r \<times> 'i" and remaining :: "'i \<Rightarrow> nat" and over :: 'r
  assumes progress: "fst (advance it) \<noteq> over \<Longrightarrow> remaining (snd (advance it)) < remaining it"
    and stays: "fst (advance it) = over \<Longrightarrow> fst (advance (snd (advance it))) = over"
begin

definition after :: "nat \<Rightarrow> 'i \<Rightarrow> 'i" where
  "after j it = ((\<lambda>it. snd (advance it)) ^^ j) it"

lemma after_Suc: "after (Suc j) it = after j (snd (advance it))"
  by (simp only: after_def funpow_Suc_right comp_apply)

lemma over_stays: "fst (advance it) = over \<Longrightarrow> fst (advance (after j it)) = over"
  by (induction j arbitrary: it) (simp add: after_def, simp add: after_Suc stays)

lemma ends: "\<exists>k \<le> remaining it. \<forall>j. fst (advance (after j it)) = over \<longleftrightarrow> k \<le> j"
proof (induction "remaining it" arbitrary: it rule: less_induct)
  case less
  show ?case
  proof (cases "fst (advance it) = over")
    case True
    then show ?thesis using over_stays by (intro exI [of _ 0]) simp
  next
    case False
    from less [OF progress [OF False]] obtain k where k: "k \<le> remaining (snd (advance it))"
      "\<forall>j. fst (advance (after j (snd (advance it)))) = over \<longleftrightarrow> k \<le> j" by blast
    have "fst (advance (after j it)) = over \<longleftrightarrow> Suc k \<le> j" for j
      using False k(2) by (cases j) (simp add: after_def, simp add: after_Suc)
    with k(1) progress [OF False] show ?thesis by (intro exI [of _ "Suc k"]) simp
  qed
qed

end

text \<open>At the end the iterator stays where it is; before it, the position moves.\<close>

lemma iter_next_name_over:
  "fst (mem_refdb_iter_next_name T it) = Inl (GitErr GIT_ITEROVER None) \<Longrightarrow>
   \<not> pos (snd (mem_refdb_iter_next_name T it)) < length (entries (snd (mem_refdb_iter_next_name T it)))"
proof (induction T it rule: mem_refdb_iter_next_name.induct)
  case (1 T self)
  then show ?case
    unfolding mem_refdb_iter_next_name.simps [of T self] by (auto simp: Let_def split: if_splits)
qed

lemma iter_next_over:
  "fst (mem_refdb_iter_next T it) = Inl (GitErr GIT_ITEROVER None) \<Longrightarrow>
   \<not> pos (snd (mem_refdb_iter_next T it)) < length (entries (snd (mem_refdb_iter_next T it)))"
proof (induction T it rule: mem_refdb_iter_next.induct)
  case (1 T self)
  then show ?case
    unfolding mem_refdb_iter_next.simps [of T self] by (auto simp: Let_def split: if_splits option.splits)
qed

lemma iter_next_moves:
  "fst (mem_refdb_iter_next T it) \<noteq> Inl (GitErr GIT_ITEROVER None) \<Longrightarrow>
   entries (snd (mem_refdb_iter_next T it)) = entries it \<and> pos it < pos (snd (mem_refdb_iter_next T it)) \<and>
   pos (snd (mem_refdb_iter_next T it)) \<le> length (entries it)"
proof (induction T it rule: mem_refdb_iter_next.induct)
  case (1 T self)
  show ?case
    using "1.prems" "1.IH" unfolding mem_refdb_iter_next.simps [of T self]
    by (fastforce simp: Let_def split: if_splits option.splits)
qed

lemma iter_next_name_moves:
  "fst (mem_refdb_iter_next_name T it) \<noteq> Inl (GitErr GIT_ITEROVER None) \<Longrightarrow>
   entries (snd (mem_refdb_iter_next_name T it)) = entries it \<and> pos it < pos (snd (mem_refdb_iter_next_name T it)) \<and>
   pos (snd (mem_refdb_iter_next_name T it)) \<le> length (entries it)"
proof (induction T it rule: mem_refdb_iter_next_name.induct)
  case (1 T self)
  show ?case
    using "1.prems" "1.IH" unfolding mem_refdb_iter_next_name.simps [of T self]
    by (fastforce simp: Let_def split: if_splits)
qed

interpretation by_name: iteration "mem_refdb_iter_next_name T" "\<lambda>it. length (entries it) - pos it"
  "Inl (GitErr GIT_ITEROVER None)" for T
proof unfold_locales
  fix it :: memory_ref_iterator
  let ?it = "snd (mem_refdb_iter_next_name T it)"
  show "length (entries ?it) - pos ?it < length (entries it) - pos it"
    if "fst (mem_refdb_iter_next_name T it) \<noteq> Inl (GitErr GIT_ITEROVER None)"
    using iter_next_name_moves [OF that] by auto
  show "fst (mem_refdb_iter_next_name T ?it) = Inl (GitErr GIT_ITEROVER None)"
    if "fst (mem_refdb_iter_next_name T it) = Inl (GitErr GIT_ITEROVER None)"
    using iter_next_name_over [OF that] by (subst mem_refdb_iter_next_name.simps) simp
qed

interpretation by_reference: iteration "mem_refdb_iter_next T" "\<lambda>it. length (entries it) - pos it"
  "Inl (GitErr GIT_ITEROVER None)" for T
proof unfold_locales
  fix it :: memory_ref_iterator
  let ?it = "snd (mem_refdb_iter_next T it)"
  show "length (entries ?it) - pos ?it < length (entries it) - pos it"
    if "fst (mem_refdb_iter_next T it) \<noteq> Inl (GitErr GIT_ITEROVER None)"
    using iter_next_moves [OF that] by auto
  show "fst (mem_refdb_iter_next T ?it) = Inl (GitErr GIT_ITEROVER None)"
    if "fst (mem_refdb_iter_next T it) = Inl (GitErr GIT_ITEROVER None)"
    using iter_next_over [OF that] by (subst mem_refdb_iter_next.simps) simp
qed

text \<open>C33: a loop over an in-memory iterator ends. Called again and again, each of the two callbacks returns
  something other than \<open>GIT_ITEROVER\<close> at most once per remaining entry, then \<open>GIT_ITEROVER\<close>, and from
  then on always; an allocation failure of one entry does not make it stick. No assumption is made
  on the pattern matcher or the allocator.\<close>

theorem iterators_end:
  "(\<exists>k \<le> length (entries it) - pos it. \<forall>j.
      fst (mem_refdb_iter_next_name T (((\<lambda>it. snd (mem_refdb_iter_next_name T it)) ^^ j) it)) =
        Inl (GitErr GIT_ITEROVER None) \<longleftrightarrow> k \<le> j) \<and>
   (\<exists>k \<le> length (entries it) - pos it. \<forall>j.
      fst (mem_refdb_iter_next T (((\<lambda>it. snd (mem_refdb_iter_next T it)) ^^ j) it)) =
        Inl (GitErr GIT_ITEROVER None) \<longleftrightarrow> k \<le> j)"
  using by_name.ends [of it T] by_reference.ends [of it T]
  unfolding by_name.after_def by_reference.after_def by blast

end
