(* ===== verification/Qore_Types.thy ===== *)
theory Qore_Types
  imports Client
begin

text \<open>
  The types of the Qore language as far as \<open>src/QC_GitRepository.qpp\<close> declares them: the eight
  hash declarations of the module with their members, and what it means for a value to have a
  type. \<open>*t\<close> of Qore is \<open>TMaybe t\<close>, \<open>hash<auto>\<close> is \<open>THash\<close>, \<open>hash<string, t>\<close> is \<open>THashOf t\<close> and
  \<open>hash<Decl>\<close> is \<open>THashDecl\<close> with the name of the declaration, which a list of declarations
  in scope gives a meaning.
\<close>

section \<open>Types and hash declarations\<close>

datatype qtype =
    TNothing
  | TBool
  | TInt
  | TString
  | TBinary
  | TDate
  | THash
  | THashOf qtype
  | THashDecl string
  | TList qtype
  | TMaybe qtype

text \<open>A member has a name, a type and possibly a default value.\<close>

record hd_member =
  mem_name :: string
  mem_type :: qtype
  mem_default :: "qvalue option"

record hashdecl =
  hd_name :: string
  hd_members :: "hd_member list"

abbreviation member :: "string \<Rightarrow> qtype \<Rightarrow> hd_member" where
  "member name t \<equiv> \<lparr>mem_name = name, mem_type = t, mem_default = None\<rparr>"

text \<open>A value must be there for a member unless its type allows nothing or it has a default.\<close>

definition required :: "hd_member \<Rightarrow> bool" where
  "required m \<longleftrightarrow> (case mem_type m of TMaybe t \<Rightarrow> False | _ \<Rightarrow> mem_default m = None)"

definition member_types :: "hashdecl list \<Rightarrow> string \<Rightarrow> (string \<rightharpoonup> qtype)" where
  "member_types D name =
     (case find (\<lambda>d. hd_name d = name) D of
        None \<Rightarrow> Map.empty
      | Some d \<Rightarrow> map_of (map (\<lambda>m. (mem_name m, mem_type m)) (hd_members d)))"

definition complete :: "hashdecl list \<Rightarrow> string \<Rightarrow> qhash \<Rightarrow> bool" where
  "complete D name h =
     (case find (\<lambda>d. hd_name d = name) D of
        None \<Rightarrow> False
      | Some d \<Rightarrow> distinct (map fst h) \<and> list_all (\<lambda>m. required m \<longrightarrow> mem_name m \<in> set (map fst h)) (hd_members d))"

lemma size_qlist_elem: "v \<in> set vs \<Longrightarrow> size v < size (QList vs)"
  by (induction vs) auto

lemma size_qhash_elem: "e \<in> set h \<Longrightarrow> size (snd e) < size (QHash h)"
proof (induction h)
  case (Cons x h)
  then show ?case by (cases x) auto
qed simp

function (sequential) has_type :: "hashdecl list \<Rightarrow> qtype \<Rightarrow> qvalue \<Rightarrow> bool" where
  "has_type D (TMaybe t) v = (v = QNothing \<or> has_type D t v)"
| "has_type D TNothing QNothing = True"
| "has_type D TBool (QBool b) = True"
| "has_type D TInt (QInt i) = True"
| "has_type D TString (QString s) = True"
| "has_type D TBinary (QBinary b) = True"
| "has_type D TDate (QDate d) = True"
| "has_type D THash (QHash h) = True"
| "has_type D (TList t) (QList vs) = (\<forall>v \<in> set vs. has_type D t v)"
| "has_type D (THashOf t) (QHash h) = (\<forall>e \<in> set h. has_type D t (snd e))"
| "has_type D (THashDecl name) (QHash h) = (complete D name h \<and>
     (\<forall>e \<in> set h. case member_types D name (fst e) of None \<Rightarrow> False | Some t \<Rightarrow> has_type D t (snd e)))"
| "has_type D t v = False"
  by pat_completeness auto
termination
  by (relation "measures [\<lambda>(D, t, v). size v, \<lambda>(D, t, v). size t]")
    (auto dest: size_qlist_elem size_qhash_elem simp del: qvalue.size)

section \<open>The declarations of the module\<close>

definition GitSignatureInfo :: hashdecl where
  "GitSignatureInfo = \<lparr>hd_name = ''GitSignatureInfo'', hd_members =
     [member ''name'' TString, member ''email'' TString, member ''when'' TDate]\<rparr>"

definition CommitInfo :: hashdecl where
  "CommitInfo = \<lparr>hd_name = ''CommitInfo'', hd_members =
     [member ''id'' TString, member ''short_id'' TString, member ''message'' TString, member ''summary'' TString,
      member ''author'' (THashDecl ''GitSignatureInfo''), member ''committer'' (THashDecl ''GitSignatureInfo''),
      member ''parent_count'' TInt, member ''parent_ids'' (TMaybe (TList TString))]\<rparr>"

definition DiffEntry :: hashdecl where
  "DiffEntry = \<lparr>hd_name = ''DiffEntry'', hd_members =
     [member ''status'' TString, member ''path'' TString, member ''old_path'' (TMaybe TString)]\<rparr>"

definition DiffStatsInfo :: hashdecl where
  "DiffStatsInfo = \<lparr>hd_name = ''DiffStatsInfo'', hd_members =
     [member ''files_changed'' TInt, member ''insertions'' TInt, member ''deletions'' TInt]\<rparr>"

definition BlameHunkInfo :: hashdecl where
  "BlameHunkInfo = \<lparr>hd_name = ''BlameHunkInfo'', hd_members =
     [member ''commit_id'' TString, member ''author'' (THashDecl ''GitSignatureInfo''), member ''start_line'' TInt,
      member ''lines'' TInt, member ''final_start_line'' TInt]\<rparr>"

definition StashInfo :: hashdecl where
  "StashInfo = \<lparr>hd_name = ''StashInfo'', hd_members = [member ''index'' TInt, member ''message'' TString]\<rparr>"

definition GitMergeConflict :: hashdecl where
  "GitMergeConflict = \<lparr>hd_name = ''GitMergeConflict'', hd_members =
     [member ''path'' TString,
      member ''ancestor_content'' (TMaybe TBinary), member ''ancestor_content_string'' (TMaybe TString),
      member ''ours_content'' (TMaybe TBinary), member ''ours_content_string'' (TMaybe TString),
      member ''theirs_content'' (TMaybe TBinary), member ''theirs_content_string'' (TMaybe TString),
      member ''ours_commit'' THash, member ''theirs_commit'' THash]\<rparr>"

definition GitMergeResult :: hashdecl where
  "GitMergeResult = \<lparr>hd_name = ''GitMergeResult'', hd_members =
     [\<lparr>mem_name = ''up_to_date'', mem_type = TBool, mem_default = Some (QBool False)\<rparr>,
      \<lparr>mem_name = ''fast_forward'', mem_type = TBool, mem_default = Some (QBool False)\<rparr>,
      \<lparr>mem_name = ''conflicts'', mem_type = TBool, mem_default = Some (QBool False)\<rparr>,
      member ''commit_id'' (TMaybe TString), member ''conflict_list'' (TList (THashDecl ''GitMergeConflict'')),
      member ''resolved_paths'' (TList TString)]\<rparr>"

end
