(* ===== verification/Class_Binding.thy ===== *)
theory Class_Binding
  imports Qore_Types
begin

text \<open>
  The class \<open>GitRepository\<close> as Qore programs call it: \<open>src/QC_GitRepository.qpp\<close>. A call of a method
  with Qore arguments is a value of \<open>qore_call\<close>; \<open>to_operation\<close> is the call of \<open>QoreGitRepository\<close> that the
  binding makes for it, \<open>return_type\<close> the declared type of its result and \<open>invoke\<close> the whole call. The
  four ways to get an object (\<open>constructor\<close>, \<open>init\<close>, \<open>createVirtual\<close>, \<open>connectRemote\<close>) return whether
  one was handed out; when not, the \<open>ReferenceHolder\<close> of the C++ destroys it.
\<close>

section \<open>Conversion of arguments\<close>

text \<open>\<open>c_str()\<close>: what the callee sees of a string ends at the first NUL.\<close>

definition c_str :: "string \<Rightarrow> string" where
  "c_str s = takeWhile (\<lambda>c. c \<noteq> CHR 0x00) s"

text \<open>A cast of the 64-bit integers of Qore to \<open>int\<close>.\<close>

definition c_int :: "int \<Rightarrow> int" where
  "c_int n = sint (word_of_int n :: 32 word)"

text \<open>An absent optional argument is false or 0.\<close>

definition or_false :: "bool option \<Rightarrow> bool" where
  "or_false b = (case b of Some b \<Rightarrow> b | None \<Rightarrow> False)"

definition or_zero :: "int option \<Rightarrow> int" where
  "or_zero n = (case n of Some n \<Rightarrow> n | None \<Rightarrow> 0)"

lemma c_str_idem [simp]: "c_str (c_str s) = c_str s"
  by (simp add: c_str_def takeWhile_takeWhile)

lemma c_str_id: "CHR 0x00 \<notin> set s \<Longrightarrow> c_str s = s"
  by (auto simp: c_str_def takeWhile_eq_all_conv)

lemma c_int_id: "- (2 ^ 31) \<le> n \<Longrightarrow> n < 2 ^ 31 \<Longrightarrow> c_int n = n"
  by (simp add: c_int_def int_word_sint)

section \<open>Methods\<close>

datatype 'w qore_call =
    QC_isVirtual
  | QC_readFile string | QC_readFileString string "string option"
  | QC_writeFile string bytes | QC_writeFileString string string
  | QC_deleteFile string | QC_fileExists string | QC_listFiles
  | QC_path | QC_workdir | QC_isBare | QC_isEmpty
  | QC_add string | QC_unstage string
  | QC_commit string | QC_headCommitId | QC_status
  | QC_configSet string string | QC_configGet string
  | QC_createBranch string "string option" | QC_deleteBranch string | QC_checkout string
  | QC_branches "bool option" | QC_currentBranch
  | QC_createTag string "string option" "string option" | QC_deleteTag string | QC_tags
  | QC_diff "string option" "string option" | QC_diffPatch "string option" "string option"
  | QC_log "int option" "string option"
  | QC_addRemote string string | QC_removeRemote string
  | QC_fetch "string option" | QC_push "string option" "string option"
  | QC_lookupCommit string | QC_state | QC_diffStats "string option" "string option"
  | QC_blame string "qhash option"
  | QC_stash "string option" | QC_stashPop | QC_stashList
  | QC_merge string "'w merge_hash" | QC_pull "string option" "'w merge_hash"

primrec to_operation :: "'w qore_call \<Rightarrow> 'w operation" where
  "to_operation QC_isVirtual = OpIsVirtual"
| "to_operation (QC_readFile path) = OpReadFile (c_str path)"
| "to_operation (QC_readFileString path encoding) = OpReadFileString (c_str path) (map_option c_str encoding)"
| "to_operation (QC_writeFile path content) = OpWriteFile (c_str path) content"
| "to_operation (QC_writeFileString path content) = OpWriteFileString (c_str path) (bytes_of_string content)"
| "to_operation (QC_deleteFile path) = OpDeleteFile (c_str path)"
| "to_operation (QC_fileExists path) = OpFileExists (c_str path)"
| "to_operation QC_listFiles = OpListFiles None True"
| "to_operation QC_path = OpGetPath"
| "to_operation QC_workdir = OpGetWorkdir"
| "to_operation QC_isBare = OpIsBare"
| "to_operation QC_isEmpty = OpIsEmpty"
| "to_operation (QC_add path) = OpAddToIndex (c_str path)"
| "to_operation (QC_unstage path) = OpRemoveFromIndex (c_str path)"
| "to_operation (QC_commit message) = OpCommit (c_str message)"
| "to_operation QC_headCommitId = OpHeadCommitId"
| "to_operation QC_status = OpGetStatus"
| "to_operation (QC_configSet key val) = OpConfigSet (c_str key) (c_str val)"
| "to_operation (QC_configGet key) = OpConfigGet (c_str key)"
| "to_operation (QC_createBranch name from_ref) = OpCreateBranch (c_str name) (map_option c_str from_ref)"
| "to_operation (QC_deleteBranch name) = OpDeleteBranch (c_str name)"
| "to_operation (QC_checkout ref) = OpCheckout (c_str ref)"
| "to_operation (QC_branches remote) = OpListBranches (or_false remote)"
| "to_operation QC_currentBranch = OpCurrentBranch"
| "to_operation (QC_createTag name message target_ref) =
     OpCreateTag (c_str name) (map_option c_str message) (map_option c_str target_ref)"
| "to_operation (QC_deleteTag name) = OpDeleteTag (c_str name)"
| "to_operation QC_tags = OpListTags"
| "to_operation (QC_diff from_ref to_ref) = OpDiff (map_option c_str from_ref) (map_option c_str to_ref)"
| "to_operation (QC_diffPatch from_ref to_ref) = OpDiffPatch (map_option c_str from_ref) (map_option c_str to_ref)"
| "to_operation (QC_log max_count path) = OpLog (c_int (or_zero max_count)) (map_option c_str path)"
| "to_operation (QC_addRemote name url) = OpAddRemote (c_str name) (c_str url)"
| "to_operation (QC_removeRemote name) = OpRemoveRemote (c_str name)"
| "to_operation (QC_fetch remote) = OpFetch (map_option c_str remote)"
| "to_operation (QC_push remote refspec) = OpPush (map_option c_str remote) (map_option c_str refspec)"
| "to_operation (QC_lookupCommit ref) = OpLookupCommit (c_str ref)"
| "to_operation QC_state = OpGetState"
| "to_operation (QC_diffStats from_ref to_ref) = OpDiffStats (map_option c_str from_ref) (map_option c_str to_ref)"
| "to_operation (QC_blame path opts) = OpBlame (c_str path) opts"
| "to_operation (QC_stash message) = OpStash (map_option c_str message)"
| "to_operation QC_stashPop = OpStashPop"
| "to_operation QC_stashList = OpStashList"
| "to_operation (QC_merge ref opts) = OpMerge (c_str ref) opts"
| "to_operation (QC_pull remote opts) = OpPull (map_option c_str remote) opts"

primrec return_type :: "'w qore_call \<Rightarrow> qtype" where
  "return_type QC_isVirtual = TBool"
| "return_type (QC_readFile path) = TMaybe TBinary"
| "return_type (QC_readFileString path encoding) = TMaybe TString"
| "return_type (QC_fileExists path) = TBool"
| "return_type QC_listFiles = TList TString"
| "return_type QC_path = TString"
| "return_type QC_workdir = TMaybe TString"
| "return_type QC_isBare = TBool"
| "return_type QC_isEmpty = TBool"
| "return_type (QC_commit message) = TString"
| "return_type QC_headCommitId = TMaybe TString"
| "return_type QC_status = THashOf TInt"
| "return_type (QC_configGet key) = TMaybe TString"
| "return_type (QC_branches remote) = TList TString"
| "return_type QC_currentBranch = TMaybe TString"
| "return_type QC_tags = TList TString"
| "return_type (QC_diff from_ref to_ref) = TList (THashDecl ''DiffEntry'')"
| "return_type (QC_diffPatch from_ref to_ref) = TString"
| "return_type (QC_log max_count path) = TList (THashDecl ''CommitInfo'')"
| "return_type (QC_lookupCommit ref) = THashDecl ''CommitInfo''"
| "return_type QC_state = TString"
| "return_type (QC_diffStats from_ref to_ref) = THashDecl ''DiffStatsInfo''"
| "return_type (QC_blame path opts) = TList (THashDecl ''BlameHunkInfo'')"
| "return_type (QC_stash message) = TString"
| "return_type QC_stashList = TList (THashDecl ''StashInfo'')"
| "return_type (QC_merge ref opts) = THashDecl ''GitMergeResult''"
| "return_type (QC_pull remote opts) = THashDecl ''GitMergeResult''"
| "return_type (QC_writeFile path content) = TNothing"
| "return_type (QC_writeFileString path content) = TNothing"
| "return_type (QC_deleteFile path) = TNothing"
| "return_type (QC_add path) = TNothing"
| "return_type (QC_unstage path) = TNothing"
| "return_type (QC_configSet key val) = TNothing"
| "return_type (QC_createBranch name from_ref) = TNothing"
| "return_type (QC_deleteBranch name) = TNothing"
| "return_type (QC_checkout ref) = TNothing"
| "return_type (QC_createTag name message target_ref) = TNothing"
| "return_type (QC_deleteTag name) = TNothing"
| "return_type (QC_addRemote name url) = TNothing"
| "return_type (QC_removeRemote name) = TNothing"
| "return_type (QC_fetch remote) = TNothing"
| "return_type (QC_push remote refspec) = TNothing"
| "return_type QC_stashPop = TNothing"

text \<open>A method that is declared to return nothing drops the status.\<close>

definition invoke :: "('w, 'y) merge_api_scheme \<Rightarrow> 'w qore_call \<Rightarrow> ('w, qvalue) qmethod" where
  "invoke G c = do {
     v \<leftarrow> perform G (to_operation c);
     ret (if return_type c = TNothing then QNothing else v)
   }"

section \<open>Objects\<close>

text \<open>The object is handed out when nothing was raised, and destroyed otherwise.\<close>

definition hand_over :: "('w, 'y) repo_api_scheme \<Rightarrow> bool \<Rightarrow> ('w, bool) qmethod" where
  "hand_over G ok = (if ok then ret True else do { QoreGitRepository_destroy G; ret False })"

definition QC_constructor :: "('w, 'y) repo_api_scheme \<Rightarrow> string \<Rightarrow> ('w, bool) qmethod" where
  "QC_constructor G path = do {
     QoreGitRepository_open G (c_str path);
     raised \<leftarrow> exception_raised;
     hand_over G (\<not> raised)
   }"

definition QC_init :: "('w, 'y) repo_api_scheme \<Rightarrow> string \<Rightarrow> bool option \<Rightarrow> ('w, bool) qmethod" where
  "QC_init G path bare = do {
     QoreGitRepository_init G (c_str path) (or_false bare);
     raised \<leftarrow> exception_raised;
     hand_over G (\<not> raised)
   }"

definition QC_createVirtual :: "('w, 'y) repo_api_scheme \<Rightarrow> ('w, bool) qmethod" where
  "QC_createVirtual G = do {
     QoreGitRepository_virtual G;
     raised \<leftarrow> exception_raised;
     hand_over G (\<not> raised)
   }"

text \<open>\<open>connectRemote\<close> looks at the sink after every step: \<open>then_unless_raised m k\<close> is \<open>m\<close> followed by the test.\<close>

definition then_unless_raised :: "('w, 'a) qmethod \<Rightarrow> ('a \<Rightarrow> ('w, bool) qmethod) \<Rightarrow> ('w, bool) qmethod" where
  "then_unless_raised m k = do {
     a \<leftarrow> m;
     raised \<leftarrow> exception_raised;
     if raised then ret False else k a
   }"

definition set_identity ::
  "('w, 'y) repo_api_scheme \<Rightarrow> string \<Rightarrow> qvalue \<Rightarrow> ('w, bool) qmethod \<Rightarrow> ('w, bool) qmethod" where
  "set_identity G key v k =
     (case v of QString x \<Rightarrow> then_unless_raised (configSet G key (c_str x)) (\<lambda>_. k) | _ \<Rightarrow> k)"

definition connect_identity ::
  "('w, 'y) repo_api_scheme \<Rightarrow> qhash option \<Rightarrow> ('w, bool) qmethod \<Rightarrow> ('w, bool) qmethod" where
  "connect_identity G opts k =
     (case getKeyValue opts ''identity'' of
        QHash identity \<Rightarrow>
          set_identity G ''user.name'' (getKeyValue (Some identity) ''name'')
            (set_identity G ''user.email'' (getKeyValue (Some identity) ''email'') k)
      | _ \<Rightarrow> k)"

definition connect_checkout :: "('w, 'y) repo_api_scheme \<Rightarrow> qhash option \<Rightarrow> ('w, bool) qmethod" where
  "connect_checkout G opts =
     (case getKeyValue opts ''branch'' of
        QString branch \<Rightarrow> then_unless_raised (checkout G (c_str branch)) (\<lambda>_. ret True)
      | _ \<Rightarrow> then_unless_raised (listBranches G True) (\<lambda>branches.
          case branches of
            Some (first # _) \<Rightarrow> then_unless_raised (checkout G (c_str first)) (\<lambda>_. ret True)
          | _ \<Rightarrow> ret True))"

definition connect_steps ::
  "('w, 'y) remote_api_scheme \<Rightarrow> string \<Rightarrow> qhash option \<Rightarrow> ('w, bool) qmethod" where
  "connect_steps G url opts =
     connect_identity G opts
       (then_unless_raised (addRemote G ''origin'' (c_str url)) (\<lambda>_.
        then_unless_raised (fetch G None) (\<lambda>_.
        connect_checkout G opts)))"

definition QC_connectRemote ::
  "('w, 'y) remote_api_scheme \<Rightarrow> string \<Rightarrow> qhash option \<Rightarrow> ('w, bool) qmethod" where
  "QC_connectRemote G url opts = do {
     ok \<leftarrow> then_unless_raised (QoreGitRepository_virtual G) (\<lambda>_. connect_steps G url opts);
     hand_over G ok
   }"

end
