(* ===== verification/Git_Module.thy ===== *)
theory Git_Module
  imports Class_Binding
begin

text \<open>
  The life of the module, \<open>src/git-module.cpp\<close>: initialisation fills the namespace \<open>Qore::Git\<close> (the
  constants of \<open>src/ql_git.qpp\<close>, the hash declarations and the class of \<open>src/QC_GitRepository.qpp\<close>), every
  new program gets a copy of it, and the deletion of the module removes the temporary directories
  that are still registered.
\<close>

section \<open>The namespace\<close>

record qore_namespace =
  ns_name :: string
  ns_constants :: "(string \<times> int) list"
  ns_hashdecls :: "hashdecl list"
  ns_classes :: "string list"

text \<open>The runtime of libgit2, and the values of the macros of its headers.\<close>

record 'w module_api = "'w merge_api" +
  git_libgit2_init :: "'w \<Rightarrow> 'w"
  git_libgit2_shutdown :: "'w \<Rightarrow> 'w"
  git_macro :: "string \<Rightarrow> int"

text \<open>The globals of the module beside the registry of directories; \<open>qns\<close> are the namespaces that were added
  to programs.\<close>

record 'w git_module = "'w session" +
  gitns :: qore_namespace
  hashdeclGitSignatureInfo :: "hashdecl option"
  hashdeclCommitInfo :: "hashdecl option"
  hashdeclDiffEntry :: "hashdecl option"
  hashdeclDiffStatsInfo :: "hashdecl option"
  hashdeclBlameHunkInfo :: "hashdecl option"
  hashdeclStashInfo :: "hashdecl option"
  hashdeclGitMergeConflict :: "hashdecl option"
  hashdeclGitMergeResult :: "hashdecl option"
  qns :: "qore_namespace list"

type_synonym ('w, 'a) module_step = "('w git_module, 'a) state"

section \<open>Constants\<close>

definition git_sort_flags :: "string list" where
  "git_sort_flags = [''GIT_SORT_NONE'', ''GIT_SORT_TOPOLOGICAL'', ''GIT_SORT_TIME'', ''GIT_SORT_REVERSE'']"

definition git_status_flags :: "string list" where
  "git_status_flags =
     [''GIT_STATUS_INDEX_NEW'', ''GIT_STATUS_INDEX_MODIFIED'', ''GIT_STATUS_INDEX_DELETED'',
      ''GIT_STATUS_INDEX_RENAMED'', ''GIT_STATUS_INDEX_TYPECHANGE'', ''GIT_STATUS_WT_NEW'',
      ''GIT_STATUS_WT_MODIFIED'', ''GIT_STATUS_WT_DELETED'', ''GIT_STATUS_WT_TYPECHANGE'',
      ''GIT_STATUS_IGNORED'', ''GIT_STATUS_CONFLICTED'']"

definition git_delta_types :: "string list" where
  "git_delta_types =
     [''GIT_DELTA_UNMODIFIED'', ''GIT_DELTA_ADDED'', ''GIT_DELTA_DELETED'', ''GIT_DELTA_MODIFIED'',
      ''GIT_DELTA_RENAMED'', ''GIT_DELTA_COPIED'', ''GIT_DELTA_IGNORED'', ''GIT_DELTA_UNTRACKED'',
      ''GIT_DELTA_TYPECHANGE'', ''GIT_DELTA_CONFLICTED'']"

definition on_gitns :: "(qore_namespace \<Rightarrow> qore_namespace) \<Rightarrow> ('w, unit) module_step" where
  "on_gitns f = modify (\<lambda>m. m\<lparr>gitns := f (gitns m)\<rparr>)"

text \<open>Every constant has the name and the value of the macro of libgit2.\<close>

definition init_git_constants :: "('w, 'y) module_api_scheme \<Rightarrow> ('w, unit) module_step" where
  "init_git_constants G = on_gitns (\<lambda>ns. ns\<lparr>ns_constants := ns_constants ns @
     map (\<lambda>name. (name, git_macro G name)) (git_sort_flags @ git_status_flags @ git_delta_types)\<rparr>)"

section \<open>Initialisation\<close>

definition add_hashdecl :: "hashdecl \<Rightarrow> ('w, hashdecl) module_step" where
  "add_hashdecl d = do { on_gitns (\<lambda>ns. ns\<lparr>ns_hashdecls := ns_hashdecls ns @ [d]\<rparr>); ret d }"

definition addSystemClass :: "string \<Rightarrow> ('w, unit) module_step" where
  "addSystemClass name = on_gitns (\<lambda>ns. ns\<lparr>ns_classes := ns_classes ns @ [name]\<rparr>)"

definition git_module_init :: "('w, 'y) module_api_scheme \<Rightarrow> ('w, unit) module_step" where
  "git_module_init G = do {
     effect_unit (git_libgit2_init G);
     init_git_constants G;
     d \<leftarrow> add_hashdecl GitSignatureInfo;
     modify (\<lambda>m. m\<lparr>hashdeclGitSignatureInfo := Some d\<rparr>);
     d \<leftarrow> add_hashdecl CommitInfo;
     modify (\<lambda>m. m\<lparr>hashdeclCommitInfo := Some d\<rparr>);
     d \<leftarrow> add_hashdecl DiffEntry;
     modify (\<lambda>m. m\<lparr>hashdeclDiffEntry := Some d\<rparr>);
     d \<leftarrow> add_hashdecl DiffStatsInfo;
     modify (\<lambda>m. m\<lparr>hashdeclDiffStatsInfo := Some d\<rparr>);
     d \<leftarrow> add_hashdecl BlameHunkInfo;
     modify (\<lambda>m. m\<lparr>hashdeclBlameHunkInfo := Some d\<rparr>);
     d \<leftarrow> add_hashdecl StashInfo;
     modify (\<lambda>m. m\<lparr>hashdeclStashInfo := Some d\<rparr>);
     d \<leftarrow> add_hashdecl GitMergeConflict;
     modify (\<lambda>m. m\<lparr>hashdeclGitMergeConflict := Some d\<rparr>);
     d \<leftarrow> add_hashdecl GitMergeResult;
     modify (\<lambda>m. m\<lparr>hashdeclGitMergeResult := Some d\<rparr>);
     addSystemClass ''GitRepository''
   }"

definition git_module_ns_init :: "('w, unit) module_step" where
  "git_module_ns_init = modify (\<lambda>m. m\<lparr>qns := qns m @ [gitns m]\<rparr>)"

text \<open>\<open>gitns.clear\<close> deletes the contents of the namespace; its name stays.\<close>

definition git_module_delete :: "('w, 'y) module_api_scheme \<Rightarrow> ('w, unit) module_step" where
  "git_module_delete G = do {
     on_gitns (\<lambda>ns. ns\<lparr>ns_constants := [], ns_hashdecls := [], ns_classes := []\<rparr>);
     qore_git_cleanup_all_tempdirs G;
     effect_unit (git_libgit2_shutdown G)
   }"

text \<open>The module when the library is loaded.\<close>

definition loaded :: "'w git_module \<Rightarrow> bool" where
  "loaded m \<longleftrightarrow> gitns m = \<lparr>ns_name = ''Qore::Git'', ns_constants = [], ns_hashdecls = [], ns_classes = []\<rparr> \<and>
     qns m = [] \<and> git_tempdirs m = [] \<and> xsink m = []"

definition load_module :: "'w \<Rightarrow> 'w git_module" where
  "load_module w = \<lparr>world = w, xsink = [], git_tempdirs = [],
     gitns = \<lparr>ns_name = ''Qore::Git'', ns_constants = [], ns_hashdecls = [], ns_classes = []\<rparr>,
     hashdeclGitSignatureInfo = None, hashdeclCommitInfo = None, hashdeclDiffEntry = None,
     hashdeclDiffStatsInfo = None, hashdeclBlameHunkInfo = None, hashdeclStashInfo = None,
     hashdeclGitMergeConflict = None, hashdeclGitMergeResult = None, qns = []\<rparr>"

lemma loaded_load: "loaded (load_module w)"
  by (simp add: loaded_def load_module_def)

section \<open>What initialisation establishes\<close>

definition git_hashdecls :: "hashdecl list" where
  "git_hashdecls = [GitSignatureInfo, CommitInfo, DiffEntry, DiffStatsInfo, BlameHunkInfo, StashInfo,
     GitMergeConflict, GitMergeResult]"

text \<open>The declarations that a type mentions.\<close>

primrec mentions :: "qtype \<Rightarrow> string list" where
  "mentions TNothing = []"
| "mentions TBool = []"
| "mentions TInt = []"
| "mentions TString = []"
| "mentions TBinary = []"
| "mentions TDate = []"
| "mentions THash = []"
| "mentions (THashOf t) = mentions t"
| "mentions (THashDecl name) = [name]"
| "mentions (TList t) = mentions t"
| "mentions (TMaybe t) = mentions t"

text \<open>Every declaration only mentions declarations before it.\<close>

primrec declared_in_order :: "string list \<Rightarrow> hashdecl list \<Rightarrow> bool" where
  "declared_in_order known [] = True"
| "declared_in_order known (d # ds) =
     (hd_name d \<notin> set known \<and> distinct (map mem_name (hd_members d)) \<and>
      (\<forall>m \<in> set (hd_members d). set (mentions (mem_type m)) \<subseteq> set known) \<and>
      declared_in_order (hd_name d # known) ds)"

lemmas hashdecl_defs = GitSignatureInfo_def CommitInfo_def DiffEntry_def DiffStatsInfo_def BlameHunkInfo_def
  StashInfo_def GitMergeConflict_def GitMergeResult_def

lemma git_hashdecls_in_order: "declared_in_order [] git_hashdecls"
  by (simp add: git_hashdecls_def hashdecl_defs)

lemma return_types_declared: "set (mentions (return_type c)) \<subseteq> set (map hd_name git_hashdecls)"
  by (cases c) (simp_all add: git_hashdecls_def hashdecl_defs)

lemma init_hashdecls:
  "loaded m \<Longrightarrow> ns_hashdecls (gitns (snd (run_state (git_module_init G) m))) = git_hashdecls"
  by (simp add: git_module_init_def init_git_constants_def add_hashdecl_def addSystemClass_def on_gitns_def
      loaded_def git_hashdecls_def)

end
