(* ===== verification/Result_Types.thy ===== *)
theory Result_Types
  imports Error_Reports Git_Module Commit_Store
begin

text \<open>
  The results of the methods have the types that the class declares. \<open>returns Q m\<close> says that \<open>m\<close> only
  returns values that satisfy \<open>Q\<close>, from any state; one rule per combinator carries it through the
  bodies down to the places where hashes are built, and \<open>Error_Reports\<close> tells when a method has a value at all.
\<close>

definition returns :: "('a \<Rightarrow> bool) \<Rightarrow> ('s, 'a) state \<Rightarrow> bool" where
  "returns Q m \<longleftrightarrow> (\<forall>s. Q (fst (run_state m s)))"

named_theorems returns_rules \<comment> \<open>rules for \<open>returns\<close>\<close>

lemma returnsD: "returns Q m \<Longrightarrow> run_state m s = (v, t) \<Longrightarrow> Q v"
  unfolding returns_def by (metis fst_conv)

lemma returns_return [returns_rules]: "Q v \<Longrightarrow> returns Q (ret v)"
  by (simp add: returns_def)

lemma returns_query [returns_rules]: "(\<And>w. returns Q (k (f w))) \<Longrightarrow> returns Q (State_Monad.bind (query f) k)"
  by (simp add: returns_def)

lemma returns_bind: "(\<And>a. returns Q (k a)) \<Longrightarrow> returns Q (State_Monad.bind m k)"
  by (simp add: returns_def split_beta)

lemma returns_bind_from:
  "returns R m \<Longrightarrow> (\<And>a. R a \<Longrightarrow> returns Q (k a)) \<Longrightarrow> returns Q (State_Monad.bind m k)"
  by (simp add: returns_def split_beta)

lemma returns_if [returns_rules]:
  "(b \<Longrightarrow> returns Q m) \<Longrightarrow> (\<not> b \<Longrightarrow> returns Q n) \<Longrightarrow> returns Q (if b then m else n)"
  by simp

lemma returns_case_option [returns_rules]:
  "(x = None \<Longrightarrow> returns Q m) \<Longrightarrow> (\<And>a. x = Some a \<Longrightarrow> returns Q (f a)) \<Longrightarrow> returns Q (case_option m f x)"
  by (simp split: option.split)

lemma returns_case_sum [returns_rules]:
  "(\<And>e. x = Inl e \<Longrightarrow> returns Q (f e)) \<Longrightarrow> (\<And>a. x = Inr a \<Longrightarrow> returns Q (g a)) \<Longrightarrow> returns Q (case_sum f g x)"
  by (simp split: sum.split)

lemma returns_case_prod [returns_rules]:
  "(\<And>a b. p = (a, b) \<Longrightarrow> returns Q (f a b)) \<Longrightarrow> returns Q (case_prod f p)"
  by (simp split: prod.split)

lemma returns_case_qvalue:
  "(\<And>s. returns Q (f s)) \<Longrightarrow> (\<And>b. returns Q (g b)) \<Longrightarrow> returns Q h \<Longrightarrow>
   returns Q (case v of QString s \<Rightarrow> f s | QBinary b \<Rightarrow> g b | _ \<Rightarrow> h)"
  by (cases v) simp_all

lemma returns_on_ok [returns_rules]:
  "Q r \<Longrightarrow> (\<And>a. res = Inr a \<Longrightarrow> returns Q (k a)) \<Longrightarrow> returns Q (on_ok err ctx r res k)"
  by (auto simp: returns_def on_ok_def run_git_raise_exception_rc split: sum.split)

lemma returns_guarded [returns_rules]: "Q r \<Longrightarrow> (\<And>h. returns Q (body h)) \<Longrightarrow> returns Q (guarded r body)"
  unfolding guarded_def
  by (auto simp: returns_def auto_lock_def checkRepo_def split_beta split: option.split)

lemmas returns_steps = returns_rules returns_bind

section \<open>Hashes\<close>

text \<open>The declarations of the module, evaluated.\<close>

lemma typed_decl:
  "find (\<lambda>d. hd_name d = name) git_hashdecls = Some d \<Longrightarrow>
   has_type git_hashdecls (THashDecl name) (QHash h) \<longleftrightarrow>
     distinct (map fst h) \<and> list_all (\<lambda>m. required m \<longrightarrow> mem_name m \<in> set (map fst h)) (hd_members d) \<and>
     list_all (\<lambda>e. case map_of (map (\<lambda>m. (mem_name m, mem_type m)) (hd_members d)) (fst e) of
       None \<Rightarrow> False | Some t \<Rightarrow> has_type git_hashdecls t (snd e)) h"
  by (auto simp: complete_def member_types_def list_all_iff)

lemma git_hashdecls_find:
  "find (\<lambda>d. hd_name d = ''GitSignatureInfo'') git_hashdecls = Some GitSignatureInfo"
  "find (\<lambda>d. hd_name d = ''CommitInfo'') git_hashdecls = Some CommitInfo"
  "find (\<lambda>d. hd_name d = ''DiffEntry'') git_hashdecls = Some DiffEntry"
  "find (\<lambda>d. hd_name d = ''DiffStatsInfo'') git_hashdecls = Some DiffStatsInfo"
  "find (\<lambda>d. hd_name d = ''BlameHunkInfo'') git_hashdecls = Some BlameHunkInfo"
  "find (\<lambda>d. hd_name d = ''StashInfo'') git_hashdecls = Some StashInfo"
  "find (\<lambda>d. hd_name d = ''GitMergeConflict'') git_hashdecls = Some GitMergeConflict"
  "find (\<lambda>d. hd_name d = ''GitMergeResult'') git_hashdecls = Some GitMergeResult"
  by (simp_all add: git_hashdecls_def hashdecl_defs)

lemmas typed_hash = git_hashdecls_find [THEN typed_decl]

declare has_type.simps(11) [simp del]

lemma typed_signature: "has_type git_hashdecls (THashDecl ''GitSignatureInfo'') (signature_hash sig)"
  by (simp add: signature_hash_def typed_hash GitSignatureInfo_def required_def)

lemma typed_commit_entry:
  "git_commit_author c \<noteq> None \<Longrightarrow> git_commit_committer c \<noteq> None \<Longrightarrow>
   has_type git_hashdecls (THashDecl ''CommitInfo'') (QHash (commit_entry T oid c))"
  using typed_signature
  by (auto simp: commit_entry_def Let_def typed_hash CommitInfo_def required_def)

lemma typed_diff_entry: "has_type git_hashdecls (THashDecl ''DiffEntry'') (diff_entry delta)"
  by (simp add: diff_entry_def typed_hash DiffEntry_def required_def split: option.split)

lemma typed_blame_hunk:
  "final_signature hunk \<noteq> None \<Longrightarrow> has_type git_hashdecls (THashDecl ''BlameHunkInfo'') (blame_hunk_entry T hunk)"
  by (auto simp: blame_hunk_entry_def typed_hash BlameHunkInfo_def GitSignatureInfo_def required_def)

lemma typed_stash_entry: "has_type git_hashdecls (THashDecl ''StashInfo'') (stash_entry e)"
  by (cases e) (simp add: stash_entry_def typed_hash StashInfo_def required_def)

lemma typed_merge_result:
  "commit_id = None \<or> commit_id = Some QNothing \<or> (\<exists>x. commit_id = Some (QString x)) \<Longrightarrow>
   \<forall>v \<in> set conflict_list. has_type git_hashdecls (THashDecl ''GitMergeConflict'') v \<Longrightarrow>
   has_type git_hashdecls (THashDecl ''GitMergeResult'')
     (QHash (merge_result up ff conflicts commit_id conflict_list resolved))"
  by (auto simp: merge_result_def typed_hash GitMergeResult_def required_def)

lemma typed_content_entries:
  "has_type git_hashdecls (THashDecl ''GitMergeConflict'') (QHash ([(''path'', QString path)] @
     content_entries ''ancestor'' a @ content_entries ''ours'' b @ content_entries ''theirs'' c @
     [(''ours_commit'', QHash h1), (''theirs_commit'', QHash h2)]))"
  by (cases a; cases b; cases c)
    (simp_all add: content_entries_def typed_hash GitMergeConflict_def required_def)

section \<open>Methods\<close>

text \<open>What the declarations take for granted: every commit has an author and a committer, every hunk of
  a blame an author. (The bodies test for null and then leave the mandatory member out.)\<close>

definition signed :: "('w, 'y) history_api_scheme \<Rightarrow> bool" where
  "signed G \<longleftrightarrow>
     (\<forall>w repo oid c. git_commit_lookup G w repo oid = Inr c \<longrightarrow>
        git_commit_author c \<noteq> None \<and> git_commit_committer c \<noteq> None) \<and>
     (\<forall>w repo path newest oldest hunks h. git_blame_file G w repo path newest oldest = Inr hunks \<longrightarrow>
        Some h \<in> set hunks \<longrightarrow> final_signature h \<noteq> None)"

abbreviation typed :: "qtype \<Rightarrow> qvalue \<Rightarrow> bool" where
  "typed \<equiv> has_type git_hashdecls"

text \<open>A list, a hash, or the list so far, if there is one.\<close>

abbreviation typed_list :: "qtype \<Rightarrow> qvalue list \<Rightarrow> bool" where
  "typed_list t vs \<equiv> \<forall>v \<in> set vs. typed t v"

abbreviation typed_entries :: "string \<Rightarrow> qhash \<Rightarrow> bool" where
  "typed_entries name h \<equiv> typed (THashDecl name) (QHash h)"

lemma signed_commit: "signed G \<Longrightarrow> git_commit_lookup G w repo oid = Inr c \<Longrightarrow>
    typed_entries ''CommitInfo'' (commit_entry T oid' c)"
  unfolding signed_def by (blast intro: typed_commit_entry)

lemma signed_hunk: "signed G \<Longrightarrow> git_blame_file G w repo path newest oldest = Inr hunks \<Longrightarrow>
    Some h \<in> set hunks \<Longrightarrow> typed (THashDecl ''BlameHunkInfo'') (blame_hunk_entry T h)"
  unfolding signed_def by (blast intro: typed_blame_hunk)

lemma returns_polled_list:
  assumes "\<And>x v. x \<in> set xs \<Longrightarrow> f x = Some v \<Longrightarrow> typed t v"
  shows "returns (pred_option (typed_list t)) (polled_list G what f xs)"
proof -
  have "set (List.map_filter f xs) \<subseteq> {v. \<exists>x \<in> set xs. f x = Some v}"
    by (auto simp: List.map_filter_def)
  with assms show ?thesis
    unfolding polled_list_def by (intro returns_bind returns_return) auto
qed

lemma returns_compute_diff:
  "(\<And>d. returns (pred_option Q) (k d)) \<Longrightarrow> returns (pred_option Q) (compute_diff G repo from_ref to_ref k)"
  unfolding compute_diff_def by (intro returns_steps) simp_all

lemma returns_diff: "returns (pred_option (typed_list (THashDecl ''DiffEntry''))) (diff G from_ref to_ref)"
  unfolding diff_def
  by (intro returns_guarded returns_compute_diff returns_polled_list) (auto simp: typed_diff_entry)

lemma returns_diffStats: "returns (pred_option (typed_entries ''DiffStatsInfo'')) (diffStats G from_ref to_ref)"
  unfolding diffStats_def
  by (intro returns_steps) (simp_all add: typed_hash DiffStatsInfo_def required_def)

lemma returns_log_loop:
  assumes "signed G"
  shows "typed_list (THashDecl ''CommitInfo'') result \<Longrightarrow>
    returns (pred_option (typed_list (THashDecl ''CommitInfo''))) (log_loop G repo max_count path oids count result)"
proof (induction oids arbitrary: count result)
  case Nil
  then show ?case by (simp add: returns_return)
next
  case (Cons oid oids)
  have "typed_entries ''CommitInfo'' (commit_entry G oid c)"
    if "git_commit_lookup G w repo (Some oid) = Inr c" for w c
    using signed_commit [OF assms that] .
  with Cons.prems show ?case
    unfolding log_loop.simps by (intro returns_steps Cons.IH) auto
qed

lemma returns_log:
  "signed G \<Longrightarrow> returns (pred_option (typed_list (THashDecl ''CommitInfo''))) (log G max_count path)"
  unfolding log_def by (intro returns_steps returns_log_loop) simp_all

lemma returns_lookupCommit:
  fixes G :: "('w, 'y) history_api_scheme"
  shows "signed G \<Longrightarrow> returns (pred_option (typed_entries ''CommitInfo'')) (lookupCommit G ref)"
  unfolding lookupCommit_def by (intro returns_steps) (auto dest: signed_commit)

lemma returns_blame:
  "signed G \<Longrightarrow> returns (pred_option (typed_list (THashDecl ''BlameHunkInfo''))) (blame G path opts)"
  unfolding blame_def by (intro returns_steps returns_polled_list) (auto dest: signed_hunk)

lemma returns_stashList: "returns (pred_option (typed_list (THashDecl ''StashInfo''))) (stashList G)"
proof -
  have "returns (\<lambda>(rc, result). typed_list (THashDecl ''StashInfo'') result) (stash_foreach G es final list)"
    if "typed_list (THashDecl ''StashInfo'') list" for es final list
    using that
  proof (induction es arbitrary: list)
    case Nil
    then show ?case by (simp add: returns_return)
  next
    case (Cons e es)
    then show ?case
      unfolding stash_foreach.simps by (intro returns_bind returns_rules Cons.IH) (auto simp: typed_stash_entry)
  qed
  note foreach = this
  show ?thesis
    unfolding stashList_def
    by (intro returns_rules returns_bind_from [OF foreach] returns_bind [where m = exception_raised]
        returns_bind [where m = "gets m_virtual"] returns_bind [where m = "raiseException _ _"]
        returns_bind [where m = "git_raise_exception_rc _ _ _"]) auto
qed

section \<open>Merges\<close>

lemma returns_buildConflictHash:
  "returns (pred_option (typed_entries ''GitMergeConflict'')) (buildConflictHash G repo info ours theirs)"
  unfolding buildConflictHash_def by (intro returns_steps) (simp_all add: typed_content_entries [simplified])

lemma returns_build_hashes:
  "\<forall>h \<in> set hashes. typed_entries ''GitMergeConflict'' h \<Longrightarrow>
   returns (pred_option (\<lambda>hs. \<forall>h \<in> set hs. typed_entries ''GitMergeConflict'' h))
     (build_hashes G repo what ours theirs i cis hashes)"
proof (induction cis arbitrary: i hashes)
  case Nil
  then show ?case by (simp add: returns_return)
next
  case (Cons ci cis)
  show ?case
    unfolding build_hashes.simps
    by (intro returns_bind [where m = "cancelled_when _ _ _"] returns_bind [where m = exception_raised]
        returns_bind_from [OF returns_buildConflictHash] returns_rules Cons.IH)
      (use Cons.prems in \<open>auto split: option.splits\<close>)
qed

lemma returns_merge_fast_forward:
  "returns (pred_option (typed_entries ''GitMergeResult'')) (merge_fast_forward G repo theirs)"
  unfolding merge_fast_forward_def by (intro returns_steps) (simp_all add: typed_merge_result)

lemma returns_merge_finish:
  "returns (pred_option (typed_entries ''GitMergeResult''))
     (merge_finish G repo no_commit message ours theirs merge_index conflicts resolved)"
  unfolding merge_finish_def
  by (intro returns_steps) (simp_all add: typed_merge_result qstring_option_def split: option.split)

primrec typed_phase1 :: "merge_phase1 \<Rightarrow> bool" where
  "typed_phase1 (Finished r) = pred_option (typed_entries ''GitMergeResult'') r"
| "typed_phase1 (NeedsCallback mp) = (\<forall>h \<in> set (mp_hashes mp). typed_entries ''GitMergeConflict'' h)"

lemma returns_finished:
  "returns (pred_option (typed_entries ''GitMergeResult'')) m \<Longrightarrow>
   returns typed_phase1 (State_Monad.bind m (\<lambda>r. ret (Finished r)))"
  by (erule returns_bind_from) (simp add: returns_return)

lemma returns_merge_normal:
  "returns typed_phase1 (merge_normal G repo strategy no_commit message ours theirs)"
  unfolding merge_normal_def Let_def
  by (intro returns_finished returns_merge_finish returns_bind_from [OF returns_build_hashes] returns_rules
      returns_bind [where m = "effect _"] returns_bind [where m = "for_from _ _ _"]
      returns_bind [where m = "resolve_conflicts _ _ _ _ _"])
    (auto simp: typed_merge_result split: option.split)

lemma returns_merge_analyse:
  "returns typed_phase1 (merge_analyse G ref strategy no_commit message repo)"
  unfolding merge_analyse_def
  by (intro returns_finished returns_merge_fast_forward returns_merge_normal returns_rules)
    (simp_all add: typed_merge_result)

lemma returns_run_callbacks:
  "\<forall>c \<in> set cs. typed_entries ''GitMergeConflict'' (snd c) \<Longrightarrow> typed_list (THashDecl ''GitMergeConflict'') unresolved \<Longrightarrow>
   returns (pred_option (\<lambda>(resolutions, unresolved). typed_list (THashDecl ''GitMergeConflict'') unresolved))
     (run_callbacks G resolver cs resolutions unresolved)"
proof (induction cs arbitrary: resolutions unresolved)
  case Nil
  then show ?case by (simp add: returns_return)
next
  case (Cons c cs)
  show ?case
    unfolding run_callbacks.simps
    by (intro returns_bind returns_rules returns_case_qvalue Cons.IH) (use Cons.prems in auto)
qed

lemma returns_merge_apply:
  "typed_list (THashDecl ''GitMergeConflict'') unresolved \<Longrightarrow>
   returns (pred_option (typed_entries ''GitMergeResult''))
     (merge_apply G no_commit message mp resolutions unresolved repo)"
  unfolding merge_apply_def
  by (intro returns_steps) (simp_all add: typed_merge_result qstring_option_def split: option.split)

lemma returns_merge: "returns (pred_option (typed_entries ''GitMergeResult'')) (merge G ref opts)"
proof -
  have "returns (pred_option (typed_entries ''GitMergeResult''))
      (case p1 of Finished r \<Rightarrow> ret r | NeedsCallback mp \<Rightarrow>
        (case opt_resolver opts of
           None \<Rightarrow> ret None
         | Some resolver \<Rightarrow> do {
             p2 \<leftarrow> run_callbacks G resolver (zip (mp_infos mp) (mp_hashes mp)) [] [];
             (case p2 of
                None \<Rightarrow> ret None
              | Some (resolutions, unresolved) \<Rightarrow>
                  guarded None (merge_apply G no_commit message mp resolutions unresolved))
           }))" if "typed_phase1 p1" for p1 message no_commit
    using that
    by (cases p1)
      (auto intro!: returns_rules returns_bind_from [OF returns_run_callbacks] returns_merge_apply dest!: set_zip_rightD)
  note rest = this
  show ?thesis
    unfolding merge_def Let_def
    by (intro returns_if returns_bind_from [OF returns_guarded [OF _ returns_merge_analyse]]
        returns_bind [where m = "raiseException _ _"] rest returns_return) simp_all
qed

lemma returns_pull: "returns (pred_option (typed_entries ''GitMergeResult'')) (pull G remote_name opts)"
  unfolding pull_def by (intro returns_steps returns_merge) simp_all

section \<open>Lists that come back with an exception\<close>

lemma outcome_any: "keeps lost m \<Longrightarrow> outcome (\<lambda>_ _. True) m"
  by (simp add: outcome_def)

lemma outcome_bind_any:
  "keeps lost m \<Longrightarrow> (\<And>a. fails R (f a)) \<Longrightarrow> (\<And>a. outcome R (f a)) \<Longrightarrow> outcome R (State_Monad.bind m f)"
  by (rule outcome_bind [OF outcome_any]) (auto dest: lostD)

abbreviation somewhere :: "'a option \<Rightarrow> bool \<Rightarrow> bool" where
  "somewhere \<equiv> (\<lambda>r raised. r = None \<longrightarrow> raised)"

lemma outcome_listFiles: "outcome somewhere (listFiles G pattern recursive)"
proof -
  have "outcome (\<lambda>r raised. raised \<longleftrightarrow> r \<noteq> None) (for_from (\<lambda>i kv. do {
       cancel \<leftarrow> check_cancel G ''git list files'';
       ret (if cancel then Some () else None) }) 0 staged)" for staged :: "string list"
    by (intro outcome_for outcome_bind_checks outcome_rules) simp_all
  note loop = this
  show ?thesis
    unfolding listFiles_def
    by (intro outcome_bind_stops [OF loop] outcome_bind_any [OF lost.keeps_walk_tree] outcome_rules) simp_all
qed

lemma outcome_stashList: "outcome somewhere (stashList G)"
  unfolding stashList_def
  by (intro outcome_bind_any [OF lost.keeps_stash_foreach] fails_bind_raised outcome_rules keeps_rules lost.keeps_session) simp_all

section \<open>The summary\<close>

lemma returns_as_option:
  "returns (pred_option (\<lambda>x. typed t (f x))) m \<Longrightarrow> returns (typed (TMaybe t)) (as_value (qoption f) m)"
  unfolding as_value_def
  by (erule returns_bind_from) (auto intro!: returns_return simp: qoption_def split: option.split)

lemma returns_as_any: "(\<And>x. typed t (f x)) \<Longrightarrow> returns (typed (TMaybe t)) (as_value (qoption f) m)"
  by (rule returns_as_option) (simp add: returns_def pred_option_def)

lemma returns_as_bool: "returns (typed (TMaybe TBool)) (as_value QBool m)"
  by (simp add: returns_def as_value_def split_beta)

lemma returns_as_list:
  "returns (pred_option (typed_list t)) m \<Longrightarrow> returns (typed (TMaybe (TList t))) (as_value (qoption QList) m)"
  by (rule returns_as_option) simp

lemma returns_perform:
  fixes G :: "('w, 'y) merge_api_scheme"
  assumes "signed G" and "return_type c \<noteq> TNothing"
  shows "returns (typed (TMaybe (return_type c))) (perform G (to_operation c))"
  using assms
  by (cases c)
    (auto intro!: returns_as_any returns_as_bool returns_as_list returns_diff returns_log returns_blame returns_stashList
      returns_as_option [OF returns_lookupCommit] returns_as_option [OF returns_diffStats]
      returns_as_option [OF returns_merge] returns_as_option [OF returns_pull])

text \<open>A method without a nullable result that does not raise returns something.\<close>

lemma outcome_as_somewhere:
  "outcome somewhere m \<Longrightarrow> (\<And>x. f x \<noteq> QNothing) \<Longrightarrow>
   outcome (\<lambda>v raised. v = QNothing \<longrightarrow> raised) (as_value (qoption f) m)"
  by (erule outcome_as_value) (auto simp: qoption_def split: option.splits)

lemma outcome_nothing:
  assumes "transfers_report G" and "\<And>resolver x. resolver_of (to_operation c) = Some resolver \<Longrightarrow> keeps lost (resolver x)"
    and "\<forall>t. return_type c \<noteq> TMaybe t"
  shows "outcome (\<lambda>v raised. v = QNothing \<longrightarrow> raised) (perform G (to_operation c))"
proof (cases "report_of (to_operation c) = Unchecked")
  case True
  then show ?thesis
    by (cases c) (auto intro!: outcome_as_somewhere outcome_listFiles outcome_stashList)
next
  case False
  then have "report_of (to_operation c) \<noteq> Nullable" using assms(3) by (cases c) simp_all
  moreover have "outcome (reported (report_of (to_operation c))) (perform G (to_operation c))"
    by (rule outcome_perform [OF assms(1)]) (rule assms(2))
  ultimately show ?thesis
    using False by (elim outcome_mono) (cases "report_of (to_operation c)", auto simp: reported_def)
qed

section \<open>Property\<close>

text \<open>C10: the class keeps the promises of its signatures. After the module is initialised, take any call of a
  method of \<open>GitRepository\<close> on any object, with any arguments (a merge resolver may call the object again),
  that starts without a pending exception and neither deadlocks nor exhausts the stack. If it ends
  without an exception, its result has the declared return type, with the hash declarations that
  the module put into its namespace: no key is unknown, every value has the type of its member,
  and every mandatory member is there. libgit2's commits must have an author and a committer, and
  its transfers must fail when their callback does.\<close>

theorem results_have_declared_types:
  fixes G :: "('w, 'y) module_api_scheme"
  assumes "signed G" and "transfers_report G" and "loaded m" and "allowed G (to_operation c)"
    and "xsink s = []" and "run_state (invoke G c) s = (v, t)"
    and "\<not> stack_overflow t" and "\<not> deadlocked t" and "xsink t = []"
  shows "has_type (ns_hashdecls (gitns (snd (run_state (git_module_init G) m)))) (return_type c) v"
proof (cases "return_type c = TNothing")
  case True
  with assms(6) show ?thesis by (auto simp: invoke_def split: prod.splits)
next
  case False
  with assms(6) have run: "run_state (perform G (to_operation c)) s = (v, t)"
    by (auto simp: invoke_def split: prod.splits)
  have typed: "v = QNothing \<or> typed (return_type c) v"
    using returnsD [OF returns_perform [OF assms(1) False] run] by simp
  have "v \<noteq> QNothing" if "\<forall>t. return_type c \<noteq> TMaybe t"
  proof -
    have "outcome (\<lambda>v raised. v = QNothing \<longrightarrow> raised) (perform G (to_operation c))"
      using assms(4) by (intro outcome_nothing [OF assms(2) _ that]) (auto elim!: allowedE intro: lost.client_keeps(1))
    from outcomeD [OF this run assms(5)] assms(7-9) show ?thesis by (simp add: lost_def)
  qed
  then have "v \<noteq> QNothing \<or> (\<exists>t. return_type c = TMaybe t)" by blast
  with typed show ?thesis by (auto simp: init_hashdecls [OF assms(3)])
qed

text \<open>The memory instance with a runtime, which has nothing to start or to stop.\<close>

definition mem_module_api :: "hash \<Rightarrow> nat \<Rightarrow> mem_world module_api" where
  "mem_module_api H depth = merge_api.extend (mem_merge_api H depth) (module_api.fields (\<lambda>w. w) (\<lambda>w. w) (\<lambda>name. 0))"

lemmas mem_module_defs = mem_module_api_def merge_api.defs module_api.defs mem_full_defs

lemma mem_signed: "signed (mem_module_api H depth)"
  by (auto simp: signed_def mem_module_defs mem_commit_lookup_def Let_def
      split: option.splits sum.splits prod.splits list.splits)

lemma mem_module_transfers: "transfers_report (mem_module_api H depth)"
  by (simp add: transfers_report_def aborts_report_def mem_module_defs)

theorem results_have_declared_types_witness:
  "\<exists>h t. run_state (invoke (mem_module_api size_hash 9) (QC_lookupCommit ''main'')) (mem_object_state\<lparr>world := one_commit\<rparr>) =
       (QHash h, t) \<and> map_of h ''parent_count'' = Some (QInt 0) \<and>
     has_type (ns_hashdecls (gitns (snd (run_state (git_module_init (mem_module_api size_hash 9)) (load_module mem_empty)))))
       (THashDecl ''CommitInfo'') (QHash h)"
proof -
  let ?G = "mem_module_api size_hash 9" and ?c = "QC_lookupCommit ''main'' :: mem_world qore_call"
  let ?s = "mem_object_state\<lparr>world := one_commit\<rparr>"
  have run: "run_state (invoke ?G ?c) ?s = (QHash (commit_entry ?G 3 first_commit), ?s)"
    using one_commit_revparse one_commit_lookup
    by (simp add: invoke_def as_value_def qoption_def lookupCommit_def run_guarded c_str_def mem_object_state_def blank_def
        mem_module_defs first_commit_def)
  have "map_of (commit_entry ?G 3 first_commit) ''parent_count'' = Some (QInt 0)"
    by (simp add: commit_entry_def Let_def first_commit_def)
  moreover have "loaded (load_module mem_empty)" by (rule loaded_load)
  from results_have_declared_types [OF mem_signed mem_module_transfers this _ _ run]
  have "has_type (ns_hashdecls (gitns (snd (run_state (git_module_init ?G) (load_module mem_empty)))))
       (THashDecl ''CommitInfo'') (QHash (commit_entry ?G 3 first_commit))"
    by (simp add: allowed_plain resolver_of_def mem_object_state_def blank_def)
  ultimately show ?thesis using run by blast
qed
end
