(* ===== verification/Temp_Dirs.thy ===== *)
theory Temp_Dirs
  imports Git_Module Lifecycle Reporting Remote_Safety Migration_Copy
begin

text \<open>
  The life of the temporary directory of a migrated repository, from the object to the unloading of the
  module, and the factory \<open>connectRemote\<close>, which makes one. The interpretation \<open>dirs\<close> of the frame of all
  methods says what an object does to the registry of the module.
\<close>

section \<open>The registry\<close>

text \<open>Seen from a registry \<open>R\<close> before its construction, an object has added its own directory or nothing.\<close>

definition own_dir :: "unit strmap \<Rightarrow> 'w qgit \<Rightarrow> bool" where
  "own_dir R s \<longleftrightarrow>
     (if m_tempdir_created s then \<not> m_in_memory s \<and> git_tempdirs s = omap_put (m_path s) () R
      else git_tempdirs s = R)"

interpretation dirs: repo_frame "own_dir R :: 'w qgit \<Rightarrow> bool" "own_dir R :: 'w qgit \<Rightarrow> bool" for R
  by unfold_locales (auto simp: own_dir_def split: if_splits)

text \<open>A virtual object that left memory owns a directory.\<close>

definition moved_to_dir :: "'w qgit \<Rightarrow> bool" where
  "moved_to_dir s \<longleftrightarrow> m_virtual s \<and> (m_in_memory s \<or> m_tempdir_created s)"

interpretation moved: repo_frame "moved_to_dir :: 'w qgit \<Rightarrow> bool" "moved_to_dir :: 'w qgit \<Rightarrow> bool"
  by unfold_locales (simp_all add: moved_to_dir_def)

lemma omap_erase_put: "omap_ok m \<Longrightarrow> omap_erase k (omap_put k v m) = omap_erase k m"
  by (rule omap_eqI) auto

section \<open>Destruction and unloading\<close>

lemma run_destroy:
  "run_state (QoreGitRepository_destroy G) s = ((), t) \<Longrightarrow>
   m_repo t = None \<and> xsink t = xsink s \<and> m_path t = m_path s \<and> m_tempdir_created t = m_tempdir_created s \<and>
   (if m_tempdir_created s \<and> m_path s \<noteq> []
    then (\<exists>w. world t = os_nftw_remove G w (m_path s)) \<and> git_tempdirs t = omap_erase (m_path s) (git_tempdirs s)
    else git_tempdirs t = git_tempdirs s)"
  by (cases "m_repo s")
    (auto simp: QoreGitRepository_destroy_def qore_git_unregister_tempdir_def split: if_splits)

lemma run_module_delete:
  "run_state (git_module_delete G) m = ((), u) \<Longrightarrow>
   git_tempdirs u = [] \<and> ns_constants (gitns u) = [] \<and> ns_hashdecls (gitns u) = [] \<and> ns_classes (gitns u) = [] \<and>
   world u = git_libgit2_shutdown G (fold (\<lambda>path w. os_nftw_remove G w path) (map fst (git_tempdirs m)) (world m))"
  by (auto simp: git_module_delete_def on_gitns_def cleanup_removes_all_tempdirs)

text \<open>Once there, the directory stays the object's for good.\<close>

definition owns_dir :: "string \<Rightarrow> 'w qgit \<Rightarrow> bool" where
  "owns_dir p s \<longleftrightarrow> m_tempdir_created s \<and> \<not> m_in_memory s \<and> m_path s = p"

interpretation owns: repo_frame "owns_dir p :: 'w qgit \<Rightarrow> bool" "owns_dir p :: 'w qgit \<Rightarrow> bool" for p
  by unfold_locales (simp_all add: owns_dir_def)

lemma owns_dir_step: "owns_dir p s \<Longrightarrow> step G s t \<Longrightarrow> owns_dir p t"
  by (erule stepE) (auto simp: owns_dir_def dest: owns.client_keeps(2) [THEN keepsE])

lemma steps_keep: "rtranclp (step G) s t \<Longrightarrow> reachable G s \<Longrightarrow> owns_dir p s \<Longrightarrow> reachable G t \<and> owns_dir p t"
  by (induction rule: rtranclp_induct) (auto intro: reachable_step owns_dir_step)

lemma owns_dir_registered: "reachable G s \<Longrightarrow> owns_dir p s \<Longrightarrow> omap_ok (git_tempdirs s) \<and> p \<in> set (map fst (git_tempdirs s))"
  using idle_reachable [of G s]
  by (auto simp: idle_def object_ok_def owns_dir_def map_of_eq_None_iff)

text \<open>C11: a temporary directory is removed in the end. Take an object that owns one, and let anything happen to it
  and around it (calls, resolvers, other objects, exceptions). However long that goes on, whichever end
  comes first removes that directory: the destructor of the object removes it as the last thing it does outside and
  takes it off the registry; and if the object is never destroyed, the unloading of the module removes
  it, with all others that are registered, before libgit2 is shut down, and leaves the registry empty.\<close>

theorem temporary_directory_reclaimed:
  assumes "reachable G s" and "m_tempdir_created s" and "m_path s = p" and "p \<noteq> []"
    and "rtranclp (step G) s t"
    and "run_state (QoreGitRepository_destroy G) t = ((), gone)"
    and "git_tempdirs m = git_tempdirs t" and "run_state (git_module_delete G) m = ((), u)"
  shows "(\<exists>w. world gone = os_nftw_remove G w p) \<and> map_of (git_tempdirs gone) p = None \<and>
    (\<exists>before after. map fst (git_tempdirs m) = before @ p # after \<and>
       world u = git_libgit2_shutdown G (fold (\<lambda>q w. os_nftw_remove G w q) after
         (os_nftw_remove G (fold (\<lambda>q w. os_nftw_remove G w q) before (world m)) p))) \<and>
    git_tempdirs u = []"
proof -
  have "owns_dir p s" using assms(2,3) idle_reachable [OF assms(1)] by (simp add: owns_dir_def idle_def object_ok_def)
  from steps_keep [OF assms(5,1) this] have t: "reachable G t" "owns_dir p t" by simp_all
  from owns_dir_registered [OF this] have reg: "omap_ok (git_tempdirs t)" "p \<in> set (map fst (git_tempdirs t))" by simp_all
  obtain before after where split: "map fst (git_tempdirs m) = before @ p # after"
    using split_list [OF reg(2)] assms(7) by auto
  with run_destroy [OF assms(6)] run_module_delete [OF assms(8)] t(2) assms(4) reg(1) show ?thesis
    by (auto simp: owns_dir_def)
qed

section \<open>An instance with a disk\<close>

text \<open>The instance of \<open>Migration_Copy\<close> with a remote that can be looked up and has nothing to fetch.\<close>

definition connect_api :: "mem_world module_api" where
  "connect_api = merge_api.extend
     (migration_api\<lparr>git_branch_iterator := \<lambda>w repo remote. Inr [],
        git_remote_create := \<lambda>w repo name url. (Inr 0, w),
        git_remote_lookup := \<lambda>w repo name. Inr 0,
        git_remote_url := \<lambda>w remote. ''/srv/repo.git'',
        git_remote_fetch := \<lambda>cb remote p. (Inr (), p)\<rparr>)
     (module_api.fields (\<lambda>w. w) (\<lambda>w. w) (\<lambda>name. 0))"

lemma connect_api_simps:
  "qore_check_cancel connect_api = qore_check_cancel migration_api" "os_getenv connect_api = os_getenv migration_api"
  "os_mkdtemp connect_api = os_mkdtemp migration_api" "os_nftw_remove connect_api = os_nftw_remove migration_api"
  "git_error_last connect_api = git_error_last migration_api" "git_repository_init connect_api = git_repository_init migration_api"
  "git_repository_free connect_api = git_repository_free migration_api" "git_repository_odb connect_api = git_repository_odb migration_api"
  "git_odb_foreach connect_api = git_odb_foreach migration_api" "git_odb_read connect_api = git_odb_read migration_api"
  "git_odb_write connect_api = git_odb_write migration_api" "git_reference_list connect_api = git_reference_list migration_api"
  "git_reference_lookup connect_api = git_reference_lookup migration_api"
  "git_reference_create connect_api = git_reference_create migration_api"
  "git_reference_symbolic_create connect_api = git_reference_symbolic_create migration_api"
  "git_repository_config connect_api = git_repository_config migration_api"
  "git_config_set_string connect_api = git_config_set_string migration_api"
  "git_repository_set_index connect_api = git_repository_set_index migration_api"
  by (simp_all add: connect_api_def merge_api.defs migration_api_def mem_full_defs)

lemma connect_migrates: "migrateToDisk connect_api repo = migrateToDisk migration_api repo"
  unfolding migrateToDisk_def migrate_contents_def migrate_abort_def copy_objects_def copy_object_def
    copy_references_def copy_reference_def copy_config_def cancelled_when_def check_cancel_def connect_api_simps
  by (rule refl)

lemma connect_remote_simps [simp]:
  "git_remote_create connect_api w repo name url = (Inr 0, w)" "git_remote_lookup connect_api w repo name = Inr 0"
  "git_remote_url connect_api w remote = ''/srv/repo.git''" "git_remote_fetch connect_api cb remote p = (Inr (), p)"
  "qore_check_cancel connect_api w what = (None, w)" "sandbox_active connect_api w = False"
  "git_branch_iterator connect_api w repo all_remotes = Inr []"
  by (simp_all add: connect_api_def merge_api.defs migration_api_def mem_full_defs)

text \<open>A new virtual object, and what becomes of it when a remote is added.\<close>

lemma connect_virtual: "run_state (QoreGitRepository_virtual connect_api) (blank mem_empty) = ((), mem_object_state)"
  by (simp add: QoreGitRepository_virtual_def attach_backends_def init_members_def set_repo_def connect_api_def
      merge_api.defs migration_api_def mem_full_defs blank_def mem_object_state_def mem_empty_def)

lemma connect_addRemote:
  assumes "url = ''/srv/repo.git''"
  obtains w where "run_state (addRemote connect_api ''origin'' url) mem_object_state =
    (0, mem_object_state\<lparr>world := w, m_repo := Some 1, m_path := ''/tmp/qore-git-virt-a'', m_in_memory := False,
       m_tempdir_created := True, git_tempdirs := [(''/tmp/qore-git-virt-a'', ())]\<rparr>)"
proof -
  let ?s = "mem_object_state\<lparr>m_lock := True\<rparr>"
  obtain w where "run_state (migrateToDisk migration_api 0) ?s = (0, ?s\<lparr>world := w, m_repo := Some 1,
      m_path := ''/tmp/qore-git-virt-a'', m_in_memory := False, m_tempdir_created := True,
      git_tempdirs := omap_put ''/tmp/qore-git-virt-a'' () (git_tempdirs ?s)\<rparr>)"
    using migration_succeeds [of ?s] by (auto simp: mem_object_state_def blank_def)
  with assms show thesis
    by (intro that [of w])
      (simp add: addRemote_def run_guarded mem_object_state_def blank_def validateRemoteUrl_def starts_with_iff connect_migrates)
qed

lemma connect_reachable: "reachable connect_api mem_object_state"
  by (intro reachable_new constructed_virtual [OF _ connect_virtual])
    (simp_all add: fresh_def blank_def mem_object_state_def)

theorem temporary_directory_reclaimed_witness:
  "\<exists>s gone u. reachable connect_api s \<and> m_tempdir_created s \<and>
     run_state (QoreGitRepository_destroy connect_api) s = ((), gone) \<and> map_of (git_tempdirs gone) (m_path s) = None \<and>
     run_state (git_module_delete connect_api) ((load_module mem_empty)\<lparr>git_tempdirs := git_tempdirs s\<rparr>) = ((), u) \<and>
     git_tempdirs s \<noteq> [] \<and> git_tempdirs u = []"
proof -
  let ?p = "''/tmp/qore-git-virt-a''"
  obtain w where run: "run_state (addRemote connect_api ''origin'' ''/srv/repo.git'') mem_object_state =
    (0, mem_object_state\<lparr>world := w, m_repo := Some 1, m_path := ?p, m_in_memory := False,
       m_tempdir_created := True, git_tempdirs := [(?p, ())]\<rparr>)" (is "_ = (0, ?s)")
    by (rule connect_addRemote [OF refl])
  have "step connect_api mem_object_state ?s"
    by (rule step_call [where op = "OpAddRemote ''origin'' ''/srv/repo.git''"])
      (auto intro: allowed_plain simp: resolver_of_def as_value_def run)
  with connect_reachable have r: "reachable connect_api ?s" by (rule reachable_step)
  obtain gone where gone: "run_state (QoreGitRepository_destroy connect_api) ?s = ((), gone)"
    by (cases "run_state (QoreGitRepository_destroy connect_api) ?s") auto
  let ?m = "(load_module mem_empty)\<lparr>git_tempdirs := git_tempdirs ?s\<rparr>"
  obtain u where u: "run_state (git_module_delete connect_api) ?m = ((), u)"
    by (cases "run_state (git_module_delete connect_api) ?m") auto
  from temporary_directory_reclaimed [OF r _ _ _ rtranclp.rtrancl_refl gone _ u, of ?p]
  have "map_of (git_tempdirs gone) ?p = None \<and> git_tempdirs u = []" by simp
  with r gone u show ?thesis by (intro exI [of _ ?s] exI [of _ gone] exI [of _ u]) simp
qed

end
