(* ===== verification/Connect.thy ===== *)
theory Connect
  imports Temp_Dirs Error_Reports
begin

text \<open>
  The factory \<open>connectRemote\<close>: it either hands out a migrated object in a reachable state, or
  destroys what it built and leaves no directory behind.
\<close>

section \<open>Steps that look at the sink\<close>

text \<open>From an empty sink, the steps say that they went through exactly when nothing was raised.\<close>

definition checked :: "('w, bool) qmethod \<Rightarrow> bool" where
  "checked m \<longleftrightarrow> (\<forall>s. xsink s = [] \<longrightarrow> fst (run_state m s) = (xsink (snd (run_state m s)) = []))"

lemma checked_done: "checked (ret True)"
  by (simp add: checked_def)

lemma checked_then: "(\<And>a. checked (k a)) \<Longrightarrow> checked (then_unless_raised m k)"
  by (simp add: checked_def then_unless_raised_def split_beta)

lemma checked_set_identity: "checked k \<Longrightarrow> checked (set_identity G key v k)"
  by (cases v) (simp_all add: set_identity_def checked_then)

lemma checked_connect_identity: "checked k \<Longrightarrow> checked (connect_identity G opts k)"
  by (cases "getKeyValue opts ''identity''") (simp_all add: connect_identity_def checked_set_identity)

lemma checked_connect_checkout: "checked (connect_checkout G opts)"
  by (cases "getKeyValue opts ''branch''")
    (auto simp: connect_checkout_def intro!: checked_then checked_done split: option.split list.split)

lemma checked_connect_steps: "checked (connect_steps G url opts)"
  unfolding connect_steps_def by (intro checked_connect_identity checked_then checked_connect_checkout)

section \<open>What the steps keep\<close>

lemma keeps_then_unless_raised:
  "keeps P m \<Longrightarrow> (\<And>a. keeps P (k a)) \<Longrightarrow> keeps P (then_unless_raised m k)"
  by (auto simp: keeps_def then_unless_raised_def split_beta)

lemma keeps_set_identity:
  "(\<And>val. keeps P (configSet G key val)) \<Longrightarrow> keeps P k \<Longrightarrow> keeps P (set_identity G key v k)"
  by (cases v) (simp_all add: set_identity_def keeps_then_unless_raised)

lemma keeps_connect_identity:
  "(\<And>key val. keeps P (configSet G key val)) \<Longrightarrow> keeps P k \<Longrightarrow> keeps P (connect_identity G opts k)"
  by (cases "getKeyValue opts ''identity''") (simp_all add: connect_identity_def keeps_set_identity)

lemma keeps_connect_checkout:
  "(\<And>ref. keeps P (checkout G ref)) \<Longrightarrow> keeps P (listBranches G True) \<Longrightarrow> keeps P (connect_checkout G opts)"
  by (cases "getKeyValue opts ''branch''")
    (auto simp: connect_checkout_def intro!: keeps_then_unless_raised keeps_return split: option.split list.split)

lemma keeps_connect_steps:
  assumes "\<And>key val. keeps P (configSet G key val)" and "keeps P (addRemote G ''origin'' (c_str url))"
    and "keeps P (fetch G None)" and "\<And>ref. keeps P (checkout G ref)" and "keeps P (listBranches G True)"
  shows "keeps P (connect_steps G url opts)"
  unfolding connect_steps_def
  by (intro keeps_connect_identity keeps_then_unless_raised keeps_connect_checkout assms)

context repo_frame
begin

lemma keeps_connect: "keeps P (connect_steps G url opts)"
  by (intro keeps_connect_steps keeps_configSet keeps_addRemote keeps_fetch keeps_checkout keeps_listBranches)

end

text \<open>Reachability is kept because every step is a call of a method.\<close>

lemma keeps_reachable_call:
  assumes "resolver_of op = None" and "perform G op = as_value f m"
  shows "keeps (reachable G) m"
proof (rule keepsI)
  fix s
  assume "reachable G s"
  moreover have "step G s (snd (run_state m s))"
    by (rule step_call [where op = op, OF allowed_plain [OF assms(1)]]) (simp add: assms(2) as_value_def split_beta prod_eq_iff)
  ultimately show "reachable G (snd (run_state m s))" by (rule reachable_step)
qed

lemma reachable_connect: "keeps (reachable G) (connect_steps G url opts)"
proof (rule keeps_connect_steps)
  show "keeps (reachable G) (configSet G key val)" for key val
    by (rule keeps_reachable_call [where op = "OpConfigSet key val" and f = QInt]) (simp_all add: resolver_of_def)
  show "keeps (reachable G) (addRemote G ''origin'' (c_str url))"
    by (rule keeps_reachable_call [where op = "OpAddRemote ''origin'' (c_str url)" and f = QInt]) (simp_all add: resolver_of_def)
  show "keeps (reachable G) (fetch G None)"
    by (rule keeps_reachable_call [where op = "OpFetch None" and f = QInt]) (simp_all add: resolver_of_def)
  show "keeps (reachable G) (checkout G ref)" for ref
    by (rule keeps_reachable_call [where op = "OpCheckout ref" and f = QInt]) (simp_all add: resolver_of_def)
  show "keeps (reachable G) (listBranches G True)"
    by (rule keeps_reachable_call [where op = "OpListBranches True" and f = "qoption (\<lambda>bs. QList (map QString bs))"])
      (simp_all add: resolver_of_def)
qed

section \<open>The remote\<close>

lemma migrate_leaves_memory: "run_state (migrateToDisk G repo) s = (rc, t) \<Longrightarrow> \<not> rc < 0 \<Longrightarrow> \<not> m_in_memory t"
proof (cases "m_in_memory s")
  case True
  obtain r w where dir: "os_mkdtemp G (world s) (temp_template (os_getenv G (world s) ''TMPDIR'')) = (r, w)"
    by (metis surj_pair)
  assume "run_state (migrateToDisk G repo) s = (rc, t)" and "\<not> rc < 0"
  with run_migrateToDisk [OF True _ dir] show ?thesis by (cases r) fastforce+
qed (auto simp: migrateToDisk_def)

lemma addRemote_leaves_memory:
  assumes run: "run_state (addRemote G name url) s = (rc, t)" and "\<not> rc < 0"
  shows "\<not> m_in_memory t"
proof (cases "m_lock s")
  case True
  with assms show ?thesis by (auto simp: addRemote_def guarded_def auto_lock_def)
next
  case False
  with assms obtain repo where idle: "\<not> m_lock s" "m_repo s = Some repo"
    by (cases "m_repo s") (auto simp: addRemote_def run_guarded_closed)
  obtain ok s1 where v: "run_state (validateRemoteUrl url) (s\<lparr>m_lock := True\<rparr>) = (ok, s1)" by (metis surj_pair)
  obtain rc1 s2 where m: "run_state (migrateToDisk G repo) s1 = (rc1, s2)" by (metis surj_pair)
  from assms idle v m migrate_leaves_memory [OF m] show ?thesis
    by (auto simp: addRemote_def run_guarded run_git_raise_exception_rc on_ok_def split: if_splits option.splits sum.splits)
qed

lemma then_unless_raised_done:
  assumes "run_state (then_unless_raised m k) s = (True, t)"
  obtains a u where "run_state m s = (a, u)" and "xsink u = []" and "run_state (k a) u = (True, t)"
  using assms by (cases "run_state m s") (auto simp: then_unless_raised_def split: if_splits)

text \<open>Steps that go through end on disk, since the one that adds the remote went through.\<close>

definition ends_on_disk :: "('w, bool) qmethod \<Rightarrow> bool" where
  "ends_on_disk m \<longleftrightarrow> keeps lost m \<and>
     (\<forall>s t. run_state m s = (True, t) \<longrightarrow> xsink s = [] \<longrightarrow> \<not> lost t \<longrightarrow> \<not> m_in_memory t)"

lemma ends_then:
  assumes "keeps lost m" and "\<And>a. ends_on_disk (k a)"
  shows "ends_on_disk (then_unless_raised m k)"
  using assms keeps_then_unless_raised [of lost m k]
  by (auto simp: ends_on_disk_def elim!: then_unless_raised_done)

lemma ends_set_identity: "ends_on_disk k \<Longrightarrow> ends_on_disk (set_identity G key v k)"
  by (cases v) (simp_all add: set_identity_def ends_then lost.keeps_configSet)

lemma ends_connect_identity: "ends_on_disk k \<Longrightarrow> ends_on_disk (connect_identity G opts k)"
  by (cases "getKeyValue opts ''identity''") (simp_all add: connect_identity_def ends_set_identity)

definition on_disk :: "'w qgit \<Rightarrow> bool" where
  "on_disk s \<longleftrightarrow> \<not> m_in_memory s"

interpretation on_disk: repo_frame "on_disk :: 'w qgit \<Rightarrow> bool" "on_disk :: 'w qgit \<Rightarrow> bool"
  by unfold_locales (simp_all add: on_disk_def)

lemma ends_addRemote:
  assumes "\<And>a. keeps lost (k a)" and "\<And>a. keeps on_disk (k a)"
  shows "ends_on_disk (then_unless_raised (addRemote G name url) k)"
  unfolding ends_on_disk_def
proof (intro conjI allI impI)
  show "keeps lost (then_unless_raised (addRemote G name url) k)"
    by (intro keeps_then_unless_raised lost.keeps_addRemote assms)
  fix s t
  assume run: "run_state (then_unless_raised (addRemote G name url) k) s = (True, t)" and s: "xsink s = []" "\<not> lost t"
  from run obtain rc u where u: "run_state (addRemote G name url) s = (rc, u)" "xsink u = []" "run_state (k rc) u = (True, t)"
    by (rule then_unless_raised_done)
  have "\<not> lost u" using keepsE [OF assms(1) u(3)] s(2) by blast
  with outcomeD [OF outcome_addRemote u(1) s(1)] u(2) have "\<not> rc < 0" by simp
  with addRemote_leaves_memory [OF u(1)] have "on_disk u" by (simp add: on_disk_def)
  from keepsE [OF assms(2) u(3) this] show "\<not> m_in_memory t" by (simp add: on_disk_def)
qed

lemma ends_connect_steps: "ends_on_disk (connect_steps G url opts)"
  unfolding connect_steps_def
  by (intro ends_connect_identity ends_addRemote keeps_then_unless_raised keeps_connect_checkout lost.keeps_fetch lost.keeps_checkout
      lost.keeps_listBranches on_disk.keeps_fetch on_disk.keeps_checkout on_disk.keeps_listBranches)

section \<open>Property\<close>

lemma virtual_starts:
  assumes "run_state (QoreGitRepository_virtual G) s = ((), u)"
  shows "own_dir (git_tempdirs s) u \<and> moved_to_dir u"
  using assms
  by (auto simp: QoreGitRepository_virtual_def attach_backends_def own_dir_def moved_to_dir_def on_ok_def
      run_git_raise_exception_rc split: sum.splits)

text \<open>C12: \<open>connectRemote\<close> is all or nothing. When it hands out an object, nothing was raised, and the object is in a
  reachable state (so it has all the invariants of one): virtual, migrated to a temporary directory
  of its own that is registered. Otherwise an exception tells why, the object is destroyed, the registry is as
  before but for the object's own directory, and if there was one, its removal was the last thing
  done outside. This holds at whichever step it failed: the creation, the identity, the remote, the
  fetch, the listing of the branches or the checkout.\<close>

theorem connectRemote_all_or_nothing:
  assumes "fresh s" and "run_state (QC_connectRemote G url opts) s = (ok, t)" and "\<not> stack_overflow t"
  shows "if ok
    then xsink t = [] \<and> reachable G t \<and> m_virtual t \<and> m_tempdir_created t \<and> map_of (git_tempdirs t) (m_path t) = Some ()
    else xsink t \<noteq> [] \<and> m_repo t = None \<and>
      (if m_tempdir_created t \<and> m_path t \<noteq> []
       then git_tempdirs t = omap_erase (m_path t) (git_tempdirs s) \<and> (\<exists>w. world t = os_nftw_remove G w (m_path t))
       else m_tempdir_created t \<or> git_tempdirs t = git_tempdirs s)"
proof -
  let ?m = "then_unless_raised (QoreGitRepository_virtual G) (\<lambda>_. connect_steps G url opts)"
  have s: "xsink s = []" "omap_ok (git_tempdirs s)" using assms(1) by (simp_all add: fresh_def)
  obtain ok' u where u: "run_state ?m s = (ok', u)" by (metis surj_pair)
  have "checked ?m" by (intro checked_then checked_connect_steps)
  with s(1) u have sink: "ok' = (xsink u = [])" unfolding checked_def by (metis fst_conv snd_conv)
  obtain v where v: "run_state (QoreGitRepository_virtual G) s = ((), v)"
    by (cases "run_state (QoreGitRepository_virtual G) s") auto
  have inv: "own_dir (git_tempdirs s) u" "moved_to_dir u"
    using virtual_starts [OF v] u v keepsE [OF dirs.keeps_connect] keepsE [OF moved.keeps_connect]
    by (auto simp: then_unless_raised_def split: if_splits)
  show ?thesis
  proof (cases ok')
    case True
    with assms(2) u have t: "t = u" "ok" by (simp_all add: QC_connectRemote_def hand_over_def)
    from u True obtain a x where x: "run_state (QoreGitRepository_virtual G) s = (a, x)" "xsink x = []"
        "run_state (connect_steps G url opts) x = (True, u)"
      by (auto elim: then_unless_raised_done)
    then have "reachable G x" using v by (auto intro: reachable_new constructed_virtual [OF assms(1)])
    with x(3) have r: "reachable G u" by (rule keepsE [OF reachable_connect])
    then have idle: "idle u" by (rule idle_reachable)
    with assms(3) t have "\<not> lost u" by (simp add: idle_def lock_free_def lost_def)
    with ends_connect_steps x(2,3) have "\<not> m_in_memory u" unfolding ends_on_disk_def by blast
    with inv(2) idle r True t sink show ?thesis by (auto simp: moved_to_dir_def idle_def object_ok_def)
  next
    case False
    with assms(2) u have t: "\<not> ok" "run_state (QoreGitRepository_destroy G) u = ((), t)"
      by (auto simp: QC_connectRemote_def hand_over_def split: prod.splits)
    from run_destroy [OF t(2)] sink False t(1) inv(1) s(2) show ?thesis
      by (auto simp: own_dir_def omap_erase_put split: if_splits)
  qed
qed

theorem connectRemote_all_or_nothing_witness:
  "\<exists>t. run_state (QC_connectRemote connect_api ''/srv/repo.git'' None) (blank mem_empty) = (True, t) \<and>
     reachable connect_api t \<and> m_path t = ''/tmp/qore-git-virt-a'' \<and> map_of (git_tempdirs t) (m_path t) = Some ()"
proof -
  let ?p = "''/tmp/qore-git-virt-a''"
  obtain w where run: "run_state (addRemote connect_api ''origin'' ''/srv/repo.git'') mem_object_state =
    (0, mem_object_state\<lparr>world := w, m_repo := Some 1, m_path := ?p, m_in_memory := False,
       m_tempdir_created := True, git_tempdirs := [(?p, ())]\<rparr>)" (is "_ = (0, ?s)")
    by (rule connect_addRemote [OF refl])
  have fetched: "run_state (fetch connect_api None) ?s = (0, ?s)"
    by (simp add: fetch_def run_guarded checkNetAccess_def with_payload_def transfer_result_def check_cancel_def check_passes_def
        mem_object_state_def blank_def)
  have listed: "run_state (listBranches connect_api True) ?s = (Some [], ?s)"
    by (simp add: listBranches_def run_guarded mem_object_state_def blank_def)
  have sinks: "xsink mem_object_state = []" "xsink ?s = []" by (simp_all add: mem_object_state_def blank_def)
  have "run_state (QC_connectRemote connect_api ''/srv/repo.git'' None) (blank mem_empty) = (True, ?s)"
    using run fetched listed sinks
    by (simp add: QC_connectRemote_def then_unless_raised_def connect_virtual connect_steps_def connect_identity_def
        getKeyValue_def c_str_def connect_checkout_def hand_over_def)
  moreover have "fresh (blank mem_empty)" by (simp add: fresh_def blank_def)
  ultimately show ?thesis
    using connectRemote_all_or_nothing [of "blank mem_empty" connect_api "''/srv/repo.git''" None True ?s]
    by (intro exI [of _ ?s]) (simp add: mem_object_state_def blank_def)
qed

end
