(* ===== verification/Spec2Isabelle.thy ===== *)
theory Spec2Isabelle
  imports Lifecycle Error_Reports File_Refinement File_List Bounds Remote_Safety Migration_Refs
    Merge_Conflicts Closed_Object Repository_Spec Iterator_End Result_Types Connect
begin

text \<open>
  A model of the \<open>git\<close> module for Qore, which gives Qore programs git repositories through
  \<open>libgit2\<close>, and the properties that make it correct.

  \<^bold>\<open>The program.\<close> An object of the class \<open>QoreGitRepository\<close> (\<open>src/QoreGitRepository.h\<close>, \<open>.cpp\<close>) holds a
  repository handle, a lock, the mode members \<open>m_virtual\<close>, \<open>m_in_memory\<close>, \<open>m_tempdir_created\<close>, the
  path, the map \<open>m_virtual_tree\<close> from staged paths to blob ids, and the configuration of an in-memory
  repository. A virtual repository keeps its objects and references in two custom backends
  (\<open>src/QoreGitMemoryODB.cpp\<close>, \<open>src/QoreGitMemoryRefDB.cpp\<close>) that libgit2 calls; files are staged in
  \<open>m_virtual_tree\<close>, \<open>commit\<close> turns the map into tree objects and \<open>checkout\<close> reads them back. Adding a
  remote migrates an in-memory repository to a temporary one on disk. \<open>merge\<close> works in three phases;
  the second calls a resolver written by the user, without the lock. \<open>src/git-module.cpp\<close> holds the
  registry of temporary directories, the conversion of libgit2's errors to Qore exceptions, and the
  initialisation and deletion of the module. \<open>src/QC_GitRepository.qpp\<close> declares the class
  \<open>GitRepository\<close> of the Qore language: it converts the arguments of each method, calls the object, and
  has the factory \<open>connectRemote\<close>; it also declares the hashes that the methods return.

  \<^bold>\<open>How it is modelled.\<close> The outside world (libgit2, the operating system, the Qore runtime) is a type
  variable \<open>'w\<close>, and every function of it that the code calls is a field of the records of
  \<open>Environment\<close> and its extensions (\<open>os_api\<close>, \<open>object_api\<close>, \<open>ref_api\<close>, \<open>repo_api\<close>, \<open>history_api\<close>, \<open>stash_api\<close>,
  \<open>remote_api\<close>, \<open>merge_api\<close>, \<open>module_api\<close>): the argument \<open>G\<close> of the definitions. A method is a computation in the
  state monad over the record \<open>qgit\<close>, which has the members of the object, the world, the exception
  sink \<open>xsink\<close> and the registry. Errors are values: an exception is an entry of \<open>xsink\<close>, a null result
  is \<open>None\<close>, a negative return code an \<open>int\<close>; libgit2's results are sums with an error code and a
  message. \<open>guarded\<close> is the common beginning of all methods, \<open>AutoLocker\<close> and \<open>checkRepo\<close>; a call that
  would wait for its own lock sets \<open>deadlocked\<close>. Maps of the code (\<open>std::map\<close>) are association lists in
  key order (\<open>omap_put\<close>, \<open>omap_erase\<close> of \<open>Prelude\<close>), so that iteration has the order it has in C++.

  \<^bold>\<open>Theories and sources.\<close>
  \<open>Prelude\<close>: string searches of \<open>std::string\<close>, ordered maps, loops with early exit, preservation
  rules. \<open>Git_Oid\<close>: ids (160 bit words) and their hexadecimal form. \<open>Memory_ODB\<close>, \<open>Memory_RefDB\<close>: the two
  backends, every callback. \<open>Environment\<close>: the interface. \<open>Session\<close>: \<open>git-module.cpp\<close>, cancellation,
  \<open>checkFsAccess\<close>. \<open>Repo_Path\<close>, \<open>Remote_URL\<close>: validation of paths and URLs, the network pre-flight.
  \<open>Repository\<close>: members, lock, constructors, destructor, configuration, index. \<open>Virtual_FS\<close>: \<open>readFile\<close>,
  \<open>writeFile\<close>, \<open>deleteFile\<close>, \<open>fileExists\<close>, \<open>listFiles\<close>. \<open>Tree_Build\<close>: virtual tree to tree objects and
  back. \<open>Commit\<close>, \<open>Branches\<close>, \<open>History\<close>, \<open>Stash\<close>, \<open>Remotes\<close>, \<open>Merge\<close>: the remaining methods, in the order of
  \<open>QoreGitRepository.cpp\<close>. \<open>Client\<close>: one constructor per method, user code and the states of an object.
  \<open>Qore_Types\<close>: the hash declarations of \<open>QC_GitRepository.qpp\<close> and the typing of values. \<open>Class_Binding\<close>: its
  methods (\<open>to_operation\<close>: the call of the object that a call of the class makes; \<open>return_type\<close>), constructors and \<open>connectRemote\<close>.
  \<open>Git_Module\<close>: namespace, constants (\<open>ql_git.qpp\<close>) and life of the module.

  \<^bold>\<open>Properties.\<close> Most theories above end with the properties of their own operations; those that need more
  are in theories of their own:
  \<open>Memory_Store\<close> and \<open>Memory_Api\<close> build an interface of libgit2 on top of the two backends of the module,
  with a store of objects and references that works; the witnesses run on it.
  \<open>Tree_Store\<close> states the contract of a tree store as a locale and proves that writing the trees of a
  virtual tree and reading them back gives the same files; \<open>Working_Tree\<close> interprets it and has
  the round trips of files, trees and checkouts. \<open>Commit_Store\<close> extends the contract to commits and
  references: what a commit stores, and that its checkout restores the files. \<open>Branch_Store\<close> adds branches,
  \<open>Commit_Queries\<close> HEAD and what the queries after a commit return.
  \<open>Store_Growth\<close> joins these contracts (\<open>snapshot_store\<close>); under them \<open>Repository_Spec\<close> proves that a virtual object
  refines an abstract repository, whose branches are snapshots of files and which knows no ids.
  \<open>File_Refinement\<close>: staged and committed files implement a file system with two layers.
  \<open>File_List\<close>: \<open>listFiles\<close> is complete. \<open>Bounds\<close>: stack depth of \<open>commit\<close>, \<open>log\<close> against its specification.
  \<open>Lifecycle\<close>: the invariant of all reachable states, with re-entrant resolvers.
  \<open>Reporting\<close>, \<open>Error_Reports\<close>: results and pending exceptions agree for every method.
  \<open>Result_Types\<close>: results have the declared types. \<open>Temp_Dirs\<close>, \<open>Connect\<close>: temporary directories are
  removed in the end; \<open>connectRemote\<close> is all or nothing.
  \<open>Remote_Safety\<close>, \<open>Migration_Copy\<close>, \<open>Migration_Refs\<close>: a migration is all or nothing and loses no object,
  reference or configuration value; no transfer to a denied address,
  with the host of a URL stated independently of the parser (\<open>connects_to\<close>). \<open>Merge_Outcome\<close>, \<open>Merge_Resolver\<close>:
  options, fast-forward, merge commits, answers of resolvers, \<open>no_commit\<close>. \<open>Merge_Index\<close>, \<open>Memory_Index\<close>: the
  contract of the merge index and its instance; \<open>Merge_Strategies\<close>, \<open>Merge_Conflicts\<close>: what ours, theirs,
  detect and callback do with conflicts (adding an entry to the index does not resolve a conflict there, as in
  libgit2: the code has to remove it). \<open>Closed_Object\<close>: methods of an object without a handle. \<open>Iterator_End\<close>: loops
  over the reference iterators end.

  \<^bold>\<open>Interfaces.\<close> \<open>odb_backend\<close> and \<open>refdb_backend\<close> (what libgit2 relies on in the two backends),
  \<open>oid_text\<close>, \<open>ref_alloc\<close>, \<open>blob_store\<close>, \<open>tree_store\<close>, \<open>commit_store\<close>, \<open>branch_store\<close>, \<open>head_store\<close>,
  \<open>snapshot_store\<close>, \<open>object_copy\<close>, \<open>reference_copy\<close>, \<open>conflict_index\<close>,
  \<open>codec\<close>, \<open>finite_map\<close>, \<open>iteration\<close>, and the frames
  \<open>session_frame\<close>, \<open>qgit_frame\<close>, \<open>repo_frame\<close>, \<open>body_frame\<close> for predicates that methods preserve. Each is
  interpreted on the definitions of the model.

  \<^bold>\<open>Bounds.\<close> All loops of the code run over finite lists and are structural recursions. The three
  recursions over nested trees (\<open>buildTree\<close>, \<open>populateVirtualTreeFromGitTree\<close>, \<open>walk_tree\<close>) are limited by
  \<open>stack_depth G\<close>, a parameter that stands for the C++ stack: one level per directory. Running out
  of it sets \<open>stack_overflow\<close>; \<open>commit_stack_bound\<close> shows that paths with at most that many
  directories never do, and the other properties ask for trees no deeper than it.

  \<^bold>\<open>Not modelled.\<close> \<open>qlib/GitConnections.qm\<close> (Qore code), and the Qore runtime behind the binding: namespaces are
  lists of names, and a hash is the list of the keys that the code sets.
  Reference counts, allocation failures of the C++ library and the release of libgit2's handles, except
  where a handle changes owner. The counters of the cancellation polls are unbounded. Other threads
  appear as arbitrary changes of the world between calls and inside user code, not inside a
  method, which holds the lock.
\<close>

end
